(* ===== verification/Prelude.thy ===== *)
theory Prelude
  imports "HOL-Library.Word" "HOL-Library.Sublist"
begin

text \<open>
  The vocabulary shared by every component of the development:
  \<^item> machine integers, byte strings, the decimal and hexadecimal printing of
    \<^verbatim>\<open>fmt\<close>, and the big-endian encoding \<^verbatim>\<open>sdk.Uint64ToBigEndian\<close>;
  \<^item> Go errors as values (\<open>go_error\<close>), with \<^verbatim>\<open>Error()\<close>, wrapping and
    \<^verbatim>\<open>errors.Is\<close>;
  \<^item> Go functions with effects as state passing functions \<open>('s, 'a) go\<close>, with one
    combinator for the idiom \<^verbatim>\<open>if err != nil\<close>;
  \<^item> the locale \<open>go_preorder\<close>: what every operation keeps, composed through the
    combinators.
  Logging calls have no influence on the control flow of the program and are left out of the
  translations.
\<close>

section \<open>Machine integers, bytes and strings\<close>

type_synonym u8 = "8 word"
type_synonym u32 = "32 word"
type_synonym u64 = "64 word"
type_synonym bytes = "8 word list"

named_theorems go_defs \<open>unfoldings of the state passing combinators\<close>
named_theorems go_rel_intros \<open>composition rules of go_rel\<close>
named_theorems returns_intros \<open>composition rules of returns\<close>

text \<open>\<^verbatim>\<open>[]byte(s)\<close> and \<^verbatim>\<open>string(b)\<close>.\<close>

definition bytes_of_string :: "string \<Rightarrow> bytes" where
  "bytes_of_string s = map of_char s"

definition string_of_bytes :: "bytes \<Rightarrow> string" where
  "string_of_bytes b = map (\<lambda>w. char_of (unat w)) b"

text \<open>\<^verbatim>\<open>%d\<close> of an unsigned integer and the hexadecimal digits of \<^verbatim>\<open>hex.EncodeToString\<close>.\<close>

fun fmt_nat :: "nat \<Rightarrow> string" where
  "fmt_nat n = (if n < 10 then [char_of (48 + n)] else fmt_nat (n div 10) @ [char_of (48 + n mod 10)])"

declare fmt_nat.simps [simp del]

definition fmt_u64 :: "u64 \<Rightarrow> string" where
  "fmt_u64 w = fmt_nat (unat w)"

definition hex_digit :: "nat \<Rightarrow> char" where
  "hex_digit n = (if n < 10 then char_of (48 + n) else char_of (87 + n))"

definition hex_encode :: "bytes \<Rightarrow> string" where
  "hex_encode b = concat (map (\<lambda>w. [hex_digit (unat w div 16), hex_digit (unat w mod 16)]) b)"

text \<open>\<^verbatim>\<open>strings.Contains(s, sub)\<close>.\<close>

definition strings_Contains :: "string \<Rightarrow> string \<Rightarrow> bool" where
  "strings_Contains s sub \<longleftrightarrow> sublist sub s"

text \<open>\<^verbatim>\<open>strings.EqualFold\<close> on ASCII text.\<close>

definition ascii_lower :: "char \<Rightarrow> char" where
  "ascii_lower c = (let n = of_char c :: nat in if 65 \<le> n \<and> n \<le> 90 then char_of (n + 32) else c)"

definition strings_EqualFold :: "string \<Rightarrow> string \<Rightarrow> bool" where
  "strings_EqualFold s t \<longleftrightarrow> map ascii_lower s = map ascii_lower t"

text \<open>\<^verbatim>\<open>sdk.Uint64ToBigEndian\<close>: eight bytes, the most significant first.\<close>

definition Uint64ToBigEndian :: "u64 \<Rightarrow> bytes" where
  "Uint64ToBigEndian w = map (\<lambda>i. ucast (drop_bit (8 * i) w)) [7, 6, 5, 4, 3, 2, 1, 0]"

lemma bytes_of_string_inverse [simp]: "string_of_bytes (bytes_of_string s) = s"
proof -
  have "char_of (unat (of_char c :: 8 word)) = c" for c :: char
  proof -
    have "(of_char c :: 8 word) = word_of_nat (of_char c)"
      by (simp add: of_nat_of_char)
    moreover have "(of_char c :: nat) < 256"
      by (rule nat_of_char_less_256)
    ultimately have "unat (of_char c :: 8 word) = of_char c"
      by (simp add: unsigned_of_nat take_bit_nat_eq_self)
    then show ?thesis by simp
  qed
  then show ?thesis
    by (simp add: bytes_of_string_def string_of_bytes_def comp_def)
qed

lemma bytes_of_string_Nil [simp]: "bytes_of_string s = [] \<longleftrightarrow> s = []"
  by (simp add: bytes_of_string_def)

lemma bytes_of_string_inject [simp]: "bytes_of_string s = bytes_of_string t \<longleftrightarrow> s = t"
  by (metis bytes_of_string_inverse)

lemma length_Uint64ToBigEndian [simp]: "length (Uint64ToBigEndian w) = 8"
  by (simp add: Uint64ToBigEndian_def)

lemma ucast_drop_bit_inject:
  assumes "\<And>i. i \<in> {0..7} \<Longrightarrow> (ucast (drop_bit (8 * i) v) :: u8) = ucast (drop_bit (8 * i) w)"
  shows "(v :: u64) = w"
proof (rule bit_word_eqI)
  fix n assume n: "n < LENGTH(64)"
  define i where "i = n div 8"
  have i: "i \<in> {0..7}" using n by (auto simp: i_def)
  have eq: "bit (ucast (drop_bit (8 * i) x) :: u8) (n mod 8) = bit x n" for x :: u64
    by (simp add: bit_ucast_iff bit_drop_bit_eq i_def)
  show "bit v n = bit w n"
    using assms [OF i] eq by metis
qed

lemma Uint64ToBigEndian_inject [simp]: "Uint64ToBigEndian v = Uint64ToBigEndian w \<longleftrightarrow> v = w"
proof
  assume eq: "Uint64ToBigEndian v = Uint64ToBigEndian w"
  show "v = w"
  proof (rule ucast_drop_bit_inject)
    fix i :: nat assume "i \<in> {0..7}"
    then have "i \<in> {0, 1, 2, 3, 4, 5, 6, 7}" by auto
    then show "(ucast (drop_bit (8 * i) v) :: u8) = ucast (drop_bit (8 * i) w)"
      using eq by (auto simp: Uint64ToBigEndian_def)
  qed
qed simp

lemma unat_ucast_32_64 [simp]: "unat (ucast (l :: u32) :: u64) = unat l"
proof -
  have "unat l < 2 ^ LENGTH(32)" by (rule unsigned_less)
  then have "unat l < 2 ^ 64" by simp
  then show ?thesis by (simp add: unsigned_ucast_eq take_bit_nat_eq_self)
qed

lemma unat_plus1_le: "unat (a + 1 :: u64) \<le> unat a + 1"
  by (simp add: unat_word_ariths)

section \<open>Errors\<close>

text \<open>The sentinel errors of the program, one datatype per file that declares them.\<close>

datatype service_err =
    ErrFinalityProviderShutDown
  | ErrFinalityProviderJailed
  | ErrFinalityProviderSlashed

datatype fpstore_err =
    ErrCorruptedFinalityProviderDb
  | ErrFinalityProviderNotFound
  | ErrDuplicateFinalityProvider
  | ErrCorruptedPubRandProofDb
  | ErrPubRandProofNotFound

datatype eotsstore_err =
    ErrCorruptedEOTSDb
  | ErrDuplicateEOTSKeyName
  | ErrEOTSKeyNameNotFound

datatype eotstypes_err = ErrFinalityProviderAlreadyExisted

datatype sentinel =
    ServiceErr service_err
  | FpStoreErr fpstore_err
  | EotsStoreErr eotsstore_err
  | EotsTypesErr eotstypes_err

primrec service_err_msg :: "service_err \<Rightarrow> string" where
  "service_err_msg ErrFinalityProviderShutDown = ''the finality provider instance is shutting down''"
| "service_err_msg ErrFinalityProviderJailed = ''the finality provider instance is jailed''"
| "service_err_msg ErrFinalityProviderSlashed = ''the finality provider instance is slashed''"

primrec fpstore_err_msg :: "fpstore_err \<Rightarrow> string" where
  "fpstore_err_msg ErrCorruptedFinalityProviderDb = ''finality provider db is corrupted''"
| "fpstore_err_msg ErrFinalityProviderNotFound = ''finality provider not found''"
| "fpstore_err_msg ErrDuplicateFinalityProvider = ''finality provider already exists''"
| "fpstore_err_msg ErrCorruptedPubRandProofDb = ''public randomness proof db is corrupted''"
| "fpstore_err_msg ErrPubRandProofNotFound = ''public randomness proof not found''"

primrec eotsstore_err_msg :: "eotsstore_err \<Rightarrow> string" where
  "eotsstore_err_msg ErrCorruptedEOTSDb = ''EOTS manager db is corrupted''"
| "eotsstore_err_msg ErrDuplicateEOTSKeyName = ''EOTS key name already exists''"
| "eotsstore_err_msg ErrEOTSKeyNameNotFound = ''EOTS key name not found''"

primrec eotstypes_err_msg :: "eotstypes_err \<Rightarrow> string" where
  "eotstypes_err_msg ErrFinalityProviderAlreadyExisted = ''the finality provider has already existed''"

primrec sentinel_msg :: "sentinel \<Rightarrow> string" where
  "sentinel_msg (ServiceErr e) = service_err_msg e"
| "sentinel_msg (FpStoreErr e) = fpstore_err_msg e"
| "sentinel_msg (EotsStoreErr e) = eotsstore_err_msg e"
| "sentinel_msg (EotsTypesErr e) = eotstypes_err_msg e"

text \<open>
  A Go error: a fresh one (\<^verbatim>\<open>errors.New\<close>, or \<^verbatim>\<open>fmt.Errorf\<close> without \<^verbatim>\<open>%w\<close>), a
  sentinel, a wrapped one (\<^verbatim>\<open>fmt.Errorf("... %w", err)\<close>, the prefix and the wrapped
  error, or \<^verbatim>\<open>fmt.Errorf("%w ...", err)\<close>, the error and the suffix), or an \<^verbatim>\<open>ExpectedError\<close> of the client controller.
\<close>

datatype go_error =
    NewErr string
  | Sentinel sentinel
  | WrapErr string go_error
  | SuffixErr go_error string
  | ExpectedErr "go_error option"

fun err_msg :: "go_error \<Rightarrow> string" where
  "err_msg (NewErr m) = m"
| "err_msg (Sentinel s) = sentinel_msg s"
| "err_msg (WrapErr p e) = p @ err_msg e"
| "err_msg (SuffixErr e q) = err_msg e @ q"
| "err_msg (ExpectedErr None) = ''expected error''"
| "err_msg (ExpectedErr (Some e)) = err_msg e"

text \<open>\<^verbatim>\<open>errors.Is(err, sentinel)\<close> walks the chain of wrapped errors.\<close>

fun errors_Is :: "go_error \<Rightarrow> sentinel \<Rightarrow> bool" where
  "errors_Is (NewErr m) t \<longleftrightarrow> False"
| "errors_Is (Sentinel s) t \<longleftrightarrow> s = t"
| "errors_Is (WrapErr p e) t \<longleftrightarrow> errors_Is e t"
| "errors_Is (SuffixErr e q) t \<longleftrightarrow> errors_Is e t"
| "errors_Is (ExpectedErr None) t \<longleftrightarrow> False"
| "errors_Is (ExpectedErr (Some e)) t \<longleftrightarrow> errors_Is e t"

text \<open>\<^verbatim>\<open>fmt.Errorf("... %v", err)\<close> keeps the text and loses the chain.\<close>

definition textErr :: "string \<Rightarrow> go_error \<Rightarrow> go_error" where
  "textErr p e = NewErr (p @ err_msg e)"

lemma errors_Is_textErr [simp]: "\<not> errors_Is (textErr p e) t"
  by (simp add: textErr_def)

section \<open>Functions with effects\<close>

text \<open>
  The outcome of a call: a value, an error, the end of the process (\<^verbatim>\<open>logger.Fatal\<close>, or
  a panic), or \<open>Running\<close>: a loop that has used up the rounds it was given and has not
  returned.
\<close>

datatype 'a res = Ok 'a | Err go_error | Crash string | Running

type_synonym ('s, 'a) go = "'s \<Rightarrow> 'a res \<times> 's"

definition ret :: "'a \<Rightarrow> ('s, 'a) go" where [go_defs]:
  "ret a = (\<lambda>s. (Ok a, s))"

definition fail :: "go_error \<Rightarrow> ('s, 'a) go" where [go_defs]:
  "fail e = (\<lambda>s. (Err e, s))"

definition crash :: "string \<Rightarrow> ('s, 'a) go" where [go_defs]:
  "crash m = (\<lambda>s. (Crash m, s))"

definition running :: "('s, 'a) go" where [go_defs]:
  "running = (\<lambda>s. (Running, s))"

text \<open>
  \<^verbatim>\<open>a, err := m(); if err != nil { h(err) } else { k(a) }\<close>. Neither continuation runs
  after the end of the process.
\<close>

definition handle_go :: "('s, 'a) go \<Rightarrow> (go_error \<Rightarrow> ('s, 'b) go) \<Rightarrow> ('a \<Rightarrow> ('s, 'b) go) \<Rightarrow> ('s, 'b) go"
  where [go_defs]:
  "handle_go m h k = (\<lambda>s. case m s of
      (Ok a, s') \<Rightarrow> k a s'
    | (Err e, s') \<Rightarrow> h e s'
    | (Crash c, s') \<Rightarrow> (Crash c, s')
    | (Running, s') \<Rightarrow> (Running, s'))"

text \<open>\<^verbatim>\<open>return err\<close>, \<^verbatim>\<open>return fmt.Errorf("p%w", err)\<close>, \<^verbatim>\<open>return fmt.Errorf("p%v", err)\<close>.\<close>

abbreviation try_go :: "('s, 'a) go \<Rightarrow> ('a \<Rightarrow> ('s, 'b) go) \<Rightarrow> ('s, 'b) go" where
  "try_go m k \<equiv> handle_go m fail k"

abbreviation wrap_go :: "string \<Rightarrow> ('s, 'a) go \<Rightarrow> ('a \<Rightarrow> ('s, 'b) go) \<Rightarrow> ('s, 'b) go" where
  "wrap_go p m k \<equiv> handle_go m (\<lambda>e. fail (WrapErr p e)) k"

abbreviation text_go :: "string \<Rightarrow> ('s, 'a) go \<Rightarrow> ('a \<Rightarrow> ('s, 'b) go) \<Rightarrow> ('s, 'b) go" where
  "text_go p m k \<equiv> handle_go m (\<lambda>e. fail (textErr p e)) k"

text \<open>Reading and writing the state, and running a component on its part of the state.\<close>

definition get_go :: "('s \<Rightarrow> 'a) \<Rightarrow> ('a \<Rightarrow> ('s, 'b) go) \<Rightarrow> ('s, 'b) go" where [go_defs]:
  "get_go f k = (\<lambda>s. k (f s) s)"

definition upd_go :: "('s \<Rightarrow> 's) \<Rightarrow> ('s, 'b) go \<Rightarrow> ('s, 'b) go" where [go_defs]:
  "upd_go f k = (\<lambda>s. k (f s))"

definition zoom_go :: "('w \<Rightarrow> 's) \<Rightarrow> ('s \<Rightarrow> 'w \<Rightarrow> 'w) \<Rightarrow> ('s, 'a) go \<Rightarrow> ('w, 'a) go" where [go_defs]:
  "zoom_go g p m = (\<lambda>w. case m (g w) of (r, s') \<Rightarrow> (r, p s' w))"

definition of_res :: "'a res \<Rightarrow> ('s, 'a) go" where [go_defs]:
  "of_res r = (\<lambda>s. (r, s))"

definition step_go :: "('s \<Rightarrow> 's res) \<Rightarrow> ('s, unit) go" where [go_defs]:
  "step_go f = (\<lambda>s. case f s of
      Ok s' \<Rightarrow> (Ok (), s') | Err e \<Rightarrow> (Err e, s) | Crash c \<Rightarrow> (Crash c, s) | Running \<Rightarrow> (Running, s))"

text \<open>\<^verbatim>\<open>xs[i]\<close>: an index out of range panics.\<close>

definition index_go :: "'a list \<Rightarrow> nat \<Rightarrow> ('a \<Rightarrow> ('s, 'b) go) \<Rightarrow> ('s, 'b) go" where [go_defs]:
  "index_go xs i k = (if i < length xs then k (xs ! i) else crash ''index out of range'')"

text \<open>
  \<^verbatim>\<open>retry.Do(f, Attempts(n), LastErrorOnly(true))\<close> of retry-go: run \<open>f\<close> at most \<open>n\<close>
  times until it returns no error, and return the last error. Whether an error is worth
  another attempt is the library's \<^verbatim>\<open>RetryIf\<close> predicate, the parameter \<open>again\<close>.
\<close>

fun retry_Do :: "(go_error \<Rightarrow> bool) \<Rightarrow> nat \<Rightarrow> ('s, 'a) go \<Rightarrow> ('s, 'a) go" where
  "retry_Do again 0 f = f"
| "retry_Do again (Suc 0) f = f"
| "retry_Do again (Suc (Suc n)) f =
     handle_go f (\<lambda>e. if again e then retry_Do again (Suc n) f else fail e) ret"

lemma handle_go_ret [simp]: "handle_go (ret a) h k = k a"
  by (simp add: go_defs)

lemma handle_go_fail [simp]: "handle_go (fail e) h k = h e"
  by (simp add: go_defs)

lemma handle_go_crash [simp]: "handle_go (crash c) h k = crash c"
  by (simp add: go_defs)

lemma handle_go_running [simp]: "handle_go running h k = running"
  by (simp add: go_defs)

lemma try_go_ret [simp]: "try_go m ret = m"
  by (auto simp: go_defs fun_eq_iff split: prod.splits res.splits)

lemma retry_Do_Ok: "f s = (Ok a, s') \<Longrightarrow> retry_Do again n f s = (Ok a, s')"
  by (induction again n f rule: retry_Do.induct) (auto simp: go_defs)

lemma handle_go_Ok:
  "handle_go m h k s = (Ok b, t) \<Longrightarrow>
     (\<exists>a s'. m s = (Ok a, s') \<and> k a s' = (Ok b, t)) \<or>
     (\<exists>e s'. m s = (Err e, s') \<and> h e s' = (Ok b, t))"
  by (auto simp: handle_go_def split: prod.splits res.splits)

lemma try_go_OkE:
  assumes "handle_go m (\<lambda>e. fail (w e)) k s = (Ok b, t)"
  obtains a s' where "m s = (Ok a, s')" "k a s' = (Ok b, t)"
  using assms by (auto simp: go_defs split: prod.splits res.splits)

lemma try_go_ErrE:
  assumes "handle_go m (\<lambda>e. fail (w e)) k s = (Err e, t)"
  obtains e' where "m s = (Err e', t)" "e = w e'"
  | a s' where "m s = (Ok a, s')" "k a s' = (Err e, t)"
  using assms by (auto simp: go_defs split: prod.splits res.splits)

lemma index_go_OkE:
  assumes "index_go xs i k s = (Ok b, t)"
  obtains "i < length xs" "k (xs ! i) s = (Ok b, t)"
  using assms by (auto simp: go_defs split: if_splits)

section \<open>What every operation keeps\<close>

text \<open>
  \<open>go_rel R m\<close>: whatever \<open>m\<close> returns, the state it leaves is related by \<open>R\<close> to the state
  it started from. For a preorder the relation composes through every combinator, so
  that a fact about the operations that write carries over to everything built from them.
\<close>

definition go_rel :: "('s \<Rightarrow> 's \<Rightarrow> bool) \<Rightarrow> ('s, 'a) go \<Rightarrow> bool" where
  "go_rel R m \<longleftrightarrow> (\<forall>s. R s (snd (m s)))"

lemma go_relI: "(\<And>s. R s (snd (m s))) \<Longrightarrow> go_rel R m"
  by (simp add: go_rel_def)

lemma go_relD: "go_rel R m \<Longrightarrow> m s = (r, t) \<Longrightarrow> R s t"
  by (metis go_rel_def snd_conv)

lemma go_rel_mono: "go_rel R m \<Longrightarrow> (\<And>s t. R s t \<Longrightarrow> S s t) \<Longrightarrow> go_rel S m"
  by (simp add: go_rel_def)

lemma go_rel_zoom:
  "go_rel R m \<Longrightarrow> (\<And>w s'. R (g w) s' \<Longrightarrow> S w (p s' w)) \<Longrightarrow> go_rel S (zoom_go g p m)"
  by (auto simp: go_rel_def zoom_go_def split: prod.splits) (metis snd_conv)

locale go_preorder =
  fixes R :: "'s \<Rightarrow> 's \<Rightarrow> bool"
  assumes R_refl: "R s s"
    and R_trans: "R s t \<Longrightarrow> R t u \<Longrightarrow> R s u"
begin

lemma rel_ret [go_rel_intros]: "go_rel R (ret a)"
  by (simp add: go_rel_def go_defs R_refl)

lemma rel_fail [go_rel_intros]: "go_rel R (fail e)"
  by (simp add: go_rel_def go_defs R_refl)

lemma rel_crash [go_rel_intros]: "go_rel R (crash c)"
  by (simp add: go_rel_def go_defs R_refl)

lemma rel_running [go_rel_intros]: "go_rel R running"
  by (simp add: go_rel_def go_defs R_refl)

lemma rel_of_res [go_rel_intros]: "go_rel R (of_res r)"
  by (simp add: go_rel_def go_defs R_refl)

lemma rel_handle [go_rel_intros]:
  assumes "go_rel R m" and "\<And>e. go_rel R (h e)" and "\<And>a. go_rel R (k a)"
  shows "go_rel R (handle_go m h k)"
proof (rule go_relI)
  fix s
  obtain r s' where m: "m s = (r, s')" by (cases "m s")
  have "R s s'" using assms(1) m by (rule go_relD)
  moreover have "R s' (snd (h e s'))" and "R s' (snd (k a s'))" for e a
    using assms(2,3) by (simp_all add: go_rel_def)
  ultimately show "R s (snd (handle_go m h k s))"
    by (cases r) (auto simp: handle_go_def m R_refl intro: R_trans)
qed

lemma rel_get [go_rel_intros]: "(\<And>a. go_rel R (k a)) \<Longrightarrow> go_rel R (get_go f k)"
  by (simp add: go_rel_def go_defs)

lemma rel_upd: "(\<And>s. R s (f s)) \<Longrightarrow> go_rel R k \<Longrightarrow> go_rel R (upd_go f k)"
  by (auto simp: go_rel_def go_defs intro: R_trans)

lemma rel_index [go_rel_intros]: "(\<And>a. go_rel R (k a)) \<Longrightarrow> go_rel R (index_go xs i k)"
  by (simp add: go_rel_def go_defs R_refl)

lemma rel_if [go_rel_intros]: "go_rel R a \<Longrightarrow> go_rel R b \<Longrightarrow> go_rel R (if c then a else b)"
  by simp

lemma rel_option [go_rel_intros]:
  "go_rel R a \<Longrightarrow> (\<And>x. go_rel R (b x)) \<Longrightarrow> go_rel R (case v of None \<Rightarrow> a | Some x \<Rightarrow> b x)"
  by (cases v) simp_all

lemma rel_list [go_rel_intros]:
  "go_rel R a \<Longrightarrow> (\<And>x xs. go_rel R (b x xs)) \<Longrightarrow> go_rel R (case v of [] \<Rightarrow> a | x # xs \<Rightarrow> b x xs)"
  by (cases v) simp_all

lemma rel_prod [go_rel_intros]: "(\<And>x y. go_rel R (f x y)) \<Longrightarrow> go_rel R (case v of (x, y) \<Rightarrow> f x y)"
  by (cases v) simp

lemma rel_Let [go_rel_intros]: "(\<And>x. go_rel R (f x)) \<Longrightarrow> go_rel R (let x = v in f x)"
  by simp

lemma rel_retry [go_rel_intros]: "go_rel R f \<Longrightarrow> go_rel R (retry_Do again n f)"
  by (induction again n f rule: retry_Do.induct) (auto intro!: rel_handle rel_ret rel_fail)

end

text \<open>Nothing at all changes: the relation of the operations that only read.\<close>

interpretation same: go_preorder "(=) :: 's \<Rightarrow> 's \<Rightarrow> bool"
  by unfold_locales auto


section \<open>Calls that return\<close>

text \<open>A call that never stays \<open>Running\<close>: it ends with a value, an error, or the process.\<close>

definition returns :: "('s, 'a) go \<Rightarrow> bool" where
  "returns m \<longleftrightarrow> (\<forall>s. fst (m s) \<noteq> Running)"

lemma returnsD: "returns m \<Longrightarrow> m s \<noteq> (Running, s')"
  by (metis returns_def fst_conv)

lemma returns_ret [returns_intros]: "returns (ret a)"
  by (simp add: returns_def go_defs)

lemma returns_fail [returns_intros]: "returns (fail e)"
  by (simp add: returns_def go_defs)

lemma returns_crash [returns_intros]: "returns (crash c)"
  by (simp add: returns_def go_defs)

lemma returns_of_res [returns_intros]: "r \<noteq> Running \<Longrightarrow> returns (of_res r)"
  by (simp add: returns_def go_defs)

lemma returns_step [returns_intros]: "(\<And>s. f s \<noteq> Running) \<Longrightarrow> returns (step_go f)"
  by (auto simp: returns_def go_defs split: res.splits)

lemma returns_handle [returns_intros]:
  assumes "returns m" and "\<And>e. returns (h e)" and "\<And>a. returns (k a)"
  shows "returns (handle_go m h k)"
proof -
  have "fst (handle_go m h k s) \<noteq> Running" for s
  proof -
    obtain r s' where m: "m s = (r, s')" by (cases "m s")
    then have "r \<noteq> Running" using assms(1) by (metis returnsD)
    then show ?thesis using assms(2,3) by (cases r) (simp_all add: handle_go_def m returns_def)
  qed
  then show ?thesis by (simp add: returns_def)
qed

lemma returns_get [returns_intros]: "(\<And>a. returns (k a)) \<Longrightarrow> returns (get_go f k)"
  by (simp add: returns_def go_defs)

lemma returns_upd [returns_intros]: "returns k \<Longrightarrow> returns (upd_go f k)"
  by (simp add: returns_def go_defs)

lemma returns_zoom [returns_intros]: "returns m \<Longrightarrow> returns (zoom_go g p m)"
  by (simp add: returns_def zoom_go_def split_beta)

lemma returns_index [returns_intros]: "(\<And>a. returns (k a)) \<Longrightarrow> returns (index_go xs i k)"
  by (simp add: returns_def go_defs)

lemma returns_if [returns_intros]: "returns a \<Longrightarrow> returns b \<Longrightarrow> returns (if c then a else b)"
  by simp

lemma returns_option [returns_intros]:
  "returns a \<Longrightarrow> (\<And>x. returns (b x)) \<Longrightarrow> returns (case v of None \<Rightarrow> a | Some x \<Rightarrow> b x)"
  by (cases v) simp_all

lemma returns_list [returns_intros]:
  "returns a \<Longrightarrow> (\<And>x xs. returns (b x xs)) \<Longrightarrow> returns (case v of [] \<Rightarrow> a | x # xs \<Rightarrow> b x xs)"
  by (cases v) simp_all

lemma returns_prod [returns_intros]: "(\<And>x y. returns (f x y)) \<Longrightarrow> returns (case v of (x, y) \<Rightarrow> f x y)"
  by (cases v) simp

lemma returns_retry [returns_intros]: "returns f \<Longrightarrow> returns (retry_Do again n f)"
  by (induction again n f rule: retry_Do.induct) (auto intro!: returns_handle returns_ret returns_fail)

end
