(* ===== verification/Types.thy ===== *)
theory Types
  imports Prelude
begin

text \<open>
  The data types shared by the daemons (\<^verbatim>\<open>types/\<close>, the protobuf messages), the
  configuration records, and the classification of errors that the client controller
  exports (\<^verbatim>\<open>clientcontroller/retry_utils.go\<close>).

  A \<^verbatim>\<open>btcec.PublicKey\<close> is represented by its 32 byte BIP-340 serialisation, the only view
  the program takes of it, so that \<^verbatim>\<open>schnorr.SerializePubKey\<close> and
  \<^verbatim>\<open>NewBIP340PubKeyFromBTCPK\<close> are the identity; a field element, a scalar and a private
  key are represented by their canonical byte strings; a \<^verbatim>\<open>LegacyDec\<close> by the integer it
  wraps.
\<close>

type_synonym PublicKey = bytes
type_synonym PrivateKey = bytes
type_synonym FieldVal = bytes
type_synonym ModNScalar = bytes
type_synonym LegacyDec = int

record BlockInfo =
  Height :: u64
  Hash :: bytes
  Finalized :: bool

record RelayerEvent =
  EventType :: string
  Attributes :: "string \<rightharpoonup> string"

record TxResponse =
  TxHash :: string
  Events :: "RelayerEvent list"

record Description =
  Moniker :: string
  Identity :: string
  Website :: string
  SecurityContact :: string
  Details :: string

datatype FinalityProviderStatus = CREATED | REGISTERED | ACTIVE | INACTIVE | SLASHED | JAILED

primrec Status_String :: "FinalityProviderStatus \<Rightarrow> string" where
  "Status_String CREATED = ''CREATED''"
| "Status_String REGISTERED = ''REGISTERED''"
| "Status_String ACTIVE = ''ACTIVE''"
| "Status_String INACTIVE = ''INACTIVE''"
| "Status_String SLASHED = ''SLASHED''"
| "Status_String JAILED = ''JAILED''"

record StakingParams =
  ComfirmationTimeBlocks :: u32
  FinalizationTimeoutBlocks :: u32
  MinSlashingTxFeeSat :: "64 word"
  CovenantPks :: "PublicKey list"
  SlashingPkScript :: bytes
  CovenantQuorum :: u32
  SlashingRate :: LegacyDec
  MinUnbondingTime :: u32

definition MinimumUnbondingTime :: "StakingParams \<Rightarrow> u32" where
  "MinimumUnbondingTime p = max (MinUnbondingTime p) (FinalizationTimeoutBlocks p)"

text \<open>
  The configuration of the poller and of the daemon. Durations are read only by timers and
  by the comparison with zero that disables a loop.
\<close>

record ChainPollerConfig =
  BufferSize :: u32
  PollInterval :: nat
  StaticChainScanningStartHeight :: u64
  AutoChainScanningMode :: bool

definition DefaultChainPollerConfig :: ChainPollerConfig where
  "DefaultChainPollerConfig = \<lparr>BufferSize = 1000, PollInterval = 20,
     StaticChainScanningStartHeight = 1, AutoChainScanningMode = True\<rparr>"

record Config =
  NumPubRand :: u32
  NumPubRandMax :: u32
  MinRandHeightGap :: u32
  StatusUpdateInterval :: nat
  RandomnessCommitInterval :: nat
  SubmissionRetryInterval :: nat
  MaxSubmissionRetries :: u32
  FastSyncInterval :: nat
  FastSyncLimit :: u32
  FastSyncGap :: u64
  SyncFpStatusInterval :: nat
  PollerConfig :: ChainPollerConfig

text \<open>
  \<^verbatim>\<open>unrecoverableErrors\<close>: the texts of seven errors that Babylon's modules define. The
  errors belong to the chain, so their texts are a parameter.
\<close>

record bbn_errors =
  ErrBlockNotFound :: string
  ErrInvalidFinalitySig :: string
  ErrNoPubRandYet :: string
  ErrPubRandNotFound :: string
  ErrTooFewPubRand :: string
  ErrFpAlreadySlashed :: string
  ErrFpAlreadyJailed :: string

definition unrecoverableErrors :: "('z) bbn_errors_scheme \<Rightarrow> string list" where
  "unrecoverableErrors B =
     [ErrBlockNotFound B, ErrInvalidFinalitySig B, ErrNoPubRandYet B, ErrPubRandNotFound B,
      ErrTooFewPubRand B, ErrFpAlreadySlashed B, ErrFpAlreadyJailed B]"

definition IsUnrecoverable :: "('z) bbn_errors_scheme \<Rightarrow> go_error \<Rightarrow> bool" where
  "IsUnrecoverable B err \<longleftrightarrow>
     list_ex (\<lambda>e. strings_Contains (err_msg err) e) (unrecoverableErrors B)"

definition Expected :: "go_error \<Rightarrow> go_error" where
  "Expected err = ExpectedErr (Some err)"

text \<open>\<^verbatim>\<open>errors.Is(err, ExpectedError{})\<close>: some error of the chain is an \<^verbatim>\<open>ExpectedError\<close>.\<close>

fun IsExpected :: "go_error \<Rightarrow> bool" where
  "IsExpected (NewErr m) \<longleftrightarrow> False"
| "IsExpected (Sentinel s) \<longleftrightarrow> False"
| "IsExpected (WrapErr p e) \<longleftrightarrow> IsExpected e"
| "IsExpected (SuffixErr e q) \<longleftrightarrow> IsExpected e"
| "IsExpected (ExpectedErr e) \<longleftrightarrow> True"

text \<open>
  Wrapping with \<^verbatim>\<open>%w\<close> keeps both classifications; formatting with \<^verbatim>\<open>%v\<close> keeps the text, so
  an unrecoverable error stays unrecoverable, and loses the type, so an expected error does
  not stay expected.
\<close>

lemma strings_Contains_append: "strings_Contains s sub \<Longrightarrow> strings_Contains (p @ s) sub"
  by (auto simp: strings_Contains_def sublist_def) (metis append.assoc)

lemma IsUnrecoverable_wrap:
  "IsUnrecoverable B e \<Longrightarrow> IsUnrecoverable B (WrapErr p e)"
  "IsUnrecoverable B e \<Longrightarrow> IsUnrecoverable B (textErr p e)"
  by (auto simp: IsUnrecoverable_def textErr_def list_ex_iff intro: strings_Contains_append)

lemma IsExpected_wrap [simp]: "IsExpected (WrapErr p e) = IsExpected e" "\<not> IsExpected (textErr p e)"
  by (simp_all add: textErr_def)

end
