(* ===== verification/Kvdb.thy ===== *)
theory Kvdb
  imports Prelude
begin

text \<open>
  The key-value database behind the stores (lnd's \<^verbatim>\<open>kvdb\<close> over bolt) is third-party code:
  it is a parameter, a record of the operations the stores call. A transaction works on a
  copy of the contents. \<^verbatim>\<open>Batch\<close> commits it when the callback returns no error and rolls
  it back otherwise; \<^verbatim>\<open>View\<close> only reads. \<open>kv_laws\<close> states what the stores rely on.
\<close>

record 'db kvdb =
  kv_begin :: "'db \<Rightarrow> unit res"
  kv_commit :: "'db \<Rightarrow> 'db res"
  kv_HasBucket :: "'db \<Rightarrow> string \<Rightarrow> bool"
  kv_CreateTopLevelBucket :: "string \<Rightarrow> 'db \<Rightarrow> 'db res"
  kv_Get :: "'db \<Rightarrow> string \<Rightarrow> bytes \<Rightarrow> bytes option"
  kv_Put :: "string \<Rightarrow> bytes \<Rightarrow> bytes \<Rightarrow> 'db \<Rightarrow> 'db res"
  kv_Entries :: "'db \<Rightarrow> string \<Rightarrow> (bytes \<times> bytes) list"

text \<open>
  The documented behaviour: committing keeps the contents of the transaction, \<^verbatim>\<open>Put\<close> binds
  one key of one bucket, \<^verbatim>\<open>CreateTopLevelBucket\<close> adds an empty bucket when there is none,
  \<^verbatim>\<open>ForEach\<close> visits every pair of the bucket once.
\<close>

definition kv_commit_ok :: "('db, 'z) kvdb_scheme \<Rightarrow> bool" where
  "kv_commit_ok K \<longleftrightarrow> (\<forall>d d' b k. kv_commit K d = Ok d' \<longrightarrow>
     kv_HasBucket K d' b = kv_HasBucket K d b \<and> kv_Get K d' b k = kv_Get K d b k)"

definition kv_put_ok :: "('db, 'z) kvdb_scheme \<Rightarrow> bool" where
  "kv_put_ok K \<longleftrightarrow> (\<forall>d d' b k v c l. kv_Put K b k v d = Ok d' \<longrightarrow>
     kv_HasBucket K d' c = kv_HasBucket K d c \<and>
     kv_Get K d' c l = (if c = b \<and> l = k then Some v else kv_Get K d c l))"

definition kv_create_ok :: "('db, 'z) kvdb_scheme \<Rightarrow> bool" where
  "kv_create_ok K \<longleftrightarrow> (\<forall>d d' b c k. kv_CreateTopLevelBucket K b d = Ok d' \<longrightarrow>
     kv_HasBucket K d' c = (c = b \<or> kv_HasBucket K d c) \<and> kv_Get K d' c k = kv_Get K d c k)"

definition kv_entries_ok :: "('db, 'z) kvdb_scheme \<Rightarrow> bool" where
  "kv_entries_ok K \<longleftrightarrow> (\<forall>d b.
     (\<forall>k v. (k, v) \<in> set (kv_Entries K d b) \<longleftrightarrow> kv_Get K d b k = Some v) \<and>
     distinct (map fst (kv_Entries K d b)))"

definition kv_laws :: "('db, 'z) kvdb_scheme \<Rightarrow> bool" where
  "kv_laws K \<longleftrightarrow> kv_commit_ok K \<and> kv_put_ok K \<and> kv_create_ok K \<and> kv_entries_ok K"

definition kv_View :: "('db, 'z) kvdb_scheme \<Rightarrow> ('db \<Rightarrow> 'a res) \<Rightarrow> ('db, 'a) go" where
  "kv_View K f = get_go (\<lambda>d. d) (\<lambda>d. try_go (of_res (kv_begin K d)) (\<lambda>_. of_res (f d)))"

definition kv_Batch :: "('db, 'z) kvdb_scheme \<Rightarrow> ('db, unit) go \<Rightarrow> ('db, unit) go" where
  "kv_Batch K f = get_go (\<lambda>d. d) (\<lambda>d. try_go (of_res (kv_begin K d)) (\<lambda>_.
     case f d of
       (Ok _, t) \<Rightarrow> step_go (\<lambda>_. kv_commit K t)
     | (r, _) \<Rightarrow> of_res r))"

lemma kv_commit_laws:
  assumes "kv_laws K" and "kv_commit K d = Ok d'"
  shows "kv_HasBucket K d' b = kv_HasBucket K d b" and "kv_Get K d' b k = kv_Get K d b k"
  using assms by (simp_all add: kv_laws_def kv_commit_ok_def)

lemma kv_Put_laws:
  assumes "kv_laws K" and "kv_Put K b k v d = Ok d'"
  shows "kv_HasBucket K d' c = kv_HasBucket K d c"
    and "kv_Get K d' c l = (if c = b \<and> l = k then Some v else kv_Get K d c l)"
  using assms by (simp_all add: kv_laws_def kv_put_ok_def)

lemma kv_Create_laws:
  assumes "kv_laws K" and "kv_CreateTopLevelBucket K b d = Ok d'"
  shows "kv_HasBucket K d' c = (c = b \<or> kv_HasBucket K d c)" and "kv_Get K d' c k = kv_Get K d c k"
  using assms by (simp_all add: kv_laws_def kv_create_ok_def)

lemma kv_Entries_laws:
  assumes "kv_laws K"
  shows "(k, v) \<in> set (kv_Entries K d b) \<longleftrightarrow> kv_Get K d b k = Some v"
    and "distinct (map fst (kv_Entries K d b))"
  using assms by (simp_all add: kv_laws_def kv_entries_ok_def)

text \<open>A read leaves the database alone; a transaction either commits or changes nothing.\<close>

lemma kv_View_same [go_rel_intros]: "go_rel (=) (kv_View K f)"
  unfolding kv_View_def by (intro go_rel_intros)

lemma kv_View_OkD: "kv_View K f d = (Ok a, d') \<Longrightarrow> f d = Ok a \<and> d' = d"
  by (cases "kv_begin K d") (auto simp: kv_View_def go_defs)

lemma kv_Batch_OkE:
  assumes "kv_Batch K f d = (Ok u, d')"
  obtains t where "f d = (Ok (), t)" and "kv_commit K t = Ok d'"
  using assms by (auto simp: kv_Batch_def go_defs split: res.splits prod.splits)

lemma kv_Batch_failed: "kv_Batch K f d = (r, d') \<Longrightarrow> r \<noteq> Ok () \<Longrightarrow> d' = d"
  by (auto simp: kv_Batch_def go_defs split: res.splits prod.splits)

lemma kv_Batch_cases:
  "kv_Batch K f d = (r, d') \<Longrightarrow> d' = d \<or> (\<exists>t. f d = (Ok (), t) \<and> kv_commit K t = Ok d')"
  by (auto simp: kv_Batch_def go_defs split: res.splits prod.splits)

text \<open>The database answers every call.\<close>

definition kv_returns :: "('db, 'z) kvdb_scheme \<Rightarrow> bool" where
  "kv_returns K \<longleftrightarrow> (\<forall>d. kv_begin K d \<noteq> Running) \<and> (\<forall>d. kv_commit K d \<noteq> Running) \<and>
     (\<forall>b k v d. kv_Put K b k v d \<noteq> Running)"

lemma kv_View_returns: "kv_returns K \<Longrightarrow> (\<And>d. f d \<noteq> Running) \<Longrightarrow> returns (kv_View K f)"
  unfolding kv_View_def by (auto simp: returns_def kv_returns_def go_defs split: res.splits)

lemma kv_Batch_returns:
  assumes "kv_returns K" and "returns f"
  shows "returns (kv_Batch K f)"
proof -
  have "fst (f d) \<noteq> Running" for d using assms(2) by (simp add: returns_def)
  then have "f d \<noteq> (Running, t)" for d t by (metis fst_conv)
  then show ?thesis
    using assms(1) unfolding kv_Batch_def
    by (auto simp: returns_def kv_returns_def go_defs split: res.splits prod.splits)
qed

end
