(* ===== verification/FpStore.thy ===== *)
theory FpStore
  imports Types Kvdb
begin

text \<open>
  The finality provider store (\<^verbatim>\<open>finality-provider/store/fpstore.go\<close>, \<^verbatim>\<open>storedfp.go\<close>): one
  bucket from the serialised public key to the marshalled \<^verbatim>\<open>proto.FinalityProvider\<close>.
  \<open>fp_at\<close> reads the store as a finite map from keys to providers; the lemmas show that each
  operation is the expected update of that map, that a failed operation changes nothing,
  that every provider is stored under its own key, and that the voted and processed heights
  of a provider only grow and stay ordered.
\<close>

section \<open>Data\<close>

record ProofOfPossession =
  BtcSig :: bytes

record proto_FinalityProvider =
  pfp_FpAddr :: string
  pfp_BtcPk :: bytes
  pfp_Description :: bytes
  pfp_Commission :: string
  pfp_Pop :: "ProofOfPossession option"
  pfp_KeyName :: string
  pfp_ChainId :: string
  pfp_LastVotedHeight :: u64
  pfp_LastProcessedHeight :: u64
  pfp_Status :: FinalityProviderStatus

record StoredFinalityProvider =
  sfp_FPAddr :: string
  sfp_BtcPk :: PublicKey
  sfp_Description :: Description
  sfp_Commission :: LegacyDec
  sfp_Pop :: ProofOfPossession
  sfp_KeyName :: string
  sfp_ChainID :: string
  sfp_LastVotedHeight :: u64
  sfp_LastProcessedHeight :: u64
  sfp_Status :: FinalityProviderStatus

record FinalityProviderInfo =
  fpi_FpAddr :: string
  fpi_BtcPkHex :: string
  fpi_Description :: Description
  fpi_Commission :: string
  fpi_LastVotedHeight :: u64
  fpi_Status :: string
  fpi_IsRunning :: bool

text \<open>The third-party marshalling the store relies on.\<close>

record 'db store_lib = "'db kvdb" +
  pm_Marshal :: "proto_FinalityProvider \<Rightarrow> bytes res"
  pm_Unmarshal :: "bytes \<Rightarrow> proto_FinalityProvider res"
  Description_Marshal :: "Description \<Rightarrow> bytes res"
  Description_Unmarshal :: "bytes \<Rightarrow> Description res"
  LegacyDec_String :: "LegacyDec \<Rightarrow> string"
  LegacyNewDecFromStr :: "string \<Rightarrow> LegacyDec res"
  schnorr_ParsePubKey :: "bytes \<Rightarrow> PublicKey res"
  AccAddress_String :: "bytes \<Rightarrow> string"

section \<open>Operations\<close>

definition finalityProviderBucketName :: string where
  "finalityProviderBucketName = ''finalityProviders''"

definition fp_initBuckets :: "('db, 'z) store_lib_scheme \<Rightarrow> ('db, unit) go" where
  "fp_initBuckets L = kv_Batch L (step_go (kv_CreateTopLevelBucket L finalityProviderBucketName))"

definition NewFinalityProviderStore :: "('db, 'z) store_lib_scheme \<Rightarrow> ('db, unit) go" where
  "NewFinalityProviderStore L = try_go (fp_initBuckets L) (\<lambda>_. ret ())"

definition saveFinalityProvider ::
  "('db, 'z) store_lib_scheme \<Rightarrow> proto_FinalityProvider option \<Rightarrow> ('db, unit) go" where
  "saveFinalityProvider L fpo = (case fpo of
      None \<Rightarrow> fail (NewErr ''cannot save nil finality provider'')
    | Some fp \<Rightarrow> try_go (of_res (pm_Marshal L fp)) (\<lambda>marshalled.
        step_go (kv_Put L finalityProviderBucketName (pfp_BtcPk fp) marshalled)))"

definition createFinalityProviderInternal ::
  "('db, 'z) store_lib_scheme \<Rightarrow> proto_FinalityProvider \<Rightarrow> ('db, unit) go" where
  "createFinalityProviderInternal L fp = kv_Batch L (get_go (\<lambda>t. t) (\<lambda>t.
     if \<not> kv_HasBucket L t finalityProviderBucketName
       then fail (Sentinel (FpStoreErr ErrCorruptedFinalityProviderDb))
     else if kv_Get L t finalityProviderBucketName (pfp_BtcPk fp) \<noteq> None
       then fail (Sentinel (FpStoreErr ErrDuplicateFinalityProvider))
     else saveFinalityProvider L (Some fp)))"

definition CreateFinalityProvider ::
  "('db, 'z) store_lib_scheme \<Rightarrow> bytes \<Rightarrow> PublicKey \<Rightarrow> Description \<Rightarrow> LegacyDec \<Rightarrow> string \<Rightarrow> string \<Rightarrow>
   bytes \<Rightarrow> ('db, unit) go" where
  "CreateFinalityProvider L fpAddr btcPk description commission keyName chainId btcSig =
     wrap_go ''invalid description: '' (of_res (Description_Marshal L description)) (\<lambda>desBytes.
       createFinalityProviderInternal L
         \<lparr>pfp_FpAddr = AccAddress_String L fpAddr, pfp_BtcPk = btcPk, pfp_Description = desBytes,
          pfp_Commission = LegacyDec_String L commission, pfp_Pop = Some \<lparr>BtcSig = btcSig\<rparr>,
          pfp_KeyName = keyName, pfp_ChainId = chainId, pfp_LastVotedHeight = 0,
          pfp_LastProcessedHeight = 0, pfp_Status = CREATED\<rparr>)"

definition setFinalityProviderState ::
  "('db, 'z) store_lib_scheme \<Rightarrow> PublicKey \<Rightarrow> (proto_FinalityProvider \<Rightarrow> proto_FinalityProvider res) \<Rightarrow>
   ('db, unit) go" where
  "setFinalityProviderState L btcPk stateTransitionFn = kv_Batch L (get_go (\<lambda>t. t) (\<lambda>t.
     if \<not> kv_HasBucket L t finalityProviderBucketName
       then fail (Sentinel (FpStoreErr ErrCorruptedFinalityProviderDb))
     else (case kv_Get L t finalityProviderBucketName btcPk of
         None \<Rightarrow> fail (Sentinel (FpStoreErr ErrFinalityProviderNotFound))
       | Some fpFromDb \<Rightarrow>
           handle_go (of_res (pm_Unmarshal L fpFromDb))
             (\<lambda>_. fail (Sentinel (FpStoreErr ErrCorruptedFinalityProviderDb))) (\<lambda>storedFp.
           try_go (of_res (stateTransitionFn storedFp)) (\<lambda>storedFp'.
           saveFinalityProvider L (Some storedFp'))))))"

definition SetFpStatus ::
  "('db, 'z) store_lib_scheme \<Rightarrow> PublicKey \<Rightarrow> FinalityProviderStatus \<Rightarrow> ('db, unit) go" where
  "SetFpStatus L btcPk status = setFinalityProviderState L btcPk (\<lambda>fp. Ok (fp\<lparr>pfp_Status := status\<rparr>))"

definition UpdateFpStatusFromVotingPower ::
  "('db, 'z) store_lib_scheme \<Rightarrow> u64 \<Rightarrow> StoredFinalityProvider \<Rightarrow> ('db, FinalityProviderStatus) go" where
  "UpdateFpStatusFromVotingPower L vp fp =
     (if sfp_Status fp = SLASHED then ret SLASHED
      else if vp > 0 then try_go (SetFpStatus L (sfp_BtcPk fp) ACTIVE) (\<lambda>_. ret ACTIVE)
      else (case sfp_Status fp of
          CREATED \<Rightarrow> try_go (SetFpStatus L (sfp_BtcPk fp) REGISTERED) (\<lambda>_. ret REGISTERED)
        | ACTIVE \<Rightarrow> try_go (SetFpStatus L (sfp_BtcPk fp) INACTIVE) (\<lambda>_. ret INACTIVE)
        | st \<Rightarrow> ret st))"

definition SetFpLastVotedHeight ::
  "('db, 'z) store_lib_scheme \<Rightarrow> PublicKey \<Rightarrow> u64 \<Rightarrow> ('db, unit) go" where
  "SetFpLastVotedHeight L btcPk lastVotedHeight = setFinalityProviderState L btcPk (\<lambda>fp.
     let fp1 = (if pfp_LastVotedHeight fp < lastVotedHeight
                then fp\<lparr>pfp_LastVotedHeight := lastVotedHeight\<rparr> else fp);
         fp2 = (if pfp_LastProcessedHeight fp1 < lastVotedHeight
                then fp1\<lparr>pfp_LastProcessedHeight := lastVotedHeight\<rparr> else fp1)
     in Ok fp2)"

definition SetFpLastProcessedHeight ::
  "('db, 'z) store_lib_scheme \<Rightarrow> PublicKey \<Rightarrow> u64 \<Rightarrow> ('db, unit) go" where
  "SetFpLastProcessedHeight L btcPk lastProcessedHeight = setFinalityProviderState L btcPk (\<lambda>fp.
     Ok (if pfp_LastProcessedHeight fp < lastProcessedHeight
         then fp\<lparr>pfp_LastProcessedHeight := lastProcessedHeight\<rparr> else fp))"

definition SetFpDescription ::
  "('db, 'z) store_lib_scheme \<Rightarrow> PublicKey \<Rightarrow> Description \<Rightarrow> LegacyDec \<Rightarrow> ('db, unit) go" where
  "SetFpDescription L btcPk desc rate = setFinalityProviderState L btcPk (\<lambda>fp.
     case Description_Marshal L desc of
       Ok descBytes \<Rightarrow> Ok (fp\<lparr>pfp_Description := descBytes, pfp_Commission := LegacyDec_String L rate\<rparr>)
     | Err e \<Rightarrow> Err e | Crash c \<Rightarrow> Crash c | Running \<Rightarrow> Running)"

definition protoFpToStoredFinalityProvider ::
  "('db, 'z) store_lib_scheme \<Rightarrow> proto_FinalityProvider \<Rightarrow> StoredFinalityProvider res" where
  "protoFpToStoredFinalityProvider L fp = fst (
     wrap_go ''invalid BTC public key: '' (of_res (schnorr_ParsePubKey L (pfp_BtcPk fp))) (\<lambda>btcPk.
     wrap_go ''invalid description: '' (of_res (Description_Unmarshal L (pfp_Description fp))) (\<lambda>des.
     wrap_go ''invalid commission: '' (of_res (LegacyNewDecFromStr L (pfp_Commission fp))) (\<lambda>commission.
     case pfp_Pop fp of
       None \<Rightarrow> crash ''nil pointer dereference''
     | Some pop \<Rightarrow> ret
         \<lparr>sfp_FPAddr = pfp_FpAddr fp, sfp_BtcPk = btcPk, sfp_Description = des,
          sfp_Commission = commission, sfp_Pop = \<lparr>BtcSig = BtcSig pop\<rparr>, sfp_KeyName = pfp_KeyName fp,
          sfp_ChainID = pfp_ChainId fp, sfp_LastVotedHeight = pfp_LastVotedHeight fp,
          sfp_LastProcessedHeight = pfp_LastProcessedHeight fp, sfp_Status = pfp_Status fp\<rparr>))) ())"

definition GetFinalityProvider ::
  "('db, 'z) store_lib_scheme \<Rightarrow> PublicKey \<Rightarrow> ('db, StoredFinalityProvider) go" where
  "GetFinalityProvider L btcPk = kv_View L (\<lambda>t.
     if \<not> kv_HasBucket L t finalityProviderBucketName
       then Err (Sentinel (FpStoreErr ErrCorruptedFinalityProviderDb))
     else (case kv_Get L t finalityProviderBucketName btcPk of
         None \<Rightarrow> Err (Sentinel (FpStoreErr ErrFinalityProviderNotFound))
       | Some fpBytes \<Rightarrow> (case pm_Unmarshal L fpBytes of
           Ok fpProto \<Rightarrow> protoFpToStoredFinalityProvider L fpProto
         | Err _ \<Rightarrow> Err (Sentinel (FpStoreErr ErrCorruptedFinalityProviderDb))
         | Crash c \<Rightarrow> Crash c | Running \<Rightarrow> Running)))"

text \<open>The callback of \<^verbatim>\<open>ForEach\<close> appends to the slice and stops at the first error.\<close>

fun GetAll_forEach ::
  "('db, 'z) store_lib_scheme \<Rightarrow> StoredFinalityProvider list \<Rightarrow> (bytes \<times> bytes) list \<Rightarrow>
   StoredFinalityProvider list res" where
  "GetAll_forEach L storedFps [] = Ok storedFps"
| "GetAll_forEach L storedFps ((k, v) # kvs) = (case pm_Unmarshal L v of
      Ok fpProto \<Rightarrow> (case protoFpToStoredFinalityProvider L fpProto of
          Ok fpFromDb \<Rightarrow> GetAll_forEach L (storedFps @ [fpFromDb]) kvs
        | Err e \<Rightarrow> Err e | Crash c \<Rightarrow> Crash c | Running \<Rightarrow> Running)
    | Err _ \<Rightarrow> Err (Sentinel (FpStoreErr ErrCorruptedFinalityProviderDb))
    | Crash c \<Rightarrow> Crash c | Running \<Rightarrow> Running)"

definition GetAllStoredFinalityProviders ::
  "('db, 'z) store_lib_scheme \<Rightarrow> ('db, StoredFinalityProvider list) go" where
  "GetAllStoredFinalityProviders L = kv_View L (\<lambda>t.
     if \<not> kv_HasBucket L t finalityProviderBucketName
       then Err (Sentinel (FpStoreErr ErrCorruptedFinalityProviderDb))
     else GetAll_forEach L [] (kv_Entries L t finalityProviderBucketName))"

definition GetBIP340BTCPK :: "StoredFinalityProvider \<Rightarrow> bytes" where
  "GetBIP340BTCPK sfp = sfp_BtcPk sfp"

definition ToFinalityProviderInfo ::
  "('db, 'z) store_lib_scheme \<Rightarrow> StoredFinalityProvider \<Rightarrow> FinalityProviderInfo" where
  "ToFinalityProviderInfo L sfp =
     \<lparr>fpi_FpAddr = sfp_FPAddr sfp, fpi_BtcPkHex = hex_encode (GetBIP340BTCPK sfp),
      fpi_Description = \<lparr>Moniker = Moniker (sfp_Description sfp), Identity = Identity (sfp_Description sfp),
        Website = Website (sfp_Description sfp), SecurityContact = SecurityContact (sfp_Description sfp),
        Details = Details (sfp_Description sfp)\<rparr>,
      fpi_Commission = LegacyDec_String L (sfp_Commission sfp),
      fpi_LastVotedHeight = sfp_LastVotedHeight sfp, fpi_Status = Status_String (sfp_Status sfp),
      fpi_IsRunning = False\<rparr>"

definition ShouldStart :: "StoredFinalityProvider \<Rightarrow> bool" where
  "ShouldStart sfp = (if sfp_Status sfp = CREATED \<or> sfp_Status sfp = SLASHED \<or> sfp_Status sfp = JAILED
     then False else True)"

text \<open>
  The same report made from the stored message (\<^verbatim>\<open>finality-provider/proto/finality_providers.go\<close>).
  A key that is not a public key ends the process, and the commission is left out.
\<close>

definition MustGetBTCPK :: "('db, 'z) store_lib_scheme \<Rightarrow> proto_FinalityProvider \<Rightarrow> PublicKey res" where
  "MustGetBTCPK L sfp = (case schnorr_ParsePubKey L (pfp_BtcPk sfp) of
      Ok btcPubKey \<Rightarrow> Ok btcPubKey
    | Err e \<Rightarrow> Crash (''failed to parse BTC PK: '' @ err_msg e)
    | Crash c \<Rightarrow> Crash c | Running \<Rightarrow> Running)"

definition MustGetBIP340BTCPK :: "('db, 'z) store_lib_scheme \<Rightarrow> proto_FinalityProvider \<Rightarrow> bytes res" where
  "MustGetBIP340BTCPK L sfp = MustGetBTCPK L sfp"

definition NewFinalityProviderInfo ::
  "('db, 'z) store_lib_scheme \<Rightarrow> proto_FinalityProvider \<Rightarrow> FinalityProviderInfo res" where
  "NewFinalityProviderInfo L sfp = fst (
     try_go (of_res (Description_Unmarshal L (pfp_Description sfp))) (\<lambda>des.
     try_go (of_res (MustGetBIP340BTCPK L sfp)) (\<lambda>pk.
     ret \<lparr>fpi_FpAddr = pfp_FpAddr sfp, fpi_BtcPkHex = hex_encode pk,
      fpi_Description = \<lparr>Moniker = Moniker des, Identity = Identity des, Website = Website des,
        SecurityContact = SecurityContact des, Details = Details des\<rparr>,
      fpi_Commission = '''', fpi_LastVotedHeight = pfp_LastVotedHeight sfp,
      fpi_Status = Status_String (pfp_Status sfp), fpi_IsRunning = False\<rparr>)) ())"

lemma NewFinalityProviderInfo_without_commission:
  assumes "protoFpToStoredFinalityProvider L fp = Ok sfp"
  shows "NewFinalityProviderInfo L fp = Ok ((ToFinalityProviderInfo L sfp)\<lparr>fpi_Commission := ''''\<rparr>)"
  using assms
  by (auto simp: protoFpToStoredFinalityProvider_def NewFinalityProviderInfo_def ToFinalityProviderInfo_def
      MustGetBIP340BTCPK_def MustGetBTCPK_def GetBIP340BTCPK_def go_defs split: res.splits option.splits)

section \<open>The store as a map\<close>

text \<open>The provider stored under a key, and the laws of the marshalling.\<close>

definition fp_at :: "('db, 'z) store_lib_scheme \<Rightarrow> 'db \<Rightarrow> bytes \<Rightarrow> proto_FinalityProvider option" where
  "fp_at L d k = (case kv_Get L d finalityProviderBucketName k of
      None \<Rightarrow> None
    | Some v \<Rightarrow> (case pm_Unmarshal L v of Ok p \<Rightarrow> Some p | _ \<Rightarrow> None))"

definition store_laws :: "('db, 'z) store_lib_scheme \<Rightarrow> bool" where
  "store_laws L \<longleftrightarrow> kv_laws L \<and> (\<forall>p v. pm_Marshal L p = Ok v \<longrightarrow> pm_Unmarshal L v = Ok p)"

definition codec_laws :: "('db, 'z) store_lib_scheme \<Rightarrow> bool" where
  "codec_laws L \<longleftrightarrow>
     (\<forall>x b. Description_Marshal L x = Ok b \<longrightarrow> Description_Unmarshal L b = Ok x) \<and>
     (\<forall>c. LegacyNewDecFromStr L (LegacyDec_String L c) = Ok c)"

text \<open>
  The invariant of the store: a provider lies under its own key, and the last voted height
  is a processed height.
\<close>

definition fp_ok :: "bytes \<Rightarrow> proto_FinalityProvider \<Rightarrow> bool" where
  "fp_ok k p \<longleftrightarrow> pfp_BtcPk p = k \<and> pfp_LastVotedHeight p \<le> pfp_LastProcessedHeight p"

definition fp_wf :: "('db, 'z) store_lib_scheme \<Rightarrow> 'db \<Rightarrow> bool" where
  "fp_wf L d \<longleftrightarrow> (\<forall>k p. fp_at L d k = Some p \<longrightarrow> fp_ok k p)"

definition fp_le :: "proto_FinalityProvider \<Rightarrow> proto_FinalityProvider \<Rightarrow> bool" where
  "fp_le p q \<longleftrightarrow> pfp_LastVotedHeight p \<le> pfp_LastVotedHeight q \<and>
     pfp_LastProcessedHeight p \<le> pfp_LastProcessedHeight q"

definition fp_progress :: "('db, 'z) store_lib_scheme \<Rightarrow> 'db \<Rightarrow> 'db \<Rightarrow> bool" where
  "fp_progress L d d' \<longleftrightarrow> (fp_wf L d \<longrightarrow> fp_wf L d' \<and>
     (\<forall>k p. fp_at L d k = Some p \<longrightarrow> (\<exists>q. fp_at L d' k = Some q \<and> fp_le p q)))"

interpretation progress: go_preorder "fp_progress L" for L :: "('db, 'z) store_lib_scheme"
proof unfold_locales
  fix d d' d'' :: 'db
  show "fp_progress L d d" by (simp add: fp_progress_def fp_le_def)
  assume "fp_progress L d d'" and "fp_progress L d' d''"
  then show "fp_progress L d d''"
    unfolding fp_progress_def fp_le_def by (meson order_trans)
qed

lemma fp_at_commit: "store_laws L \<Longrightarrow> kv_commit L t = Ok d' \<Longrightarrow> fp_at L d' = fp_at L t"
  by (simp add: fp_at_def fun_eq_iff store_laws_def kv_commit_laws)

lemma fp_at_Put:
  assumes "store_laws L" and "pm_Marshal L p = Ok v"
    and "kv_Put L finalityProviderBucketName (pfp_BtcPk p) v d = Ok d'"
  shows "fp_at L d' = (fp_at L d)(pfp_BtcPk p \<mapsto> p)"
  using assms by (auto simp: fp_at_def fun_eq_iff store_laws_def kv_Put_laws)

lemma saveFinalityProvider_Ok:
  assumes "store_laws L" and "saveFinalityProvider L (Some p) t = (Ok u, t')"
  shows "fp_at L t' = (fp_at L t)(pfp_BtcPk p \<mapsto> p)"
  using assms by (auto simp: saveFinalityProvider_def go_defs split: res.splits intro: fp_at_Put)

text \<open>
  The core of every update: on success the provider under the key is replaced by the image
  of the transition function, on failure nothing is written.
\<close>

lemma setFinalityProviderState_Ok:
  assumes laws: "store_laws L" and run: "setFinalityProviderState L pk f d = (Ok u, d')"
  obtains p p' where "fp_at L d pk = Some p" and "f p = Ok p'"
    and "fp_at L d' = (fp_at L d)(pfp_BtcPk p' \<mapsto> p')"
proof -
  from run obtain t where body: "(get_go (\<lambda>t. t) (\<lambda>t.
     if \<not> kv_HasBucket L t finalityProviderBucketName
       then fail (Sentinel (FpStoreErr ErrCorruptedFinalityProviderDb))
     else (case kv_Get L t finalityProviderBucketName pk of
         None \<Rightarrow> fail (Sentinel (FpStoreErr ErrFinalityProviderNotFound))
       | Some fpFromDb \<Rightarrow>
           handle_go (of_res (pm_Unmarshal L fpFromDb))
             (\<lambda>_. fail (Sentinel (FpStoreErr ErrCorruptedFinalityProviderDb))) (\<lambda>storedFp.
           try_go (of_res (f storedFp)) (\<lambda>storedFp'.
           saveFinalityProvider L (Some storedFp')))))) d = (Ok (), t)"
    and commit: "kv_commit L t = Ok d'"
    unfolding setFinalityProviderState_def by (elim kv_Batch_OkE)
  then obtain v p p' where "kv_Get L d finalityProviderBucketName pk = Some v"
    and "pm_Unmarshal L v = Ok p" and f: "f p = Ok p'"
    and save: "saveFinalityProvider L (Some p') d = (Ok (), t)"
    by (auto simp: go_defs split: if_splits option.splits res.splits)
  then have "fp_at L d pk = Some p" by (simp add: fp_at_def)
  moreover have "fp_at L d' = (fp_at L d)(pfp_BtcPk p' \<mapsto> p')"
    using fp_at_commit [OF laws commit] saveFinalityProvider_Ok [OF laws save] by simp
  ultimately show thesis using f that by blast
qed

lemma setFinalityProviderState_failed:
  "setFinalityProviderState L pk f d = (r, d') \<Longrightarrow> r \<noteq> Ok () \<Longrightarrow> d' = d"
  unfolding setFinalityProviderState_def by (rule kv_Batch_failed)

lemma setFinalityProviderState_missing:
  assumes "kv_begin L d = Ok ()" and "kv_HasBucket L d finalityProviderBucketName"
    and "kv_Get L d finalityProviderBucketName pk = None"
  shows "setFinalityProviderState L pk f d = (Err (Sentinel (FpStoreErr ErrFinalityProviderNotFound)), d)"
  using assms by (simp add: setFinalityProviderState_def kv_Batch_def go_defs)

text \<open>With the invariant, the key written is the key asked for.\<close>

lemma setFinalityProviderState_wf:
  assumes laws: "store_laws L" and wf: "fp_wf L d"
    and keeps: "\<And>p p'. f p = Ok p' \<Longrightarrow> pfp_BtcPk p' = pfp_BtcPk p"
    and run: "setFinalityProviderState L pk f d = (Ok u, d')"
  obtains p p' where "fp_at L d pk = Some p" and "f p = Ok p'" and "fp_at L d' = (fp_at L d)(pk \<mapsto> p')"
proof -
  from setFinalityProviderState_Ok [OF laws run] obtain p p' where
    *: "fp_at L d pk = Some p" "f p = Ok p'" "fp_at L d' = (fp_at L d)(pfp_BtcPk p' \<mapsto> p')" .
  with wf keeps have "pfp_BtcPk p' = pk" by (auto simp: fp_wf_def fp_ok_def)
  with * that show thesis by simp
qed

lemma fp_progress_update:
  assumes at: "fp_at L d pk = Some p" and upd: "fp_at L d' = (fp_at L d)(pk \<mapsto> p')"
    and le: "fp_le p p'" and ok: "fp_ok pk p \<Longrightarrow> fp_ok pk p'"
  shows "fp_progress L d d'"
proof -
  have wf: "fp_wf L d'" if "fp_wf L d"
  proof -
    have "fp_ok pk p" using that at by (simp add: fp_wf_def)
    then show ?thesis using that ok upd by (simp add: fp_wf_def)
  qed
  have mono: "\<exists>q'. fp_at L d' k = Some q' \<and> fp_le q q'" if "fp_at L d k = Some q" for k q
    using that at upd le by (cases "k = pk") (auto simp: fp_le_def)
  show ?thesis unfolding fp_progress_def using wf mono by blast
qed

lemma setFinalityProviderState_progress:
  assumes laws: "store_laws L"
    and f: "\<And>p p'. f p = Ok p' \<Longrightarrow> pfp_BtcPk p' = pfp_BtcPk p \<and> fp_le p p' \<and> (fp_ok pk p \<longrightarrow> fp_ok pk p')"
  shows "go_rel (fp_progress L) (setFinalityProviderState L pk f)"
proof (rule go_relI)
  fix d
  obtain r d' where run: "setFinalityProviderState L pk f d = (r, d')" by (metis surj_pair)
  show "fp_progress L d (snd (setFinalityProviderState L pk f d))"
  proof (cases "r = Ok () \<and> fp_wf L d")
    case True
    with run have run': "setFinalityProviderState L pk f d = (Ok (), d')" and wf: "fp_wf L d" by simp_all
    obtain p p' where "fp_at L d pk = Some p" "f p = Ok p'" "fp_at L d' = (fp_at L d)(pk \<mapsto> p')"
      using laws wf _ run' by (rule setFinalityProviderState_wf) (use f in blast)
    with f run show ?thesis by (simp add: fp_progress_update)
  next
    case False
    then show ?thesis
      using run setFinalityProviderState_failed [OF run] by (auto simp: fp_progress_def fp_le_def)
  qed
qed

lemma SetFpStatus_progress [go_rel_intros]: "store_laws L \<Longrightarrow> go_rel (fp_progress L) (SetFpStatus L pk st)"
  unfolding SetFpStatus_def
  by (rule setFinalityProviderState_progress) (auto simp: fp_le_def fp_ok_def)

lemma SetFpLastVotedHeight_progress [go_rel_intros]:
  "store_laws L \<Longrightarrow> go_rel (fp_progress L) (SetFpLastVotedHeight L pk h)"
  unfolding SetFpLastVotedHeight_def
  by (rule setFinalityProviderState_progress) (auto simp: fp_le_def fp_ok_def Let_def)

lemma SetFpLastProcessedHeight_progress [go_rel_intros]:
  "store_laws L \<Longrightarrow> go_rel (fp_progress L) (SetFpLastProcessedHeight L pk h)"
  unfolding SetFpLastProcessedHeight_def
  by (rule setFinalityProviderState_progress) (auto simp: fp_le_def fp_ok_def)

lemma SetFpDescription_progress [go_rel_intros]:
  "store_laws L \<Longrightarrow> go_rel (fp_progress L) (SetFpDescription L pk x rate)"
  unfolding SetFpDescription_def
  by (rule setFinalityProviderState_progress) (auto simp: fp_le_def fp_ok_def split: res.splits)

lemma createFinalityProviderInternal_Ok:
  assumes laws: "store_laws L" and run: "createFinalityProviderInternal L p d = (Ok u, d')"
  shows "kv_Get L d finalityProviderBucketName (pfp_BtcPk p) = None"
    and "fp_at L d' = (fp_at L d)(pfp_BtcPk p \<mapsto> p)"
    and "kv_HasBucket L d' finalityProviderBucketName"
proof -
  from run obtain t where "kv_Get L d finalityProviderBucketName (pfp_BtcPk p) = None"
    and save: "saveFinalityProvider L (Some p) d = (Ok (), t)" and commit: "kv_commit L t = Ok d'"
    and has: "kv_HasBucket L d finalityProviderBucketName"
    unfolding createFinalityProviderInternal_def
    by (elim kv_Batch_OkE) (auto simp: go_defs split: if_splits)
  then show "kv_Get L d finalityProviderBucketName (pfp_BtcPk p) = None"
    and "fp_at L d' = (fp_at L d)(pfp_BtcPk p \<mapsto> p)"
    using fp_at_commit [OF laws commit] saveFinalityProvider_Ok [OF laws save] by simp_all
  have "kv_HasBucket L t finalityProviderBucketName"
    using save has laws
    by (auto simp: saveFinalityProvider_def go_defs store_laws_def kv_Put_laws split: res.splits)
  then show "kv_HasBucket L d' finalityProviderBucketName"
    using laws commit by (simp add: store_laws_def kv_commit_laws)
qed

lemma createFinalityProviderInternal_progress:
  assumes "store_laws L" and "pfp_LastVotedHeight p \<le> pfp_LastProcessedHeight p"
  shows "go_rel (fp_progress L) (createFinalityProviderInternal L p)"
proof (rule go_relI)
  fix d
  obtain r d' where run: "createFinalityProviderInternal L p d = (r, d')" by (metis surj_pair)
  show "fp_progress L d (snd (createFinalityProviderInternal L p d))"
  proof (cases "r = Ok ()")
    case True
    with run have run': "createFinalityProviderInternal L p d = (Ok (), d')" by simp
    have "fp_at L d (pfp_BtcPk p) = None"
      using createFinalityProviderInternal_Ok(1) [OF assms(1) run'] by (simp add: fp_at_def)
    then show ?thesis
      using createFinalityProviderInternal_Ok(2) [OF assms(1) run'] assms(2) run
      by (auto simp: fp_progress_def fp_wf_def fp_ok_def fp_le_def)
  next
    case False
    then have "d' = d"
      using run unfolding createFinalityProviderInternal_def by (blast intro: kv_Batch_failed)
    with run show ?thesis by (simp add: progress.R_refl)
  qed
qed

lemma CreateFinalityProvider_progress [go_rel_intros]:
  "store_laws L \<Longrightarrow> go_rel (fp_progress L) (CreateFinalityProvider L a pk x c kn cid sg)"
  unfolding CreateFinalityProvider_def
  by (intro go_rel_intros createFinalityProviderInternal_progress) simp_all

lemma UpdateFpStatus_progress [go_rel_intros]:
  "store_laws L \<Longrightarrow> go_rel (fp_progress L) (UpdateFpStatusFromVotingPower L vp fp)"
  unfolding UpdateFpStatusFromVotingPower_def
  by (cases "sfp_Status fp") (auto intro!: go_rel_intros)

lemma View_progress [go_rel_intros]: "go_rel (fp_progress L) (kv_View K f)"
  using kv_View_same by (rule go_rel_mono) (simp add: progress.R_refl)

section \<open>What the operations do\<close>

lemma SetFpStatus_Ok:
  assumes "store_laws L" and "fp_wf L d" and "SetFpStatus L pk st d = (Ok u, d')"
  obtains p where "fp_at L d pk = Some p" and "fp_at L d' = (fp_at L d)(pk \<mapsto> p\<lparr>pfp_Status := st\<rparr>)"
  using assms(3) unfolding SetFpStatus_def
  by (rule setFinalityProviderState_wf [OF assms(1,2), rotated]) auto

lemma SetFpLastVotedHeight_Ok:
  assumes "store_laws L" and "fp_wf L d" and "SetFpLastVotedHeight L pk h d = (Ok u, d')"
  obtains p where "fp_at L d pk = Some p" and "fp_at L d' = (fp_at L d)(pk \<mapsto>
      p\<lparr>pfp_LastVotedHeight := max (pfp_LastVotedHeight p) h,
        pfp_LastProcessedHeight := max (pfp_LastProcessedHeight p) h\<rparr>)"
proof -
  obtain p p' where *: "fp_at L d pk = Some p" "fp_at L d' = (fp_at L d)(pk \<mapsto> p')"
    and p': "(let fp1 = (if pfp_LastVotedHeight p < h then p\<lparr>pfp_LastVotedHeight := h\<rparr> else p);
         fp2 = (if pfp_LastProcessedHeight fp1 < h then fp1\<lparr>pfp_LastProcessedHeight := h\<rparr> else fp1)
     in Ok fp2) = Ok p'"
    using assms(3) unfolding SetFpLastVotedHeight_def
    by (rule setFinalityProviderState_wf [OF assms(1,2), rotated]) (auto simp: Let_def)
  have "p' = p\<lparr>pfp_LastVotedHeight := max (pfp_LastVotedHeight p) h,
        pfp_LastProcessedHeight := max (pfp_LastProcessedHeight p) h\<rparr>"
    using p' by (auto simp: Let_def max_def split: if_splits)
  with * that show thesis by simp
qed

lemma SetFpLastProcessedHeight_Ok:
  assumes "store_laws L" and "fp_wf L d" and "SetFpLastProcessedHeight L pk h d = (Ok u, d')"
  obtains p where "fp_at L d pk = Some p" and "fp_at L d' = (fp_at L d)(pk \<mapsto>
      p\<lparr>pfp_LastProcessedHeight := max (pfp_LastProcessedHeight p) h\<rparr>)"
proof -
  obtain p p' where *: "fp_at L d pk = Some p" "fp_at L d' = (fp_at L d)(pk \<mapsto> p')"
    and p': "Ok (if pfp_LastProcessedHeight p < h then p\<lparr>pfp_LastProcessedHeight := h\<rparr> else p) = Ok p'"
    using assms(3) unfolding SetFpLastProcessedHeight_def
    by (rule setFinalityProviderState_wf [OF assms(1,2), rotated]) auto
  have "p' = p\<lparr>pfp_LastProcessedHeight := max (pfp_LastProcessedHeight p) h\<rparr>"
    using p' by (auto simp: max_def split: if_splits)
  with * that show thesis by simp
qed

text \<open>
  The contract a client of the store uses: the heights recorded for a key, and what the two
  height setters and the status setter do to them.
\<close>

locale height_registry =
  fixes heights :: "'d \<Rightarrow> bytes \<Rightarrow> (u64 \<times> u64) option"
    and invar :: "'d \<Rightarrow> bool"
    and setVoted :: "bytes \<Rightarrow> u64 \<Rightarrow> ('d, unit) go"
    and setProcessed :: "bytes \<Rightarrow> u64 \<Rightarrow> ('d, unit) go"
    and setStatus :: "bytes \<Rightarrow> FinalityProviderStatus \<Rightarrow> ('d, unit) go"
  assumes voted_Ok: "invar d \<Longrightarrow> setVoted k h d = (Ok u, d') \<Longrightarrow>
      invar d' \<and> (\<exists>v p. heights d k = Some (v, p) \<and> heights d' = (heights d)(k \<mapsto> (max v h, max p h)))"
    and processed_Ok: "invar d \<Longrightarrow> setProcessed k h d = (Ok u, d') \<Longrightarrow>
      invar d' \<and> (\<exists>v p. heights d k = Some (v, p) \<and> heights d' = (heights d)(k \<mapsto> (v, max p h)))"
    and status_Ok: "invar d \<Longrightarrow> setStatus k st d = (Ok u, d') \<Longrightarrow> invar d' \<and> heights d' = heights d"
begin

text \<open>
  \<open>covers d k v p\<close>: the store has caught up with the in-memory heights \<open>v\<close> and \<open>p\<close> of \<open>k\<close>.
\<close>

definition covers :: "'d \<Rightarrow> bytes \<Rightarrow> u64 \<Rightarrow> u64 \<Rightarrow> bool" where
  "covers d k v p \<longleftrightarrow> (\<exists>v' p'. heights d k = Some (v', p') \<and> v \<le> v' \<and> p \<le> p')"

lemma covers_voted: "invar d \<Longrightarrow> setVoted k h d = (Ok u, d') \<Longrightarrow> covers d' k h h"
  by (drule (1) voted_Ok) (auto simp: covers_def)

lemma covers_processed:
  "invar d \<Longrightarrow> setProcessed k h d = (Ok u, d') \<Longrightarrow> covers d k v p \<Longrightarrow> covers d' k v h"
  by (drule (1) processed_Ok) (auto simp: covers_def)

lemma covers_status:
  "invar d \<Longrightarrow> setStatus k st d = (Ok u, d') \<Longrightarrow> covers d k v p \<Longrightarrow> covers d' k v p"
  by (drule (1) status_Ok) (auto simp: covers_def)

lemma covers_processed_exact:
  assumes "invar d" and "setProcessed k h d = (Ok u, d')" and "heights d k = Some (v, p)" and "p \<le> h"
  shows "heights d' k = Some (v, h)"
  using processed_Ok [OF assms(1,2)] assms(3,4) by auto

lemma covers_voted_exact:
  assumes "invar d" and "setVoted k h d = (Ok u, d')" and "heights d k = Some (v, p)"
    and "v \<le> h" and "p \<le> h"
  shows "heights d' k = Some (h, h)"
  using voted_Ok [OF assms(1,2)] assms(3-5) by auto

end

definition stored_heights :: "('db, 'z) store_lib_scheme \<Rightarrow> 'db \<Rightarrow> bytes \<Rightarrow> (u64 \<times> u64) option" where
  "stored_heights L d k =
     map_option (\<lambda>p. (pfp_LastVotedHeight p, pfp_LastProcessedHeight p)) (fp_at L d k)"

definition store_ok :: "('db, 'z) store_lib_scheme \<Rightarrow> 'db \<Rightarrow> bool" where
  "store_ok L d \<longleftrightarrow> store_laws L \<and> fp_wf L d"

lemma store_ok_progress: "store_ok L d \<Longrightarrow> go_rel (fp_progress L) m \<Longrightarrow> m d = (r, d') \<Longrightarrow> store_ok L d'"
  by (auto dest: go_relD simp: store_ok_def fp_progress_def)

interpretation fpstore: height_registry "stored_heights L" "store_ok L"
    "SetFpLastVotedHeight L" "SetFpLastProcessedHeight L" "SetFpStatus L"
  for L :: "('db, 'z) store_lib_scheme"
proof unfold_locales
  fix d d' :: 'db and k h u st
  assume inv: "store_ok L d"
  then have laws: "store_laws L" and wf: "fp_wf L d" by (simp_all add: store_ok_def)
  note keep = store_ok_progress [OF inv]
  { assume run: "SetFpLastVotedHeight L k h d = (Ok u, d')"
    obtain p where "fp_at L d k = Some p" and "fp_at L d' = (fp_at L d)(k \<mapsto>
      p\<lparr>pfp_LastVotedHeight := max (pfp_LastVotedHeight p) h,
        pfp_LastProcessedHeight := max (pfp_LastProcessedHeight p) h\<rparr>)"
      by (rule SetFpLastVotedHeight_Ok [OF laws wf run])
    then show "store_ok L d' \<and> (\<exists>v p. stored_heights L d k = Some (v, p) \<and>
        stored_heights L d' = (stored_heights L d)(k \<mapsto> (max v h, max p h)))"
      using keep [OF SetFpLastVotedHeight_progress [OF laws] run]
      by (auto simp: stored_heights_def fun_eq_iff) }
  { assume run: "SetFpLastProcessedHeight L k h d = (Ok u, d')"
    obtain p where "fp_at L d k = Some p" and "fp_at L d' = (fp_at L d)(k \<mapsto>
      p\<lparr>pfp_LastProcessedHeight := max (pfp_LastProcessedHeight p) h\<rparr>)"
      by (rule SetFpLastProcessedHeight_Ok [OF laws wf run])
    then show "store_ok L d' \<and> (\<exists>v p. stored_heights L d k = Some (v, p) \<and>
        stored_heights L d' = (stored_heights L d)(k \<mapsto> (v, max p h)))"
      using keep [OF SetFpLastProcessedHeight_progress [OF laws] run]
      by (auto simp: stored_heights_def fun_eq_iff) }
  { assume run: "SetFpStatus L k st d = (Ok u, d')"
    obtain p where "fp_at L d k = Some p" and "fp_at L d' = (fp_at L d)(k \<mapsto> p\<lparr>pfp_Status := st\<rparr>)"
      by (rule SetFpStatus_Ok [OF laws wf run])
    then show "store_ok L d' \<and> stored_heights L d' = stored_heights L d"
      using keep [OF SetFpStatus_progress [OF laws] run]
      by (auto simp: stored_heights_def fun_eq_iff) }
qed

end
