(* ===== verification/PubRandStore.thy ===== *)
theory PubRandStore
  imports FpStore
begin

text \<open>
  The public randomness proofs (\<^verbatim>\<open>finality-provider/store/pub_rand.go\<close>), a bucket from
  the public randomness to its marshalled Merkle proof, and the commitment
  (\<^verbatim>\<open>types/pub_rand_commit.go\<close>). The lemmas: adding a list binds every key that was not
  bound before and leaves the others alone (the first proof of a key wins), reading returns
  the bound proofs in the order asked, and a failed addition changes nothing.
\<close>

record merkle_Proof =
  Total :: int
  Index :: int
  LeafHash :: bytes
  Aunts :: "bytes list"

record 'db pubrand_lib = "'db store_lib" +
  Proof_Marshal :: "merkle_Proof \<Rightarrow> bytes res"
  merkle_ProofsFromByteSlices :: "bytes list \<Rightarrow> bytes \<times> merkle_Proof list"

section \<open>Operations\<close>

definition GetPubRandCommitAndProofs ::
  "('db, 'z) pubrand_lib_scheme \<Rightarrow> FieldVal list \<Rightarrow> bytes \<times> merkle_Proof list" where
  "GetPubRandCommitAndProofs L pubRandList = merkle_ProofsFromByteSlices L (map (\<lambda>pr. pr) pubRandList)"

definition pubRandProofBucketName :: string where
  "pubRandProofBucketName = ''pub_rand_proof''"

definition pr_initBuckets :: "('db, 'z) pubrand_lib_scheme \<Rightarrow> ('db, unit) go" where
  "pr_initBuckets L = kv_Batch L (step_go (kv_CreateTopLevelBucket L pubRandProofBucketName))"

definition NewPubRandProofStore :: "('db, 'z) pubrand_lib_scheme \<Rightarrow> ('db, unit) go" where
  "NewPubRandProofStore L = try_go (pr_initBuckets L) (\<lambda>_. ret ())"

text \<open>The loop that marshals the proofs, and the loop inside the transaction.\<close>

fun marshal_proofs :: "('db, 'z) pubrand_lib_scheme \<Rightarrow> merkle_Proof list \<Rightarrow> bytes list res" where
  "marshal_proofs L [] = Ok []"
| "marshal_proofs L (pf # pfs) = (case Proof_Marshal L pf of
      Ok b \<Rightarrow> (case marshal_proofs L pfs of
          Ok bs \<Rightarrow> Ok (b # bs) | Err e \<Rightarrow> Err e | Crash c \<Rightarrow> Crash c | Running \<Rightarrow> Running)
    | Err e \<Rightarrow> Err (WrapErr ''invalid proof: '' e)
    | Crash c \<Rightarrow> Crash c | Running \<Rightarrow> Running)"

fun put_proofs :: "('db, 'z) pubrand_lib_scheme \<Rightarrow> (bytes \<times> bytes) list \<Rightarrow> ('db, unit) go" where
  "put_proofs L [] = ret ()"
| "put_proofs L ((k, v) # kvs) = get_go (\<lambda>t. t) (\<lambda>t.
     if kv_Get L t pubRandProofBucketName k \<noteq> None then put_proofs L kvs
     else try_go (step_go (kv_Put L pubRandProofBucketName k v)) (\<lambda>_. put_proofs L kvs))"

definition AddPubRandProofList ::
  "('db, 'z) pubrand_lib_scheme \<Rightarrow> FieldVal list \<Rightarrow> merkle_Proof list \<Rightarrow> ('db, unit) go" where
  "AddPubRandProofList L pubRandList proofList =
     (if length pubRandList \<noteq> length proofList
      then fail (NewErr ''the number of public randomness is not same as the number of proofs'')
      else try_go (of_res (marshal_proofs L proofList)) (\<lambda>proofBytesList.
        kv_Batch L (get_go (\<lambda>t. t) (\<lambda>t.
          if \<not> kv_HasBucket L t pubRandProofBucketName
          then fail (Sentinel (FpStoreErr ErrCorruptedPubRandProofDb))
          else put_proofs L (zip pubRandList proofBytesList)))))"

definition GetPubRandProof :: "('db, 'z) pubrand_lib_scheme \<Rightarrow> FieldVal \<Rightarrow> ('db, bytes) go" where
  "GetPubRandProof L pubRand = kv_View L (\<lambda>t.
     if \<not> kv_HasBucket L t pubRandProofBucketName
     then Err (Sentinel (FpStoreErr ErrCorruptedPubRandProofDb))
     else (case kv_Get L t pubRandProofBucketName pubRand of
         None \<Rightarrow> Err (Sentinel (FpStoreErr ErrPubRandProofNotFound))
       | Some proofBytes \<Rightarrow> Ok proofBytes))"

fun get_proofs :: "('db, 'z) pubrand_lib_scheme \<Rightarrow> 'db \<Rightarrow> bytes list \<Rightarrow> FieldVal list \<Rightarrow> bytes list res" where
  "get_proofs L t acc [] = Ok acc"
| "get_proofs L t acc (k # ks) = (case kv_Get L t pubRandProofBucketName k of
      None \<Rightarrow> Err (Sentinel (FpStoreErr ErrPubRandProofNotFound))
    | Some v \<Rightarrow> get_proofs L t (acc @ [v]) ks)"

definition GetPubRandProofList :: "('db, 'z) pubrand_lib_scheme \<Rightarrow> FieldVal list \<Rightarrow> ('db, bytes list) go" where
  "GetPubRandProofList L pubRandList = kv_View L (\<lambda>t.
     if \<not> kv_HasBucket L t pubRandProofBucketName
     then Err (Sentinel (FpStoreErr ErrCorruptedPubRandProofDb))
     else get_proofs L t [] pubRandList)"

section \<open>The store as a map\<close>

definition proof_at :: "('db, 'z) pubrand_lib_scheme \<Rightarrow> 'db \<Rightarrow> FieldVal \<Rightarrow> bytes option" where
  "proof_at L d k = kv_Get L d pubRandProofBucketName k"

lemma marshal_proofs_length: "marshal_proofs L pfs = Ok bs \<Longrightarrow> length bs = length pfs"
  by (induction pfs arbitrary: bs) (auto split: res.splits)

lemma put_proofs_ConsE:
  assumes "put_proofs L ((k, v) # kvs) t = (Ok u, t')"
  obtains "proof_at L t k \<noteq> None" and "put_proofs L kvs t = (Ok u, t')"
  | t1 where "proof_at L t k = None" and "kv_Put L pubRandProofBucketName k v t = Ok t1"
      and "put_proofs L kvs t1 = (Ok u, t')"
  using assms by (auto simp: go_defs proof_at_def split: if_splits res.splits)

lemma proof_at_Put:
  assumes "kv_laws L" and "kv_Put L pubRandProofBucketName k v t = Ok t'"
  shows "proof_at L t' = (proof_at L t)(k \<mapsto> v)" and "fp_at L t' = fp_at L t"
  using kv_Put_laws [OF assms]
  by (auto simp: proof_at_def fp_at_def fun_eq_iff pubRandProofBucketName_def finalityProviderBucketName_def)

lemma put_proofs_Ok:
  assumes laws: "kv_laws L" and "put_proofs L kvs t = (Ok u, t')"
  shows "proof_at L t' = map_of kvs ++ proof_at L t \<and> fp_at L t' = fp_at L t"
  using assms(2)
proof (induction kvs arbitrary: t)
  case Nil
  then show ?case by (simp add: ret_def)
next
  case (Cons kv kvs)
  obtain k v where kv: "kv = (k, v)" by (cases kv)
  from Cons.prems [unfolded kv] show ?case
  proof (cases rule: put_proofs_ConsE)
    case 1
    with Cons.IH have IH: "proof_at L t' = map_of kvs ++ proof_at L t \<and> fp_at L t' = fp_at L t" by blast
    have "map_of (kv # kvs) ++ proof_at L t = map_of kvs ++ proof_at L t"
      using 1(1) by (auto simp: kv fun_eq_iff map_add_def split: option.splits)
    with IH show ?thesis by (simp only:)
  next
    case (2 t1)
    with Cons.IH have IH: "proof_at L t' = map_of kvs ++ proof_at L t1 \<and> fp_at L t' = fp_at L t1" by blast
    have "map_of (kv # kvs) ++ proof_at L t = map_of kvs ++ (proof_at L t)(k \<mapsto> v)"
      using 2(1) by (auto simp: kv fun_eq_iff map_add_def split: option.splits)
    with IH proof_at_Put [OF laws 2(2)] show ?thesis by (simp only:)
  qed
qed

text \<open>Adding proofs: keys already bound keep their proof, the others get the first one given.\<close>

lemma AddPubRandProofList_Ok:
  assumes laws: "kv_laws L" and run: "AddPubRandProofList L prs pfs d = (Ok u, d')"
  obtains bs where "length prs = length pfs" and "marshal_proofs L pfs = Ok bs"
    and "proof_at L d' = map_of (zip prs bs) ++ proof_at L d" and "fp_at L d' = fp_at L d"
proof -
  from run obtain bs where len: "length prs = length pfs" and bs: "marshal_proofs L pfs = Ok bs"
    and batch: "kv_Batch L (get_go (\<lambda>t. t) (\<lambda>t.
          if \<not> kv_HasBucket L t pubRandProofBucketName
          then fail (Sentinel (FpStoreErr ErrCorruptedPubRandProofDb))
          else put_proofs L (zip prs bs))) d = (Ok u, d')"
    by (auto simp: AddPubRandProofList_def go_defs split: if_splits res.splits)
  from batch obtain t where put: "put_proofs L (zip prs bs) d = (Ok (), t)" and commit: "kv_commit L t = Ok d'"
    by (elim kv_Batch_OkE) (auto simp: go_defs split: if_splits)
  have "proof_at L d' = proof_at L t" and "fp_at L d' = fp_at L t"
    using kv_commit_laws [OF laws commit] by (auto simp: proof_at_def fp_at_def fun_eq_iff)
  with put_proofs_Ok [OF laws put] len bs that show thesis by simp
qed

lemma AddPubRandProofList_failed:
  "AddPubRandProofList L prs pfs d = (r, d') \<Longrightarrow> r \<noteq> Ok () \<Longrightarrow> d' = d"
  by (auto simp: AddPubRandProofList_def go_defs split: if_splits res.splits dest: kv_Batch_failed)

lemma AddPubRandProofList_progress [go_rel_intros]:
  assumes "store_laws L"
  shows "go_rel (fp_progress L) (AddPubRandProofList L prs pfs)"
proof (rule go_relI)
  fix d
  obtain r d' where run: "AddPubRandProofList L prs pfs d = (r, d')" by (metis surj_pair)
  have "fp_at L d' = fp_at L d"
  proof (cases "r = Ok ()")
    case True
    then show ?thesis
      using assms run AddPubRandProofList_Ok [of L prs pfs d "()" d'] by (auto simp: store_laws_def)
  next
    case False
    with AddPubRandProofList_failed [OF run] show ?thesis by simp
  qed
  with run show "fp_progress L d (snd (AddPubRandProofList L prs pfs d))"
    by (auto simp: fp_progress_def fp_wf_def fp_le_def)
qed

lemma GetPubRandProof_Ok:
  "GetPubRandProof L k d = (Ok v, d') \<Longrightarrow> proof_at L d k = Some v \<and> d' = d"
  unfolding GetPubRandProof_def
  by (auto simp: proof_at_def dest!: kv_View_OkD split: if_splits option.splits)

lemma get_proofs_Ok:
  "get_proofs L t acc ks = Ok vs \<Longrightarrow> \<exists>us. vs = acc @ us \<and> map (proof_at L t) ks = map Some us"
proof (induction ks arbitrary: acc)
  case Nil
  then show ?case by simp
next
  case (Cons k ks)
  then obtain v where v: "kv_Get L t pubRandProofBucketName k = Some v"
    and rest: "get_proofs L t (acc @ [v]) ks = Ok vs"
    by (auto split: option.splits)
  from Cons.IH [OF rest] obtain us where "vs = (acc @ [v]) @ us" "map (proof_at L t) ks = map Some us"
    by blast
  then have "vs = acc @ (v # us) \<and> map (proof_at L t) (k # ks) = map Some (v # us)"
    using v by (simp add: proof_at_def)
  then show ?case by blast
qed

lemma GetPubRandProofList_Ok:
  "GetPubRandProofList L ks d = (Ok vs, d') \<Longrightarrow> map (proof_at L d) ks = map Some vs \<and> d' = d"
  unfolding GetPubRandProofList_def
  by (auto dest!: kv_View_OkD get_proofs_Ok split: if_splits)

lemma get_proofs_found:
  "map (proof_at L t) ks = map Some vs \<Longrightarrow> get_proofs L t acc ks = Ok (acc @ vs)"
  by (induction ks arbitrary: acc vs) (auto simp: proof_at_def map_eq_Cons_conv)

end
