(* ===== verification/Metrics.thy ===== *)
theory Metrics
  imports FpStore
begin

text \<open>
  The metrics collectors (\<^verbatim>\<open>metrics/fp_collectors.go\<close>, \<^verbatim>\<open>metrics/eots_collectors.go\<close>). A collector
  is a handle of the Prometheus library; what the program does with it is the sequence of its
  calls, \<open>prom_calls\<close>, and what a scrape then shows is read off that sequence. The program
  itself keeps the time of the last vote and of the last commitment of each provider.
\<close>

section \<open>Calls of the Prometheus library\<close>

datatype collector =
    NewGauge string
  | NewCounter string
  | NewGaugeVec string "string list"
  | NewCounterVec string "string list"

text \<open>
  A \<^verbatim>\<open>float64\<close> argument as the conversion that makes it: of a height, of a status, of a
  length, or the seconds of a duration in nanoseconds.
\<close>

datatype float64 =
    OfUint64 u64
  | OfStatus FinalityProviderStatus
  | OfLen nat
  | Seconds int

text \<open>The calls, with the label values of a vector.\<close>

datatype prom_call =
    PromRegister collector
  | PromSet collector "string list" float64
  | PromInc collector "string list"
  | PromDec collector "string list"
  | PromAdd collector "string list" float64

record prom =
  prom_calls :: "prom_call list"

definition call_prom :: "prom_call \<Rightarrow> 'a prom_scheme \<Rightarrow> 'a prom_scheme" where
  "call_prom c m = m\<lparr>prom_calls := prom_calls m @ [c]\<rparr>"

fun register_all :: "collector list \<Rightarrow> 'a prom_scheme \<Rightarrow> 'a prom_scheme" where
  "register_all [] m = m"
| "register_all (c # cs) m = register_all cs (call_prom (PromRegister c) m)"

section \<open>The collectors of the finality provider\<close>

text \<open>
  The fields of \<^verbatim>\<open>FpMetrics\<close> as \<^verbatim>\<open>NewFpMetrics\<close> fills them; they never change afterwards.
\<close>

definition runningFpGauge :: collector where
  "runningFpGauge = NewGauge ''total_running_fps''"

definition fpStatus :: collector where
  "fpStatus = NewGaugeVec ''fp_status'' [''fp_btc_pk_hex'']"

definition babylonTipHeight :: collector where
  "babylonTipHeight = NewGauge ''babylon_tip_height''"

definition lastPolledHeight :: collector where
  "lastPolledHeight = NewGauge ''last_polled_height''"

definition pollerStartingHeight :: collector where
  "pollerStartingHeight = NewGauge ''poller_starting_height''"

definition fpSecondsSinceLastVote :: collector where
  "fpSecondsSinceLastVote = NewGaugeVec ''fp_seconds_since_last_vote'' [''fp_btc_pk_hex'']"

definition fpSecondsSinceLastRandomness :: collector where
  "fpSecondsSinceLastRandomness = NewGaugeVec ''fp_seconds_since_last_randomness'' [''fp_btc_pk_hex'']"

definition fpLastVotedHeight :: collector where
  "fpLastVotedHeight = NewGaugeVec ''fp_last_voted_height'' [''fp_btc_pk_hex'']"

definition fpLastProcessedHeight :: collector where
  "fpLastProcessedHeight = NewGaugeVec ''fp_last_processed_height'' [''fp_btc_pk_hex'']"

definition fpTotalBlocksWithoutVotingPower :: collector where
  "fpTotalBlocksWithoutVotingPower = NewCounterVec ''fp_total_blocks_without_voting_power'' [''fp_btc_pk_hex'']"

definition fpTotalVotedBlocks :: collector where
  "fpTotalVotedBlocks = NewGaugeVec ''fp_total_voted_blocks'' [''fp_btc_pk_hex'']"

definition fpTotalCommittedRandomness :: collector where
  "fpTotalCommittedRandomness = NewGaugeVec ''fp_total_committed_randomness'' [''fp_btc_pk_hex'']"

definition fpLastCommittedRandomnessHeight :: collector where
  "fpLastCommittedRandomnessHeight = NewGaugeVec ''fp_last_committed_randomness_height'' [''fp_btc_pk_hex'']"

definition fpTotalFailedVotes :: collector where
  "fpTotalFailedVotes = NewCounterVec ''fp_total_failed_votes'' [''fp_btc_pk_hex'']"

definition fpTotalFailedRandomness :: collector where
  "fpTotalFailedRandomness = NewCounterVec ''fp_total_failed_randomness'' [''fp_btc_pk_hex'']"

definition fp_collectors :: "collector list" where
  "fp_collectors =
     [runningFpGauge, fpStatus, babylonTipHeight, lastPolledHeight, pollerStartingHeight,
      fpSecondsSinceLastVote, fpSecondsSinceLastRandomness, fpLastVotedHeight, fpLastProcessedHeight,
      fpTotalBlocksWithoutVotingPower, fpTotalVotedBlocks, fpTotalCommittedRandomness,
      fpLastCommittedRandomnessHeight, fpTotalFailedVotes, fpTotalFailedRandomness]"

lemmas fp_collector_defs =
  runningFpGauge_def fpStatus_def babylonTipHeight_def lastPolledHeight_def pollerStartingHeight_def
  fpSecondsSinceLastVote_def fpSecondsSinceLastRandomness_def fpLastVotedHeight_def fpLastProcessedHeight_def
  fpTotalBlocksWithoutVotingPower_def fpTotalVotedBlocks_def fpTotalCommittedRandomness_def
  fpLastCommittedRandomnessHeight_def fpTotalFailedVotes_def fpTotalFailedRandomness_def

text \<open>
  The one instance of the process, with the flag of its \<^verbatim>\<open>sync.Once\<close>. A \<^verbatim>\<open>nil\<close> map is \<open>None\<close>.
  The clock of the process gives some time, in nanoseconds, at each reading.
\<close>

record FpMetrics = prom +
  fpMetricsRegisterOnce :: bool
  previousVoteByFp :: "(string \<rightharpoonup> int) option"
  previousRandomnessByFp :: "(string \<rightharpoonup> int) option"
  fm_clock :: "nat \<Rightarrow> int"
  fm_readings :: nat

definition time_Now :: "FpMetrics \<Rightarrow> int \<times> FpMetrics" where
  "time_Now m = (fm_clock m (fm_readings m), m\<lparr>fm_readings := Suc (fm_readings m)\<rparr>)"

definition NewFpMetrics :: "FpMetrics \<Rightarrow> FpMetrics" where
  "NewFpMetrics m = (if fpMetricsRegisterOnce m then m
     else register_all fp_collectors
       (m\<lparr>fpMetricsRegisterOnce := True, previousVoteByFp := None, previousRandomnessByFp := None\<rparr>))"

definition DecrementRunningFpGauge :: "FpMetrics \<Rightarrow> FpMetrics" where
  "DecrementRunningFpGauge = call_prom (PromDec runningFpGauge [])"

definition IncrementRunningFpGauge :: "FpMetrics \<Rightarrow> FpMetrics" where
  "IncrementRunningFpGauge = call_prom (PromInc runningFpGauge [])"

definition RecordFpStatus :: "string \<Rightarrow> FinalityProviderStatus \<Rightarrow> FpMetrics \<Rightarrow> FpMetrics" where
  "RecordFpStatus fpBtcPkHex status = call_prom (PromSet fpStatus [fpBtcPkHex] (OfStatus status))"

definition RecordBabylonTipHeight :: "u64 \<Rightarrow> FpMetrics \<Rightarrow> FpMetrics" where
  "RecordBabylonTipHeight height = call_prom (PromSet babylonTipHeight [] (OfUint64 height))"

definition RecordLastPolledHeight :: "u64 \<Rightarrow> FpMetrics \<Rightarrow> FpMetrics" where
  "RecordLastPolledHeight height = call_prom (PromSet lastPolledHeight [] (OfUint64 height))"

definition RecordPollerStartingHeight :: "u64 \<Rightarrow> FpMetrics \<Rightarrow> FpMetrics" where
  "RecordPollerStartingHeight height = call_prom (PromSet pollerStartingHeight [] (OfUint64 height))"

definition RecordFpSecondsSinceLastVote :: "string \<Rightarrow> float64 \<Rightarrow> FpMetrics \<Rightarrow> FpMetrics" where
  "RecordFpSecondsSinceLastVote fpBtcPkHex seconds =
     call_prom (PromSet fpSecondsSinceLastVote [fpBtcPkHex] seconds)"

definition RecordFpSecondsSinceLastRandomness :: "string \<Rightarrow> float64 \<Rightarrow> FpMetrics \<Rightarrow> FpMetrics" where
  "RecordFpSecondsSinceLastRandomness fpBtcPkHex seconds =
     call_prom (PromSet fpSecondsSinceLastRandomness [fpBtcPkHex] seconds)"

definition RecordFpLastVotedHeight :: "string \<Rightarrow> u64 \<Rightarrow> FpMetrics \<Rightarrow> FpMetrics" where
  "RecordFpLastVotedHeight fpBtcPkHex height =
     call_prom (PromSet fpLastVotedHeight [fpBtcPkHex] (OfUint64 height))"

definition RecordFpLastProcessedHeight :: "string \<Rightarrow> u64 \<Rightarrow> FpMetrics \<Rightarrow> FpMetrics" where
  "RecordFpLastProcessedHeight fpBtcPkHex height =
     call_prom (PromSet fpLastProcessedHeight [fpBtcPkHex] (OfUint64 height))"

definition RecordFpLastCommittedRandomnessHeight :: "string \<Rightarrow> u64 \<Rightarrow> FpMetrics \<Rightarrow> FpMetrics" where
  "RecordFpLastCommittedRandomnessHeight fpBtcPkHex height =
     call_prom (PromSet fpLastCommittedRandomnessHeight [fpBtcPkHex] (OfUint64 height))"

definition IncrementFpTotalBlocksWithoutVotingPower :: "string \<Rightarrow> FpMetrics \<Rightarrow> FpMetrics" where
  "IncrementFpTotalBlocksWithoutVotingPower fpBtcPkHex =
     call_prom (PromInc fpTotalBlocksWithoutVotingPower [fpBtcPkHex])"

definition IncrementFpTotalVotedBlocks :: "string \<Rightarrow> FpMetrics \<Rightarrow> FpMetrics" where
  "IncrementFpTotalVotedBlocks fpBtcPkHex = call_prom (PromInc fpTotalVotedBlocks [fpBtcPkHex])"

definition AddToFpTotalVotedBlocks :: "string \<Rightarrow> float64 \<Rightarrow> FpMetrics \<Rightarrow> FpMetrics" where
  "AddToFpTotalVotedBlocks fpBtcPkHex num = call_prom (PromAdd fpTotalVotedBlocks [fpBtcPkHex] num)"

definition AddToFpTotalCommittedRandomness :: "string \<Rightarrow> float64 \<Rightarrow> FpMetrics \<Rightarrow> FpMetrics" where
  "AddToFpTotalCommittedRandomness fpBtcPkHex num =
     call_prom (PromAdd fpTotalCommittedRandomness [fpBtcPkHex] num)"

definition IncrementFpTotalFailedVotes :: "string \<Rightarrow> FpMetrics \<Rightarrow> FpMetrics" where
  "IncrementFpTotalFailedVotes fpBtcPkHex = call_prom (PromInc fpTotalFailedVotes [fpBtcPkHex])"

definition IncrementFpTotalFailedRandomness :: "string \<Rightarrow> FpMetrics \<Rightarrow> FpMetrics" where
  "IncrementFpTotalFailedRandomness fpBtcPkHex = call_prom (PromInc fpTotalFailedRandomness [fpBtcPkHex])"

text \<open>The write to a map, which is made when it is \<^verbatim>\<open>nil\<close>.\<close>

definition put_time :: "string \<Rightarrow> int \<Rightarrow> (string \<rightharpoonup> int) option \<Rightarrow> (string \<rightharpoonup> int) option" where
  "put_time k t m = (case m of None \<Rightarrow> Some (Map.empty(k \<mapsto> t)) | Some f \<Rightarrow> Some (f(k \<mapsto> t)))"

definition get_time :: "(string \<rightharpoonup> int) option \<Rightarrow> string \<rightharpoonup> int" where
  "get_time m k = (case m of None \<Rightarrow> None | Some f \<Rightarrow> f k)"

definition RecordFpVoteTime :: "string \<Rightarrow> FpMetrics \<Rightarrow> FpMetrics" where
  "RecordFpVoteTime fpBtcPkHex m = (case time_Now m of (now, m') \<Rightarrow>
     m'\<lparr>previousVoteByFp := put_time fpBtcPkHex now (previousVoteByFp m')\<rparr>)"

definition RecordFpRandomnessTime :: "string \<Rightarrow> FpMetrics \<Rightarrow> FpMetrics" where
  "RecordFpRandomnessTime fpBtcPkHex m = (case time_Now m of (now, m') \<Rightarrow>
     m'\<lparr>previousRandomnessByFp := put_time fpBtcPkHex now (previousRandomnessByFp m')\<rparr>)"

text \<open>The body of the loop of \<^verbatim>\<open>UpdateFpMetrics\<close>; \<^verbatim>\<open>time.Since\<close> reads the clock.\<close>

definition update_one :: "StoredFinalityProvider \<Rightarrow> FpMetrics \<Rightarrow> FpMetrics" where
  "update_one fp m =
     (let hx = hex_encode (sfp_BtcPk fp);
          m1 = RecordFpStatus hx (sfp_Status fp) m;
          m2 = (case get_time (previousVoteByFp m1) hx of
              None \<Rightarrow> m1
            | Some lastVoteTime \<Rightarrow> (case time_Now m1 of (now, m') \<Rightarrow> RecordFpSecondsSinceLastVote hx (Seconds (now - lastVoteTime)) m'))
      in case get_time (previousRandomnessByFp m2) hx of
          None \<Rightarrow> m2
        | Some lastRandomnessTime \<Rightarrow> (case time_Now m2 of (now, m') \<Rightarrow>
            RecordFpSecondsSinceLastRandomness hx (Seconds (now - lastRandomnessTime)) m'))"

definition UpdateFpMetrics :: "StoredFinalityProvider list \<Rightarrow> FpMetrics \<Rightarrow> FpMetrics" where
  "UpdateFpMetrics fps m = fold update_one fps m"

section \<open>The collectors of the EOTS manager\<close>

definition EotsCreatedKeysCounter :: collector where
  "EotsCreatedKeysCounter = NewCounter ''eots_created_keys_counter''"

definition EotsFpTotalGeneratedRandomnessCounter :: collector where
  "EotsFpTotalGeneratedRandomnessCounter =
     NewCounterVec ''eots_fp_total_generated_randomness_counter'' [''fp_btc_pk_hex'']"

definition EotsFpLastGeneratedRandomnessHeight :: collector where
  "EotsFpLastGeneratedRandomnessHeight =
     NewGaugeVec ''eots_fp_last_generated_randomness_height'' [''fp_btc_pk_hex'']"

definition EotsFpTotalEotsSignCounter :: collector where
  "EotsFpTotalEotsSignCounter = NewCounterVec ''eots_fp_total_eots_sign_counter'' [''fp_btc_pk_hex'']"

definition EotsFpLastEotsSignHeight :: collector where
  "EotsFpLastEotsSignHeight = NewGaugeVec ''eots_fp_last_eots_sign_height'' [''fp_btc_pk_hex'']"

definition EotsFpTotalSchnorrSignCounter :: collector where
  "EotsFpTotalSchnorrSignCounter = NewCounterVec ''eots_fp_total_schnorr_sign_counter'' [''fp_btc_pk_hex'']"

definition eots_collectors :: "collector list" where
  "eots_collectors =
     [EotsCreatedKeysCounter, EotsFpTotalGeneratedRandomnessCounter, EotsFpLastGeneratedRandomnessHeight,
      EotsFpTotalEotsSignCounter, EotsFpLastEotsSignHeight, EotsFpTotalSchnorrSignCounter]"

lemmas eots_collector_defs =
  EotsCreatedKeysCounter_def EotsFpTotalGeneratedRandomnessCounter_def EotsFpLastGeneratedRandomnessHeight_def
  EotsFpTotalEotsSignCounter_def EotsFpLastEotsSignHeight_def EotsFpTotalSchnorrSignCounter_def

record EotsMetrics = prom +
  eotsMetricsRegisterOnce :: bool

definition NewEotsMetrics :: "EotsMetrics \<Rightarrow> EotsMetrics" where
  "NewEotsMetrics m = (if eotsMetricsRegisterOnce m then m
     else register_all eots_collectors (m\<lparr>eotsMetricsRegisterOnce := True\<rparr>))"

definition IncrementEotsCreatedKeysCounter :: "EotsMetrics \<Rightarrow> EotsMetrics" where
  "IncrementEotsCreatedKeysCounter = call_prom (PromInc EotsCreatedKeysCounter [])"

definition IncrementEotsFpTotalGeneratedRandomnessCounter :: "string \<Rightarrow> EotsMetrics \<Rightarrow> EotsMetrics" where
  "IncrementEotsFpTotalGeneratedRandomnessCounter fpBtcPkHex =
     call_prom (PromInc EotsFpTotalGeneratedRandomnessCounter [fpBtcPkHex])"

definition SetEotsFpLastGeneratedRandomnessHeight :: "string \<Rightarrow> float64 \<Rightarrow> EotsMetrics \<Rightarrow> EotsMetrics" where
  "SetEotsFpLastGeneratedRandomnessHeight fpBtcPkHex height =
     call_prom (PromSet EotsFpLastGeneratedRandomnessHeight [fpBtcPkHex] height)"

definition IncrementEotsFpTotalEotsSignCounter :: "string \<Rightarrow> EotsMetrics \<Rightarrow> EotsMetrics" where
  "IncrementEotsFpTotalEotsSignCounter fpBtcPkHex =
     call_prom (PromInc EotsFpTotalEotsSignCounter [fpBtcPkHex])"

definition SetEotsFpLastEotsSignHeight :: "string \<Rightarrow> float64 \<Rightarrow> EotsMetrics \<Rightarrow> EotsMetrics" where
  "SetEotsFpLastEotsSignHeight fpBtcPkHex height =
     call_prom (PromSet EotsFpLastEotsSignHeight [fpBtcPkHex] height)"

definition IncrementEotsFpTotalSchnorrSignCounter :: "string \<Rightarrow> EotsMetrics \<Rightarrow> EotsMetrics" where
  "IncrementEotsFpTotalSchnorrSignCounter fpBtcPkHex =
     call_prom (PromInc EotsFpTotalSchnorrSignCounter [fpBtcPkHex])"

section \<open>What the calls of a daemon show\<close>

text \<open>
  The heights shown for a provider are at most those in its store, the calls go to the
  collectors that are registered, and the gauge of the running providers is never used.
\<close>

definition in_use :: "collector \<Rightarrow> bool" where
  "in_use g \<longleftrightarrow> g \<in> set fp_collectors \<and> g \<noteq> runningFpGauge"

definition height_shown ::
  "('db, 'z) store_lib_scheme \<Rightarrow> 'db \<Rightarrow> (u64 \<times> u64 \<Rightarrow> u64) \<Rightarrow> string list \<Rightarrow> float64 \<Rightarrow> bool" where
  "height_shown L d sel ls x \<longleftrightarrow>
     (\<exists>k h vp. ls = [hex_encode k] \<and> x = OfUint64 h \<and> stored_heights L d k = Some vp \<and> h \<le> sel vp)"

definition shown :: "('db, 'z) store_lib_scheme \<Rightarrow> 'db \<Rightarrow> prom_call \<Rightarrow> bool" where
  "shown L d c = (case c of
      PromRegister g \<Rightarrow> g \<in> set fp_collectors
    | PromSet g ls x \<Rightarrow> in_use g \<and>
        (g = fpLastVotedHeight \<longrightarrow> height_shown L d fst ls x) \<and>
        (g = fpLastProcessedHeight \<longrightarrow> height_shown L d snd ls x)
    | PromInc g ls \<Rightarrow> in_use g
    | PromDec g ls \<Rightarrow> in_use g
    | PromAdd g ls x \<Rightarrow> in_use g)"

text \<open>The calls since an earlier state; once registered, nothing is registered again.\<close>

definition metrics_le :: "('db, 'z) store_lib_scheme \<Rightarrow> 'db \<Rightarrow> FpMetrics \<Rightarrow> FpMetrics \<Rightarrow> bool" where
  "metrics_le L d m m' \<longleftrightarrow> (\<exists>cs. prom_calls m' = prom_calls m @ cs \<and> (\<forall>c \<in> set cs. shown L d c) \<and>
     (fpMetricsRegisterOnce m \<longrightarrow> fpMetricsRegisterOnce m' \<and> (\<forall>g. PromRegister g \<notin> set cs)))"

lemma metrics_le_refl [go_rel_intros]: "metrics_le L d m m"
  by (simp add: metrics_le_def)

lemma metrics_le_trans: "metrics_le L d m m' \<Longrightarrow> metrics_le L d m' m'' \<Longrightarrow> metrics_le L d m m''"
  unfolding metrics_le_def by (elim exE) (rule exI [where x = "_ @ _"], auto)

lemma height_shown_progress:
  assumes "fp_wf L d" and "fp_progress L d d'" and "sel = fst \<or> sel = snd" and "height_shown L d sel ls x"
  shows "height_shown L d' sel ls x"
proof -
  from assms(4) obtain k h vp where x: "ls = [hex_encode k]" "x = OfUint64 h" "stored_heights L d k = Some vp" "h \<le> sel vp"
    unfolding height_shown_def by blast
  from assms(1,2) x(3) obtain vp' where "stored_heights L d' k = Some vp'" "fst vp \<le> fst vp'" "snd vp \<le> snd vp'"
    unfolding fp_progress_def stored_heights_def fp_le_def by fastforce
  moreover from this(2,3) x(4) assms(3) have "h \<le> sel vp'" by (auto intro: order_trans)
  ultimately show ?thesis using x unfolding height_shown_def by blast
qed

lemma shown_progress:
  assumes "fp_wf L d" and "fp_progress L d d'" and "shown L d c"
  shows "shown L d' c"
  using assms(3) height_shown_progress [OF assms(1,2)] by (cases c) (auto simp: shown_def)

lemma metrics_le_progress:
  "fp_wf L d \<Longrightarrow> fp_progress L d d' \<Longrightarrow> metrics_le L d m m' \<Longrightarrow> metrics_le L d' m m'"
  unfolding metrics_le_def by (meson shown_progress)

lemma metrics_le_call:
  "shown L d c \<Longrightarrow> (\<And>g. c \<noteq> PromRegister g) \<Longrightarrow> metrics_le L d m (call_prom c m)"
  by (auto simp: metrics_le_def call_prom_def)

lemma metrics_le_times: "metrics_le L d m (m\<lparr>previousVoteByFp := v, previousRandomnessByFp := r, fm_readings := n\<rparr>)"
  by (simp add: metrics_le_def)

lemma metrics_le_record [go_rel_intros]:
  "metrics_le L d m (RecordFpStatus hx st m)" "metrics_le L d m (RecordBabylonTipHeight h m)"
  "metrics_le L d m (RecordLastPolledHeight h m)" "metrics_le L d m (RecordPollerStartingHeight h m)"
  "metrics_le L d m (RecordFpSecondsSinceLastVote hx t m)" "metrics_le L d m (RecordFpSecondsSinceLastRandomness hx t m)"
  "metrics_le L d m (RecordFpLastCommittedRandomnessHeight hx h m)"
  "metrics_le L d m (IncrementFpTotalBlocksWithoutVotingPower hx m)" "metrics_le L d m (IncrementFpTotalVotedBlocks hx m)"
  "metrics_le L d m (AddToFpTotalVotedBlocks hx n m)" "metrics_le L d m (AddToFpTotalCommittedRandomness hx n m)"
  "metrics_le L d m (IncrementFpTotalFailedVotes hx m)" "metrics_le L d m (IncrementFpTotalFailedRandomness hx m)"
  unfolding RecordFpStatus_def RecordBabylonTipHeight_def RecordLastPolledHeight_def RecordPollerStartingHeight_def
    RecordFpSecondsSinceLastVote_def RecordFpSecondsSinceLastRandomness_def RecordFpLastCommittedRandomnessHeight_def
    IncrementFpTotalBlocksWithoutVotingPower_def IncrementFpTotalVotedBlocks_def AddToFpTotalVotedBlocks_def
    AddToFpTotalCommittedRandomness_def IncrementFpTotalFailedVotes_def IncrementFpTotalFailedRandomness_def
  by (rule metrics_le_call; simp add: shown_def in_use_def fp_collectors_def fp_collector_defs)+

lemma metrics_le_heights:
  assumes "stored_heights L d k = Some (v, p)"
  shows "h \<le> v \<Longrightarrow> metrics_le L d m (RecordFpLastVotedHeight (hex_encode k) h m)"
    and "h \<le> p \<Longrightarrow> metrics_le L d m (RecordFpLastProcessedHeight (hex_encode k) h m)"
  unfolding RecordFpLastVotedHeight_def RecordFpLastProcessedHeight_def using assms
  by (intro metrics_le_call; force simp: shown_def height_shown_def in_use_def fp_collectors_def fp_collector_defs)+

lemma metrics_le_time [go_rel_intros]:
  "metrics_le L d m (RecordFpVoteTime hx m)" "metrics_le L d m (RecordFpRandomnessTime hx m)"
  by (simp_all add: RecordFpVoteTime_def RecordFpRandomnessTime_def time_Now_def metrics_le_def)

lemma metrics_le_read: "metrics_le L d (m\<lparr>fm_readings := n\<rparr>) m' \<Longrightarrow> metrics_le L d m m'"
  by (simp add: metrics_le_def)

lemma update_one_le: "metrics_le L d m (update_one fp m)"
proof -
  let ?hx = "hex_encode (sfp_BtcPk fp)"
  let ?f = "\<lambda>get rec m. case get_time (get m) ?hx of None \<Rightarrow> m
    | Some t \<Rightarrow> (case time_Now m of (now, m') \<Rightarrow> rec ?hx (Seconds (now - t)) m')"
  have *: "metrics_le L d m (?f get rec m)" if "\<And>t m. metrics_le L d m (rec ?hx t m)"
    for get rec and m :: FpMetrics
    using that by (auto simp: time_Now_def metrics_le_refl intro: metrics_le_read split: option.split)
  have "update_one fp m = ?f previousRandomnessByFp RecordFpSecondsSinceLastRandomness
    (?f previousVoteByFp RecordFpSecondsSinceLastVote (RecordFpStatus ?hx (sfp_Status fp) m))"
    by (simp only: update_one_def Let_def)
  also have "metrics_le L d m \<dots>"
    by (rule metrics_le_trans [OF metrics_le_record(1) metrics_le_trans]; rule *; rule metrics_le_record)
  finally show ?thesis .
qed

lemma UpdateFpMetrics_le [go_rel_intros]: "metrics_le L d m (UpdateFpMetrics fps m)"
  unfolding UpdateFpMetrics_def
  by (induction fps arbitrary: m) (auto intro: metrics_le_refl metrics_le_trans update_one_le)

lemma register_all_calls:
  "prom_calls (register_all cs m) = prom_calls m @ map PromRegister cs"
  "fpMetricsRegisterOnce (register_all cs (fm :: FpMetrics)) = fpMetricsRegisterOnce fm"
  by (induction cs arbitrary: m fm) (simp_all add: call_prom_def)

lemma NewFpMetrics_le [go_rel_intros]: "metrics_le L d m (NewFpMetrics m)"
  by (auto simp: NewFpMetrics_def metrics_le_def register_all_calls shown_def)

end
