(* ===== verification/EotsManager.thy ===== *)
theory EotsManager
  imports Metrics
begin

text \<open>
  The EOTS manager daemon: its interface (\<^verbatim>\<open>eotsmanager/eotsmanager.go\<close>), the store of
  key names (\<^verbatim>\<open>eotsmanager/store/eotsstore.go\<close>), the deterministic randomness
  (\<^verbatim>\<open>eotsmanager/randgenerator\<close>) and the local manager (\<^verbatim>\<open>eotsmanager/localmanager.go\<close>).
  Keyring, BIP-39, curve and signature operations are third-party and parameters of the
  model. The locale \<open>eots_contract\<close> states what the finality provider relies on: the list
  of public randomness has the requested length, its entry \<open>i\<close> is the randomness of height
  \<open>start + i\<close>, and this is the randomness a signature at that height uses.
\<close>

section \<open>Interface and data\<close>

record KeyRecord =
  kr_Name :: string
  kr_PrivKey :: PrivateKey

record 'w EOTSManager =
  em_CreateKey :: "string \<Rightarrow> string \<Rightarrow> string \<Rightarrow> ('w, bytes) go"
  em_CreateRandomnessPairList :: "bytes \<Rightarrow> bytes \<Rightarrow> u64 \<Rightarrow> u32 \<Rightarrow> string \<Rightarrow> ('w, FieldVal list) go"
  em_KeyRecord :: "bytes \<Rightarrow> string \<Rightarrow> ('w, KeyRecord) go"
  em_SignEOTS :: "bytes \<Rightarrow> bytes \<Rightarrow> bytes \<Rightarrow> u64 \<Rightarrow> string \<Rightarrow> ('w, ModNScalar) go"
  em_SignSchnorrSig :: "bytes \<Rightarrow> bytes \<Rightarrow> string \<Rightarrow> ('w, bytes) go"
  em_Close :: "('w, unit) go"

text \<open>
  A keyring record: its public key (or why it cannot be read), and the private key of a
  local record; the type switches of the code only accept secp256k1 keys.
\<close>

datatype any_PubKey = Secp256k1PubKey bytes | OtherPubKey
datatype any_PrivKey = Secp256k1PrivKey bytes | OtherPrivKey

record keyring_Record =
  rec_PubKey :: "any_PubKey res"
  rec_LocalPrivKey :: "any_PrivKey option"
  rec_Address :: "bytes res"

text \<open>The keyring works on its own state and on the reader the passphrase is typed into.\<close>

record ('db, 'kr) eots_lib = "'db kvdb" +
  keyring_New :: "string \<Rightarrow> string \<Rightarrow> string \<Rightarrow> ('kr \<times> string, unit) go"
  keyring_Key :: "string \<Rightarrow> ('kr \<times> string, keyring_Record) go"
  keyring_NewAccount :: "string \<Rightarrow> string \<Rightarrow> string \<Rightarrow> string \<Rightarrow> string \<Rightarrow> ('kr \<times> string, keyring_Record) go"
  keyring_SupportedAlgorithms :: "'kr \<Rightarrow> string list"
  NewSigningAlgoFromString :: "string \<Rightarrow> string list \<Rightarrow> string res"
  bip39_NewEntropy :: "nat \<Rightarrow> ('kr, bytes) go"
  bip39_NewMnemonic :: "bytes \<Rightarrow> string res"
  btcec_ParsePubKey :: "bytes \<Rightarrow> PublicKey res"
  btcec_PrivKeyFromBytes :: "bytes \<Rightarrow> PrivateKey"
  hmac_sha256 :: "bytes \<Rightarrow> bytes \<Rightarrow> bytes"
  ModNScalar_SetByteSlice :: "bytes \<Rightarrow> ModNScalar"
  ScalarBaseMult_X :: "ModNScalar \<Rightarrow> FieldVal"
  eots_Sign :: "PrivateKey \<Rightarrow> ModNScalar \<Rightarrow> bytes \<Rightarrow> ModNScalar res"
  schnorr_Sign :: "PrivateKey \<Rightarrow> bytes \<Rightarrow> bytes res"

record ('db, 'kr) LocalEOTSManager =
  lm_kr :: 'kr
  lm_es :: 'db
  lm_input :: string
  lm_metrics :: EotsMetrics

section \<open>The store of key names\<close>

definition eotsBucketName :: string where
  "eotsBucketName = ''fpKeyNames''"

definition eots_initBuckets :: "('db, 'z) kvdb_scheme \<Rightarrow> ('db, unit) go" where
  "eots_initBuckets K = kv_Batch K (step_go (kv_CreateTopLevelBucket K eotsBucketName))"

definition NewEOTSStore :: "('db, 'z) kvdb_scheme \<Rightarrow> ('db, unit) go" where
  "NewEOTSStore K = try_go (eots_initBuckets K) (\<lambda>_. ret ())"

definition saveEOTSKeyName :: "('db, 'z) kvdb_scheme \<Rightarrow> bytes \<Rightarrow> string \<Rightarrow> ('db, unit) go" where
  "saveEOTSKeyName K btcPk keyName =
     (if keyName = '''' then fail (NewErr ''cannot save empty key name'')
      else step_go (kv_Put K eotsBucketName btcPk (bytes_of_string keyName)))"

definition AddEOTSKeyName :: "('db, 'z) kvdb_scheme \<Rightarrow> PublicKey \<Rightarrow> string \<Rightarrow> ('db, unit) go" where
  "AddEOTSKeyName K btcPk keyName = kv_Batch K (get_go (\<lambda>t. t) (\<lambda>t.
     if \<not> kv_HasBucket K t eotsBucketName then fail (Sentinel (EotsStoreErr ErrCorruptedEOTSDb))
     else if kv_Get K t eotsBucketName btcPk \<noteq> None
       then fail (Sentinel (EotsStoreErr ErrDuplicateEOTSKeyName))
     else saveEOTSKeyName K btcPk keyName))"

definition GetEOTSKeyName :: "('db, 'z) kvdb_scheme \<Rightarrow> bytes \<Rightarrow> ('db, string) go" where
  "GetEOTSKeyName K pk = kv_View K (\<lambda>t.
     if \<not> kv_HasBucket K t eotsBucketName then Err (Sentinel (EotsStoreErr ErrCorruptedEOTSDb))
     else (case kv_Get K t eotsBucketName pk of
         None \<Rightarrow> Err (Sentinel (EotsStoreErr ErrEOTSKeyNameNotFound))
       | Some keyNameBytes \<Rightarrow> Ok (string_of_bytes keyNameBytes)))"

section \<open>Randomness\<close>

definition GenerateRandomness ::
  "('db, 'kr, 'z) eots_lib_scheme \<Rightarrow> bytes \<Rightarrow> bytes \<Rightarrow> u64 \<Rightarrow> ModNScalar \<times> FieldVal" where
  "GenerateRandomness L key chainID height =
     (let randPre = hmac_sha256 L key (Uint64ToBigEndian height @ chainID);
          randScalar = ModNScalar_SetByteSlice L randPre
      in (randScalar, ScalarBaseMult_X L randScalar))"

section \<open>The local manager\<close>

text \<open>Running a keyring call on the keyring and the passphrase reader, a store call on the store.\<close>

definition lm_keyring :: "('kr \<times> string, 'a) go \<Rightarrow> (('db, 'kr) LocalEOTSManager, 'a) go" where
  "lm_keyring m = zoom_go (\<lambda>s. (lm_kr s, lm_input s))
     (\<lambda>(k, i) s. s\<lparr>lm_kr := k, lm_input := i\<rparr>) m"

definition lm_store :: "('db, 'a) go \<Rightarrow> (('db, 'kr) LocalEOTSManager, 'a) go" where
  "lm_store m = zoom_go lm_es (\<lambda>d s. s\<lparr>lm_es := d\<rparr>) m"

definition input_Reset :: "string \<Rightarrow> (('db, 'kr) LocalEOTSManager, 'a) go \<Rightarrow> (('db, 'kr) LocalEOTSManager, 'a) go" where
  "input_Reset p k = upd_go (\<lambda>s. s\<lparr>lm_input := p\<rparr>) k"

definition lm_meter ::
  "(EotsMetrics \<Rightarrow> EotsMetrics) \<Rightarrow> (('db, 'kr) LocalEOTSManager, 'a) go \<Rightarrow> (('db, 'kr) LocalEOTSManager, 'a) go" where [go_defs]:
  "lm_meter f k = upd_go (\<lambda>s. s\<lparr>lm_metrics := f (lm_metrics s)\<rparr>) k"

lemma lm_meter_apply: "lm_meter f k s = k (s\<lparr>lm_metrics := f (lm_metrics s)\<rparr>)"
  by (simp add: lm_meter_def upd_go_def)

definition NewLocalEOTSManager ::
  "('db, 'kr, 'z) eots_lib_scheme \<Rightarrow> string \<Rightarrow> string \<Rightarrow> (('db, 'kr) LocalEOTSManager, unit) go" where
  "NewLocalEOTSManager L homeDir keyringBackend = input_Reset '''' (
     wrap_go ''failed to initialize store: '' (lm_store (NewEOTSStore L)) (\<lambda>_.
     wrap_go ''failed to initialize keyring: ''
       (lm_keyring (keyring_New L ''eots-manager'' keyringBackend homeDir)) (\<lambda>_.
     lm_meter NewEotsMetrics (ret ()))))"

definition NewMnemonic :: "('db, 'kr, 'z) eots_lib_scheme \<Rightarrow> (('db, 'kr) LocalEOTSManager, string) go" where
  "NewMnemonic L =
     try_go (zoom_go lm_kr (\<lambda>k s. s\<lparr>lm_kr := k\<rparr>) (bip39_NewEntropy L 256)) (\<lambda>entropySeed.
     try_go (of_res (bip39_NewMnemonic L entropySeed)) ret)"

definition keyExists :: "('db, 'kr, 'z) eots_lib_scheme \<Rightarrow> string \<Rightarrow> (('db, 'kr) LocalEOTSManager, bool) go" where
  "keyExists L name = handle_go (lm_keyring (keyring_Key L name)) (\<lambda>_. ret False) (\<lambda>_. ret True)"

definition loadBIP340PubKeyFromKeyringRecord ::
  "('db, 'kr, 'z) eots_lib_scheme \<Rightarrow> keyring_Record \<Rightarrow> ('s, PublicKey) go" where
  "loadBIP340PubKeyFromKeyringRecord L record =
     try_go (of_res (rec_PubKey record)) (\<lambda>pubKey. case pubKey of
         Secp256k1PubKey key \<Rightarrow> try_go (of_res (btcec_ParsePubKey L key)) ret
       | OtherPubKey \<Rightarrow> fail (NewErr ''unsupported key type in keyring''))"

definition eotsPrivKeyFromRecord ::
  "('db, 'kr, 'z) eots_lib_scheme \<Rightarrow> keyring_Record \<Rightarrow> ('s, PrivateKey) go" where
  "eotsPrivKeyFromRecord L k = (case rec_LocalPrivKey k of
      None \<Rightarrow> crash ''nil pointer dereference''
    | Some (Secp256k1PrivKey key) \<Rightarrow> ret (btcec_PrivKeyFromBytes L key)
    | Some OtherPrivKey \<Rightarrow> fail (NewErr ''unsupported key type in keyring''))"

definition CreateKeyWithMnemonic ::
  "('db, 'kr, 'z) eots_lib_scheme \<Rightarrow> string \<Rightarrow> string \<Rightarrow> string \<Rightarrow> string \<Rightarrow>
   (('db, 'kr) LocalEOTSManager, PublicKey) go" where
  "CreateKeyWithMnemonic L name passphrase hdPath mnemonic =
     try_go (keyExists L name) (\<lambda>exists.
     if exists then fail (Sentinel (EotsTypesErr ErrFinalityProviderAlreadyExisted))
     else get_go lm_kr (\<lambda>kr.
     try_go (of_res (NewSigningAlgoFromString L ''secp256k1'' (keyring_SupportedAlgorithms L kr))) (\<lambda>algo.
     input_Reset (passphrase @ [CHR 0x0A] @ passphrase) (
     try_go (lm_keyring (keyring_NewAccount L name mnemonic passphrase hdPath algo)) (\<lambda>record.
     try_go (loadBIP340PubKeyFromKeyringRecord L record) (\<lambda>eotsPk.
     try_go (lm_store (AddEOTSKeyName L eotsPk name)) (\<lambda>_.
     lm_meter IncrementEotsCreatedKeysCounter (ret eotsPk))))))))"

definition CreateKey ::
  "('db, 'kr, 'z) eots_lib_scheme \<Rightarrow> string \<Rightarrow> string \<Rightarrow> string \<Rightarrow> (('db, 'kr) LocalEOTSManager, bytes) go" where
  "CreateKey L name passphrase hdPath =
     try_go (NewMnemonic L) (\<lambda>mnemonic.
     try_go (CreateKeyWithMnemonic L name passphrase hdPath mnemonic) (\<lambda>eotsPk. ret eotsPk))"

definition getEOTSPrivKey ::
  "('db, 'kr, 'z) eots_lib_scheme \<Rightarrow> bytes \<Rightarrow> string \<Rightarrow> (('db, 'kr) LocalEOTSManager, PrivateKey) go" where
  "getEOTSPrivKey L fpPk passphrase =
     try_go (lm_store (GetEOTSKeyName L fpPk)) (\<lambda>keyName.
     input_Reset passphrase (
     try_go (lm_keyring (keyring_Key L keyName)) (\<lambda>k.
     eotsPrivKeyFromRecord L k)))"

definition lm_KeyRecord ::
  "('db, 'kr, 'z) eots_lib_scheme \<Rightarrow> bytes \<Rightarrow> string \<Rightarrow> (('db, 'kr) LocalEOTSManager, KeyRecord) go" where
  "lm_KeyRecord L fpPk passphrase =
     try_go (lm_store (GetEOTSKeyName L fpPk)) (\<lambda>name.
     try_go (getEOTSPrivKey L fpPk passphrase) (\<lambda>privKey.
     ret \<lparr>kr_Name = name, kr_PrivKey = privKey\<rparr>))"

definition getRandomnessPair ::
  "('db, 'kr, 'z) eots_lib_scheme \<Rightarrow> bytes \<Rightarrow> bytes \<Rightarrow> u64 \<Rightarrow> string \<Rightarrow>
   (('db, 'kr) LocalEOTSManager, ModNScalar \<times> FieldVal) go" where
  "getRandomnessPair L fpPk chainID height passphrase =
     try_go (lm_KeyRecord L fpPk passphrase) (\<lambda>record.
     ret (GenerateRandomness L (kr_PrivKey record) chainID height))"

text \<open>The loop \<^verbatim>\<open>for i := uint32(0); i < num; i++\<close>, on the number of rounds left.\<close>

fun randomness_loop ::
  "('db, 'kr, 'z) eots_lib_scheme \<Rightarrow> bytes \<Rightarrow> bytes \<Rightarrow> u64 \<Rightarrow> string \<Rightarrow> nat \<Rightarrow> nat \<Rightarrow> FieldVal list \<Rightarrow>
   (('db, 'kr) LocalEOTSManager, FieldVal list) go" where
  "randomness_loop L fpPk chainID startHeight passphrase i 0 prList = ret prList"
| "randomness_loop L fpPk chainID startHeight passphrase i (Suc n) prList =
     try_go (getRandomnessPair L fpPk chainID (startHeight + of_nat i) passphrase) (\<lambda>(_, pubRand).
     randomness_loop L fpPk chainID startHeight passphrase (Suc i) n (prList @ [pubRand]))"

definition lm_CreateRandomnessPairList ::
  "('db, 'kr, 'z) eots_lib_scheme \<Rightarrow> bytes \<Rightarrow> bytes \<Rightarrow> u64 \<Rightarrow> u32 \<Rightarrow> string \<Rightarrow>
   (('db, 'kr) LocalEOTSManager, FieldVal list) go" where
  "lm_CreateRandomnessPairList L fpPk chainID startHeight num passphrase =
     try_go (randomness_loop L fpPk chainID startHeight passphrase 0 (unat num) []) (\<lambda>prList.
     lm_meter (IncrementEotsFpTotalGeneratedRandomnessCounter (hex_encode fpPk)) (
     lm_meter (SetEotsFpLastGeneratedRandomnessHeight (hex_encode fpPk) (OfUint64 startHeight)) (
     ret prList)))"

definition lm_SignEOTS ::
  "('db, 'kr, 'z) eots_lib_scheme \<Rightarrow> bytes \<Rightarrow> bytes \<Rightarrow> bytes \<Rightarrow> u64 \<Rightarrow> string \<Rightarrow>
   (('db, 'kr) LocalEOTSManager, ModNScalar) go" where
  "lm_SignEOTS L fpPk chainID msg height passphrase =
     wrap_go ''failed to get private randomness: ''
       (getRandomnessPair L fpPk chainID height passphrase) (\<lambda>(privRand, _).
     wrap_go ''failed to get EOTS private key: '' (getEOTSPrivKey L fpPk passphrase) (\<lambda>privKey.
     lm_meter (IncrementEotsFpTotalEotsSignCounter (hex_encode fpPk)) (
     lm_meter (SetEotsFpLastEotsSignHeight (hex_encode fpPk) (OfUint64 height)) (
     of_res (eots_Sign L privKey privRand msg)))))"

definition signSchnorrSigFromPrivKey ::
  "('db, 'kr, 'z) eots_lib_scheme \<Rightarrow> PrivateKey \<Rightarrow> bytes \<Rightarrow> bytes \<Rightarrow> (('db, 'kr) LocalEOTSManager, bytes) go" where
  "signSchnorrSigFromPrivKey L privKey fpPk msg =
     lm_meter (IncrementEotsFpTotalSchnorrSignCounter (hex_encode fpPk)) (of_res (schnorr_Sign L privKey msg))"

definition lm_SignSchnorrSig ::
  "('db, 'kr, 'z) eots_lib_scheme \<Rightarrow> bytes \<Rightarrow> bytes \<Rightarrow> string \<Rightarrow> (('db, 'kr) LocalEOTSManager, bytes) go" where
  "lm_SignSchnorrSig L fpPk msg passphrase =
     wrap_go ''failed to get EOTS private key: '' (getEOTSPrivKey L fpPk passphrase) (\<lambda>privKey.
     signSchnorrSigFromPrivKey L privKey fpPk msg)"

definition SignSchnorrSigFromKeyname ::
  "('db, 'kr, 'z) eots_lib_scheme \<Rightarrow> string \<Rightarrow> string \<Rightarrow> bytes \<Rightarrow>
   (('db, 'kr) LocalEOTSManager, bytes \<times> PublicKey) go" where
  "SignSchnorrSigFromKeyname L keyName passphrase msg = input_Reset passphrase (
     wrap_go (''failed to load keyring record for key '' @ keyName @ '': '')
       (lm_keyring (keyring_Key L keyName)) (\<lambda>k.
     try_go (loadBIP340PubKeyFromKeyringRecord L k) (\<lambda>eotsPk.
     try_go (eotsPrivKeyFromRecord L k) (\<lambda>privKey.
     wrap_go ''failed to schnorr sign: '' (signSchnorrSigFromPrivKey L privKey eotsPk msg) (\<lambda>signature.
     ret (signature, eotsPk))))))"

definition local_EOTSManager ::
  "('db, 'kr, 'z) eots_lib_scheme \<Rightarrow> ('db, 'kr) LocalEOTSManager EOTSManager" where
  "local_EOTSManager L =
     \<lparr>em_CreateKey = CreateKey L,
      em_CreateRandomnessPairList = lm_CreateRandomnessPairList L,
      em_KeyRecord = lm_KeyRecord L,
      em_SignEOTS = lm_SignEOTS L,
      em_SignSchnorrSig = lm_SignSchnorrSig L,
      em_Close = ret ()\<rparr>"

section \<open>The store of key names as a map\<close>

definition key_name_at :: "('db, 'z) kvdb_scheme \<Rightarrow> 'db \<Rightarrow> bytes \<Rightarrow> string option" where
  "key_name_at K d pk = map_option string_of_bytes (kv_Get K d eotsBucketName pk)"

lemma AddEOTSKeyName_Ok:
  assumes laws: "kv_laws K" and run: "AddEOTSKeyName K pk nm d = (Ok u, d')"
  shows "key_name_at K d pk = None \<and> nm \<noteq> [] \<and> key_name_at K d' = (key_name_at K d)(pk \<mapsto> nm) \<and>
    kv_HasBucket K d' eotsBucketName"
proof -
  from run obtain t where free: "kv_Get K d eotsBucketName pk = None" and nm: "nm \<noteq> []"
    and has: "kv_HasBucket K d eotsBucketName"
    and put: "kv_Put K eotsBucketName pk (bytes_of_string nm) d = Ok t" and commit: "kv_commit K t = Ok d'"
    unfolding AddEOTSKeyName_def
    by (elim kv_Batch_OkE) (auto simp: saveEOTSKeyName_def go_defs split: if_splits res.splits)
  then show ?thesis
    using kv_Put_laws [OF laws put] kv_commit_laws [OF laws commit]
    by (auto simp: key_name_at_def fun_eq_iff)
qed

lemma AddEOTSKeyName_failed: "AddEOTSKeyName K pk nm d = (r, d') \<Longrightarrow> r \<noteq> Ok () \<Longrightarrow> d' = d"
  unfolding AddEOTSKeyName_def by (rule kv_Batch_failed)

lemma GetEOTSKeyName_Ok:
  "GetEOTSKeyName K pk d = (Ok nm, d') \<Longrightarrow> key_name_at K d pk = Some nm \<and> d' = d"
  unfolding GetEOTSKeyName_def
  by (auto simp: key_name_at_def dest!: kv_View_OkD split: if_splits option.splits)

section \<open>The contract of the manager\<close>

text \<open>
  What a client of the manager relies on. \<open>pubRandAt\<close> is the public randomness of a key at a
  height, \<open>signedWith\<close> says that a signature was made with the private part of a public
  randomness. No call changes the randomness of any height.
\<close>

locale eots_contract =
  fixes create :: "bytes \<Rightarrow> bytes \<Rightarrow> u64 \<Rightarrow> u32 \<Rightarrow> string \<Rightarrow> ('w, FieldVal list) go"
    and sign :: "bytes \<Rightarrow> bytes \<Rightarrow> bytes \<Rightarrow> u64 \<Rightarrow> string \<Rightarrow> ('w, ModNScalar) go"
    and pubRandAt :: "'w \<Rightarrow> bytes \<Rightarrow> bytes \<Rightarrow> u64 \<Rightarrow> string \<Rightarrow> FieldVal option"
    and signedWith :: "'w \<Rightarrow> bytes \<Rightarrow> string \<Rightarrow> FieldVal \<Rightarrow> bytes \<Rightarrow> ModNScalar \<Rightarrow> bool"
    and invar :: "'w \<Rightarrow> bool"
  assumes create_nth: "invar w \<Longrightarrow> create pk cid h n pass w = (Ok prs, w') \<Longrightarrow>
      length prs = unat n \<and> (\<forall>i < unat n. pubRandAt w pk cid (h + of_nat i) pass = Some (prs ! i))"
    and create_frame: "invar w \<Longrightarrow> create pk cid h n pass w = (r, w') \<Longrightarrow>
      invar w' \<and> pubRandAt w' = pubRandAt w \<and> signedWith w' = signedWith w"
    and sign_rand: "invar w \<Longrightarrow> sign pk cid msg h pass w = (Ok sg, w') \<Longrightarrow>
      \<exists>pr. pubRandAt w pk cid h pass = Some pr \<and> signedWith w pk pass pr msg sg"
    and sign_frame: "invar w \<Longrightarrow> sign pk cid msg h pass w = (r', w') \<Longrightarrow>
      invar w' \<and> pubRandAt w' = pubRandAt w \<and> signedWith w' = signedWith w"
begin

text \<open>A height inside a list that was created is signed with the randomness the list has for it.\<close>

lemma listed_then_signed:
  assumes "invar w" and "create pk cid h n pass w = (Ok prs, w')" and "i < unat n"
    and "sign pk cid msg (h + of_nat i) pass w' = (Ok sg, w'')"
  shows "signedWith w pk pass (prs ! i) msg sg"
  using create_nth [OF assms(1,2)] create_frame [OF assms(1,2)] sign_rand [OF _ assms(4)] assms(3)
  by auto

lemma signed_then_listed:
  assumes "invar w" and "sign pk cid msg h pass w = (Ok sg, w')"
    and "create pk cid h 1 pass w' = (Ok prs, w'')"
  shows "\<exists>pr. prs = [pr] \<and> signedWith w pk pass pr msg sg"
proof -
  from sign_rand [OF assms(1,2)] obtain pr where
    pr: "pubRandAt w pk cid h pass = Some pr" "signedWith w pk pass pr msg sg" by blast
  have inv: "invar w'" and same: "pubRandAt w' = pubRandAt w" using sign_frame [OF assms(1,2)] by auto
  from create_nth [OF inv assms(3)] have "length prs = 1" "pubRandAt w' pk cid h pass = Some (prs ! 0)"
    by auto
  with pr same show ?thesis by (auto simp: length_Suc_conv)
qed

lemma create_twice:
  assumes "invar w" and "create pk cid h n pass w = (Ok prs, w')"
    and "create pk cid h n pass w' = (Ok prs', w'')"
  shows "prs' = prs"
  using create_nth [OF assms(1,2)] create_frame [OF assms(1,2)] create_nth [OF _ assms(3)]
  by (auto intro!: nth_equalityI)

end

section \<open>The local manager meets the contract\<close>

text \<open>
  Reading a key leaves the keyring as it was (the passphrase reader may move). Then every
  call but \<^verbatim>\<open>CreateKey\<close> leaves the keyring and the store as they were.
\<close>

definition keyring_readonly :: "('db, 'kr, 'z) eots_lib_scheme \<Rightarrow> bool" where
  "keyring_readonly L \<longleftrightarrow> (\<forall>n k i. fst (snd (keyring_Key L n (k, i))) = k)"

definition lm_same :: "('db, 'kr) LocalEOTSManager \<Rightarrow> ('db, 'kr) LocalEOTSManager \<Rightarrow> bool" where
  "lm_same s t \<longleftrightarrow> lm_kr t = lm_kr s \<and> lm_es t = lm_es s"

definition lm_pubRandAt ::
  "('db, 'kr, 'z) eots_lib_scheme \<Rightarrow> ('db, 'kr) LocalEOTSManager \<Rightarrow> bytes \<Rightarrow> bytes \<Rightarrow> u64 \<Rightarrow> string \<Rightarrow>
   FieldVal option" where
  "lm_pubRandAt L s pk cid h pass = (case fst (getRandomnessPair L pk cid h pass s) of
      Ok (_, pr) \<Rightarrow> Some pr | _ \<Rightarrow> None)"

definition lm_signedWith ::
  "('db, 'kr, 'z) eots_lib_scheme \<Rightarrow> ('db, 'kr) LocalEOTSManager \<Rightarrow> bytes \<Rightarrow> string \<Rightarrow> FieldVal \<Rightarrow> bytes \<Rightarrow>
   ModNScalar \<Rightarrow> bool" where
  "lm_signedWith L s pk pass pr msg sg \<longleftrightarrow> (\<exists>key privRand.
     fst (getEOTSPrivKey L pk pass s) = Ok key \<and> ScalarBaseMult_X L privRand = pr \<and>
     eots_Sign L key privRand msg = Ok sg)"

interpretation lm_same: go_preorder lm_same
  by unfold_locales (auto simp: lm_same_def)

lemma lm_store_same [go_rel_intros]: "go_rel (=) m \<Longrightarrow> go_rel lm_same (lm_store m)"
  unfolding lm_store_def by (erule go_rel_zoom) (auto simp: lm_same_def)

lemma lm_keyring_same [go_rel_intros]: "keyring_readonly L \<Longrightarrow> go_rel lm_same (lm_keyring (keyring_Key L n))"
  by (auto simp: go_rel_def lm_keyring_def zoom_go_def lm_same_def keyring_readonly_def split: prod.splits)
     (metis fst_conv snd_conv)

lemma input_Reset_same [go_rel_intros]: "go_rel lm_same k \<Longrightarrow> go_rel lm_same (input_Reset p k)"
  unfolding input_Reset_def by (rule lm_same.rel_upd) (auto simp: lm_same_def)

lemma lm_meter_same [go_rel_intros]: "go_rel lm_same k \<Longrightarrow> go_rel lm_same (lm_meter f k)"
  unfolding lm_meter_def by (rule lm_same.rel_upd) (auto simp: lm_same_def)

lemma eotsPrivKeyFromRecord_same [go_rel_intros]: "go_rel lm_same (eotsPrivKeyFromRecord L k)"
  by (auto simp: eotsPrivKeyFromRecord_def go_rel_def go_defs lm_same_def split: option.splits any_PrivKey.splits)

lemma GetEOTSKeyName_same [go_rel_intros]: "go_rel (=) (GetEOTSKeyName K pk)"
  unfolding GetEOTSKeyName_def by (rule kv_View_same)

lemma getEOTSPrivKey_same [go_rel_intros]: "keyring_readonly L \<Longrightarrow> go_rel lm_same (getEOTSPrivKey L pk pass)"
  unfolding getEOTSPrivKey_def by (intro go_rel_intros)

lemma getRandomnessPair_same [go_rel_intros]:
  "keyring_readonly L \<Longrightarrow> go_rel lm_same (getRandomnessPair L pk cid h pass)"
  unfolding getRandomnessPair_def lm_KeyRecord_def by (intro go_rel_intros)

lemma lm_SignEOTS_same [go_rel_intros]:
  "keyring_readonly L \<Longrightarrow> go_rel lm_same (lm_SignEOTS L pk cid msg h pass)"
  unfolding lm_SignEOTS_def by (intro go_rel_intros)

lemma lm_SignSchnorrSig_same [go_rel_intros]:
  "keyring_readonly L \<Longrightarrow> go_rel lm_same (lm_SignSchnorrSig L pk msg pass)"
  unfolding lm_SignSchnorrSig_def signSchnorrSigFromPrivKey_def by (intro go_rel_intros)

lemma randomness_loop_same:
  "keyring_readonly L \<Longrightarrow> go_rel lm_same (randomness_loop L pk cid h pass i n acc)"
  by (induction n arbitrary: i acc) (auto intro!: go_rel_intros)

lemma lm_CreateRandomnessPairList_same:
  "keyring_readonly L \<Longrightarrow> go_rel lm_same (lm_CreateRandomnessPairList L pk cid h n pass)"
  unfolding lm_CreateRandomnessPairList_def by (intro go_rel_intros randomness_loop_same)

text \<open>
  The results of the key and randomness lookups depend on the keyring and the store only:
  the passphrase reader is reset before it is read, and no metric is ever read.
\<close>

lemma lm_same_cases: "lm_same s t \<Longrightarrow> \<exists>i m. t = s\<lparr>lm_input := i, lm_metrics := m\<rparr>"
  by (cases s, cases t) (auto simp: lm_same_def)

lemma GetEOTSKeyName_input:
  "lm_store (GetEOTSKeyName L pk) (s\<lparr>lm_input := i, lm_metrics := m\<rparr>) =
   apsnd (\<lambda>t. t\<lparr>lm_input := i, lm_metrics := m\<rparr>) (lm_store (GetEOTSKeyName L pk) s)"
  by (auto simp: lm_store_def zoom_go_def split: prod.splits)

lemma lm_store_snd: "go_rel (=) m \<Longrightarrow> snd (lm_store m s) = s"
  by (cases "m (lm_es s)") (auto simp: lm_store_def zoom_go_def dest!: go_relD)

lemma getEOTSPrivKey_input:
  "fst (getEOTSPrivKey L pk pass (s\<lparr>lm_input := i, lm_metrics := m\<rparr>)) = fst (getEOTSPrivKey L pk pass s)"
proof -
  obtain r t where run: "lm_store (GetEOTSKeyName L pk) s = (r, t)" by (metis surj_pair)
  with lm_store_snd [OF GetEOTSKeyName_same, of L pk s] have "t = s" by simp
  with run have run: "lm_store (GetEOTSKeyName L pk) s = (r, s)" by simp
  have run_i: "lm_store (GetEOTSKeyName L pk) (s\<lparr>lm_input := i, lm_metrics := m\<rparr>) = (r, s\<lparr>lm_input := i, lm_metrics := m\<rparr>)"
    using run by (simp add: GetEOTSKeyName_input)
  show ?thesis
    by (cases r; cases "keyring_Key L (case r of Ok n \<Rightarrow> n) (lm_kr s, pass)")
      (auto simp: getEOTSPrivKey_def handle_go_def run run_i input_Reset_def upd_go_def fail_def lm_keyring_def zoom_go_def
        eotsPrivKeyFromRecord_def crash_def ret_def split: res.splits option.splits any_PrivKey.splits)
qed

lemma getEOTSPrivKey_view: "lm_same s t \<Longrightarrow> fst (getEOTSPrivKey L pk pass t) = fst (getEOTSPrivKey L pk pass s)"
  by (auto dest!: lm_same_cases simp: getEOTSPrivKey_input)

lemma getRandomnessPair_key:
  "fst (getRandomnessPair L pk cid h pass s) = (case fst (getEOTSPrivKey L pk pass s) of
      Ok key \<Rightarrow> Ok (GenerateRandomness L key cid h)
    | Err e \<Rightarrow> Err e | Crash c \<Rightarrow> Crash c | Running \<Rightarrow> Running)"
proof -
  obtain r t where run: "lm_store (GetEOTSKeyName L pk) s = (r, t)" by (metis surj_pair)
  with lm_store_snd [OF GetEOTSKeyName_same, of L pk s] have "t = s" by simp
  obtain r' t' where run': "getEOTSPrivKey L pk pass s = (r', t')" by (metis surj_pair)
  have "r' = Err e" if "r = Err e" for e
    using run' run that by (simp add: getEOTSPrivKey_def go_defs)
  moreover have "r' = Crash e" if "r = Crash e" for e
    using run' run that by (simp add: getEOTSPrivKey_def go_defs)
  moreover have "r' = Running" if "r = Running"
    using run' run that by (simp add: getEOTSPrivKey_def go_defs)
  ultimately show ?thesis
    using run run' \<open>t = s\<close>
    by (cases r; cases r') (simp_all add: getRandomnessPair_def lm_KeyRecord_def handle_go_def ret_def fail_def)
qed

lemma lm_pubRandAt_key:
  "lm_pubRandAt L s pk cid h pass = (case fst (getEOTSPrivKey L pk pass s) of
      Ok key \<Rightarrow> Some (snd (GenerateRandomness L key cid h)) | _ \<Rightarrow> None)"
  by (auto simp: lm_pubRandAt_def getRandomnessPair_key split: res.splits prod.splits)

lemma lm_same_pubRandAt: "lm_same s t \<Longrightarrow> lm_pubRandAt L t = lm_pubRandAt L s"
  by (simp add: fun_eq_iff lm_pubRandAt_key getEOTSPrivKey_view)

lemma lm_same_signedWith: "lm_same s t \<Longrightarrow> lm_signedWith L t = lm_signedWith L s"
  by (simp add: fun_eq_iff lm_signedWith_def getEOTSPrivKey_view)

lemma randomness_loop_nth:
  assumes ro: "keyring_readonly L" and "randomness_loop L pk cid h pass i n acc s = (Ok prs, t)"
  shows "\<exists>us. prs = acc @ us \<and> length us = n \<and>
    (\<forall>j < n. lm_pubRandAt L s pk cid (h + of_nat (i + j)) pass = Some (us ! j))"
  using assms(2)
proof (induction n arbitrary: i acc s)
  case 0
  then show ?case by (simp add: ret_def)
next
  case (Suc n)
  from Suc.prems obtain x pr s' where
    pair: "getRandomnessPair L pk cid (h + of_nat i) pass s = (Ok (x, pr), s')"
    and rest: "randomness_loop L pk cid h pass (Suc i) n (acc @ [pr]) s' = (Ok prs, t)"
    unfolding randomness_loop.simps by (elim try_go_OkE) auto
  have same: "lm_pubRandAt L s' = lm_pubRandAt L s"
    using go_relD [OF getRandomnessPair_same [OF ro] pair] by (rule lm_same_pubRandAt)
  from Suc.IH [OF rest] obtain us where us: "prs = (acc @ [pr]) @ us" "length us = n"
    "\<forall>j < n. lm_pubRandAt L s pk cid (h + of_nat (Suc i + j)) pass = Some (us ! j)"
    unfolding same by blast
  have "lm_pubRandAt L s pk cid (h + of_nat (i + j)) pass = Some ((pr # us) ! j)" if "j < Suc n" for j
    using that us(3) pair by (cases j) (auto simp: lm_pubRandAt_def)
  with us show ?case by (intro exI [of _ "pr # us"]) simp
qed

lemma lm_SignEOTS_Ok:
  assumes ro: "keyring_readonly L" and run: "lm_SignEOTS L pk cid msg h pass s = (Ok sg, t)"
  shows "\<exists>pr. lm_pubRandAt L s pk cid h pass = Some pr \<and> lm_signedWith L s pk pass pr msg sg"
proof -
  from run obtain x pr s' key s'' where
    pair: "getRandomnessPair L pk cid h pass s = (Ok (x, pr), s')"
    and key: "getEOTSPrivKey L pk pass s' = (Ok key, s'')"
    and sg: "eots_Sign L key x msg = Ok sg"
    unfolding lm_SignEOTS_def by (elim try_go_OkE) (auto simp: of_res_def lm_meter_apply elim!: try_go_OkE)
  have "lm_same s s'" using go_relD [OF getRandomnessPair_same [OF ro] pair] .
  with key have "fst (getEOTSPrivKey L pk pass s) = Ok key" using getEOTSPrivKey_view by (metis fst_conv)
  moreover from this pair have "(x, pr) = GenerateRandomness L key cid h"
    using getRandomnessPair_key [of L pk cid h pass s] by simp
  then have "ScalarBaseMult_X L x = pr" by (simp add: GenerateRandomness_def Let_def)
  ultimately show ?thesis
    using pair sg by (auto simp: lm_pubRandAt_def lm_signedWith_def)
qed

interpretation local_em: eots_contract "lm_CreateRandomnessPairList L" "lm_SignEOTS L"
    "lm_pubRandAt L" "lm_signedWith L" "\<lambda>s. keyring_readonly L"
  for L :: "('db, 'kr, 'z) eots_lib_scheme"
proof unfold_locales
  fix w w' :: "('db, 'kr) LocalEOTSManager" and pk cid h n pass prs msg sg
    and r :: "FieldVal list res" and r' :: "ModNScalar res"
  assume ro: "keyring_readonly L"
  { assume "lm_CreateRandomnessPairList L pk cid h n pass w = (Ok prs, w')"
    then obtain t where "randomness_loop L pk cid h pass 0 (unat n) [] w = (Ok prs, t)"
      unfolding lm_CreateRandomnessPairList_def by (auto simp: lm_meter_apply ret_def elim!: try_go_OkE)
    from randomness_loop_nth [OF ro this] show "length prs = unat n \<and>
      (\<forall>i < unat n. lm_pubRandAt L w pk cid (h + of_nat i) pass = Some (prs ! i))" by auto }
  { assume "lm_CreateRandomnessPairList L pk cid h n pass w = (r, w')"
    then have "lm_same w w'" by (rule go_relD [OF lm_CreateRandomnessPairList_same [OF ro]])
    with ro show "keyring_readonly L \<and> lm_pubRandAt L w' = lm_pubRandAt L w \<and>
      lm_signedWith L w' = lm_signedWith L w" by (simp add: lm_same_pubRandAt lm_same_signedWith) }
  { assume "lm_SignEOTS L pk cid msg h pass w = (Ok sg, w')"
    then show "\<exists>pr. lm_pubRandAt L w pk cid h pass = Some pr \<and> lm_signedWith L w pk pass pr msg sg"
      by (rule lm_SignEOTS_Ok [OF ro]) }
  { assume "lm_SignEOTS L pk cid msg h pass w = (r', w')"
    then have "lm_same w w'" by (rule go_relD [OF lm_SignEOTS_same [OF ro]])
    with ro show "keyring_readonly L \<and> lm_pubRandAt L w' = lm_pubRandAt L w \<and>
      lm_signedWith L w' = lm_signedWith L w" by (simp add: lm_same_pubRandAt lm_same_signedWith) }
qed

end
