(* ===== verification/Settings.thy ===== *)
theory Settings
  imports Types
begin

text \<open>
  Paths and configuration: \<^verbatim>\<open>util/path.go\<close>, \<^verbatim>\<open>metrics/config.go\<close>, and the configuration
  of both daemons (\<^verbatim>\<open>finality-provider/config\<close>, \<^verbatim>\<open>eotsmanager/config\<close>) with its defaults,
  validation and loading. The file system, the environment, the resolver of addresses and
  the parser of ini files are parameters; \<^verbatim>\<open>filepath.Clean\<close> and \<^verbatim>\<open>filepath.Join\<close> are those
  of Unix.
\<close>

section \<open>Paths\<close>

definition split_path :: "string \<Rightarrow> string list" where
  "split_path p = foldr (\<lambda>c acc. if c = CHR ''/'' then [] # acc else (c # hd acc) # tl acc) p [[]]"

text \<open>The kept components, the last one first.\<close>

definition clean_step :: "bool \<Rightarrow> string \<Rightarrow> string list \<Rightarrow> string list" where
  "clean_step rooted c st =
     (if c = '''' \<or> c = ''.'' then st
      else if c = ''..'' then
        (case st of
           [] \<Rightarrow> if rooted then [] else [c]
         | t # st' \<Rightarrow> if t = ''..'' then c # st else st')
      else c # st)"

definition filepath_Clean :: "string \<Rightarrow> string" where
  "filepath_Clean p =
     (if p = '''' then ''.''
      else let rooted = (hd p = CHR ''/'');
               comps = rev (fold (clean_step rooted) (split_path p) []);
               body = (case comps of [] \<Rightarrow> '''' | c # cs \<Rightarrow> c @ concat (map (\<lambda>x. ''/'' @ x) cs))
           in if rooted then ''/'' @ body else if body = '''' then ''.'' else body)"

definition filepath_Join :: "string \<Rightarrow> string \<Rightarrow> string" where
  "filepath_Join a b =
     (if a \<noteq> '''' then filepath_Clean (a @ ''/'' @ b) else if b \<noteq> '''' then filepath_Clean b else '''')"

definition filepath_Dir :: "string \<Rightarrow> string" where
  "filepath_Dir path = filepath_Clean (rev (dropWhile (\<lambda>c. c \<noteq> CHR ''/'') (rev path)))"

text \<open>The outcomes of \<^verbatim>\<open>os.Stat\<close> and \<^verbatim>\<open>os.MkdirAll\<close> that the code tells apart.\<close>

datatype stat_result = StatOk | StatNotExist | StatError

datatype mkdir_result =
    MkdirOk
  | MkdirError go_error
  | MkdirPathExists string go_error

record 'fs os_lib =
  os_Stat :: "string \<Rightarrow> 'fs \<Rightarrow> stat_result"
  os_MkdirAll :: "string \<Rightarrow> 'fs \<Rightarrow> mkdir_result \<times> 'fs"
  os_Readlink :: "string \<Rightarrow> 'fs \<Rightarrow> string res"
  user_Current_HomeDir :: "string res"
  os_Getenv :: "string \<Rightarrow> string"
  os_ExpandEnv :: "string \<Rightarrow> string"
  os_OpenFile :: "string \<Rightarrow> ('fs, unit) go"
  filepath_Abs :: "string \<Rightarrow> string res"
  btcutil_AppDataDir :: "string \<Rightarrow> string"
  net_ResolveTCPAddr :: "string \<Rightarrow> unit res"
  net_ParseIP :: "string \<Rightarrow> bytes option"
  DefaultBoltAutoCompactMinAge :: nat
  DefaultDBTimeout :: nat
  BackendTest :: string

definition FileExists :: "('fs, 'z) os_lib_scheme \<Rightarrow> string \<Rightarrow> 'fs \<Rightarrow> bool" where
  "FileExists F name fs = (case os_Stat F name fs of StatNotExist \<Rightarrow> False | _ \<Rightarrow> True)"

definition MakeDirectory :: "('fs, 'z) os_lib_scheme \<Rightarrow> string \<Rightarrow> ('fs, unit) go" where
  "MakeDirectory F dir = (\<lambda>fs.
     let failed = (\<lambda>e. WrapErr (''failed to create dir '' @ dir @ '': '') e)
     in case os_MkdirAll F dir fs of
          (MkdirOk, fs') \<Rightarrow> (Ok (), fs')
        | (MkdirError e, fs') \<Rightarrow> (Err (failed e), fs')
        | (MkdirPathExists path e, fs') \<Rightarrow> (case os_Readlink F path fs' of
             Ok link \<Rightarrow> (Err (failed (NewErr (''is symlink '' @ path @ '' -> '' @ link @ '' mounted?''))), fs')
           | _ \<Rightarrow> (Err (failed e), fs')))"

text \<open>The first tilde of a path that starts with one is its first character.\<close>

definition CleanAndExpandPath :: "('fs, 'z) os_lib_scheme \<Rightarrow> string \<Rightarrow> string" where
  "CleanAndExpandPath F path =
     (if path = '''' then ''''
      else let path' = (if hd path = CHR ''~''
             then (case user_Current_HomeDir F of Ok h \<Rightarrow> h | _ \<Rightarrow> os_Getenv F ''HOME'') @ tl path
             else path)
           in filepath_Clean (os_ExpandEnv F path'))"

section \<open>Logging\<close>

text \<open>
  The root logger (\<^verbatim>\<open>log/log.go\<close>) is its encoder and its level; \<^verbatim>\<open>os.OpenFile\<close> is called to create or append.
\<close>

datatype zapcore_Encoder = JSONEncoder | ConsoleEncoder | LogfmtEncoder

datatype zapcore_Level = PanicLevel | FatalLevel | ErrorLevel | WarnLevel | InfoLevel | DebugLevel

definition strings_ToLower :: "string \<Rightarrow> string" where
  "strings_ToLower s = map ascii_lower s"

definition NewRootLogger :: "string \<Rightarrow> string \<Rightarrow> (zapcore_Encoder \<times> zapcore_Level) res" where
  "NewRootLogger format level =
     (let enc = (if format = ''json'' then Some JSONEncoder
            else if format = ''auto'' \<or> format = ''console'' then Some ConsoleEncoder
            else if format = ''logfmt'' then Some LogfmtEncoder else None);
          l = strings_ToLower level;
          lvl = (if l = ''panic'' then Some PanicLevel
            else if l = ''fatal'' then Some FatalLevel
            else if l = ''error'' then Some ErrorLevel
            else if l = ''warn'' \<or> l = ''warning'' then Some WarnLevel
            else if l = ''info'' then Some InfoLevel
            else if l = ''debug'' then Some DebugLevel else None)
      in case enc of
           None \<Rightarrow> Err (NewErr (''unrecognized log format '' @ [CHR 0x22] @ format @ [CHR 0x22]))
         | Some e \<Rightarrow> (case lvl of
               None \<Rightarrow> Err (NewErr (''unsupported log level: '' @ level))
             | Some v \<Rightarrow> Ok (e, v)))"

definition NewRootLoggerWithFile ::
  "('fs, 'z) os_lib_scheme \<Rightarrow> string \<Rightarrow> string \<Rightarrow> ('fs, zapcore_Encoder \<times> zapcore_Level) go" where
  "NewRootLoggerWithFile F logFile level =
     try_go (MakeDirectory F (filepath_Dir logFile)) (\<lambda>_.
     try_go (os_OpenFile F logFile) (\<lambda>_.
     of_res (NewRootLogger ''console'' level)))"

section \<open>Metrics and databases\<close>

definition fmt_int :: "int \<Rightarrow> string" where
  "fmt_int i = (if i < 0 then ''-'' @ fmt_nat (nat (- i)) else fmt_nat (nat i))"

text \<open>The update interval in milliseconds.\<close>

record metrics_Config =
  mc_Host :: string
  mc_Port :: int
  mc_UpdateInterval :: nat

definition metrics_Validate :: "('fs, 'z) os_lib_scheme \<Rightarrow> metrics_Config \<Rightarrow> unit res" where
  "metrics_Validate F cfg =
     (if mc_Port cfg < 0 \<or> mc_Port cfg > 65535 then Err (NewErr (''invalid port: '' @ fmt_int (mc_Port cfg)))
      else case net_ParseIP F (mc_Host cfg) of
        None \<Rightarrow> Err (NewErr (''invalid host: '' @ mc_Host cfg))
      | Some ip \<Rightarrow> Ok ())"

definition metrics_Address :: "('fs, 'z) os_lib_scheme \<Rightarrow> metrics_Config \<Rightarrow> string res" where
  "metrics_Address F cfg = (case metrics_Validate F cfg of
      Ok _ \<Rightarrow> Ok (mc_Host cfg @ '':'' @ fmt_int (mc_Port cfg))
    | Err e \<Rightarrow> Err e | Crash c \<Rightarrow> Crash c | Running \<Rightarrow> Running)"

definition DefaultFpConfig :: metrics_Config where
  "DefaultFpConfig = \<lparr>mc_Host = ''127.0.0.1'', mc_Port = 2112, mc_UpdateInterval = 100\<rparr>"

definition DefaultEotsConfig :: metrics_Config where
  "DefaultEotsConfig = \<lparr>mc_Host = ''127.0.0.1'', mc_Port = 2113, mc_UpdateInterval = 100\<rparr>"

text \<open>Both daemons have the same database configuration; the fields of the backend's are the same.\<close>

record DBConfig =
  DBPath :: string
  DBFileName :: string
  NoFreelistSync :: bool
  AutoCompact :: bool
  AutoCompactMinAge :: nat
  DBTimeout :: nat

record BoltBackendConfig =
  bolt_DBPath :: string
  bolt_DBFileName :: string
  bolt_NoFreelistSync :: bool
  bolt_AutoCompact :: bool
  bolt_AutoCompactMinAge :: nat
  bolt_DBTimeout :: nat

definition DBConfigToBoltBackendConfig :: "DBConfig \<Rightarrow> BoltBackendConfig" where
  "DBConfigToBoltBackendConfig db =
     \<lparr>bolt_DBPath = DBPath db, bolt_DBFileName = DBFileName db, bolt_NoFreelistSync = NoFreelistSync db,
      bolt_AutoCompact = AutoCompact db, bolt_AutoCompactMinAge = AutoCompactMinAge db,
      bolt_DBTimeout = DBTimeout db\<rparr>"

section \<open>The finality provider daemon\<close>

record BBNConfig =
  bbn_Key :: string
  bbn_ChainID :: string
  bbn_RPCAddr :: string
  bbn_GRPCAddr :: string
  bbn_AccountPrefix :: string
  bbn_KeyringBackend :: string
  bbn_GasAdjustment :: u64
  bbn_GasPrices :: string
  bbn_KeyDirectory :: string
  bbn_Debug :: bool
  bbn_Timeout :: nat
  bbn_BlockTimeout :: nat
  bbn_OutputFormat :: string
  bbn_SignModeStr :: string

text \<open>The configuration of the Babylon client library has the submitter's address in addition.\<close>

record BabylonConfig = BBNConfig +
  bbn_SubmitterAddress :: string

datatype chaincfg_Params = MainNetParams | TestNet3Params | RegressionNetParams | SimNetParams | SigNetParams

record FpdConfig = Config +
  cfg_LogLevel :: string
  cfg_ChainName :: string
  cfg_EOTSManagerAddress :: string
  cfg_BitcoinNetwork :: string
  cfg_BTCNetParams :: chaincfg_Params
  cfg_DatabaseConfig :: DBConfig
  cfg_BabylonConfig :: BBNConfig
  cfg_RpcListener :: string
  cfg_Metrics :: "metrics_Config option"

record 'fs fpd_files = "'fs os_lib" +
  ini_ParseFile :: "string \<Rightarrow> 'fs \<Rightarrow> FpdConfig res"
  ini_WriteFile :: "string \<Rightarrow> FpdConfig \<Rightarrow> ('fs, unit) go"
  DefaultBabylonConfig :: BabylonConfig

definition fpd_ConfigFile :: "string \<Rightarrow> string" where
  "fpd_ConfigFile homePath = filepath_Join homePath ''fpd.conf''"

definition fpd_LogDir :: "string \<Rightarrow> string" where
  "fpd_LogDir homePath = filepath_Join homePath ''logs''"

definition fpd_LogFile :: "string \<Rightarrow> string" where
  "fpd_LogFile homePath = filepath_Join (fpd_LogDir homePath) ''fpd.log''"

definition fpd_DataDir :: "string \<Rightarrow> string" where
  "fpd_DataDir homePath = filepath_Join homePath ''data''"

definition fpd_DefaultDBConfigWithHomePath :: "('fs, 'z) os_lib_scheme \<Rightarrow> string \<Rightarrow> DBConfig" where
  "fpd_DefaultDBConfigWithHomePath F homePath =
     \<lparr>DBPath = fpd_DataDir homePath, DBFileName = ''finality-provider.db'', NoFreelistSync = True,
      AutoCompact = False, AutoCompactMinAge = DefaultBoltAutoCompactMinAge F, DBTimeout = DefaultDBTimeout F\<rparr>"

text \<open>A float64 is its bits, here those of 1.5; the block timeout is in seconds.\<close>

definition DefaultBBNConfig :: "('fs, 'z) fpd_files_scheme \<Rightarrow> BBNConfig" where
  "DefaultBBNConfig F = (let dc = DefaultBabylonConfig F in
     \<lparr>bbn_Key = bbn_Key dc, bbn_ChainID = bbn_ChainID dc, bbn_RPCAddr = bbn_RPCAddr dc, bbn_GRPCAddr = bbn_GRPCAddr dc,
      bbn_AccountPrefix = bbn_AccountPrefix dc, bbn_KeyringBackend = bbn_KeyringBackend dc,
      bbn_GasAdjustment = 0x3FF8000000000000, bbn_GasPrices = ''0.002ubbn'', bbn_KeyDirectory = '''', bbn_Debug = bbn_Debug dc,
      bbn_Timeout = bbn_Timeout dc, bbn_BlockTimeout = 60, bbn_OutputFormat = bbn_OutputFormat dc,
      bbn_SignModeStr = bbn_SignModeStr dc\<rparr>)"

definition BBNConfigToBabylonConfig :: "BBNConfig \<Rightarrow> BabylonConfig" where
  "BBNConfigToBabylonConfig bc =
     \<lparr>bbn_Key = bbn_Key bc, bbn_ChainID = bbn_ChainID bc, bbn_RPCAddr = bbn_RPCAddr bc, bbn_GRPCAddr = '''',
      bbn_AccountPrefix = bbn_AccountPrefix bc, bbn_KeyringBackend = bbn_KeyringBackend bc,
      bbn_GasAdjustment = bbn_GasAdjustment bc, bbn_GasPrices = bbn_GasPrices bc,
      bbn_KeyDirectory = bbn_KeyDirectory bc, bbn_Debug = bbn_Debug bc, bbn_Timeout = bbn_Timeout bc,
      bbn_BlockTimeout = bbn_BlockTimeout bc, bbn_OutputFormat = bbn_OutputFormat bc,
      bbn_SignModeStr = bbn_SignModeStr bc, bbn_SubmitterAddress = ''''\<rparr>"

definition NetParamsBTC :: "string \<Rightarrow> chaincfg_Params res" where
  "NetParamsBTC btcNet =
     (if btcNet = ''mainnet'' then Ok MainNetParams
      else if btcNet = ''testnet'' then Ok TestNet3Params
      else if btcNet = ''regtest'' then Ok RegressionNetParams
      else if btcNet = ''simnet'' then Ok SimNetParams
      else if btcNet = ''signet'' then Ok SigNetParams
      else Err (NewErr (''invalid network: '' @ btcNet)))"

text \<open>\<^verbatim>\<open>Validate\<close> of the configuration, which also sets the network parameters.\<close>

definition fpd_Validate :: "('fs, 'z) os_lib_scheme \<Rightarrow> FpdConfig \<Rightarrow> FpdConfig res" where
  "fpd_Validate F cfg = fst (
     if cfg_EOTSManagerAddress cfg = '''' then fail (NewErr ''EOTS manager address not specified'') ()
     else try_go (of_res (NetParamsBTC (cfg_BitcoinNetwork cfg))) (\<lambda>btcNetConfig.
       handle_go (of_res (net_ResolveTCPAddr F (cfg_RpcListener cfg)))
         (\<lambda>e. fail (WrapErr (''invalid RPC listener address '' @ cfg_RpcListener cfg @ '', '') e)) (\<lambda>_.
       case cfg_Metrics cfg of
         None \<Rightarrow> fail (NewErr ''empty metrics config'')
       | Some m \<Rightarrow> handle_go (of_res (metrics_Validate F m)) (\<lambda>_. fail (NewErr ''invalid metrics config'')) (\<lambda>_.
           ret (cfg\<lparr>cfg_BTCNetParams := btcNetConfig\<rparr>)))) ())"

definition fpd_DefaultConfigWithHome :: "('fs, 'z) fpd_files_scheme \<Rightarrow> string \<Rightarrow> FpdConfig res" where
  "fpd_DefaultConfigWithHome F homePath =
     (let bbnCfg = (DefaultBBNConfig F)\<lparr>bbn_Key := ''finality-provider'', bbn_KeyDirectory := homePath\<rparr>;
          cfg = \<lparr>NumPubRand = 70000, NumPubRandMax = 100000, MinRandHeightGap = 35000, StatusUpdateInterval = 20,
            RandomnessCommitInterval = 30, SubmissionRetryInterval = 1, MaxSubmissionRetries = 20,
            FastSyncInterval = 10, FastSyncLimit = 10, FastSyncGap = 3, SyncFpStatusInterval = 30,
            PollerConfig = DefaultChainPollerConfig, cfg_LogLevel = ''info'', cfg_ChainName = ''babylon'',
            cfg_EOTSManagerAddress = ''127.0.0.1:12582'', cfg_BitcoinNetwork = ''signet'',
            cfg_BTCNetParams = SigNetParams, cfg_DatabaseConfig = fpd_DefaultDBConfigWithHomePath F homePath,
            cfg_BabylonConfig = bbnCfg, cfg_RpcListener = ''127.0.0.1:12581'', cfg_Metrics = Some DefaultFpConfig\<rparr>
      in case fpd_Validate F cfg of
           Ok cfg' \<Rightarrow> Ok cfg' | Err e \<Rightarrow> Crash (err_msg e) | Crash c \<Rightarrow> Crash c | Running \<Rightarrow> Running)"

definition fpd_DefaultConfig :: "('fs, 'z) fpd_files_scheme \<Rightarrow> FpdConfig res" where
  "fpd_DefaultConfig F = fpd_DefaultConfigWithHome F (btcutil_AppDataDir F ''fpd'')"

definition fpd_LoadConfig :: "('fs, 'z) fpd_files_scheme \<Rightarrow> string \<Rightarrow> 'fs \<Rightarrow> FpdConfig res" where
  "fpd_LoadConfig F homePath fs =
     (let cfgFile = fpd_ConfigFile homePath
      in if \<not> FileExists F cfgFile fs
         then Err (NewErr (''specified config file does not exist in '' @ cfgFile))
         else (case ini_ParseFile F cfgFile fs of
             Ok cfg \<Rightarrow> fpd_Validate F cfg
           | Err e \<Rightarrow> Err e | Crash c \<Rightarrow> Crash c | Running \<Rightarrow> Running))"

section \<open>The EOTS daemon\<close>

record EotsdConfig =
  ec_LogLevel :: string
  ec_KeyringBackend :: string
  ec_RpcListener :: string
  ec_Metrics :: "metrics_Config option"
  ec_DatabaseConfig :: DBConfig

record 'fs eotsd_files = "'fs os_lib" +
  eini_ParseFile :: "string \<Rightarrow> 'fs \<Rightarrow> EotsdConfig res"
  eini_WriteFile :: "string \<Rightarrow> EotsdConfig \<Rightarrow> ('fs, unit) go"

definition eotsd_ConfigFile :: "string \<Rightarrow> string" where
  "eotsd_ConfigFile homePath = filepath_Join homePath ''eotsd.conf''"

definition eotsd_LogDir :: "string \<Rightarrow> string" where
  "eotsd_LogDir homePath = filepath_Join homePath ''logs''"

definition eotsd_LogFile :: "string \<Rightarrow> string" where
  "eotsd_LogFile homePath = filepath_Join (eotsd_LogDir homePath) ''eotsd.log''"

definition eotsd_DataDir :: "string \<Rightarrow> string" where
  "eotsd_DataDir homePath = filepath_Join homePath ''data''"

definition eotsd_DefaultDBConfigWithHomePath :: "('fs, 'z) os_lib_scheme \<Rightarrow> string \<Rightarrow> DBConfig" where
  "eotsd_DefaultDBConfigWithHomePath F homePath =
     \<lparr>DBPath = eotsd_DataDir homePath, DBFileName = ''eots.db'', NoFreelistSync = True,
      AutoCompact = False, AutoCompactMinAge = DefaultBoltAutoCompactMinAge F, DBTimeout = DefaultDBTimeout F\<rparr>"

definition eotsd_Validate :: "('fs, 'z) os_lib_scheme \<Rightarrow> EotsdConfig \<Rightarrow> unit res" where
  "eotsd_Validate F cfg = fst (
     handle_go (of_res (net_ResolveTCPAddr F (ec_RpcListener cfg)))
       (\<lambda>e. fail (WrapErr (''invalid RPC listener address '' @ ec_RpcListener cfg @ '', '') e)) (\<lambda>_.
     if ec_KeyringBackend cfg = '''' then fail (NewErr ''the keyring backend should not be empty'')
     else case ec_Metrics cfg of
       None \<Rightarrow> fail (NewErr ''empty metrics config'')
     | Some m \<Rightarrow> handle_go (of_res (metrics_Validate F m)) (\<lambda>_. fail (NewErr ''invalid metrics config'')) ret) ())"

definition eotsd_DefaultConfigWithHomePath :: "('fs, 'z) os_lib_scheme \<Rightarrow> string \<Rightarrow> EotsdConfig res" where
  "eotsd_DefaultConfigWithHomePath F homePath =
     (let cfg = \<lparr>ec_LogLevel = ''debug'', ec_KeyringBackend = BackendTest F, ec_RpcListener = ''127.0.0.1:12582'',
            ec_Metrics = Some DefaultEotsConfig, ec_DatabaseConfig = eotsd_DefaultDBConfigWithHomePath F homePath\<rparr>
      in case eotsd_Validate F cfg of
           Ok _ \<Rightarrow> Ok cfg | Err e \<Rightarrow> Crash (err_msg e) | Crash c \<Rightarrow> Crash c | Running \<Rightarrow> Running)"

definition eotsd_DefaultConfig :: "('fs, 'z) os_lib_scheme \<Rightarrow> EotsdConfig res" where
  "eotsd_DefaultConfig F = eotsd_DefaultConfigWithHomePath F (btcutil_AppDataDir F ''eotsd'')"

definition eotsd_LoadConfig :: "('fs, 'z) eotsd_files_scheme \<Rightarrow> string \<Rightarrow> 'fs \<Rightarrow> EotsdConfig res" where
  "eotsd_LoadConfig F homePath fs =
     (let cfgFile = eotsd_ConfigFile homePath
      in if \<not> FileExists F cfgFile fs
         then Err (NewErr (''specified config file does not exist in '' @ cfgFile))
         else (case eini_ParseFile F cfgFile fs of
             Ok cfg \<Rightarrow> (case eotsd_Validate F cfg of
                 Ok _ \<Rightarrow> Ok cfg | Err e \<Rightarrow> Err e | Crash c \<Rightarrow> Crash c | Running \<Rightarrow> Running)
           | Err e \<Rightarrow> Err e | Crash c \<Rightarrow> Crash c | Running \<Rightarrow> Running))"

section \<open>Valid configurations\<close>

definition valid_metrics :: "('fs, 'z) os_lib_scheme \<Rightarrow> metrics_Config option \<Rightarrow> bool" where
  "valid_metrics F m \<longleftrightarrow> (\<exists>c. m = Some c \<and> 0 \<le> mc_Port c \<and> mc_Port c \<le> 65535 \<and> net_ParseIP F (mc_Host c) \<noteq> None)"

lemma metrics_Validate_Ok:
  "metrics_Validate F m = Ok u \<longleftrightarrow> 0 \<le> mc_Port m \<and> mc_Port m \<le> 65535 \<and> net_ParseIP F (mc_Host m) \<noteq> None"
  by (auto simp: metrics_Validate_def split: option.splits)

definition valid_fpd :: "('fs, 'z) os_lib_scheme \<Rightarrow> FpdConfig \<Rightarrow> bool" where
  "valid_fpd F cfg \<longleftrightarrow> cfg_EOTSManagerAddress cfg \<noteq> '''' \<and>
     NetParamsBTC (cfg_BitcoinNetwork cfg) = Ok (cfg_BTCNetParams cfg) \<and>
     net_ResolveTCPAddr F (cfg_RpcListener cfg) = Ok () \<and> valid_metrics F (cfg_Metrics cfg)"

lemma fpd_Validate_Ok:
  "fpd_Validate F cfg = Ok cfg' \<longleftrightarrow> (\<exists>p. NetParamsBTC (cfg_BitcoinNetwork cfg) = Ok p \<and>
     cfg' = cfg\<lparr>cfg_BTCNetParams := p\<rparr> \<and> valid_fpd F cfg')"
  by (auto simp: fpd_Validate_def valid_fpd_def valid_metrics_def metrics_Validate_def go_defs
      split: res.splits option.splits if_splits)

definition valid_eotsd :: "('fs, 'z) os_lib_scheme \<Rightarrow> EotsdConfig \<Rightarrow> bool" where
  "valid_eotsd F cfg \<longleftrightarrow> net_ResolveTCPAddr F (ec_RpcListener cfg) = Ok () \<and> ec_KeyringBackend cfg \<noteq> '''' \<and>
     valid_metrics F (ec_Metrics cfg)"

lemma eotsd_Validate_Ok: "eotsd_Validate F cfg = Ok u \<longleftrightarrow> valid_eotsd F cfg"
  by (auto simp: eotsd_Validate_def valid_eotsd_def valid_metrics_def metrics_Validate_def go_defs
      split: res.splits option.splits if_splits)

lemma fpd_LoadConfig_Ok:
  "fpd_LoadConfig F h fs = Ok cfg \<Longrightarrow> FileExists F (fpd_ConfigFile h) fs \<and> valid_fpd F cfg"
  by (auto simp: fpd_LoadConfig_def Let_def fpd_Validate_Ok split: if_splits res.splits)

lemma eotsd_LoadConfig_Ok:
  "eotsd_LoadConfig F h fs = Ok cfg \<Longrightarrow> FileExists F (eotsd_ConfigFile h) fs \<and> valid_eotsd F cfg"
  by (auto simp: eotsd_LoadConfig_def Let_def eotsd_Validate_Ok split: if_splits res.splits)

end
