(* ===== verification/ClientController.thy ===== *)
theory ClientController
  imports EotsManager Settings
begin

text \<open>
  The consumer chain as the finality provider sees it: the interface \<^verbatim>\<open>ClientController\<close>
  (\<^verbatim>\<open>clientcontroller/interface.go\<close>) and its implementation for Babylon
  (\<^verbatim>\<open>clientcontroller/babylon.go\<close>) over the Babylon client, a parameter. The lemmas: a
  queried block has the height asked for; a range query asks for no more blocks than the
  limit and the range allow; a batch of signatures becomes one message per block in order;
  an edit keeps the fields that are left empty. The locales \<open>block_source\<close> and
  \<open>range_source\<close> state what the poller and the fast sync rely on.
\<close>

section \<open>Messages, queries, the interface\<close>

text \<open>
  The errors of Babylon's modules that the controller names when it sends a message, and
  the messages it sends.
\<close>

datatype sdk_Error =
    sdkErrInvalidPubRand | sdkErrTooFewPubRand | sdkErrNoPubRandYet | sdkErrFpNotFound
  | sdkErrInvalidFinalitySig | sdkErrPubRandNotFound | sdkErrFpAlreadySlashed | sdkErrFpNotJailed

definition emptyErrs :: "sdk_Error list" where
  "emptyErrs = []"

record MsgAddFinalitySig =
  afs_Signer :: string
  afs_FpBtcPk :: bytes
  afs_BlockHeight :: u64
  afs_PubRand :: bytes
  afs_Proof :: bytes
  afs_BlockAppHash :: bytes
  afs_FinalitySig :: bytes

record MsgEditFinalityProvider =
  efp_Addr :: string
  efp_BtcPk :: bytes
  efp_Description :: Description
  efp_Commission :: LegacyDec

text \<open>The transactions and signatures of a delegation are bytes; an inclusion proof is the key of the transaction with its proof.\<close>

record MsgCreateBTCDelegation =
  cbd_StakerAddr :: string
  cbd_Pop :: bytes
  cbd_BtcPk :: bytes
  cbd_FpBtcPkList :: "bytes list"
  cbd_StakingTime :: u32
  cbd_StakingValue :: u64
  cbd_StakingTx :: bytes
  cbd_StakingTxInclusionProof :: "bytes \<times> bytes"
  cbd_SlashingTx :: bytes
  cbd_DelegatorSlashingSig :: bytes
  cbd_UnbondingTx :: bytes
  cbd_UnbondingTime :: u32
  cbd_UnbondingValue :: u64
  cbd_UnbondingSlashingTx :: bytes
  cbd_DelegatorUnbondingSlashingSig :: bytes

record TransactionInfo =
  ti_Key :: bytes
  ti_Transaction :: bytes
  ti_Proof :: bytes

datatype sdk_Msg =
    MsgCreateFinalityProvider (cfp_Addr: string) (cfp_BtcPk: bytes) (cfp_Pop: bytes)
      (cfp_Commission: LegacyDec) (cfp_Description: Description)
  | MsgCommitPubRandList (cpr_Signer: string) (cpr_FpBtcPk: bytes) (cpr_StartHeight: u64)
      (cpr_NumPubRand: u64) (cpr_Commitment: bytes) (cpr_Sig: bytes)
  | AddFinalitySig MsgAddFinalitySig
  | MsgUnjailFinalityProvider (ujf_Signer: string) (ujf_FpBtcPk: bytes)
  | EditFinalityProviderMsg MsgEditFinalityProvider
  | MsgInsertHeaders (ihd_Signer: string) (ihd_Headers: "bytes list")
  | MsgInsertBTCSpvProof (isp_Submitter: string) (isp_Proofs: "bytes list")
  | MsgAddCovenantSigs (acs_Signer: string) (acs_Pk: bytes) (acs_StakingTxHash: string)
      (acs_SlashingTxSigs: "bytes list") (acs_UnbondingTxSig: bytes)
      (acs_SlashingUnbondingTxSigs: "bytes list")
  | CreateBTCDelegationMsg MsgCreateBTCDelegation

datatype QueriedBlockStatus = QueriedBlockStatus_ANY | QueriedBlockStatus_FINALIZED

datatype BTCDelegationStatus = BTCDelegationStatus_PENDING | BTCDelegationStatus_ACTIVE

record PageRequest =
  page_Key :: "bytes option"
  page_Limit :: u64
  page_Reverse :: bool

record IndexedBlock =
  ib_Height :: u64
  ib_AppHash :: bytes
  ib_Finalized :: bool

record FinalityProviderResponse =
  fpr_Addr :: string
  fpr_Description :: Description
  fpr_Commission :: LegacyDec
  fpr_SlashedBtcHeight :: u32
  fpr_Jailed :: bool

record PubRandCommitResponse =
  prc_NumPubRand :: u64
  prc_Commitment :: bytes

record CheckpointParams =
  BtcConfirmationDepth :: u32
  CheckpointFinalizationTimeout :: u32

record BTCStakingParams =
  bsp_CovenantPks :: "bytes list"
  bsp_SlashingPkScript :: bytes
  bsp_CovenantQuorum :: u32
  bsp_MinSlashingTxFeeSat :: "64 word"
  bsp_SlashingRate :: LegacyDec
  bsp_MinUnbondingTimeBlocks :: u32

text \<open>The Babylon client and the decoders, all third-party.\<close>

record 'w bbn_lib =
  bbn_keyring_Key :: "string \<Rightarrow> ('w, keyring_Record) go"
  Bech32ifyAddressBytes :: "string \<Rightarrow> bytes \<Rightarrow> string res"
  ReliablySendMsgs :: "sdk_Msg list \<Rightarrow> sdk_Error list \<Rightarrow> sdk_Error list \<Rightarrow> ('w, TxResponse option) go"
  bbn_GetAddr :: "('w, string) go"
  bbn_New :: "BabylonConfig \<Rightarrow> ('w, unit) go"
  q_FinalityProvider :: "string \<Rightarrow> ('w, FinalityProviderResponse) go"
  q_FinalityProviders :: "PageRequest \<Rightarrow> ('w, FinalityProviderResponse list \<times> bytes option) go"
  q_FinalityProviderPowerAtHeight :: "string \<Rightarrow> u64 \<Rightarrow> ('w, u64) go"
  q_ListPubRandCommit :: "string \<Rightarrow> PageRequest \<Rightarrow> ('w, (u64 \<times> PubRandCommitResponse) list) go"
  q_ListBlocks :: "QueriedBlockStatus \<Rightarrow> PageRequest \<Rightarrow> ('w, IndexedBlock list) go"
  q_Block :: "u64 \<Rightarrow> ('w, IndexedBlock) go"
  q_ActivatedHeight :: "('w, u64) go"
  q_BlockchainInfo :: "('w, (64 word \<times> bytes) list) go"
  q_BTCHeaderChainTip :: "('w, bytes) go"
  q_CurrentEpoch :: "('w, u64) go"
  q_VotesAtHeight :: "u64 \<Rightarrow> ('w, bytes list) go"
  q_BTCDelegations :: "BTCDelegationStatus \<Rightarrow> PageRequest \<Rightarrow> ('w, bytes list) go"
  q_BTCCheckpointParams :: "('w, CheckpointParams) go"
  q_BTCStakingParams :: "('w, BTCStakingParams) go"
  bbn_IsRunning :: "'w \<Rightarrow> bool"
  bbn_Stop :: "('w, unit) go"
  Pop_Unmarshal :: "bytes \<Rightarrow> bytes res"
  sdk_Description_Unmarshal :: "bytes \<Rightarrow> Description res"
  proto_Description_Unmarshal :: "bytes \<Rightarrow> Description res"
  cmt_Proof_Unmarshal :: "bytes \<Rightarrow> bytes res"
  BIP340_ToBTCPK :: "bytes \<Rightarrow> PublicKey res"

record 'w BabylonController = "'w bbn_lib" +
  bc_cfg :: BBNConfig

text \<open>
  The interface. A slice of blocks that is \<^verbatim>\<open>nil\<close> is the empty list; a map of commitments is
  the list of its entries.
\<close>

record 'w client_controller =
  cc_RegisterFinalityProvider :: "PublicKey \<Rightarrow> bytes \<Rightarrow> LegacyDec \<Rightarrow> bytes \<Rightarrow> ('w, TxResponse) go"
  cc_CommitPubRandList :: "PublicKey \<Rightarrow> u64 \<Rightarrow> u64 \<Rightarrow> bytes \<Rightarrow> bytes \<Rightarrow> ('w, TxResponse) go"
  cc_SubmitFinalitySig :: "PublicKey \<Rightarrow> BlockInfo \<Rightarrow> FieldVal \<Rightarrow> bytes \<Rightarrow> ModNScalar \<Rightarrow> ('w, TxResponse) go"
  cc_SubmitBatchFinalitySigs :: "PublicKey \<Rightarrow> BlockInfo list \<Rightarrow> FieldVal list \<Rightarrow> bytes list \<Rightarrow>
    ModNScalar list \<Rightarrow> ('w, TxResponse) go"
  cc_UnjailFinalityProvider :: "PublicKey \<Rightarrow> ('w, TxResponse) go"
  cc_QueryFinalityProviderVotingPower :: "PublicKey \<Rightarrow> u64 \<Rightarrow> ('w, u64) go"
  cc_QueryFinalityProviderSlashedOrJailed :: "PublicKey \<Rightarrow> ('w, bool \<times> bool) go"
  cc_EditFinalityProvider :: "PublicKey \<Rightarrow> LegacyDec option \<Rightarrow> bytes \<Rightarrow> ('w, MsgEditFinalityProvider) go"
  cc_QueryLatestFinalizedBlocks :: "u64 \<Rightarrow> ('w, BlockInfo list) go"
  cc_QueryLastCommittedPublicRand :: "PublicKey \<Rightarrow> u64 \<Rightarrow> ('w, (u64 \<times> PubRandCommitResponse) list) go"
  cc_QueryBlock :: "u64 \<Rightarrow> ('w, BlockInfo) go"
  cc_QueryBlocks :: "u64 \<Rightarrow> u64 \<Rightarrow> u32 \<Rightarrow> ('w, BlockInfo list) go"
  cc_QueryBestBlock :: "('w, BlockInfo) go"
  cc_QueryActivatedHeight :: "('w, u64) go"
  cc_Close :: "('w, unit) go"

section \<open>The Babylon controller: sending\<close>

definition NewBabylonController :: "('w, 'z) BabylonController_scheme \<Rightarrow> ('w, unit) go" where
  "NewBabylonController B =
     wrap_go ''failed to create Babylon client: '' (bbn_New B (BBNConfigToBabylonConfig (bc_cfg B))) (\<lambda>_.
     try_go (bbn_GetAddr B) (\<lambda>_. ret ()))"

definition GetKeyAddress :: "('w, 'z) BabylonController_scheme \<Rightarrow> ('w, bytes) go" where
  "GetKeyAddress B =
     handle_go (bbn_keyring_Key B (bbn_Key (bc_cfg B)))
       (\<lambda>e. crash (''Failed to get key address: '' @ err_msg e)) (\<lambda>keyRec.
     handle_go (of_res (rec_Address keyRec))
       (\<lambda>e. crash (''Failed to get key address: '' @ err_msg e)) ret)"

definition mustGetTxSigner :: "('w, 'z) BabylonController_scheme \<Rightarrow> ('w, string) go" where
  "mustGetTxSigner B = try_go (GetKeyAddress B) (\<lambda>signer.
     handle_go (of_res (Bech32ifyAddressBytes B (bbn_AccountPrefix (bc_cfg B)) signer))
       (\<lambda>e. crash (err_msg e)) ret)"

definition reliablySendMsgs ::
  "('w, 'z) BabylonController_scheme \<Rightarrow> sdk_Msg list \<Rightarrow> sdk_Error list \<Rightarrow> sdk_Error list \<Rightarrow>
   ('w, TxResponse option) go" where
  "reliablySendMsgs B msgs expectedErrs unrecoverableErrs =
     ReliablySendMsgs B msgs expectedErrs unrecoverableErrs"

definition reliablySendMsg ::
  "('w, 'z) BabylonController_scheme \<Rightarrow> sdk_Msg \<Rightarrow> sdk_Error list \<Rightarrow> sdk_Error list \<Rightarrow>
   ('w, TxResponse option) go" where
  "reliablySendMsg B msg expectedErrs unrecoverableErrs =
     reliablySendMsgs B [msg] expectedErrs unrecoverableErrs"

text \<open>\<^verbatim>\<open>&types.TxResponse{TxHash: res.TxHash, Events: res.Events}\<close> reads through the pointer.\<close>

definition tx_response :: "TxResponse option \<Rightarrow> ('w, TxResponse) go" where
  "tx_response r = (case r of
      None \<Rightarrow> crash ''nil pointer dereference''
    | Some res \<Rightarrow> ret \<lparr>TxHash = TxHash res, Events = Events res\<rparr>)"

definition bbn_RegisterFinalityProvider ::
  "('w, 'z) BabylonController_scheme \<Rightarrow> PublicKey \<Rightarrow> bytes \<Rightarrow> LegacyDec \<Rightarrow> bytes \<Rightarrow> ('w, TxResponse) go" where
  "bbn_RegisterFinalityProvider B fpPk pop commission description =
     wrap_go ''invalid proof-of-possession: '' (of_res (Pop_Unmarshal B pop)) (\<lambda>bbnPop.
     wrap_go ''invalid description: '' (of_res (sdk_Description_Unmarshal B description)) (\<lambda>sdkDescription.
     try_go (mustGetTxSigner B) (\<lambda>fpAddr.
     try_go (reliablySendMsg B (MsgCreateFinalityProvider fpAddr fpPk bbnPop commission sdkDescription)
       emptyErrs emptyErrs) tx_response)))"

definition bbn_CommitPubRandList ::
  "('w, 'z) BabylonController_scheme \<Rightarrow> PublicKey \<Rightarrow> u64 \<Rightarrow> u64 \<Rightarrow> bytes \<Rightarrow> bytes \<Rightarrow> ('w, TxResponse) go" where
  "bbn_CommitPubRandList B fpPk startHeight numPubRand commitment sig =
     try_go (mustGetTxSigner B) (\<lambda>signer.
     try_go (reliablySendMsg B (MsgCommitPubRandList signer fpPk startHeight numPubRand commitment sig)
       emptyErrs [sdkErrInvalidPubRand, sdkErrTooFewPubRand, sdkErrNoPubRandYet, sdkErrFpNotFound])
       tx_response)"

definition finality_sig_msg ::
  "('w, 'z) BabylonController_scheme \<Rightarrow> PublicKey \<Rightarrow> BlockInfo \<Rightarrow> FieldVal \<Rightarrow> bytes \<Rightarrow> ModNScalar \<Rightarrow> string \<Rightarrow>
   MsgAddFinalitySig" where
  "finality_sig_msg B fpPk b pubRand cmtProof sig signer =
     \<lparr>afs_Signer = signer, afs_FpBtcPk = fpPk, afs_BlockHeight = Height b, afs_PubRand = pubRand,
      afs_Proof = cmtProof, afs_BlockAppHash = Hash b, afs_FinalitySig = sig\<rparr>"

definition bbn_SubmitFinalitySig ::
  "('w, 'z) BabylonController_scheme \<Rightarrow> PublicKey \<Rightarrow> BlockInfo \<Rightarrow> FieldVal \<Rightarrow> bytes \<Rightarrow> ModNScalar \<Rightarrow>
   ('w, TxResponse) go" where
  "bbn_SubmitFinalitySig B fpPk block pubRand prf sig =
     try_go (of_res (cmt_Proof_Unmarshal B prf)) (\<lambda>cmtProof.
     try_go (mustGetTxSigner B) (\<lambda>signer.
     try_go (reliablySendMsg B (AddFinalitySig (finality_sig_msg B fpPk block pubRand cmtProof sig signer))
       emptyErrs [sdkErrInvalidFinalitySig, sdkErrPubRandNotFound, sdkErrFpAlreadySlashed])
       tx_response))"

text \<open>The loop \<^verbatim>\<open>for i, b := range blocks\<close> that builds the messages.\<close>

fun batch_msgs ::
  "('w, 'z) BabylonController_scheme \<Rightarrow> PublicKey \<Rightarrow> FieldVal list \<Rightarrow> bytes list \<Rightarrow> ModNScalar list \<Rightarrow>
   nat \<Rightarrow> BlockInfo list \<Rightarrow> sdk_Msg list \<Rightarrow> ('w, sdk_Msg list) go" where
  "batch_msgs B fpPk pubRandList proofList sigs i [] msgs = ret msgs"
| "batch_msgs B fpPk pubRandList proofList sigs i (b # blocks) msgs =
     index_go proofList i (\<lambda>prf.
     try_go (of_res (cmt_Proof_Unmarshal B prf)) (\<lambda>cmtProof.
     try_go (mustGetTxSigner B) (\<lambda>signer.
     index_go pubRandList i (\<lambda>pubRand.
     index_go sigs i (\<lambda>sig.
     batch_msgs B fpPk pubRandList proofList sigs (Suc i) blocks
       (msgs @ [AddFinalitySig (finality_sig_msg B fpPk b pubRand cmtProof sig signer)]))))))"

definition bbn_SubmitBatchFinalitySigs ::
  "('w, 'z) BabylonController_scheme \<Rightarrow> PublicKey \<Rightarrow> BlockInfo list \<Rightarrow> FieldVal list \<Rightarrow> bytes list \<Rightarrow>
   ModNScalar list \<Rightarrow> ('w, TxResponse) go" where
  "bbn_SubmitBatchFinalitySigs B fpPk blocks pubRandList proofList sigs =
     (if length blocks \<noteq> length sigs
      then fail (NewErr (''the number of blocks '' @ fmt_nat (length blocks) @
        '' should match the number of finality signatures '' @ fmt_nat (length sigs)))
      else try_go (batch_msgs B fpPk pubRandList proofList sigs 0 blocks []) (\<lambda>msgs.
        try_go (reliablySendMsgs B msgs emptyErrs
          [sdkErrInvalidFinalitySig, sdkErrPubRandNotFound, sdkErrFpAlreadySlashed])
          tx_response))"

definition bbn_UnjailFinalityProvider ::
  "('w, 'z) BabylonController_scheme \<Rightarrow> PublicKey \<Rightarrow> ('w, TxResponse) go" where
  "bbn_UnjailFinalityProvider B fpPk =
     try_go (mustGetTxSigner B) (\<lambda>signer.
     try_go (reliablySendMsg B (MsgUnjailFinalityProvider signer fpPk)
       emptyErrs [sdkErrFpNotFound, sdkErrFpNotJailed, sdkErrFpAlreadySlashed])
       tx_response)"

section \<open>The Babylon controller: queries\<close>

definition bbn_QueryFinalityProviderSlashedOrJailed ::
  "('w, 'z) BabylonController_scheme \<Rightarrow> PublicKey \<Rightarrow> ('w, bool \<times> bool) go" where
  "bbn_QueryFinalityProviderSlashedOrJailed B fpPk =
     text_go (''failed to query the finality provider '' @ hex_encode fpPk @ '': '')
       (q_FinalityProvider B (hex_encode fpPk)) (\<lambda>res.
     ret (fpr_SlashedBtcHeight res > 0, fpr_Jailed res))"

definition bbn_QueryFinalityProviderVotingPower ::
  "('w, 'z) BabylonController_scheme \<Rightarrow> PublicKey \<Rightarrow> u64 \<Rightarrow> ('w, u64) go" where
  "bbn_QueryFinalityProviderVotingPower B fpPk blockHeight =
     wrap_go (''failed to query Finality Voting Power at Height '' @ fmt_u64 blockHeight @ '': '')
       (q_FinalityProviderPowerAtHeight B (hex_encode fpPk) blockHeight) ret"

definition queryLatestBlocks ::
  "('w, 'z) BabylonController_scheme \<Rightarrow> bytes option \<Rightarrow> u64 \<Rightarrow> QueriedBlockStatus \<Rightarrow> bool \<Rightarrow>
   ('w, BlockInfo list) go" where
  "queryLatestBlocks B startKey count status reverse =
     text_go ''failed to query finalized blocks: ''
       (q_ListBlocks B status \<lparr>page_Key = startKey, page_Limit = count, page_Reverse = reverse\<rparr>) (\<lambda>res.
     ret (map (\<lambda>b. \<lparr>Height = ib_Height b, Hash = ib_AppHash b, Finalized = False\<rparr>) res))"

definition bbn_QueryLatestFinalizedBlocks ::
  "('w, 'z) BabylonController_scheme \<Rightarrow> u64 \<Rightarrow> ('w, BlockInfo list) go" where
  "bbn_QueryLatestFinalizedBlocks B count =
     queryLatestBlocks B None count QueriedBlockStatus_FINALIZED True"

definition bbn_QueryLastCommittedPublicRand ::
  "('w, 'z) BabylonController_scheme \<Rightarrow> PublicKey \<Rightarrow> u64 \<Rightarrow> ('w, (u64 \<times> PubRandCommitResponse) list) go" where
  "bbn_QueryLastCommittedPublicRand B fpPk count =
     wrap_go ''failed to query committed public randomness: ''
       (q_ListPubRandCommit B (hex_encode fpPk)
         \<lparr>page_Key = None, page_Limit = count, page_Reverse = True\<rparr>) ret"

definition bbn_QueryBlocks ::
  "('w, 'z) BabylonController_scheme \<Rightarrow> u64 \<Rightarrow> u64 \<Rightarrow> u32 \<Rightarrow> ('w, BlockInfo list) go" where
  "bbn_QueryBlocks B startHeight endHeight limit =
     (if endHeight < startHeight
      then fail (NewErr (''the startHeight '' @ fmt_u64 startHeight @
        '' should not be higher than the endHeight '' @ fmt_u64 endHeight))
      else let count = endHeight - startHeight + 1;
               count' = (if count > ucast limit then ucast limit else count)
           in queryLatestBlocks B (Some (Uint64ToBigEndian startHeight)) count' QueriedBlockStatus_ANY False)"

definition bbn_QueryBlock :: "('w, 'z) BabylonController_scheme \<Rightarrow> u64 \<Rightarrow> ('w, BlockInfo) go" where
  "bbn_QueryBlock B height =
     wrap_go (''failed to query indexed block at height '' @ fmt_u64 height @ '': '') (q_Block B height) (\<lambda>res.
     ret \<lparr>Height = height, Hash = ib_AppHash res, Finalized = ib_Finalized res\<rparr>)"

definition bbn_QueryActivatedHeight :: "('w, 'z) BabylonController_scheme \<Rightarrow> ('w, u64) go" where
  "bbn_QueryActivatedHeight B = wrap_go ''failed to query activated height: '' (q_ActivatedHeight B) ret"

definition queryCometBestBlock :: "('w, 'z) BabylonController_scheme \<Rightarrow> ('w, BlockInfo) go" where
  "queryCometBestBlock B = try_go (q_BlockchainInfo B) (\<lambda>blockMetas.
     index_go blockMetas 0 (\<lambda>(headerHeightInt64, appHash).
     if sint headerHeightInt64 < 0
     then fail (NewErr (''block height -'' @ fmt_nat (nat (- sint headerHeightInt64)) @ '' should be positive''))
     else ret \<lparr>Height = headerHeightInt64, Hash = appHash, Finalized = False\<rparr>))"

definition bbn_QueryBestBlock :: "('w, 'z) BabylonController_scheme \<Rightarrow> ('w, BlockInfo) go" where
  "bbn_QueryBestBlock B =
     handle_go (queryLatestBlocks B None 1 QueriedBlockStatus_ANY True)
       (\<lambda>_. queryCometBestBlock B) (\<lambda>blocks.
     if length blocks \<noteq> 1 then queryCometBestBlock B else index_go blocks 0 ret)"

definition bbn_Close :: "('w, 'z) BabylonController_scheme \<Rightarrow> ('w, unit) go" where
  "bbn_Close B = get_go (bbn_IsRunning B) (\<lambda>running. if \<not> running then ret () else bbn_Stop B)"

definition QueryFinalityProvider ::
  "('w, 'z) BabylonController_scheme \<Rightarrow> PublicKey \<Rightarrow> ('w, FinalityProviderResponse) go" where
  "QueryFinalityProvider B fpPk =
     text_go (''failed to query the finality provider '' @ hex_encode fpPk @ '': '')
       (q_FinalityProvider B (hex_encode fpPk)) ret"

definition getValueOrDefault :: "string \<Rightarrow> string \<Rightarrow> string" where
  "getValueOrDefault reqValue defaultValue = (if reqValue \<noteq> '''' then reqValue else defaultValue)"

definition bbn_EditFinalityProvider ::
  "('w, 'z) BabylonController_scheme \<Rightarrow> PublicKey \<Rightarrow> LegacyDec option \<Rightarrow> bytes \<Rightarrow>
   ('w, MsgEditFinalityProvider) go" where
  "bbn_EditFinalityProvider B fpPk rate description =
     try_go (of_res (proto_Description_Unmarshal B description)) (\<lambda>reqDesc.
     try_go (QueryFinalityProvider B fpPk) (\<lambda>fpRes.
     try_go (mustGetTxSigner B) (\<lambda>signer.
     if \<not> strings_EqualFold (fpr_Addr fpRes) signer
     then try_go (mustGetTxSigner B) (\<lambda>signer'.
       fail (NewErr (''the signer does not correspond to the finality provider'' @ [CHR 0x27] @ ''s '' @
         ''Babylon address, expected '' @ signer' @ '' got '' @ fpr_Addr fpRes)))
     else let resDesc = fpr_Description fpRes;
              desc = \<lparr>Moniker = getValueOrDefault (Moniker reqDesc) (Moniker resDesc),
                Identity = getValueOrDefault (Identity reqDesc) (Identity resDesc),
                Website = getValueOrDefault (Website reqDesc) (Website resDesc),
                SecurityContact = getValueOrDefault (SecurityContact reqDesc) (SecurityContact resDesc),
                Details = getValueOrDefault (Details reqDesc) (Details resDesc)\<rparr>
          in try_go (mustGetTxSigner B) (\<lambda>addr.
             let msg = \<lparr>efp_Addr = addr, efp_BtcPk = fpPk, efp_Description = desc,
                   efp_Commission = fpr_Commission fpRes\<rparr>;
                 msg' = (case rate of None \<Rightarrow> msg | Some r \<Rightarrow> msg\<lparr>efp_Commission := r\<rparr>)
             in text_go (''failed to query the finality provider '' @ string_of_bytes (2 # fpPk) @ '': '')
                  (reliablySendMsg B (EditFinalityProviderMsg msg') emptyErrs emptyErrs) (\<lambda>_.
                ret msg')))))"

definition Babylon_ClientController ::
  "('w, 'z) BabylonController_scheme \<Rightarrow> 'w client_controller" where
  "Babylon_ClientController B =
     \<lparr>cc_RegisterFinalityProvider = bbn_RegisterFinalityProvider B,
      cc_CommitPubRandList = bbn_CommitPubRandList B,
      cc_SubmitFinalitySig = bbn_SubmitFinalitySig B,
      cc_SubmitBatchFinalitySigs = bbn_SubmitBatchFinalitySigs B,
      cc_UnjailFinalityProvider = bbn_UnjailFinalityProvider B,
      cc_QueryFinalityProviderVotingPower = bbn_QueryFinalityProviderVotingPower B,
      cc_QueryFinalityProviderSlashedOrJailed = bbn_QueryFinalityProviderSlashedOrJailed B,
      cc_EditFinalityProvider = bbn_EditFinalityProvider B,
      cc_QueryLatestFinalizedBlocks = bbn_QueryLatestFinalizedBlocks B,
      cc_QueryLastCommittedPublicRand = bbn_QueryLastCommittedPublicRand B,
      cc_QueryBlock = bbn_QueryBlock B,
      cc_QueryBlocks = bbn_QueryBlocks B,
      cc_QueryBestBlock = bbn_QueryBestBlock B,
      cc_QueryActivatedHeight = bbn_QueryActivatedHeight B,
      cc_Close = bbn_Close B\<rparr>"

definition babylonConsumerChainName :: string where
  "babylonConsumerChainName = ''babylon''"

definition NewClientController ::
  "('w, 'z) BabylonController_scheme \<Rightarrow> string \<Rightarrow> ('w, 'w client_controller) go" where
  "NewClientController B chainName =
     (if chainName = babylonConsumerChainName
      then wrap_go ''failed to create Babylon rpc client: '' (NewBabylonController B) (\<lambda>_.
        ret (Babylon_ClientController B))
      else fail (NewErr ''unsupported consumer chain''))"

section \<open>The Babylon controller: calls of the end-to-end tests\<close>

definition CreateBTCDelegation ::
  "('w, 'z) BabylonController_scheme \<Rightarrow> bytes \<Rightarrow> PublicKey list \<Rightarrow> bytes \<Rightarrow> u32 \<Rightarrow> u64 \<Rightarrow> TransactionInfo \<Rightarrow> bytes \<Rightarrow>
   bytes \<Rightarrow> bytes \<Rightarrow> u32 \<Rightarrow> u64 \<Rightarrow> bytes \<Rightarrow> bytes \<Rightarrow> ('w, TxResponse) go" where
  "CreateBTCDelegation B delBtcPk fpPks pop stakingTime stakingValue stakingTxInfo slashingTx delSlashingSig
     unbondingTx unbondingTime unbondingValue unbondingSlashingTx delUnbondingSlashingSig =
     try_go (mustGetTxSigner B) (\<lambda>signer.
     try_go (reliablySendMsg B (CreateBTCDelegationMsg
       \<lparr>cbd_StakerAddr = signer, cbd_Pop = pop, cbd_BtcPk = delBtcPk, cbd_FpBtcPkList = fpPks, cbd_StakingTime = stakingTime,
        cbd_StakingValue = stakingValue, cbd_StakingTx = ti_Transaction stakingTxInfo,
        cbd_StakingTxInclusionProof = (ti_Key stakingTxInfo, ti_Proof stakingTxInfo), cbd_SlashingTx = slashingTx,
        cbd_DelegatorSlashingSig = delSlashingSig, cbd_UnbondingTx = unbondingTx, cbd_UnbondingTime = unbondingTime,
        cbd_UnbondingValue = unbondingValue, cbd_UnbondingSlashingTx = unbondingSlashingTx,
        cbd_DelegatorUnbondingSlashingSig = delUnbondingSlashingSig\<rparr>) emptyErrs emptyErrs) (\<lambda>res.
     case res of
       None \<Rightarrow> crash ''nil pointer dereference''
     | Some r \<Rightarrow> ret \<lparr>TxHash = TxHash r, Events = []\<rparr>))"

definition InsertBtcBlockHeaders ::
  "('w, 'z) BabylonController_scheme \<Rightarrow> bytes list \<Rightarrow> ('w, TxResponse option) go" where
  "InsertBtcBlockHeaders B headers = try_go (mustGetTxSigner B) (\<lambda>signer.
     try_go (reliablySendMsg B (MsgInsertHeaders signer headers) emptyErrs emptyErrs) ret)"

text \<open>The pagination loop; the argument bounds the number of pages.\<close>

fun QueryFinalityProviders_loop ::
  "('w, 'z) BabylonController_scheme \<Rightarrow> nat \<Rightarrow> PageRequest \<Rightarrow> FinalityProviderResponse list \<Rightarrow>
   ('w, FinalityProviderResponse list) go" where
  "QueryFinalityProviders_loop B 0 pagination fps = running"
| "QueryFinalityProviders_loop B (Suc n) pagination fps =
     text_go ''failed to query finality providers: '' (q_FinalityProviders B pagination) (\<lambda>(res, nextKey).
     (case nextKey of
        None \<Rightarrow> ret (fps @ res)
      | Some k \<Rightarrow> QueryFinalityProviders_loop B n (pagination\<lparr>page_Key := Some k\<rparr>) (fps @ res)))"

definition QueryFinalityProviders ::
  "('w, 'z) BabylonController_scheme \<Rightarrow> nat \<Rightarrow> ('w, FinalityProviderResponse list) go" where
  "QueryFinalityProviders B n =
     QueryFinalityProviders_loop B n \<lparr>page_Key = None, page_Limit = 100, page_Reverse = False\<rparr> []"

definition QueryBtcLightClientTip :: "('w, 'z) BabylonController_scheme \<Rightarrow> ('w, bytes) go" where
  "QueryBtcLightClientTip B = text_go ''failed to query BTC tip: '' (q_BTCHeaderChainTip B) ret"

definition QueryCurrentEpoch :: "('w, 'z) BabylonController_scheme \<Rightarrow> ('w, u64) go" where
  "QueryCurrentEpoch B = text_go ''failed to query BTC tip: '' (q_CurrentEpoch B) ret"

definition QueryVotesAtHeight :: "('w, 'z) BabylonController_scheme \<Rightarrow> u64 \<Rightarrow> ('w, bytes list) go" where
  "QueryVotesAtHeight B height = wrap_go ''failed to query BTC delegations: '' (q_VotesAtHeight B height) ret"

definition queryDelegationsWithStatus ::
  "('w, 'z) BabylonController_scheme \<Rightarrow> BTCDelegationStatus \<Rightarrow> u64 \<Rightarrow> ('w, bytes list) go" where
  "queryDelegationsWithStatus B status limit =
     text_go ''failed to query BTC delegations: ''
       (q_BTCDelegations B status \<lparr>page_Key = None, page_Limit = limit, page_Reverse = False\<rparr>) ret"

definition QueryPendingDelegations :: "('w, 'z) BabylonController_scheme \<Rightarrow> u64 \<Rightarrow> ('w, bytes list) go" where
  "QueryPendingDelegations B limit = queryDelegationsWithStatus B BTCDelegationStatus_PENDING limit"

definition QueryActiveDelegations :: "('w, 'z) BabylonController_scheme \<Rightarrow> u64 \<Rightarrow> ('w, bytes list) go" where
  "QueryActiveDelegations B limit = queryDelegationsWithStatus B BTCDelegationStatus_ACTIVE limit"

fun covenant_pks ::
  "('w, 'z) BabylonController_scheme \<Rightarrow> bytes list \<Rightarrow> PublicKey list \<Rightarrow> ('w, PublicKey list) go" where
  "covenant_pks B [] acc = ret acc"
| "covenant_pks B (pk # pks) acc =
     handle_go (of_res (BIP340_ToBTCPK B pk)) (\<lambda>_. fail (NewErr ''invalid covenant public key'')) (\<lambda>covPk.
     covenant_pks B pks (acc @ [covPk]))"

definition QueryStakingParams :: "('w, 'z) BabylonController_scheme \<Rightarrow> ('w, StakingParams) go" where
  "QueryStakingParams B =
     text_go ''failed to query params of the btccheckpoint module: '' (q_BTCCheckpointParams B) (\<lambda>ckpt.
     text_go ''failed to query staking params: '' (q_BTCStakingParams B) (\<lambda>stk.
     try_go (covenant_pks B (bsp_CovenantPks stk) []) (\<lambda>covenantPks.
     ret \<lparr>ComfirmationTimeBlocks = BtcConfirmationDepth ckpt,
          FinalizationTimeoutBlocks = CheckpointFinalizationTimeout ckpt,
          MinSlashingTxFeeSat = bsp_MinSlashingTxFeeSat stk, CovenantPks = covenantPks,
          SlashingPkScript = bsp_SlashingPkScript stk, CovenantQuorum = bsp_CovenantQuorum stk,
          SlashingRate = bsp_SlashingRate stk, MinUnbondingTime = bsp_MinUnbondingTimeBlocks stk\<rparr>)))"

definition SubmitCovenantSigs ::
  "('w, 'z) BabylonController_scheme \<Rightarrow> PublicKey \<Rightarrow> string \<Rightarrow> bytes list \<Rightarrow> bytes \<Rightarrow> bytes list \<Rightarrow>
   ('w, TxResponse) go" where
  "SubmitCovenantSigs B covPk stakingTxHash slashingSigs unbondingSig unbondingSlashingSigs =
     try_go (mustGetTxSigner B) (\<lambda>signer.
     try_go (reliablySendMsg B (MsgAddCovenantSigs signer covPk stakingTxHash slashingSigs unbondingSig
       unbondingSlashingSigs) emptyErrs emptyErrs) tx_response)"

definition InsertSpvProofs ::
  "('w, 'z) BabylonController_scheme \<Rightarrow> string \<Rightarrow> bytes list \<Rightarrow> ('w, TxResponse option) go" where
  "InsertSpvProofs B submitter proofs =
     try_go (reliablySendMsg B (MsgInsertBTCSpvProof submitter proofs) emptyErrs emptyErrs) ret"

section \<open>What the controller promises\<close>

text \<open>
  A block asked for by its height carries that height, and only heights of the chain (63
  bit numbers) have a block: the poller relies on both.
\<close>

locale block_source =
  fixes queryBlock :: "u64 \<Rightarrow> ('w, BlockInfo) go"
    and lawful :: bool
  assumes query_height: "queryBlock h w = (Ok b, w') \<Longrightarrow> Height b = h"
    and query_bound: "lawful \<Longrightarrow> queryBlock h w = (Ok b, w') \<Longrightarrow> unat h < 2 ^ 63"
begin

lemma retry_query:
  assumes "retry_Do again n (queryBlock h) w = (Ok b, w')"
  shows "\<exists>v v'. queryBlock h v = (Ok b, v')"
  using assms
proof (induction again n "queryBlock h" arbitrary: w rule: retry_Do.induct)
  case (3 again n)
  from 3(2) consider a v where "queryBlock h w = (Ok a, v)" "ret a v = (Ok b, w')"
    | e v where "again e" "retry_Do again (Suc n) (queryBlock h) v = (Ok b, w')"
    by (auto dest!: handle_go_Ok split: if_splits simp: fail_def)
  then show ?case
  proof cases
    case 1
    then show ?thesis by (auto simp: ret_def)
  next
    case 2
    with 3(1) show ?thesis by blast
  qed
qed auto

end

definition block_law :: "('w, 'z) BabylonController_scheme \<Rightarrow> bool" where
  "block_law B \<longleftrightarrow> (\<forall>h w b w'. q_Block B h w = (Ok b, w') \<longrightarrow> unat h < 2 ^ 63)"

interpretation babylon: block_source "bbn_QueryBlock B" "block_law B"
  for B :: "('w, 'z) BabylonController_scheme"
  by unfold_locales (auto simp: bbn_QueryBlock_def block_law_def ret_def elim!: try_go_OkE)

text \<open>The bounds of the number of blocks a range query asks for.\<close>

definition blocks_count :: "u64 \<Rightarrow> u64 \<Rightarrow> u32 \<Rightarrow> u64" where
  "blocks_count s e l = (let count = e - s + 1 in if count > ucast l then ucast l else count)"

lemma QueryBlocks_page:
  "s \<le> e \<Longrightarrow> bbn_QueryBlocks B s e l =
     queryLatestBlocks B (Some (Uint64ToBigEndian s)) (blocks_count s e l) QueriedBlockStatus_ANY False"
  by (auto simp: bbn_QueryBlocks_def blocks_count_def Let_def not_less)

lemma blocks_count_limit: "unat (blocks_count s e l) \<le> unat l"
proof -
  have "blocks_count s e l \<le> ucast l" by (simp add: blocks_count_def Let_def not_less)
  then have "unat (blocks_count s e l) \<le> unat (ucast l :: u64)" by (simp add: word_le_nat_alt)
  also have "\<dots> = unat l" by (rule unat_ucast_32_64)
  finally show ?thesis .
qed

lemma blocks_count_range:
  assumes "s \<le> e"
  shows "unat (blocks_count s e l) \<le> unat e - unat s + 1"
proof -
  have "blocks_count s e l \<le> e - s + 1"
    by (auto simp: blocks_count_def Let_def)
  then have "unat (blocks_count s e l) \<le> unat (e - s + 1)" by (simp add: word_le_nat_alt)
  also have "\<dots> \<le> unat (e - s) + 1" by (rule unat_plus1_le)
  also have "unat (e - s) = unat e - unat s" using assms by (simp add: unat_sub)
  finally show ?thesis .
qed

text \<open>
  What a range query returns: the blocks from the start height on, one per height, no more
  than the limit. The documented behaviour of \<^verbatim>\<open>ListBlocks\<close> behind it: a page of the block
  index from the given key on, at most \<^verbatim>\<open>Limit\<close> blocks (the default page size when it is
  zero), the index having one block per height and heights being 63 bit numbers.
\<close>

locale range_source =
  fixes queryBlocks :: "u64 \<Rightarrow> u64 \<Rightarrow> u32 \<Rightarrow> ('w, BlockInfo list) go"
    and lawful :: bool
  assumes range_height: "lawful \<Longrightarrow> queryBlocks s e l w = (Ok bs, w') \<Longrightarrow> i < length bs \<Longrightarrow>
      unat (Height (bs ! i)) = unat s + i \<and> unat (Height (bs ! i)) < 2 ^ 63"
    and range_limit: "lawful \<Longrightarrow> queryBlocks s e l w = (Ok bs, w') \<Longrightarrow> l \<noteq> 0 \<Longrightarrow> unat e < 2 ^ 63 \<Longrightarrow>
      length bs \<le> unat l \<and> unat s + length bs \<le> unat e + 1"
    and range_order: "queryBlocks s e l w = (Ok bs, w') \<Longrightarrow> s \<le> e"
begin

text \<open>The next start height of a scan is beyond the current one, so that the scan makes progress.\<close>

lemma range_next:
  assumes lawful and "queryBlocks s e l w = (Ok bs, w')" and "bs \<noteq> []"
  shows "unat (Height (last bs) + 1) = unat s + length bs"
proof -
  have i: "length bs - 1 < length bs" using assms(3) by simp
  from range_height [OF assms(1,2) i] have h: "unat (Height (last bs)) = unat s + (length bs - 1)"
    "unat (Height (last bs)) < 2 ^ 63" using assms(3) by (simp_all add: last_conv_nth)
  then have "unat (Height (last bs) + 1) = unat (Height (last bs)) + 1"
    by (simp add: unat_word_ariths)
  with h assms(3) show ?thesis by (cases bs) auto
qed

lemma range_sorted:
  assumes lawful and "queryBlocks s e l w = (Ok bs, w')" and "i < j" and "j < length bs"
  shows "Height (bs ! i) < Height (bs ! j)"
  using range_height [OF assms(1,2), of i] range_height [OF assms(1,2), of j] assms(3,4)
  by (simp add: word_less_nat_alt)

end

definition list_blocks_law :: "('w, 'z) BabylonController_scheme \<Rightarrow> bool" where
  "list_blocks_law B \<longleftrightarrow> (\<forall>s c w bs w'.
     q_ListBlocks B QueriedBlockStatus_ANY
       \<lparr>page_Key = Some (Uint64ToBigEndian s), page_Limit = c, page_Reverse = False\<rparr> w = (Ok bs, w') \<longrightarrow>
     (c \<noteq> 0 \<longrightarrow> length bs \<le> unat c) \<and>
     (\<forall>i < length bs. unat (ib_Height (bs ! i)) = unat s + i \<and> unat (ib_Height (bs ! i)) < 2 ^ 63))"

lemma QueryBlocks_OkD:
  assumes "bbn_QueryBlocks B s e l w = (Ok bs, w')"
  shows "s \<le> e \<and> (\<exists>res. q_ListBlocks B QueriedBlockStatus_ANY \<lparr>page_Key = Some (Uint64ToBigEndian s),
      page_Limit = blocks_count s e l, page_Reverse = False\<rparr> w = (Ok res, w') \<and>
    bs = map (\<lambda>b. \<lparr>Height = ib_Height b, Hash = ib_AppHash b, Finalized = False\<rparr>) res)"
proof -
  have le: "s \<le> e"
    using assms by (auto simp: bbn_QueryBlocks_def fail_def split: if_splits)
  with assms show ?thesis
    by (auto simp: QueryBlocks_page queryLatestBlocks_def ret_def elim!: try_go_OkE)
qed

interpretation babylon_range: range_source "bbn_QueryBlocks B" "list_blocks_law B"
  for B :: "('w, 'z) BabylonController_scheme"
proof unfold_locales
  fix s e l w bs w' i
  assume law: "list_blocks_law B" and run: "bbn_QueryBlocks B s e l w = (Ok bs, w')"
  from QueryBlocks_OkD [OF run] obtain res where le: "s \<le> e"
    and res: "q_ListBlocks B QueriedBlockStatus_ANY \<lparr>page_Key = Some (Uint64ToBigEndian s),
      page_Limit = blocks_count s e l, page_Reverse = False\<rparr> w = (Ok res, w')"
    and bs: "bs = map (\<lambda>b. \<lparr>Height = ib_Height b, Hash = ib_AppHash b, Finalized = False\<rparr>) res" by blast
  note * = law [unfolded list_blocks_law_def, rule_format, OF res]
  { assume "i < length bs"
    then have "unat (ib_Height (res ! i)) = unat s + i \<and> unat (ib_Height (res ! i)) < 2 ^ 63"
      using * bs by (metis length_map)
    then show "unat (Height (bs ! i)) = unat s + i \<and> unat (Height (bs ! i)) < 2 ^ 63"
      using \<open>i < length bs\<close> bs by simp }
  { assume "l \<noteq> 0" and "unat e < 2 ^ 63"
    have nz: "blocks_count s e l \<noteq> 0"
    proof -
      have "unat (e - s) \<le> unat e" using le by (simp add: unat_sub)
      with \<open>unat e < 2 ^ 63\<close> have "unat (e - s + 1) \<noteq> 0" by (simp add: unat_word_ariths)
      then have "e - s + 1 \<noteq> 0" by auto
      moreover have "(ucast l :: u64) \<noteq> 0"
        using \<open>l \<noteq> 0\<close> unat_ucast_32_64 [of l] by (metis unat_eq_0)
      ultimately show ?thesis by (auto simp: blocks_count_def Let_def)
    qed
    then have "length bs \<le> unat (blocks_count s e l)" using * bs by simp
    then show "length bs \<le> unat l \<and> unat s + length bs \<le> unat e + 1"
      using blocks_count_limit [of s e l] blocks_count_range [OF le, of l] le
      by (simp add: word_le_nat_alt) }
next
  fix s e l w bs w'
  assume "bbn_QueryBlocks B s e l w = (Ok bs, w')"
  then show "s \<le> e" by (blast dest: QueryBlocks_OkD)
qed

end
