(* ===== verification/ChainPoller.thy ===== *)
theory ChainPoller
  imports ClientController
begin

text \<open>
  The chain poller (\<^verbatim>\<open>finality-provider/service/chain_poller.go\<close>): a goroutine that
  retrieves the blocks one height after the other and pushes them into a bounded channel,
  answering requests to skip heights in between. The code between two blocking points is a
  function; the goroutine and its consumer interleave as the inductive relation
  \<open>poller_step\<close>. The invariant \<open>poller_inv\<close> says that the blocks received, buffered and
  about to be pushed have consecutive heights that end just before \<^verbatim>\<open>nextHeight\<close>.
\<close>

section \<open>State\<close>

text \<open>
  Where the goroutine \<^verbatim>\<open>pollChain\<close> is: asking for the activated height, waiting before it
  asks again, at the top of the loop, at the channel send, at the \<^verbatim>\<open>select\<close>, returned, or
  ended with the process by \<^verbatim>\<open>logger.Fatal\<close>. \<open>Idle\<close>: not started.
\<close>

datatype poller_pc = Idle | Activating | ActivationWait | Retrieving | Pushing BlockInfo | Selecting | Returned | Fatal

record ChainPoller =
  cp_isStarted :: bool
  cp_quit :: bool
  cp_blockInfoChan :: "BlockInfo list"
  cp_nextHeight :: u64
  cp_failedCycles :: u32
  cp_pc :: poller_pc

record 'w poller_env =
  pe_cc :: "'w client_controller"
  pe_cfg :: ChainPollerConfig
  pe_RetryIf :: "go_error \<Rightarrow> bool"

record 'w polling =
  pl_ext :: 'w
  pl_cp :: ChainPoller
  pl_metrics :: FpMetrics

definition RtyAttNum :: nat where
  "RtyAttNum = 5"

definition maxFailedCycles :: u32 where
  "maxFailedCycles = 20"

definition NewChainPoller :: ChainPoller where
  "NewChainPoller = \<lparr>cp_isStarted = False, cp_quit = False, cp_blockInfoChan = [], cp_nextHeight = 0,
     cp_failedCycles = 0, cp_pc = Idle\<rparr>"

definition on_chain :: "('w, 'a) go \<Rightarrow> (('w, 'z) polling_scheme, 'a) go" where
  "on_chain m = zoom_go pl_ext (\<lambda>w s. s\<lparr>pl_ext := w\<rparr>) m"

definition set_cp :: "(ChainPoller \<Rightarrow> ChainPoller) \<Rightarrow> ('w, 'z) polling_scheme \<Rightarrow> ('w, 'z) polling_scheme" where
  "set_cp f s = s\<lparr>pl_cp := f (pl_cp s)\<rparr>"

definition pl_meter ::
  "(FpMetrics \<Rightarrow> FpMetrics) \<Rightarrow> (('w, 'z) polling_scheme, 'a) go \<Rightarrow> (('w, 'z) polling_scheme, 'a) go" where [go_defs]:
  "pl_meter f k = upd_go (\<lambda>s. s\<lparr>pl_metrics := f (pl_metrics s)\<rparr>) k"

section \<open>Queries\<close>

definition latestBlockWithRetry :: "('w, 'y) poller_env_scheme \<Rightarrow> (('w, 'z) polling_scheme, BlockInfo) go" where
  "latestBlockWithRetry P = on_chain (retry_Do (pe_RetryIf P) RtyAttNum (cc_QueryBestBlock (pe_cc P)))"

definition blockWithRetry :: "('w, 'y) poller_env_scheme \<Rightarrow> u64 \<Rightarrow> (('w, 'z) polling_scheme, BlockInfo) go" where
  "blockWithRetry P height =
     on_chain (retry_Do (pe_RetryIf P) RtyAttNum (cc_QueryBlock (pe_cc P) height))"

text \<open>The endless loop that waits for the chain; the argument bounds its rounds.\<close>

fun bestHeight_loop :: "('w, 'y) poller_env_scheme \<Rightarrow> nat \<Rightarrow> (('w, 'z) polling_scheme, u64) go" where
  "bestHeight_loop P 0 = running"
| "bestHeight_loop P (Suc n) =
     handle_go (latestBlockWithRetry P) (\<lambda>_. bestHeight_loop P n) (\<lambda>lastestBlock. ret (Height lastestBlock))"

definition validateStartHeight ::
  "('w, 'y) poller_env_scheme \<Rightarrow> nat \<Rightarrow> u64 \<Rightarrow> (('w, 'z) polling_scheme, unit) go" where
  "validateStartHeight P n startHeight =
     (if startHeight = 0 then fail (NewErr (''start height can'' @ [CHR 0x27] @ ''t be 0''))
      else try_go (bestHeight_loop P n) (\<lambda>currentBestChainHeight.
        if startHeight > currentBestChainHeight + 1
        then fail (NewErr (''start height '' @ fmt_u64 startHeight @
          '' is more than the next chain tip height '' @ fmt_u64 (currentBestChainHeight + 1)))
        else ret ()))"

section \<open>Start, stop, skip\<close>

definition cp_Start :: "('w, 'y) poller_env_scheme \<Rightarrow> nat \<Rightarrow> u64 \<Rightarrow> (('w, 'z) polling_scheme, unit) go" where
  "cp_Start P n startHeight = get_go (\<lambda>s. cp_isStarted (pl_cp s)) (\<lambda>started.
     upd_go (set_cp (\<lambda>cp. cp\<lparr>cp_isStarted := True\<rparr>)) (
     if started then fail (NewErr ''the poller is already started'')
     else wrap_go (''invalid starting height '' @ fmt_u64 startHeight @ '': '')
         (validateStartHeight P n startHeight) (\<lambda>_.
       upd_go (set_cp (\<lambda>cp. cp\<lparr>cp_nextHeight := startHeight, cp_pc := Activating\<rparr>)) (
       pl_meter (RecordPollerStartingHeight startHeight) (ret ())))))"

text \<open>
  \<^verbatim>\<open>Stop\<close> up to the close of the quit channel; \<^verbatim>\<open>wg.Wait()\<close> then returns once the goroutine
  has returned.
\<close>

definition cp_Stop :: "('w, 'y) poller_env_scheme \<Rightarrow> (('w, 'z) polling_scheme, unit) go" where
  "cp_Stop P = get_go (\<lambda>s. cp_isStarted (pl_cp s)) (\<lambda>started.
     upd_go (set_cp (\<lambda>cp. cp\<lparr>cp_isStarted := False\<rparr>)) (
     if \<not> started then fail (NewErr ''the chain poller has already stopped'')
     else try_go (on_chain (cc_Close (pe_cc P))) (\<lambda>_.
       get_go (\<lambda>s. cp_quit (pl_cp s)) (\<lambda>closed.
       if closed then crash ''close of closed channel''
       else upd_go (set_cp (\<lambda>cp. cp\<lparr>cp_quit := True\<rparr>)) (ret ())))))"

definition cp_IsRunning :: "ChainPoller \<Rightarrow> bool" where
  "cp_IsRunning cp = cp_isStarted cp"

definition NextHeight :: "ChainPoller \<Rightarrow> u64" where
  "NextHeight cp = cp_nextHeight cp"

fun clearChanBufferUpToHeight :: "u64 \<Rightarrow> BlockInfo list \<Rightarrow> BlockInfo list" where
  "clearChanBufferUpToHeight upToHeight [] = []"
| "clearChanBufferUpToHeight upToHeight (block # chan) =
     (if Height block + 1 \<ge> upToHeight then chan else clearChanBufferUpToHeight upToHeight chan)"

text \<open>The branch of the \<^verbatim>\<open>select\<close> that serves a request, and the response it sends.\<close>

definition serve_skip :: "u64 \<Rightarrow> ChainPoller \<Rightarrow> unit res \<times> ChainPoller" where
  "serve_skip targetHeight cp =
     (if targetHeight \<le> cp_nextHeight cp
      then (Err (NewErr (''the target height '' @ fmt_u64 targetHeight @
              '' is not higher than the next height '' @ fmt_u64 (cp_nextHeight cp) @ '' to retrieve'')),
            cp\<lparr>cp_pc := Retrieving\<rparr>)
      else (Ok (), cp\<lparr>cp_blockInfoChan := clearChanBufferUpToHeight targetHeight (cp_blockInfoChan cp),
                     cp_nextHeight := targetHeight, cp_pc := Retrieving\<rparr>))"

text \<open>
  \<^verbatim>\<open>SkipToHeight\<close>, seen from the caller: it waits (\<open>running\<close>) until the goroutine is at its
  \<^verbatim>\<open>select\<close> or the poller is stopped.
\<close>

definition SkipToHeight :: "u64 \<Rightarrow> (('w, 'z) polling_scheme, unit) go" where
  "SkipToHeight height = get_go pl_cp (\<lambda>cp.
     if \<not> cp_IsRunning cp then fail (NewErr ''the chain poller is stopped'')
     else if cp_quit cp then fail (NewErr ''the chain poller is stopped'')
     else if cp_pc cp \<noteq> Selecting then running
     else (case serve_skip height cp of (r, cp') \<Rightarrow> upd_go (set_cp (\<lambda>_. cp')) (of_res r)))"

section \<open>The goroutine\<close>

text \<open>One round of \<^verbatim>\<open>waitForActivation\<close>.\<close>

definition activation_round :: "('w, 'y) poller_env_scheme \<Rightarrow> (('w, 'z) polling_scheme, unit) go" where
  "activation_round P =
     handle_go (on_chain (cc_QueryActivatedHeight (pe_cc P)))
       (\<lambda>_. upd_go (set_cp (\<lambda>cp. cp\<lparr>cp_pc := ActivationWait\<rparr>)) (ret ()))
       (\<lambda>activatedHeight. upd_go (set_cp (\<lambda>cp. cp
          \<lparr>cp_nextHeight := (if cp_nextHeight cp < activatedHeight then activatedHeight else cp_nextHeight cp),
           cp_pc := Retrieving\<rparr>)) (ret ()))"

text \<open>The body of the loop of \<^verbatim>\<open>pollChain\<close> up to the channel send or the \<^verbatim>\<open>select\<close>.\<close>

definition poll_round :: "('w, 'y) poller_env_scheme \<Rightarrow> (('w, 'z) polling_scheme, unit) go" where
  "poll_round P = get_go (\<lambda>s. cp_nextHeight (pl_cp s)) (\<lambda>blockToRetrieve.
     handle_go (blockWithRetry P blockToRetrieve)
       (\<lambda>_. get_go (\<lambda>s. cp_failedCycles (pl_cp s) + 1) (\<lambda>failedCycles.
          upd_go (set_cp (\<lambda>cp. cp\<lparr>cp_failedCycles := failedCycles\<rparr>)) (
          if failedCycles > maxFailedCycles
          then upd_go (set_cp (\<lambda>cp. cp\<lparr>cp_pc := Fatal\<rparr>))
            (crash ''the poller has reached the max failed cycles, exiting'')
          else upd_go (set_cp (\<lambda>cp. cp\<lparr>cp_pc := Selecting\<rparr>)) (ret ()))))
       (\<lambda>block. upd_go (set_cp (\<lambda>cp. cp\<lparr>cp_nextHeight := blockToRetrieve + 1, cp_failedCycles := 0,
            cp_pc := Pushing block\<rparr>)) (pl_meter (RecordLastPolledHeight (Height block)) (ret ()))))"

text \<open>
  The goroutine together with its consumer: what the consumer has received since the start
  or the last skip, and the height that sequence begins with.
\<close>

record 'w poll_sys = "'w polling" +
  sys_received :: "BlockInfo list"
  sys_base :: u64

datatype poller_event =
    EvActivate | EvTick | EvRetrieve | EvPush | EvReceive | EvSkip u64 | EvQuit

definition capacity :: "('w, 'y) poller_env_scheme \<Rightarrow> nat" where
  "capacity P = unat (BufferSize (pe_cfg P))"

text \<open>
  The steps. A send waits for room in the buffer, and an unbuffered channel hands the block
  over to a waiting consumer; a receive waits for a block; the three branches of the
  \<^verbatim>\<open>select\<close> are the timer, a request to skip and the quit channel.
\<close>

inductive poller_step ::
  "'w poller_env \<Rightarrow> 'w poll_sys \<Rightarrow> poller_event \<Rightarrow> 'w poll_sys \<Rightarrow> bool" for P where
  activate: "cp_pc (pl_cp s) = Activating \<Longrightarrow> activation_round P s = (r, s') \<Longrightarrow>
     cp_pc (pl_cp s') = ActivationWait \<Longrightarrow> poller_step P s EvActivate s'"
| activated: "cp_pc (pl_cp s) = Activating \<Longrightarrow> activation_round P s = (r, s') \<Longrightarrow>
     cp_pc (pl_cp s') = Retrieving \<Longrightarrow>
     poller_step P s EvActivate (s'\<lparr>sys_base := cp_nextHeight (pl_cp s')\<rparr>)"
| activation_tick: "cp_pc (pl_cp s) = ActivationWait \<Longrightarrow>
     poller_step P s EvTick (set_cp (\<lambda>cp. cp\<lparr>cp_pc := Activating\<rparr>) s)"
| activation_quit: "cp_pc (pl_cp s) = ActivationWait \<Longrightarrow> cp_quit (pl_cp s) \<Longrightarrow>
     poller_step P s EvQuit (set_cp (\<lambda>cp. cp\<lparr>cp_pc := Retrieving\<rparr>) s)"
| retrieve: "cp_pc (pl_cp s) = Retrieving \<Longrightarrow> poll_round P s = (r, s') \<Longrightarrow> poller_step P s EvRetrieve s'"
| push: "cp_pc (pl_cp s) = Pushing b \<Longrightarrow> length (cp_blockInfoChan (pl_cp s)) < capacity P \<Longrightarrow>
     poller_step P s EvPush
       (set_cp (\<lambda>cp. cp\<lparr>cp_blockInfoChan := cp_blockInfoChan cp @ [b], cp_pc := Selecting\<rparr>) s)"
| handoff: "cp_pc (pl_cp s) = Pushing b \<Longrightarrow> capacity P = 0 \<Longrightarrow>
     poller_step P s EvReceive
       ((set_cp (\<lambda>cp. cp\<lparr>cp_pc := Selecting\<rparr>) s)\<lparr>sys_received := sys_received s @ [b]\<rparr>)"
| receive: "cp_blockInfoChan (pl_cp s) = b # chan \<Longrightarrow>
     poller_step P s EvReceive
       ((set_cp (\<lambda>cp. cp\<lparr>cp_blockInfoChan := chan\<rparr>) s)\<lparr>sys_received := sys_received s @ [b]\<rparr>)"
| tick: "cp_pc (pl_cp s) = Selecting \<Longrightarrow> poller_step P s EvTick (set_cp (\<lambda>cp. cp\<lparr>cp_pc := Retrieving\<rparr>) s)"
| skip: "SkipToHeight h s = (Ok (), s') \<Longrightarrow>
     poller_step P s (EvSkip h) (s'\<lparr>sys_received := [], sys_base := h\<rparr>)"
| skip_refused: "SkipToHeight h s = (Err e, s') \<Longrightarrow>
     poller_step P s (EvSkip h) s'"
| quit: "cp_pc (pl_cp s) = Selecting \<Longrightarrow> cp_quit (pl_cp s) \<Longrightarrow>
     poller_step P s EvQuit (set_cp (\<lambda>cp. cp\<lparr>cp_pc := Returned\<rparr>) s)"
| stop: "cp_Stop P s = (r, s') \<Longrightarrow> poller_step P s EvQuit s'"

inductive_cases poller_skipE: "poller_step P s (EvSkip h) s'"

text \<open>The states a started poller can get into.\<close>

inductive poller_reach :: "'w poller_env \<Rightarrow> 'w poll_sys \<Rightarrow> 'w poll_sys \<Rightarrow> bool" for P where
  init: "poller_reach P s s"
| more: "poller_reach P s t \<Longrightarrow> poller_step P t ev u \<Longrightarrow> poller_reach P s u"


section \<open>Consecutive heights\<close>

definition pending :: "ChainPoller \<Rightarrow> BlockInfo list" where
  "pending cp = (case cp_pc cp of Pushing b \<Rightarrow> [b] | _ \<Rightarrow> [])"

definition sys_blocks :: "('w, 'z) poll_sys_scheme \<Rightarrow> BlockInfo list" where
  "sys_blocks s = sys_received s @ cp_blockInfoChan (pl_cp s) @ pending (pl_cp s)"

text \<open>Heights that count up from a base.\<close>

definition count_up :: "u64 \<Rightarrow> BlockInfo list \<Rightarrow> bool" where
  "count_up base bs \<longleftrightarrow> (\<forall>i < length bs. Height (bs ! i) = base + of_nat i)"

definition poller_inv :: "'w poller_env \<Rightarrow> 'w poll_sys \<Rightarrow> bool" where
  "poller_inv P s \<longleftrightarrow>
     count_up (sys_base s) (sys_blocks s) \<and>
     cp_nextHeight (pl_cp s) = sys_base s + of_nat (length (sys_blocks s)) \<and>
     (sys_blocks s \<noteq> [] \<longrightarrow> unat (sys_base s) + length (sys_blocks s) \<le> 2 ^ 63) \<and>
     length (cp_blockInfoChan (pl_cp s)) \<le> capacity P \<and>
     (cp_pc (pl_cp s) \<in> {Activating, ActivationWait} \<longrightarrow> sys_blocks s = [])"

lemma count_up_Nil [simp]: "count_up base []"
  by (simp add: count_up_def)

lemma count_up_snoc:
  "count_up base bs \<Longrightarrow> Height b = base + of_nat (length bs) \<Longrightarrow> count_up base (bs @ [b])"
  by (auto simp: count_up_def nth_append less_Suc_eq)

lemma on_chain_cp: "on_chain m s = (r, s') \<Longrightarrow> \<exists>w. s' = s\<lparr>pl_ext := w\<rparr>"
  by (auto simp: on_chain_def zoom_go_def split: prod.splits)

lemma on_chain_Ok: "on_chain m s = (Ok a, s') \<Longrightarrow> m (pl_ext s) = (Ok a, pl_ext s')"
  by (auto simp: on_chain_def zoom_go_def split: prod.splits)

text \<open>The functions of the goroutine, by cases on what the chain answers.\<close>

lemma activation_round_cases:
  assumes "activation_round P s = (r, s')"
  obtains (wait) w where "s' = set_cp (\<lambda>cp. cp\<lparr>cp_pc := ActivationWait\<rparr>) (s\<lparr>pl_ext := w\<rparr>)"
  | (active) w h where "s' = set_cp (\<lambda>cp. cp\<lparr>cp_nextHeight :=
        (if cp_nextHeight cp < h then h else cp_nextHeight cp), cp_pc := Retrieving\<rparr>) (s\<lparr>pl_ext := w\<rparr>)"
  | (died) w where "s' = s\<lparr>pl_ext := w\<rparr>"
  using assms
  by (auto simp: activation_round_def go_defs split: prod.splits res.splits dest!: on_chain_cp)

lemma poll_round_cases:
  assumes "poll_round P s = (r, s')"
  obtains (block) b w where "retry_Do (pe_RetryIf P) RtyAttNum (cc_QueryBlock (pe_cc P) (cp_nextHeight (pl_cp s))) (pl_ext s) = (Ok b, w)"
      and "s' = set_cp (\<lambda>cp. cp\<lparr>cp_nextHeight := cp_nextHeight (pl_cp s) + 1, cp_failedCycles := 0,
            cp_pc := Pushing b\<rparr>) (s\<lparr>pl_ext := w, pl_metrics := RecordLastPolledHeight (Height b) (pl_metrics s)\<rparr>)"
  | (failed) w pc where "s' = set_cp (\<lambda>cp. cp\<lparr>cp_failedCycles := cp_failedCycles (pl_cp s) + 1,
            cp_pc := pc\<rparr>) (s\<lparr>pl_ext := w\<rparr>)" and "pc \<in> {Fatal, Selecting}"
  | (died) w where "s' = s\<lparr>pl_ext := w\<rparr>"
proof -
  let ?q = "retry_Do (pe_RetryIf P) RtyAttNum (cc_QueryBlock (pe_cc P) (cp_nextHeight (pl_cp s)))"
  obtain x w where q: "?q (pl_ext s) = (x, w)" by (metis surj_pair)
  then have run: "blockWithRetry P (cp_nextHeight (pl_cp s)) s = (x, s\<lparr>pl_ext := w\<rparr>)"
    by (simp add: blockWithRetry_def on_chain_def zoom_go_def)
  show thesis
  proof (cases x)
    case (Ok b)
    with assms run have "s' = set_cp (\<lambda>cp. cp\<lparr>cp_nextHeight := cp_nextHeight (pl_cp s) + 1,
        cp_failedCycles := 0, cp_pc := Pushing b\<rparr>) (s\<lparr>pl_ext := w, pl_metrics := RecordLastPolledHeight (Height b) (pl_metrics s)\<rparr>)"
      by (cases s) (simp add: poll_round_def set_cp_def go_defs)
    with Ok q show thesis by (intro block) simp_all
  next
    case (Err e)
    with assms run show thesis
      by (intro failed [of "if cp_failedCycles (pl_cp s) + 1 > maxFailedCycles then Fatal else Selecting" w])
         (auto simp: poll_round_def go_defs set_cp_def split: if_splits)
  qed (use assms run in \<open>auto simp: poll_round_def go_defs intro: died [of w]\<close>)
qed

lemma SkipToHeight_Ok:
  assumes "SkipToHeight h s = (Ok (), s')"
  shows "cp_pc (pl_cp s) = Selecting \<and> cp_nextHeight (pl_cp s) < h \<and>
    s' = set_cp (\<lambda>cp. cp\<lparr>cp_blockInfoChan := clearChanBufferUpToHeight h (cp_blockInfoChan cp),
       cp_nextHeight := h, cp_pc := Retrieving\<rparr>) s"
  using assms by (auto simp: SkipToHeight_def serve_skip_def set_cp_def go_defs split: if_splits)

lemma SkipToHeight_Err:
  assumes "SkipToHeight h s = (Err e, s')"
  shows "s' = s \<or> (cp_pc (pl_cp s) = Selecting \<and> h \<le> cp_nextHeight (pl_cp s) \<and>
    s' = set_cp (\<lambda>cp. cp\<lparr>cp_pc := Retrieving\<rparr>) s)"
  using assms by (auto simp: SkipToHeight_def serve_skip_def set_cp_def go_defs split: if_splits)

lemma cp_Stop_cp:
  assumes "cp_Stop P s = (r, s')"
  shows "\<exists>w q. s' = set_cp (\<lambda>cp. cp\<lparr>cp_isStarted := False, cp_quit := q\<rparr>) (s\<lparr>pl_ext := w\<rparr>)"
proof -
  define s1 where "s1 = set_cp (\<lambda>cp. cp\<lparr>cp_isStarted := False\<rparr>) s"
  obtain x s2 where close: "on_chain (cc_Close (pe_cc P)) s1 = (x, s2)" by (metis surj_pair)
  then obtain w where s2: "s2 = s1\<lparr>pl_ext := w\<rparr>" by (blast dest: on_chain_cp)
  have eq: "s1 = set_cp (\<lambda>cp. cp\<lparr>cp_isStarted := False, cp_quit := cp_quit (pl_cp s)\<rparr>) (s\<lparr>pl_ext := pl_ext s\<rparr>)"
    "s2 = set_cp (\<lambda>cp. cp\<lparr>cp_isStarted := False, cp_quit := cp_quit (pl_cp s)\<rparr>) (s\<lparr>pl_ext := w\<rparr>)"
    "set_cp (\<lambda>cp. cp\<lparr>cp_quit := True\<rparr>) s2 =
       set_cp (\<lambda>cp. cp\<lparr>cp_isStarted := False, cp_quit := True\<rparr>) (s\<lparr>pl_ext := w\<rparr>)"
    by (simp_all add: s2 s1_def set_cp_def)
  have "s' \<in> {s1, s2, set_cp (\<lambda>cp. cp\<lparr>cp_quit := True\<rparr>) s2}"
    using assms close
    by (auto simp: cp_Stop_def get_go_def upd_go_def handle_go_def fail_def ret_def crash_def simp flip: s1_def
        split: if_splits res.splits)
  with eq show ?thesis by (elim insertE) (blast+)
qed


text \<open>Skipping drops the whole buffer: every buffered block lies below the next height.\<close>

lemma clearChanBuffer_all:
  "(\<And>b. b \<in> set chan \<Longrightarrow> Height b + 1 < h) \<Longrightarrow> clearChanBufferUpToHeight h chan = []"
  by (induction chan) (auto simp: not_le [symmetric])

lemma clearChanBuffer_length: "length (clearChanBufferUpToHeight h chan) \<le> length chan"
  by (induction chan) auto

lemma poller_inv_height:
  assumes "poller_inv P s" and "i < length (sys_blocks s)"
  shows "unat (Height (sys_blocks s ! i)) = unat (sys_base s) + i"
    and "unat (cp_nextHeight (pl_cp s)) = unat (sys_base s) + length (sys_blocks s)"
proof -
  have bound: "unat (sys_base s) + length (sys_blocks s) \<le> 2 ^ 63"
    using assms by (cases "sys_blocks s") (auto simp: poller_inv_def)
  have nat: "unat (sys_base s + of_nat j) = unat (sys_base s) + j" if "j \<le> length (sys_blocks s)" for j
  proof -
    have "j < 2 ^ 64" and "unat (sys_base s) + j < 2 ^ 64" using that bound by simp_all
    then show ?thesis by (simp add: unat_word_ariths unsigned_of_nat take_bit_nat_eq_self)
  qed
  show "unat (Height (sys_blocks s ! i)) = unat (sys_base s) + i"
    using assms nat [of i] by (simp add: poller_inv_def count_up_def)
  show "unat (cp_nextHeight (pl_cp s)) = unat (sys_base s) + length (sys_blocks s)"
    using assms(1) nat [of "length (sys_blocks s)"] by (simp add: poller_inv_def)
qed

lemma skip_drains:
  assumes inv: "poller_inv P s" and pc: "cp_pc (pl_cp s) = Selecting" and h: "cp_nextHeight (pl_cp s) < h"
  shows "clearChanBufferUpToHeight h (cp_blockInfoChan (pl_cp s)) = []"
proof (rule clearChanBuffer_all)
  fix b assume "b \<in> set (cp_blockInfoChan (pl_cp s))"
  then have "b \<in> set (sys_blocks s)" by (simp add: sys_blocks_def)
  then obtain i where i: "i < length (sys_blocks s)" "b = sys_blocks s ! i" by (metis in_set_conv_nth)
  note * = poller_inv_height [OF inv i(1)]
  have "unat (Height b + 1) \<le> unat (Height b) + 1" by (rule unat_plus1_le)
  also have "\<dots> \<le> unat (cp_nextHeight (pl_cp s))" using * i by simp
  also have "\<dots> < unat h" using h by (simp add: word_less_nat_alt)
  finally show "Height b + 1 < h" by (simp add: word_less_nat_alt)
qed

context block_source
begin

lemma poll_round_inv:
  assumes cc: "cc_QueryBlock (pe_cc P) = queryBlock" and law: lawful and inv: "poller_inv P s"
    and pc: "cp_pc (pl_cp s) = Retrieving" and run: "poll_round P s = (r, s')"
  shows "poller_inv P s'"
  using run
proof (cases rule: poll_round_cases)
  case (block b w)
  then obtain v v' where q: "queryBlock (cp_nextHeight (pl_cp s)) v = (Ok b, v')"
    using retry_query cc by metis
  then have b: "Height b = cp_nextHeight (pl_cp s)" and bound: "unat (cp_nextHeight (pl_cp s)) < 2 ^ 63"
    using query_height query_bound law by blast+
  have blocks: "sys_blocks s' = sys_blocks s @ [b]"
    using block(2) pc by (simp add: sys_blocks_def pending_def set_cp_def)
  have "unat (cp_nextHeight (pl_cp s)) = unat (sys_base s) + length (sys_blocks s)"
    using inv poller_inv_height(2) [OF inv, of 0] by (cases "sys_blocks s") (auto simp: poller_inv_def)
  with bound have "unat (sys_base s) + length (sys_blocks s') \<le> 2 ^ 63" by (simp add: blocks)
  with b blocks show ?thesis
    using inv block(2) by (auto simp: poller_inv_def set_cp_def intro: count_up_snoc)
next
  case (failed w pc)
  then have "sys_blocks s' = sys_blocks s"
    using \<open>cp_pc (pl_cp s) = Retrieving\<close> by (auto simp: sys_blocks_def pending_def set_cp_def)
  with failed inv show ?thesis by (auto simp: poller_inv_def set_cp_def)
next
  case (died w)
  then have "sys_blocks s' = sys_blocks s" by (simp add: sys_blocks_def)
  with died inv show ?thesis by (simp add: poller_inv_def)
qed

lemma activation_inv:
  assumes inv: "poller_inv P s" and pc: "cp_pc (pl_cp s) = Activating"
    and run: "activation_round P s = (r, s')"
  shows "cp_pc (pl_cp s') = ActivationWait \<Longrightarrow> poller_inv P s'"
    and "cp_pc (pl_cp s') = Retrieving \<Longrightarrow> poller_inv P (s'\<lparr>sys_base := cp_nextHeight (pl_cp s')\<rparr>)"
  using run inv pc
  by (auto elim!: activation_round_cases simp: poller_inv_def sys_blocks_def pending_def set_cp_def)

lemma skip_inv:
  assumes inv: "poller_inv P s" and run: "SkipToHeight h s = (Ok (), s')"
  shows "poller_inv P (s'\<lparr>sys_received := [], sys_base := h\<rparr>)"
  using SkipToHeight_Ok [OF run] skip_drains [OF inv]
  by (auto simp: poller_inv_def sys_blocks_def pending_def set_cp_def)

lemma skip_refused_inv:
  assumes inv: "poller_inv P s" and run: "SkipToHeight h s = (Err e, s')"
  shows "poller_inv P s'"
  using SkipToHeight_Err [OF run] inv
  by (auto simp: poller_inv_def sys_blocks_def pending_def set_cp_def)

lemma stop_inv:
  assumes inv: "poller_inv P s" and run: "cp_Stop P s = (r, s')"
  shows "poller_inv P s'"
  using cp_Stop_cp [OF run] inv
  by (auto simp: poller_inv_def sys_blocks_def pending_def set_cp_def)

text \<open>A step of either side keeps the invariant; the steps that only move a block are immediate.\<close>

lemma poller_step_inv:
  assumes cc: "cc_QueryBlock (pe_cc P) = queryBlock" and law: lawful
    and step: "poller_step P s ev s'" and inv: "poller_inv P s"
  shows "poller_inv P s'"
  using step
proof cases
  case (activate r)
  then show ?thesis using activation_inv(1) [OF inv] by blast
next
  case (activated r t)
  then show ?thesis using activation_inv(2) [OF inv] by blast
next
  case (retrieve r)
  then show ?thesis using poll_round_inv [OF cc law inv] by blast
next
  case (skip h t)
  then show ?thesis using skip_inv [OF inv] by blast
next
  case (skip_refused h e)
  then show ?thesis using skip_refused_inv [OF inv] by blast
next
  case (stop r)
  then show ?thesis using stop_inv [OF inv] by blast
qed (use inv in \<open>auto simp: poller_inv_def sys_blocks_def pending_def set_cp_def\<close>)

lemma poller_reach_inv:
  assumes "cc_QueryBlock (pe_cc P) = queryBlock" and lawful
    and "poller_reach P s t" and "poller_inv P s"
  shows "poller_inv P t"
  using assms(3,4) by (induction rule: poller_reach.induct) (auto intro: poller_step_inv [OF assms(1,2)])

end

end
