(* ===== verification/FpInstance.thy ===== *)
theory FpInstance
  imports PubRandStore ChainPoller
begin

text \<open>
  A finality provider instance (\<^verbatim>\<open>finality-provider/service/fp_instance.go\<close> with its adapters
  \<^verbatim>\<open>fp_store_adapter.go\<close>, \<^verbatim>\<open>eots_manager_adapter.go\<close>, \<^verbatim>\<open>pub_rand_store_adapter.go\<close>): the
  in-memory copy of the stored provider, the queries with retries, the commitment of public
  randomness, and the submission of one or a batch of finality signatures. The state is the
  database, the outside world (consumer chain and EOTS manager) and the instance.
\<close>

section \<open>State\<close>

record CriticalError =
  ce_err :: go_error
  ce_fpBtcPk :: bytes

text \<open>
  Channels: the queue of what was sent and not received; \<open>None\<close> is the \<^verbatim>\<open>nil\<close> channel of an
  instance that has not started. \<open>ins_quit\<close> says whether the quit channel is closed.
\<close>

record FinalityProviderInstance =
  ins_btcPk :: bytes
  ins_fp :: StoredFinalityProvider
  ins_passphrase :: string
  ins_isStarted :: bool
  ins_inSync :: bool
  ins_isLagging :: bool
  ins_poller :: "ChainPoller option"
  ins_laggingTargetChan :: "BlockInfo list option"
  ins_quit :: "bool option"
  ins_criticalErrChan :: "CriticalError list"

record ('db, 'w) fp_world =
  fw_db :: 'db
  fw_ext :: 'w
  fw_ins :: FinalityProviderInstance
  fw_metrics :: FpMetrics

record ('db, 'w) fp_env = "'db pubrand_lib" +
  env_cc :: "'w client_controller"
  env_em :: "'w EOTSManager"
  env_cfg :: Config
  env_errs :: bbn_errors
  env_RetryIf :: "go_error \<Rightarrow> bool"
  tmhash :: "bytes \<Rightarrow> bytes"
  FieldVal_String :: "FieldVal \<Rightarrow> string"
  Evidence_Unmarshal :: "string \<Rightarrow> bytes res"
  Evidence_ExtractBTCSK :: "bytes \<Rightarrow> PrivateKey res"

definition on_db :: "('db, 'a) go \<Rightarrow> (('db, 'w, 'y) fp_world_scheme, 'a) go" where
  "on_db m = zoom_go fw_db (\<lambda>d s. s\<lparr>fw_db := d\<rparr>) m"

definition on_ext :: "('w, 'a) go \<Rightarrow> (('db, 'w, 'y) fp_world_scheme, 'a) go" where
  "on_ext m = zoom_go fw_ext (\<lambda>w s. s\<lparr>fw_ext := w\<rparr>) m"

definition set_ins :: "(FinalityProviderInstance \<Rightarrow> FinalityProviderInstance) \<Rightarrow>
  ('db, 'w, 'y) fp_world_scheme \<Rightarrow> ('db, 'w, 'y) fp_world_scheme" where
  "set_ins f s = s\<lparr>fw_ins := f (fw_ins s)\<rparr>"

definition set_fp :: "(StoredFinalityProvider \<Rightarrow> StoredFinalityProvider) \<Rightarrow>
  ('db, 'w, 'y) fp_world_scheme \<Rightarrow> ('db, 'w, 'y) fp_world_scheme" where
  "set_fp f = set_ins (\<lambda>i. i\<lparr>ins_fp := f (ins_fp i)\<rparr>)"

section \<open>The adapter of the provider store\<close>

definition getStoreFinalityProvider :: "('db, 'w, 'y) fp_world_scheme \<Rightarrow> StoredFinalityProvider" where
  "getStoreFinalityProvider s = ins_fp (fw_ins s)"

definition GetBtcPk :: "('db, 'w, 'y) fp_world_scheme \<Rightarrow> PublicKey" where
  "GetBtcPk s = sfp_BtcPk (getStoreFinalityProvider s)"

definition GetBtcPkHex :: "('db, 'w, 'y) fp_world_scheme \<Rightarrow> string" where
  "GetBtcPkHex s = hex_encode (GetBtcPk s)"

text \<open>A call on \<^verbatim>\<open>fp.metrics\<close>; most take the label \<^verbatim>\<open>fp.GetBtcPkHex()\<close>.\<close>

definition meter ::
  "(string \<Rightarrow> FpMetrics \<Rightarrow> FpMetrics) \<Rightarrow> (('db, 'w, 'y) fp_world_scheme, 'a) go \<Rightarrow> (('db, 'w, 'y) fp_world_scheme, 'a) go" where [go_defs]:
  "meter f k = upd_go (\<lambda>s. s\<lparr>fw_metrics := f (GetBtcPkHex s) (fw_metrics s)\<rparr>) k"

definition GetStatus :: "('db, 'w, 'y) fp_world_scheme \<Rightarrow> FinalityProviderStatus" where
  "GetStatus s = sfp_Status (getStoreFinalityProvider s)"

definition GetLastVotedHeight :: "('db, 'w, 'y) fp_world_scheme \<Rightarrow> u64" where
  "GetLastVotedHeight s = sfp_LastVotedHeight (getStoreFinalityProvider s)"

definition GetLastProcessedHeight :: "('db, 'w, 'y) fp_world_scheme \<Rightarrow> u64" where
  "GetLastProcessedHeight s = sfp_LastProcessedHeight (getStoreFinalityProvider s)"

definition GetChainID :: "('db, 'w, 'y) fp_world_scheme \<Rightarrow> bytes" where
  "GetChainID s = bytes_of_string (sfp_ChainID (getStoreFinalityProvider s))"

definition SetStatus ::
  "('db, 'w, 'z) fp_env_scheme \<Rightarrow> FinalityProviderStatus \<Rightarrow> (('db, 'w, 'y) fp_world_scheme, unit) go" where
  "SetStatus E st = upd_go (set_fp (\<lambda>fp. fp\<lparr>sfp_Status := st\<rparr>)) (
     get_go GetBtcPk (\<lambda>pk. on_db (SetFpStatus E pk st)))"

definition MustSetStatus ::
  "('db, 'w, 'z) fp_env_scheme \<Rightarrow> FinalityProviderStatus \<Rightarrow> (('db, 'w, 'y) fp_world_scheme, unit) go" where
  "MustSetStatus E st =
     handle_go (SetStatus E st) (\<lambda>_. crash ''failed to set finality-provider status'') ret"

definition SetLastProcessedHeight ::
  "('db, 'w, 'z) fp_env_scheme \<Rightarrow> u64 \<Rightarrow> (('db, 'w, 'y) fp_world_scheme, unit) go" where
  "SetLastProcessedHeight E height = upd_go (set_fp (\<lambda>fp. fp\<lparr>sfp_LastProcessedHeight := height\<rparr>)) (
     get_go GetBtcPk (\<lambda>pk. on_db (SetFpLastProcessedHeight E pk height)))"

definition MustSetLastProcessedHeight ::
  "('db, 'w, 'z) fp_env_scheme \<Rightarrow> u64 \<Rightarrow> (('db, 'w, 'y) fp_world_scheme, unit) go" where
  "MustSetLastProcessedHeight E height =
     handle_go (SetLastProcessedHeight E height) (\<lambda>_. crash ''failed to set last processed height'') (\<lambda>_.
     meter (\<lambda>pk. RecordFpLastProcessedHeight pk height) (ret ()))"

definition updateStateAfterFinalitySigSubmission ::
  "('db, 'w, 'z) fp_env_scheme \<Rightarrow> u64 \<Rightarrow> (('db, 'w, 'y) fp_world_scheme, unit) go" where
  "updateStateAfterFinalitySigSubmission E height =
     upd_go (set_fp (\<lambda>fp. fp\<lparr>sfp_LastVotedHeight := height, sfp_LastProcessedHeight := height\<rparr>)) (
     get_go GetBtcPk (\<lambda>pk. on_db (SetFpLastVotedHeight E pk height)))"

definition MustUpdateStateAfterFinalitySigSubmission ::
  "('db, 'w, 'z) fp_env_scheme \<Rightarrow> u64 \<Rightarrow> (('db, 'w, 'y) fp_world_scheme, unit) go" where
  "MustUpdateStateAfterFinalitySigSubmission E height =
     handle_go (updateStateAfterFinalitySigSubmission E height)
       (\<lambda>_. crash ''failed to update state after finality signature submitted'') (\<lambda>_.
     meter (\<lambda>pk. RecordFpLastVotedHeight pk height) (
     meter (\<lambda>pk. RecordFpLastProcessedHeight pk height) (ret ())))"

section \<open>The adapters of the EOTS manager and the proof store\<close>

definition getPubRandList ::
  "('db, 'w, 'z) fp_env_scheme \<Rightarrow> u64 \<Rightarrow> u32 \<Rightarrow> (('db, 'w, 'y) fp_world_scheme, FieldVal list) go" where
  "getPubRandList E startHeight numPubRand = get_go (\<lambda>s. s) (\<lambda>s.
     try_go (on_ext (em_CreateRandomnessPairList (env_em E) (ins_btcPk (fw_ins s)) (GetChainID s)
       startHeight numPubRand (ins_passphrase (fw_ins s)))) ret)"

definition getHashToSignForCommitPubRand ::
  "('db, 'w, 'z) fp_env_scheme \<Rightarrow> u64 \<Rightarrow> u64 \<Rightarrow> bytes \<Rightarrow> bytes" where
  "getHashToSignForCommitPubRand E startHeight numPubRand commitment =
     tmhash E (Uint64ToBigEndian startHeight @ Uint64ToBigEndian numPubRand @ commitment)"

definition signPubRandCommit ::
  "('db, 'w, 'z) fp_env_scheme \<Rightarrow> u64 \<Rightarrow> u64 \<Rightarrow> bytes \<Rightarrow> (('db, 'w, 'y) fp_world_scheme, bytes) go" where
  "signPubRandCommit E startHeight numPubRand commitment = get_go fw_ins (\<lambda>i.
     on_ext (em_SignSchnorrSig (env_em E) (ins_btcPk i)
       (getHashToSignForCommitPubRand E startHeight numPubRand commitment) (ins_passphrase i)))"

definition getMsgToSignForVote :: "u64 \<Rightarrow> bytes \<Rightarrow> bytes" where
  "getMsgToSignForVote blockHeight blockHash = Uint64ToBigEndian blockHeight @ blockHash"

definition signFinalitySig ::
  "('db, 'w, 'z) fp_env_scheme \<Rightarrow> BlockInfo \<Rightarrow> (('db, 'w, 'y) fp_world_scheme, ModNScalar) go" where
  "signFinalitySig E b = get_go (\<lambda>s. s) (\<lambda>s.
     wrap_go ''failed to sign EOTS: ''
       (on_ext (em_SignEOTS (env_em E) (ins_btcPk (fw_ins s)) (GetChainID s)
         (getMsgToSignForVote (Height b) (Hash b)) (Height b) (ins_passphrase (fw_ins s)))) ret)"

definition prs_AddPubRandProofList ::
  "('db, 'w, 'z) fp_env_scheme \<Rightarrow> FieldVal list \<Rightarrow> merkle_Proof list \<Rightarrow> (('db, 'w, 'y) fp_world_scheme, unit) go" where
  "prs_AddPubRandProofList E pubRandList proofList = on_db (AddPubRandProofList E pubRandList proofList)"

definition prs_GetPubRandProof ::
  "('db, 'w, 'z) fp_env_scheme \<Rightarrow> FieldVal \<Rightarrow> (('db, 'w, 'y) fp_world_scheme, bytes) go" where
  "prs_GetPubRandProof E pubRand = on_db (GetPubRandProof E pubRand)"

definition prs_GetPubRandProofList ::
  "('db, 'w, 'z) fp_env_scheme \<Rightarrow> FieldVal list \<Rightarrow> (('db, 'w, 'y) fp_world_scheme, bytes list) go" where
  "prs_GetPubRandProofList E pubRandList = on_db (GetPubRandProofList E pubRandList)"

section \<open>Queries\<close>

definition lastCommittedPublicRandWithRetry ::
  "('db, 'w, 'z) fp_env_scheme \<Rightarrow> u64 \<Rightarrow>
   (('db, 'w, 'y) fp_world_scheme, (u64 \<times> PubRandCommitResponse) list) go" where
  "lastCommittedPublicRandWithRetry E count = get_go GetBtcPk (\<lambda>pk.
     on_ext (retry_Do (env_RetryIf E) RtyAttNum (cc_QueryLastCommittedPublicRand (env_cc E) pk count)))"

definition latestFinalizedBlocksWithRetry ::
  "('db, 'w, 'z) fp_env_scheme \<Rightarrow> u64 \<Rightarrow> (('db, 'w, 'y) fp_world_scheme, BlockInfo list) go" where
  "latestFinalizedBlocksWithRetry E count =
     on_ext (retry_Do (env_RetryIf E) RtyAttNum (cc_QueryLatestFinalizedBlocks (env_cc E) count))"

definition getLatestBlockWithRetry ::
  "('db, 'w, 'z) fp_env_scheme \<Rightarrow> (('db, 'w, 'y) fp_world_scheme, BlockInfo) go" where
  "getLatestBlockWithRetry E =
     try_go (on_ext (retry_Do (env_RetryIf E) RtyAttNum (cc_QueryBestBlock (env_cc E)))) (\<lambda>latestBlock.
     meter (\<lambda>_. RecordBabylonTipHeight (Height latestBlock)) (ret latestBlock))"

definition GetVotingPowerWithRetry ::
  "('db, 'w, 'z) fp_env_scheme \<Rightarrow> u64 \<Rightarrow> (('db, 'w, 'y) fp_world_scheme, u64) go" where
  "GetVotingPowerWithRetry E height = get_go GetBtcPk (\<lambda>pk.
     on_ext (retry_Do (env_RetryIf E) RtyAttNum (cc_QueryFinalityProviderVotingPower (env_cc E) pk height)))"

definition GetFinalityProviderSlashedOrJailedWithRetry ::
  "('db, 'w, 'z) fp_env_scheme \<Rightarrow> (('db, 'w, 'y) fp_world_scheme, bool \<times> bool) go" where
  "GetFinalityProviderSlashedOrJailedWithRetry E = get_go GetBtcPk (\<lambda>pk.
     on_ext (retry_Do (env_RetryIf E) RtyAttNum (cc_QueryFinalityProviderSlashedOrJailed (env_cc E) pk)))"

definition checkBlockFinalization ::
  "('db, 'w, 'z) fp_env_scheme \<Rightarrow> u64 \<Rightarrow> (('db, 'w, 'y) fp_world_scheme, bool) go" where
  "checkBlockFinalization E height = try_go (on_ext (cc_QueryBlock (env_cc E) height)) (\<lambda>b. ret (Finalized b))"

text \<open>The loop over a map of one entry.\<close>

definition GetLastCommittedHeight ::
  "('db, 'w, 'z) fp_env_scheme \<Rightarrow> (('db, 'w, 'y) fp_world_scheme, u64) go" where
  "GetLastCommittedHeight E = try_go (lastCommittedPublicRandWithRetry E 1) (\<lambda>pubRandCommitMap.
     case pubRandCommitMap of
       [] \<Rightarrow> ret 0
     | (startHeight, resp) # rest \<Rightarrow>
         if length pubRandCommitMap > 1
         then fail (NewErr ''got more than one last committed public randomness'')
         else ret (startHeight + prc_NumPubRand resp - 1))"

definition getPollerStartingHeight ::
  "('db, 'w, 'z) fp_env_scheme \<Rightarrow> (('db, 'w, 'y) fp_world_scheme, u64) go" where
  "getPollerStartingHeight E =
     (if \<not> AutoChainScanningMode (PollerConfig (env_cfg E))
      then ret (StaticChainScanningStartHeight (PollerConfig (env_cfg E)))
      else get_go GetLastProcessedHeight (\<lambda>lastProcessed.
        try_go (latestFinalizedBlocksWithRetry E 1) (\<lambda>latestFinalisedBlock.
        let initial = (case latestFinalisedBlock of
               [] \<Rightarrow> lastProcessed
             | b # _ \<Rightarrow> if Height b > lastProcessed then Height b else lastProcessed)
        in ret (if initial = 0 then 1 else initial))))"

definition hasProcessed :: "BlockInfo \<Rightarrow> ('db, 'w, 'y) fp_world_scheme \<Rightarrow> bool" where
  "hasProcessed b s = (if Height b \<le> GetLastProcessedHeight s then True else False)"

definition hasVotingPower ::
  "('db, 'w, 'z) fp_env_scheme \<Rightarrow> BlockInfo \<Rightarrow> (('db, 'w, 'y) fp_world_scheme, bool) go" where
  "hasVotingPower E b = try_go (GetVotingPowerWithRetry E (Height b)) (\<lambda>power.
     if power = 0 then ret False else ret True)"

definition checkLagging :: "('db, 'w, 'z) fp_env_scheme \<Rightarrow> BlockInfo \<Rightarrow> ('db, 'w, 'y) fp_world_scheme \<Rightarrow> bool" where
  "checkLagging E currentBlock s \<longleftrightarrow>
     Height currentBlock \<ge> GetLastProcessedHeight s + FastSyncGap (env_cfg E)"

definition reportCriticalErr :: "go_error \<Rightarrow> (('db, 'w, 'y) fp_world_scheme, unit) go" where
  "reportCriticalErr err = get_go GetBtcPk (\<lambda>pk.
     upd_go (set_ins (\<lambda>i. i\<lparr>ins_criticalErrChan :=
       ins_criticalErrChan i @ [\<lparr>ce_err = err, ce_fpBtcPk = pk\<rparr>]\<rparr>)) (ret ()))"

section \<open>Committing public randomness\<close>

definition commit_start_height :: "Config \<Rightarrow> u64 \<Rightarrow> u64 \<Rightarrow> u64 option" where
  "commit_start_height cfg lastCommittedHeight tipHeight =
     (if lastCommittedHeight = 0 then Some (tipHeight + 1)
      else if lastCommittedHeight < ucast (MinRandHeightGap cfg) + tipHeight then Some (lastCommittedHeight + 1)
      else None)"

definition CommitPubRand ::
  "('db, 'w, 'z) fp_env_scheme \<Rightarrow> u64 \<Rightarrow> (('db, 'w, 'y) fp_world_scheme, TxResponse option) go" where
  "CommitPubRand E tipHeight =
     try_go (GetLastCommittedHeight E) (\<lambda>lastCommittedHeight.
     case commit_start_height (env_cfg E) lastCommittedHeight tipHeight of
       None \<Rightarrow> ret None
     | Some startHeight \<Rightarrow>
         wrap_go ''failed to generate randomness: ''
           (getPubRandList E startHeight (NumPubRand (env_cfg E))) (\<lambda>pubRandList.
         let numPubRand = of_nat (length pubRandList);
             (commitment, proofList) = GetPubRandCommitAndProofs E pubRandList
         in wrap_go ''failed to save public randomness to DB: ''
              (prs_AddPubRandProofList E pubRandList proofList) (\<lambda>_.
            wrap_go ''failed to sign the Schnorr signature: ''
              (signPubRandCommit E startHeight numPubRand commitment) (\<lambda>schnorrSig.
            get_go GetBtcPk (\<lambda>pk.
            wrap_go ''failed to commit public randomness to the consumer chain: ''
              (on_ext (cc_CommitPubRandList (env_cc E) pk startHeight numPubRand commitment schnorrSig)) (\<lambda>res.
            meter RecordFpRandomnessTime (
            meter (\<lambda>pk. RecordFpLastCommittedRandomnessHeight pk lastCommittedHeight) (
            meter (\<lambda>pk. AddToFpTotalCommittedRandomness pk (OfLen (length pubRandList))) (
            ret (Some res))))))))))"

section \<open>Submitting finality signatures\<close>

definition SubmitFinalitySignature ::
  "('db, 'w, 'z) fp_env_scheme \<Rightarrow> BlockInfo \<Rightarrow> (('db, 'w, 'y) fp_world_scheme, TxResponse) go" where
  "SubmitFinalitySignature E b =
     try_go (signFinalitySig E b) (\<lambda>sig.
     text_go ''failed to get public randomness list: '' (getPubRandList E (Height b) 1) (\<lambda>prList.
     index_go prList 0 (\<lambda>pubRand.
     get_go fw_ins (\<lambda>i.
     wrap_go (''failed to get inclusion proof of public randomness '' @ FieldVal_String E pubRand @
         '' for FP '' @ hex_encode (ins_btcPk i) @ '' for block '' @ fmt_u64 (Height b) @ '': '')
       (prs_GetPubRandProof E pubRand) (\<lambda>proofBytes.
     get_go GetBtcPk (\<lambda>pk.
     wrap_go ''failed to send finality signature to the consumer chain: ''
       (on_ext (cc_SubmitFinalitySig (env_cc E) pk b pubRand proofBytes sig)) (\<lambda>res.
     try_go (MustUpdateStateAfterFinalitySigSubmission E (Height b)) (\<lambda>_.
     meter RecordFpVoteTime (
     meter IncrementFpTotalVotedBlocks (
     ret res))))))))))"

fun sign_blocks ::
  "('db, 'w, 'z) fp_env_scheme \<Rightarrow> BlockInfo list \<Rightarrow> ModNScalar list \<Rightarrow>
   (('db, 'w, 'y) fp_world_scheme, ModNScalar list) go" where
  "sign_blocks E [] sigList = ret sigList"
| "sign_blocks E (b # blocks) sigList =
     try_go (signFinalitySig E b) (\<lambda>eotsSig. sign_blocks E blocks (sigList @ [eotsSig]))"

definition SubmitBatchFinalitySignatures ::
  "('db, 'w, 'z) fp_env_scheme \<Rightarrow> BlockInfo list \<Rightarrow> (('db, 'w, 'y) fp_world_scheme, TxResponse) go" where
  "SubmitBatchFinalitySignatures E blocks =
     (if length blocks = 0
      then fail (NewErr ''should not submit batch finality signature with zero block'')
      else if length blocks > 2 ^ 32 - 1
      then fail (NewErr ''should not submit batch finality signature with too many blocks'')
      else
        text_go ''failed to get public randomness list: ''
          (getPubRandList E (Height (hd blocks)) (of_nat (length blocks))) (\<lambda>prList.
        text_go ''failed to get public randomness inclusion proof list: ''
          (prs_GetPubRandProofList E prList) (\<lambda>proofBytesList.
        try_go (sign_blocks E blocks []) (\<lambda>sigList.
        get_go GetBtcPk (\<lambda>pk.
        handle_go (on_ext (cc_SubmitBatchFinalitySigs (env_cc E) pk blocks prList proofBytesList sigList))
          (\<lambda>err. if strings_Contains (err_msg err) ''jailed''
                then fail (Sentinel (ServiceErr ErrFinalityProviderJailed))
                else if strings_Contains (err_msg err) ''slashed''
                then fail (Sentinel (ServiceErr ErrFinalityProviderSlashed))
                else fail err) (\<lambda>res.
        try_go (MustUpdateStateAfterFinalitySigSubmission E (Height (last blocks))) (\<lambda>_.
        ret res)))))))"

text \<open>The manual submission that looks for slashing evidence in the events.\<close>

fun extract_priv_key ::
  "('db, 'w, 'z) fp_env_scheme \<Rightarrow> RelayerEvent list \<Rightarrow> (('db, 'w, 'y) fp_world_scheme, PrivateKey option) go" where
  "extract_priv_key E [] = ret None"
| "extract_priv_key E (ev # evs) =
     (if strings_Contains (EventType ev) ''EventSlashedFinalityProvider''
      then let evidenceStr = (case Attributes ev ''evidence'' of None \<Rightarrow> '''' | Some v \<Rightarrow> v)
           in text_go ''failed to decode evidence bytes to evidence: ''
                (of_res (Evidence_Unmarshal E evidenceStr)) (\<lambda>evidence.
              text_go ''failed to extract private key: ''
                (of_res (Evidence_ExtractBTCSK E evidence)) (\<lambda>privKey. ret (Some privKey)))
      else extract_priv_key E evs)"

definition TestSubmitFinalitySignatureAndExtractPrivKey ::
  "('db, 'w, 'z) fp_env_scheme \<Rightarrow> BlockInfo \<Rightarrow>
   (('db, 'w, 'y) fp_world_scheme, TxResponse \<times> PrivateKey option) go" where
  "TestSubmitFinalitySignatureAndExtractPrivKey E b =
     text_go ''failed to get public randomness list: '' (getPubRandList E (Height b) 1) (\<lambda>prList.
     index_go prList 0 (\<lambda>pubRand.
     text_go ''failed to get public randomness inclusion proof: '' (prs_GetPubRandProof E pubRand) (\<lambda>proofBytes.
     try_go (signFinalitySig E b) (\<lambda>eotsSig.
     get_go GetBtcPk (\<lambda>pk.
     wrap_go ''failed to send finality signature to the consumer chain: ''
       (on_ext (cc_SubmitFinalitySig (env_cc E) pk b pubRand proofBytes eotsSig)) (\<lambda>res.
     try_go (extract_priv_key E (Events res)) (\<lambda>privKey. ret (res, privKey))))))))"

section \<open>Retrying until the block is finalized\<close>

text \<open>
  What the \<^verbatim>\<open>select\<close> of the retry loops receives: the timer, or the close of the quit
  channel. The list of wake-ups bounds the rounds; a loop that has used it up is \<open>Running\<close>.
\<close>

datatype wake = Timer | Quit

fun retrySubmit_loop ::
  "('db, 'w, 'z) fp_env_scheme \<Rightarrow> BlockInfo \<Rightarrow> u32 \<Rightarrow> wake list \<Rightarrow>
   (('db, 'w, 'y) fp_world_scheme, TxResponse option) go" where
  "retrySubmit_loop E targetBlock failedCycles wakes =
     handle_go (SubmitFinalitySignature E targetBlock)
       (\<lambda>err. if IsUnrecoverable (env_errs E) err then fail err
         else if IsExpected err then ret None
         else if failedCycles + 1 > MaxSubmissionRetries (env_cfg E)
         then fail (WrapErr ''reached max failed cycles with err: '' err)
         else (case wakes of
             [] \<Rightarrow> running
           | Quit # _ \<Rightarrow> fail (Sentinel (ServiceErr ErrFinalityProviderShutDown))
           | Timer # wakes' \<Rightarrow>
               wrap_go (''failed to query block finalization at height '' @ fmt_u64 (Height targetBlock) @ '': '')
                 (checkBlockFinalization E (Height targetBlock)) (\<lambda>finalized.
               if finalized then ret None
               else retrySubmit_loop E targetBlock (failedCycles + 1) wakes')))
       (\<lambda>res. ret (Some res))"

declare retrySubmit_loop.simps [simp del]

definition retrySubmitFinalitySignatureUntilBlockFinalized ::
  "('db, 'w, 'z) fp_env_scheme \<Rightarrow> BlockInfo \<Rightarrow> wake list \<Rightarrow>
   (('db, 'w, 'y) fp_world_scheme, TxResponse option) go" where
  "retrySubmitFinalitySignatureUntilBlockFinalized E targetBlock wakes =
     retrySubmit_loop E targetBlock 0 wakes"

fun retryCommit_loop ::
  "('db, 'w, 'z) fp_env_scheme \<Rightarrow> BlockInfo \<Rightarrow> u32 \<Rightarrow> wake list \<Rightarrow>
   (('db, 'w, 'y) fp_world_scheme, TxResponse option) go" where
  "retryCommit_loop E targetBlock failedCycles wakes =
     handle_go (CommitPubRand E (Height targetBlock))
       (\<lambda>err. if IsUnrecoverable (env_errs E) err then fail err
         else if failedCycles + 1 > MaxSubmissionRetries (env_cfg E)
         then fail (WrapErr ''reached max failed cycles with err: '' err)
         else (case wakes of
             [] \<Rightarrow> running
           | Quit # _ \<Rightarrow> ret None
           | Timer # wakes' \<Rightarrow>
               wrap_go (''failed to query block finalization at height '' @ fmt_u64 (Height targetBlock) @ '': '')
                 (checkBlockFinalization E (Height targetBlock)) (\<lambda>finalized.
               if finalized then ret None
               else retryCommit_loop E targetBlock (failedCycles + 1) wakes')))
       ret"

declare retryCommit_loop.simps [simp del]

definition retryCommitPubRandUntilBlockFinalized ::
  "('db, 'w, 'z) fp_env_scheme \<Rightarrow> BlockInfo \<Rightarrow> wake list \<Rightarrow>
   (('db, 'w, 'y) fp_world_scheme, TxResponse option) go" where
  "retryCommitPubRandUntilBlockFinalized E targetBlock wakes = retryCommit_loop E targetBlock 0 wakes"

section \<open>Creation\<close>

definition NewFinalityProviderInstance ::
  "('db, 'w, 'z) fp_env_scheme \<Rightarrow> bytes \<Rightarrow> string \<Rightarrow> ('db, FinalityProviderInstance) go" where
  "NewFinalityProviderInstance E fpPk passphrase =
     handle_go (of_res (schnorr_ParsePubKey E fpPk)) (\<lambda>e. crash (err_msg e)) (\<lambda>btcPk.
     wrap_go (''failed to retrive the finality provider '' @ hex_encode fpPk @ '' from DB: '')
       (GetFinalityProvider E btcPk) (\<lambda>sfp.
     if \<not> ShouldStart sfp
     then fail (NewErr (''the finality provider instance cannot be initiated with status '' @
       Status_String (sfp_Status sfp)))
     else ret \<lparr>ins_btcPk = sfp_BtcPk sfp, ins_fp = sfp, ins_passphrase = passphrase,
       ins_isStarted = False, ins_inSync = False, ins_isLagging = False, ins_poller = None,
       ins_laggingTargetChan = None, ins_quit = None, ins_criticalErrChan = []\<rparr>))"

definition ins_IsJailed :: "('db, 'w, 'y) fp_world_scheme \<Rightarrow> bool" where
  "ins_IsJailed s \<longleftrightarrow> GetStatus s = JAILED"

definition ins_IsRunning :: "FinalityProviderInstance \<Rightarrow> bool" where
  "ins_IsRunning i = ins_isStarted i"

section \<open>What no operation undoes\<close>

text \<open>
  The heights in the store never fall, the store keeps its invariant, the metrics show no
  height above the stored one, and the identity of the instance (keys, chain, passphrase)
  never changes.
\<close>

definition ins_ident :: "FinalityProviderInstance \<Rightarrow> bytes \<times> bytes \<times> string \<times> string" where
  "ins_ident i = (ins_btcPk i, sfp_BtcPk (ins_fp i), sfp_ChainID (ins_fp i), ins_passphrase i)"

definition world_progress ::
  "('db, 'w, 'z) fp_env_scheme \<Rightarrow> ('db, 'w, 'y) fp_world_scheme \<Rightarrow> ('db, 'w, 'y) fp_world_scheme \<Rightarrow> bool" where
  "world_progress E s s' \<longleftrightarrow>
     fp_progress E (fw_db s) (fw_db s') \<and> ins_ident (fw_ins s') = ins_ident (fw_ins s) \<and>
     (fp_wf E (fw_db s) \<longrightarrow> metrics_le E (fw_db s') (fw_metrics s) (fw_metrics s'))"

text \<open>A step that shows something and one that follows it.\<close>

lemma metered_trans:
  assumes "fp_progress L d d'" and "fp_progress L d' d''" and "fp_wf L d"
    and "fp_wf L d \<longrightarrow> metrics_le L d' m m'" and "fp_wf L d' \<longrightarrow> metrics_le L d'' m' m''"
  shows "metrics_le L d'' m m''"
proof -
  have wf: "fp_wf L d'" using assms(1,3) by (simp add: fp_progress_def)
  have "metrics_le L d' m m'" using assms(3,4) by blast
  with wf assms(2) have "metrics_le L d'' m m'" by (rule metrics_le_progress)
  moreover have "metrics_le L d'' m' m''" using assms(5) wf by blast
  ultimately show ?thesis by (rule metrics_le_trans)
qed

interpretation world: go_preorder "world_progress E" for E :: "('db, 'w, 'z) fp_env_scheme"
proof
  fix s t u :: "('db, 'w, 'a) fp_world_scheme"
  show "world_progress E s s" by (simp add: world_progress_def progress.R_refl metrics_le_refl)
  assume st: "world_progress E s t" and tu: "world_progress E t u"
  then have "fp_progress E (fw_db s) (fw_db u)" unfolding world_progress_def by (blast intro: progress.R_trans)
  with st tu show "world_progress E s u"
    unfolding world_progress_def by (auto intro: metered_trans [of E "fw_db s" "fw_db t"])
qed

lemma world_progress_same:
  "fw_db s' = fw_db s \<Longrightarrow> ins_ident (fw_ins s') = ins_ident (fw_ins s) \<Longrightarrow> metrics_le E (fw_db s) (fw_metrics s) (fw_metrics s') \<Longrightarrow>
   world_progress E s s'"
  by (simp add: world_progress_def progress.R_refl)

lemma on_ext_progress [go_rel_intros]: "go_rel (world_progress E) (on_ext m)"
  by (auto simp: go_rel_def on_ext_def zoom_go_def metrics_le_refl intro!: world_progress_same split: prod.splits)

lemma on_db_progress [go_rel_intros]: "go_rel (fp_progress E) m \<Longrightarrow> go_rel (world_progress E) (on_db m)"
  unfolding on_db_def by (erule go_rel_zoom) (simp add: world_progress_def metrics_le_refl)

lemma set_ins_progress [go_rel_intros]:
  "(\<And>i. ins_ident (f i) = ins_ident i) \<Longrightarrow> go_rel (world_progress E) k \<Longrightarrow>
   go_rel (world_progress E) (upd_go (set_ins f) k)"
  by (rule world.rel_upd) (simp_all add: set_ins_def world_progress_same metrics_le_refl)

lemma set_fp_progress [go_rel_intros]:
  "(\<And>p. sfp_BtcPk (f p) = sfp_BtcPk p \<and> sfp_ChainID (f p) = sfp_ChainID p) \<Longrightarrow>
   go_rel (world_progress E) k \<Longrightarrow> go_rel (world_progress E) (upd_go (set_fp f) k)"
  unfolding set_fp_def by (rule set_ins_progress) (simp_all add: ins_ident_def)

lemma meter_progress [go_rel_intros]:
  "(\<And>hx d m. metrics_le E d m (f hx m)) \<Longrightarrow> go_rel (world_progress E) k \<Longrightarrow> go_rel (world_progress E) (meter f k)"
  unfolding meter_def by (rule world.rel_upd) (simp_all add: world_progress_same)

lemma GetPubRandProof_progress [go_rel_intros]: "go_rel (fp_progress E) (GetPubRandProof E pr)"
  unfolding GetPubRandProof_def by (rule View_progress)

lemma GetPubRandProofList_progress [go_rel_intros]: "go_rel (fp_progress E) (GetPubRandProofList E prs)"
  unfolding GetPubRandProofList_def by (rule View_progress)

lemma MustSetStatus_progress [go_rel_intros]:
  "store_laws E \<Longrightarrow> go_rel (world_progress E) (MustSetStatus E st)"
  unfolding MustSetStatus_def SetStatus_def by (intro go_rel_intros) simp_all

text \<open>The heights are shown after they were stored, and only if they were.\<close>

lemma stored_then_shown:
  assumes store: "go_rel (world_progress E) w"
    and later: "\<And>s s'. fp_wf E (fw_db s) \<Longrightarrow> w s = (Ok (), s') \<Longrightarrow>
      metrics_le E (fw_db s') (fw_metrics s') (f (GetBtcPkHex s') (fw_metrics s'))"
  shows "go_rel (world_progress E) (handle_go w (\<lambda>_. crash c) (\<lambda>_. meter f (ret ())))"
proof (rule go_relI)
  fix s
  obtain r s' where run: "w s = (r, s')" by (cases "w s")
  have le: "world_progress E s s'" by (rule go_relD [OF store run])
  have "world_progress E s (s'\<lparr>fw_metrics := f (GetBtcPkHex s') (fw_metrics s')\<rparr>)" if "r = Ok ()"
    using le later [OF _ run [unfolded that]] by (auto simp: world_progress_def intro: metrics_le_trans)
  with le run show "world_progress E s (snd (handle_go w (\<lambda>_. crash c) (\<lambda>_. meter f (ret ())) s))"
    by (cases r) (simp_all add: handle_go_def crash_def meter_def upd_go_def ret_def)
qed

lemma MustSetLastProcessedHeight_progress [go_rel_intros]:
  fixes E :: "('db, 'w, 'z) fp_env_scheme"
  assumes "store_laws E"
  shows "go_rel (world_progress E) (MustSetLastProcessedHeight E h :: (('db, 'w, 'y) fp_world_scheme, unit) go)"
  unfolding MustSetLastProcessedHeight_def
proof (rule stored_then_shown)
  show "go_rel (world_progress E) (SetLastProcessedHeight E h :: (('db, 'w, 'y) fp_world_scheme, unit) go)"
    unfolding SetLastProcessedHeight_def by (intro go_rel_intros assms) simp_all
  fix s s' :: "('db, 'w, 'y) fp_world_scheme" assume wf: "fp_wf E (fw_db s)" and run: "SetLastProcessedHeight E h s = (Ok (), s')"
  from run have db: "SetFpLastProcessedHeight E (GetBtcPk s') h (fw_db s) = (Ok (), fw_db s')"
    by (auto simp: SetLastProcessedHeight_def upd_go_def get_go_def on_db_def zoom_go_def GetBtcPk_def
        getStoreFinalityProvider_def set_fp_def set_ins_def split: prod.splits)
  have "store_ok E (fw_db s)" using assms wf by (simp add: store_ok_def)
  from fpstore.processed_Ok [OF this db] obtain v p
    where "stored_heights E (fw_db s') (GetBtcPk s') = Some (v, max p h)" by auto
  then show "metrics_le E (fw_db s') (fw_metrics s') (RecordFpLastProcessedHeight (GetBtcPkHex s') h (fw_metrics s'))"
    unfolding GetBtcPkHex_def by (rule metrics_le_heights) simp
qed

lemma MustUpdateState_progress [go_rel_intros]:
  fixes E :: "('db, 'w, 'z) fp_env_scheme"
  assumes "store_laws E"
  shows "go_rel (world_progress E) (MustUpdateStateAfterFinalitySigSubmission E h :: (('db, 'w, 'y) fp_world_scheme, unit) go)"
proof -
  let ?f = "\<lambda>pk m. RecordFpLastProcessedHeight pk h (RecordFpLastVotedHeight pk h m)"
  have eq: "(MustUpdateStateAfterFinalitySigSubmission E h :: (('db, 'w, 'y) fp_world_scheme, unit) go) = handle_go (updateStateAfterFinalitySigSubmission E h)
       (\<lambda>_. crash ''failed to update state after finality signature submitted'') (\<lambda>_. meter ?f (ret ()))"
    by (simp add: MustUpdateStateAfterFinalitySigSubmission_def meter_def upd_go_def GetBtcPkHex_def GetBtcPk_def
        getStoreFinalityProvider_def)
  show ?thesis
    unfolding eq
  proof (rule stored_then_shown)
    show "go_rel (world_progress E) (updateStateAfterFinalitySigSubmission E h :: (('db, 'w, 'y) fp_world_scheme, unit) go)"
      unfolding updateStateAfterFinalitySigSubmission_def by (intro go_rel_intros assms) simp_all
    fix s s' :: "('db, 'w, 'y) fp_world_scheme" assume wf: "fp_wf E (fw_db s)" and run: "updateStateAfterFinalitySigSubmission E h s = (Ok (), s')"
    from run have db: "SetFpLastVotedHeight E (GetBtcPk s') h (fw_db s) = (Ok (), fw_db s')"
      by (auto simp: updateStateAfterFinalitySigSubmission_def upd_go_def get_go_def on_db_def zoom_go_def GetBtcPk_def
          getStoreFinalityProvider_def set_fp_def set_ins_def split: prod.splits)
    have "store_ok E (fw_db s)" using assms wf by (simp add: store_ok_def)
    from fpstore.voted_Ok [OF this db] obtain v p
      where st: "stored_heights E (fw_db s') (GetBtcPk s') = Some (max v h, max p h)" by auto
    show "metrics_le E (fw_db s') (fw_metrics s') (?f (GetBtcPkHex s') (fw_metrics s'))"
      unfolding GetBtcPkHex_def by (rule metrics_le_trans; rule metrics_le_heights [OF st]) simp_all
  qed
qed

lemmas fp_query_defs =
  getPubRandList_def signPubRandCommit_def signFinalitySig_def prs_AddPubRandProofList_def
  prs_GetPubRandProof_def prs_GetPubRandProofList_def lastCommittedPublicRandWithRetry_def
  latestFinalizedBlocksWithRetry_def getLatestBlockWithRetry_def GetVotingPowerWithRetry_def
  GetFinalityProviderSlashedOrJailedWithRetry_def checkBlockFinalization_def GetLastCommittedHeight_def
  getPollerStartingHeight_def hasVotingPower_def

lemma SubmitFinalitySignature_progress [go_rel_intros]:
  "store_laws E \<Longrightarrow> go_rel (world_progress E) (SubmitFinalitySignature E b)"
  unfolding SubmitFinalitySignature_def fp_query_defs by (intro go_rel_intros)

lemma sign_blocks_progress [go_rel_intros]: "go_rel (world_progress E) (sign_blocks E bs sigs)"
  by (induction bs arbitrary: sigs) (auto simp: fp_query_defs intro!: go_rel_intros)

lemma SubmitBatchFinalitySignatures_progress [go_rel_intros]:
  "store_laws E \<Longrightarrow> go_rel (world_progress E) (SubmitBatchFinalitySignatures E bs)"
  unfolding SubmitBatchFinalitySignatures_def fp_query_defs by (intro go_rel_intros)

lemma CommitPubRand_progress [go_rel_intros]:
  "store_laws E \<Longrightarrow> go_rel (world_progress E) (CommitPubRand E h)"
  unfolding CommitPubRand_def fp_query_defs by (intro go_rel_intros)

lemma hasVotingPower_progress [go_rel_intros]: "go_rel (world_progress E) (hasVotingPower E b)"
  unfolding fp_query_defs by (intro go_rel_intros)

lemma retrySubmit_progress [go_rel_intros]:
  assumes "store_laws E"
  shows "go_rel (world_progress E) (retrySubmit_loop E b n wakes)"
proof (induction wakes arbitrary: n)
  case Nil
  show ?case by (subst retrySubmit_loop.simps, simp only: list.case) (intro go_rel_intros assms)
next
  case (Cons x wakes)
  show ?case
    by (subst retrySubmit_loop.simps, cases x; simp only: list.case wake.case checkBlockFinalization_def)
       (intro go_rel_intros assms Cons)+
qed

lemma retryCommit_progress [go_rel_intros]:
  assumes "store_laws E"
  shows "go_rel (world_progress E) (retryCommit_loop E b n wakes)"
proof (induction wakes arbitrary: n)
  case Nil
  show ?case by (subst retryCommit_loop.simps, simp only: list.case) (intro go_rel_intros assms)
next
  case (Cons x wakes)
  show ?case
    by (subst retryCommit_loop.simps, cases x; simp only: list.case wake.case checkBlockFinalization_def)
       (intro go_rel_intros assms Cons)+
qed

section \<open>What a successful submission did\<close>

lemma on_db_D:
  "on_db m s = (r, s') \<Longrightarrow> m (fw_db s) = (r, fw_db s') \<and> fw_ext s' = fw_ext s \<and> fw_ins s' = fw_ins s \<and>
   fw_metrics s' = fw_metrics s"
  by (auto simp: on_db_def zoom_go_def split: prod.splits)

lemma on_ext_D:
  "on_ext m s = (r, s') \<Longrightarrow> m (fw_ext s) = (r, fw_ext s') \<and> fw_db s' = fw_db s \<and> fw_ins s' = fw_ins s \<and>
   fw_metrics s' = fw_metrics s"
  by (auto simp: on_ext_def zoom_go_def split: prod.splits)

lemma metered_getters [simp]:
  "GetBtcPk (s\<lparr>fw_metrics := m\<rparr>) = GetBtcPk s" "GetBtcPkHex (s\<lparr>fw_metrics := m\<rparr>) = GetBtcPkHex s"
  "GetStatus (s\<lparr>fw_metrics := m\<rparr>) = GetStatus s" "GetChainID (s\<lparr>fw_metrics := m\<rparr>) = GetChainID s"
  "GetLastVotedHeight (s\<lparr>fw_metrics := m\<rparr>) = GetLastVotedHeight s"
  "GetLastProcessedHeight (s\<lparr>fw_metrics := m\<rparr>) = GetLastProcessedHeight s"
  "hasProcessed b (s\<lparr>fw_metrics := m\<rparr>) = hasProcessed b s" "checkLagging E b (s\<lparr>fw_metrics := m\<rparr>) = checkLagging E b s"
  by (simp_all add: getStoreFinalityProvider_def GetBtcPk_def GetBtcPkHex_def GetStatus_def GetLastVotedHeight_def
      GetLastProcessedHeight_def GetChainID_def hasProcessed_def checkLagging_def)

lemma meter_apply: "meter f k s = k (s\<lparr>fw_metrics := f (GetBtcPkHex s) (fw_metrics s)\<rparr>)"
  by (simp add: meter_def upd_go_def)

lemma ins_simps [simp]:
  "fw_db (set_ins f s) = fw_db s" "fw_ext (set_ins f s) = fw_ext s" "fw_ins (set_ins f s) = f (fw_ins s)"
  "fw_db (set_fp g s) = fw_db s" "fw_ext (set_fp g s) = fw_ext s"
  "fw_ins (set_fp g s) = (fw_ins s)\<lparr>ins_fp := g (ins_fp (fw_ins s))\<rparr>"
  "fw_metrics (set_ins f s) = fw_metrics s" "fw_metrics (set_fp g s) = fw_metrics s"
  by (simp_all add: set_ins_def set_fp_def)

lemmas fp_getters = getStoreFinalityProvider_def GetBtcPk_def GetBtcPkHex_def GetStatus_def GetLastVotedHeight_def
  GetLastProcessedHeight_def GetChainID_def

lemma getLatestBlock_D:
  assumes "getLatestBlockWithRetry E s = (r, s')"
  shows "retry_Do (env_RetryIf E) RtyAttNum (cc_QueryBestBlock (env_cc E)) (fw_ext s) = (r, fw_ext s') \<and>
    fw_db s' = fw_db s \<and> fw_ins s' = fw_ins s"
  using assms by (auto simp: getLatestBlockWithRetry_def on_ext_def go_defs split: prod.splits res.splits)

lemma getPubRandList_Ok:
  assumes "getPubRandList E h n s = (Ok prs, s')"
  shows "em_CreateRandomnessPairList (env_em E) (ins_btcPk (fw_ins s)) (GetChainID s) h n
      (ins_passphrase (fw_ins s)) (fw_ext s) = (Ok prs, fw_ext s') \<and>
    fw_db s' = fw_db s \<and> fw_ins s' = fw_ins s \<and> fw_metrics s' = fw_metrics s"
  using assms by (auto simp: getPubRandList_def get_go_def dest!: on_ext_D)

lemma signFinalitySig_Ok:
  assumes "signFinalitySig E b s = (Ok sg, s')"
  shows "em_SignEOTS (env_em E) (ins_btcPk (fw_ins s)) (GetChainID s)
      (getMsgToSignForVote (Height b) (Hash b)) (Height b) (ins_passphrase (fw_ins s)) (fw_ext s)
      = (Ok sg, fw_ext s') \<and> fw_db s' = fw_db s \<and> fw_ins s' = fw_ins s \<and> fw_metrics s' = fw_metrics s"
  using assms by (auto simp: signFinalitySig_def get_go_def ret_def elim!: try_go_OkE dest!: on_ext_D)

lemma prs_GetPubRandProof_Ok:
  "prs_GetPubRandProof E pr s = (Ok pf, s') \<Longrightarrow>
   proof_at E (fw_db s) pr = Some pf \<and> fw_db s' = fw_db s \<and> fw_ext s' = fw_ext s \<and> fw_ins s' = fw_ins s \<and>
   fw_metrics s' = fw_metrics s"
  by (auto simp: prs_GetPubRandProof_def dest!: on_db_D GetPubRandProof_Ok)

lemma prs_GetPubRandProofList_Ok:
  "prs_GetPubRandProofList E prs s = (Ok pfs, s') \<Longrightarrow>
   map (proof_at E (fw_db s)) prs = map Some pfs \<and> fw_db s' = fw_db s \<and> fw_ext s' = fw_ext s \<and> fw_ins s' = fw_ins s \<and>
   fw_metrics s' = fw_metrics s"
  by (auto simp: prs_GetPubRandProofList_def dest!: on_db_D GetPubRandProofList_Ok)

definition voted :: "u64 \<Rightarrow> FinalityProviderInstance \<Rightarrow> FinalityProviderInstance" where
  "voted h i = i\<lparr>ins_fp := (ins_fp i)\<lparr>sfp_LastVotedHeight := h, sfp_LastProcessedHeight := h\<rparr>\<rparr>"

lemma MustUpdateState_Ok:
  assumes "MustUpdateStateAfterFinalitySigSubmission E h s = (Ok u, s')"
  shows "SetFpLastVotedHeight E (GetBtcPk s) h (fw_db s) = (Ok (), fw_db s') \<and>
    fw_ext s' = fw_ext s \<and> fw_ins s' = voted h (fw_ins s) \<and>
    fw_metrics s' = RecordFpLastProcessedHeight (GetBtcPkHex s) h (RecordFpLastVotedHeight (GetBtcPkHex s) h (fw_metrics s))"
proof -
  let ?t = "set_fp (\<lambda>fp. fp\<lparr>sfp_LastVotedHeight := h, sfp_LastProcessedHeight := h\<rparr>) s"
  from assms obtain t where "on_db (SetFpLastVotedHeight E (GetBtcPk ?t) h) ?t = (Ok (), t)"
    and "s' = t\<lparr>fw_metrics := RecordFpLastProcessedHeight (GetBtcPkHex t) h (RecordFpLastVotedHeight (GetBtcPkHex t) h (fw_metrics t))\<rparr>"
    by (auto simp: MustUpdateStateAfterFinalitySigSubmission_def updateStateAfterFinalitySigSubmission_def
        upd_go_def get_go_def crash_def ret_def meter_apply dest!: handle_go_Ok)
  then show ?thesis by (auto simp: fp_getters voted_def dest!: on_db_D)
qed

lemma SubmitFinalitySignature_Ok:
  assumes "SubmitFinalitySignature E b s = (Ok res, s')"
  obtains sg prs pf w1 w2 where
    "em_SignEOTS (env_em E) (ins_btcPk (fw_ins s)) (GetChainID s) (getMsgToSignForVote (Height b) (Hash b))
       (Height b) (ins_passphrase (fw_ins s)) (fw_ext s) = (Ok sg, w1)"
    "em_CreateRandomnessPairList (env_em E) (ins_btcPk (fw_ins s)) (GetChainID s) (Height b) 1
       (ins_passphrase (fw_ins s)) w1 = (Ok prs, w2)"
    "prs \<noteq> []"
    "proof_at E (fw_db s) (prs ! 0) = Some pf"
    "cc_SubmitFinalitySig (env_cc E) (GetBtcPk s) b (prs ! 0) pf sg w2 = (Ok res, fw_ext s')"
    "SetFpLastVotedHeight E (GetBtcPk s) (Height b) (fw_db s) = (Ok (), fw_db s')"
    "fw_ins s' = voted (Height b) (fw_ins s)"
    "fw_metrics s' = IncrementFpTotalVotedBlocks (GetBtcPkHex s) (RecordFpVoteTime (GetBtcPkHex s)
       (RecordFpLastProcessedHeight (GetBtcPkHex s) (Height b) (RecordFpLastVotedHeight (GetBtcPkHex s) (Height b) (fw_metrics s))))"
proof -
  from assms obtain sg s1 prs s2 pf s3 s4 s5 where
    sg: "signFinalitySig E b s = (Ok sg, s1)" and prs: "getPubRandList E (Height b) 1 s1 = (Ok prs, s2)"
    and ne: "prs \<noteq> []" and pf: "prs_GetPubRandProof E (prs ! 0) s2 = (Ok pf, s3)"
    and cc: "on_ext (cc_SubmitFinalitySig (env_cc E) (GetBtcPk s3) b (prs ! 0) pf sg) s3 = (Ok res, s4)"
    and upd: "MustUpdateStateAfterFinalitySigSubmission E (Height b) s4 = (Ok (), s5)"
    and s': "s' = s5\<lparr>fw_metrics := IncrementFpTotalVotedBlocks (GetBtcPkHex s5) (RecordFpVoteTime (GetBtcPkHex s5) (fw_metrics s5))\<rparr>"
    unfolding SubmitFinalitySignature_def
    by (elim try_go_OkE index_go_OkE) (auto simp: get_go_def ret_def meter_apply fp_getters elim!: try_go_OkE)
  note * = signFinalitySig_Ok [OF sg] getPubRandList_Ok [OF prs] prs_GetPubRandProof_Ok [OF pf]
    on_ext_D [OF cc] MustUpdateState_Ok [OF upd]
  show thesis
    by (rule that [of sg "fw_ext s1" prs "fw_ext s2" pf]) (use * ne s' in \<open>auto simp: fp_getters voted_def\<close>)
qed

lemma sign_blocks_Ok:
  assumes "sign_blocks E bs acc s = (Ok sgs, s')"
  shows "fw_db s' = fw_db s \<and> fw_ins s' = fw_ins s \<and> fw_metrics s' = fw_metrics s"
  using assms
proof (induction bs arbitrary: acc s)
  case Nil
  then show ?case by (simp add: ret_def)
next
  case (Cons b bs)
  then obtain sg s1 where "signFinalitySig E b s = (Ok sg, s1)" "sign_blocks E bs (acc @ [sg]) s1 = (Ok sgs, s')"
    by (auto elim: try_go_OkE)
  with Cons.IH signFinalitySig_Ok show ?case by metis
qed

lemma SubmitBatch_Ok:
  fixes s s' :: "('db, 'w, 'y) fp_world_scheme"
  assumes "SubmitBatchFinalitySignatures E bs s = (Ok res, s')"
  obtains prs pfs sgs and s1 s2 :: "('db, 'w, 'y) fp_world_scheme" where
    "bs \<noteq> []" "length bs < 2 ^ 32"
    "em_CreateRandomnessPairList (env_em E) (ins_btcPk (fw_ins s)) (GetChainID s) (Height (hd bs))
       (of_nat (length bs)) (ins_passphrase (fw_ins s)) (fw_ext s) = (Ok prs, fw_ext s1)"
    "fw_ins s1 = fw_ins s"
    "map (proof_at E (fw_db s)) prs = map Some pfs"
    "sign_blocks E bs [] s1 = (Ok sgs, s2)"
    "cc_SubmitBatchFinalitySigs (env_cc E) (GetBtcPk s) bs prs pfs sgs (fw_ext s2) = (Ok res, fw_ext s')"
    "SetFpLastVotedHeight E (GetBtcPk s) (Height (last bs)) (fw_db s) = (Ok (), fw_db s')"
    "fw_ins s' = voted (Height (last bs)) (fw_ins s)"
    "fw_metrics s' = RecordFpLastProcessedHeight (GetBtcPkHex s) (Height (last bs))
       (RecordFpLastVotedHeight (GetBtcPkHex s) (Height (last bs)) (fw_metrics s))"
proof -
  from assms have len: "bs \<noteq> []" "length bs < 2 ^ 32"
    by (auto simp: SubmitBatchFinalitySignatures_def fail_def split: if_splits)
  with assms obtain prs s0 pfs s1 sgs s2 s3 where
    prs: "getPubRandList E (Height (hd bs)) (of_nat (length bs)) s = (Ok prs, s0)"
    and pfs: "prs_GetPubRandProofList E prs s0 = (Ok pfs, s1)"
    and sgs: "sign_blocks E bs [] s1 = (Ok sgs, s2)"
    and cc: "on_ext (cc_SubmitBatchFinalitySigs (env_cc E) (GetBtcPk s2) bs prs pfs sgs) s2 = (Ok res, s3)"
    and upd: "MustUpdateStateAfterFinalitySigSubmission E (Height (last bs)) s3 = (Ok (), s')"
    unfolding SubmitBatchFinalitySignatures_def
    by (auto simp: get_go_def fail_def ret_def split: if_splits elim!: try_go_OkE dest!: handle_go_Ok)
  note * = getPubRandList_Ok [OF prs] prs_GetPubRandProofList_Ok [OF pfs] sign_blocks_Ok [OF sgs]
    on_ext_D [OF cc] MustUpdateState_Ok [OF upd]
  show thesis
    by (rule that [of prs s1 pfs sgs s2]) (use * sgs len in \<open>auto simp: fp_getters\<close>)
qed

section \<open>The votes are signed with the committed randomness\<close>

text \<open>
  The instance as a client of the EOTS manager: what it sends for a block is the randomness
  of the block's height and a signature made with it.
\<close>

locale voter = eots_contract "em_CreateRandomnessPairList (env_em E)" "em_SignEOTS (env_em E)"
    pubRandAt signedWith invar
  for E :: "('db, 'w, 'z) fp_env_scheme"
    and pubRandAt :: "'w \<Rightarrow> bytes \<Rightarrow> bytes \<Rightarrow> u64 \<Rightarrow> string \<Rightarrow> FieldVal option"
    and signedWith :: "'w \<Rightarrow> bytes \<Rightarrow> string \<Rightarrow> FieldVal \<Rightarrow> bytes \<Rightarrow> ModNScalar \<Rightarrow> bool"
    and invar :: "'w \<Rightarrow> bool"
begin

definition rand_of :: "('db, 'w, 'y) fp_world_scheme \<Rightarrow> u64 \<Rightarrow> FieldVal option" where
  "rand_of s h = pubRandAt (fw_ext s) (ins_btcPk (fw_ins s)) (GetChainID s) h (ins_passphrase (fw_ins s))"

definition vote_signed :: "('db, 'w, 'y) fp_world_scheme \<Rightarrow> BlockInfo \<Rightarrow> FieldVal \<Rightarrow> ModNScalar \<Rightarrow> bool" where
  "vote_signed s b pr sg \<longleftrightarrow> signedWith (fw_ext s) (ins_btcPk (fw_ins s)) (ins_passphrase (fw_ins s)) pr
     (getMsgToSignForVote (Height b) (Hash b)) sg"

lemma submit_vote:
  assumes inv: "invar (fw_ext s)" and run: "SubmitFinalitySignature E b s = (Ok res, s')"
  shows "\<exists>pr pf sg w. rand_of s (Height b) = Some pr \<and> vote_signed s b pr sg \<and>
    proof_at E (fw_db s) pr = Some pf \<and>
    cc_SubmitFinalitySig (env_cc E) (GetBtcPk s) b pr pf sg w = (Ok res, fw_ext s')"
  using run
proof (rule SubmitFinalitySignature_Ok)
  fix sg prs pf w1 w2
  assume sign: "em_SignEOTS (env_em E) (ins_btcPk (fw_ins s)) (GetChainID s)
      (getMsgToSignForVote (Height b) (Hash b)) (Height b) (ins_passphrase (fw_ins s)) (fw_ext s) = (Ok sg, w1)"
    and list: "em_CreateRandomnessPairList (env_em E) (ins_btcPk (fw_ins s)) (GetChainID s) (Height b) 1
       (ins_passphrase (fw_ins s)) w1 = (Ok prs, w2)"
    and rest: "proof_at E (fw_db s) (prs ! 0) = Some pf"
      "cc_SubmitFinalitySig (env_cc E) (GetBtcPk s) b (prs ! 0) pf sg w2 = (Ok res, fw_ext s')"
  from sign_frame [OF inv sign] have inv1: "invar w1" and same: "pubRandAt w1 = pubRandAt (fw_ext s)" by auto
  from create_nth [OF inv1 list] same have "rand_of s (Height b) = Some (prs ! 0)"
    by (auto simp: rand_of_def)
  with signed_then_listed [OF inv sign list] rest show ?thesis
    by (auto simp: vote_signed_def)
qed

lemma sign_blocks_nth:
  assumes "invar (fw_ext s)" and "sign_blocks E bs acc s = (Ok sgs, s')"
  shows "\<exists>us. sgs = acc @ us \<and> length us = length bs \<and>
    (\<forall>i < length bs. \<exists>pr. rand_of s (Height (bs ! i)) = Some pr \<and> vote_signed s (bs ! i) pr (us ! i))"
  using assms
proof (induction bs arbitrary: acc s)
  case Nil
  then show ?case by (simp add: ret_def)
next
  case (Cons b bs)
  then obtain sg s1 where sg: "signFinalitySig E b s = (Ok sg, s1)"
    and rest: "sign_blocks E bs (acc @ [sg]) s1 = (Ok sgs, s')"
    by (auto elim: try_go_OkE)
  note 1 = signFinalitySig_Ok [OF sg, THEN conjunct1]
  have ins: "fw_ins s1 = fw_ins s" using signFinalitySig_Ok [OF sg] by simp
  note frame = sign_frame [OF Cons.prems(1) 1]
  have same: "rand_of s1 = rand_of s" "vote_signed s1 = vote_signed s"
    using frame ins by (auto simp: rand_of_def vote_signed_def fun_eq_iff fp_getters)
  from sign_rand [OF Cons.prems(1) 1] obtain pr where
    pr: "rand_of s (Height b) = Some pr" "vote_signed s b pr sg"
    by (auto simp: rand_of_def vote_signed_def)
  from Cons.IH [OF _ rest] frame obtain us where us: "sgs = (acc @ [sg]) @ us" "length us = length bs"
    "\<forall>i < length bs. \<exists>pr. rand_of s (Height (bs ! i)) = Some pr \<and> vote_signed s (bs ! i) pr (us ! i)"
    unfolding same by blast
  have "\<exists>pr. rand_of s (Height ((b # bs) ! i)) = Some pr \<and> vote_signed s ((b # bs) ! i) pr ((sg # us) ! i)"
    if "i < length (b # bs)" for i
    using that pr us(3) by (cases i) auto
  with us show ?case by (intro exI [of _ "sg # us"]) simp
qed

text \<open>
  A batch: the \<open>i\<close>-th randomness is that of the height of the first block plus \<open>i\<close>, the
  \<open>i\<close>-th signature is made with the randomness of the \<open>i\<close>-th block.
\<close>

lemma submit_batch:
  assumes inv: "invar (fw_ext s)" and run: "SubmitBatchFinalitySignatures E bs s = (Ok res, s')"
  shows "\<exists>prs pfs sgs w. length prs = length bs \<and> length pfs = length bs \<and> length sgs = length bs \<and>
    (\<forall>i < length bs. rand_of s (Height (hd bs) + of_nat i) = Some (prs ! i) \<and>
       proof_at E (fw_db s) (prs ! i) = Some (pfs ! i) \<and>
       (\<exists>pr. rand_of s (Height (bs ! i)) = Some pr \<and> vote_signed s (bs ! i) pr (sgs ! i))) \<and>
    cc_SubmitBatchFinalitySigs (env_cc E) (GetBtcPk s) bs prs pfs sgs w = (Ok res, fw_ext s')"
  using run
proof (rule SubmitBatch_Ok)
  fix prs pfs sgs s1 s2
  assume "length bs < 2 ^ 32"
    and list: "em_CreateRandomnessPairList (env_em E) (ins_btcPk (fw_ins s)) (GetChainID s) (Height (hd bs))
       (of_nat (length bs)) (ins_passphrase (fw_ins s)) (fw_ext s) = (Ok prs, fw_ext s1)"
    and ins: "fw_ins s1 = fw_ins s"
    and pfs: "map (proof_at E (fw_db s)) prs = map Some pfs"
    and sgs: "sign_blocks E bs [] s1 = (Ok sgs, s2)"
    and cc: "cc_SubmitBatchFinalitySigs (env_cc E) (GetBtcPk s) bs prs pfs sgs (fw_ext s2) = (Ok res, fw_ext s')"
  then have n: "unat (of_nat (length bs) :: u32) = length bs"
    by (simp add: unsigned_of_nat take_bit_nat_eq_self)
  note frame = create_frame [OF inv list]
  have same: "rand_of s1 = rand_of s" "vote_signed s1 = vote_signed s"
    using frame ins by (auto simp: rand_of_def vote_signed_def fun_eq_iff fp_getters)
  from create_nth [OF inv list] n have prs: "length prs = length bs"
    "\<forall>i < length bs. rand_of s (Height (hd bs) + of_nat i) = Some (prs ! i)"
    by (auto simp: rand_of_def)
  have pfs': "length pfs = length bs" "\<forall>i < length bs. proof_at E (fw_db s) (prs ! i) = Some (pfs ! i)"
    using pfs prs(1) by (metis length_map) (metis pfs prs(1) length_map nth_map)
  from sign_blocks_nth [OF _ sgs] frame have sgs': "length sgs = length bs"
    "\<forall>i < length bs. \<exists>pr. rand_of s (Height (bs ! i)) = Some pr \<and> vote_signed s (bs ! i) pr (sgs ! i)"
    unfolding same by auto
  show ?thesis using prs pfs' sgs' cc by blast
qed

end

section \<open>Operations that return\<close>

text \<open>The outside world answers every call a batch submission makes.\<close>

definition env_returns :: "('db, 'w, 'z) fp_env_scheme \<Rightarrow> bool" where
  "env_returns E \<longleftrightarrow> kv_returns E \<and> (\<forall>p. pm_Marshal E p \<noteq> Running) \<and> (\<forall>b. pm_Unmarshal E b \<noteq> Running) \<and>
     (\<forall>a b c d e. returns (em_CreateRandomnessPairList (env_em E) a b c d e)) \<and>
     (\<forall>a b c d e. returns (em_SignEOTS (env_em E) a b c d e)) \<and>
     (\<forall>a b c d e. returns (cc_SubmitBatchFinalitySigs (env_cc E) a b c d e)) \<and>
     (\<forall>a b. returns (cc_QueryFinalityProviderVotingPower (env_cc E) a b)) \<and>
     (\<forall>a b c. returns (cc_QueryBlocks (env_cc E) a b c))"

lemma on_db_returns [returns_intros]: "returns m \<Longrightarrow> returns (on_db m)"
  unfolding on_db_def by (rule returns_zoom)

lemma meter_returns [returns_intros]: "returns k \<Longrightarrow> returns (meter f k)"
  unfolding meter_def by (intro returns_intros)

lemma on_ext_returns [returns_intros]: "returns m \<Longrightarrow> returns (on_ext m)"
  unfolding on_ext_def by (rule returns_zoom)

lemma setFinalityProviderState_returns:
  assumes "env_returns E" and "\<And>p. f p \<noteq> Running"
  shows "returns (setFinalityProviderState E pk f)"
  unfolding setFinalityProviderState_def saveFinalityProvider_def option.case
  using assms by (intro kv_Batch_returns returns_intros) (auto simp: env_returns_def kv_returns_def)

lemma SetFp_returns [returns_intros]:
  assumes "env_returns E"
  shows "returns (SetFpLastVotedHeight E pk h)" and "returns (SetFpLastProcessedHeight E pk h)"
  unfolding SetFpLastVotedHeight_def SetFpLastProcessedHeight_def
  using assms by (auto intro!: setFinalityProviderState_returns simp: Let_def)

lemma get_proofs_returns: "get_proofs L t acc ks \<noteq> Running"
  by (induction ks arbitrary: acc) (auto split: option.splits)

lemma GetPubRandProofList_returns [returns_intros]: "env_returns E \<Longrightarrow> returns (GetPubRandProofList E prs)"
  unfolding GetPubRandProofList_def
  by (rule kv_View_returns) (auto simp: env_returns_def get_proofs_returns)

lemma MustUpdate_returns [returns_intros]:
  assumes "env_returns E"
  shows "returns (MustUpdateStateAfterFinalitySigSubmission E h)" and "returns (MustSetLastProcessedHeight E h)"
  unfolding MustUpdateStateAfterFinalitySigSubmission_def updateStateAfterFinalitySigSubmission_def
    MustSetLastProcessedHeight_def SetLastProcessedHeight_def
  by (intro returns_intros assms)+

lemma signFinalitySig_returns [returns_intros]: "env_returns E \<Longrightarrow> returns (signFinalitySig E b)"
  unfolding signFinalitySig_def by (intro returns_intros) (simp add: env_returns_def)

lemma sign_blocks_returns [returns_intros]: "env_returns E \<Longrightarrow> returns (sign_blocks E bs acc)"
  by (induction bs arbitrary: acc) (auto intro!: returns_intros)

lemma hasVotingPower_returns [returns_intros]: "env_returns E \<Longrightarrow> returns (hasVotingPower E b)"
  unfolding hasVotingPower_def GetVotingPowerWithRetry_def
  by (intro returns_intros) (simp add: env_returns_def)

lemma SubmitBatch_returns [returns_intros]: "env_returns E \<Longrightarrow> returns (SubmitBatchFinalitySignatures E bs)"
  unfolding SubmitBatchFinalitySignatures_def getPubRandList_def prs_GetPubRandProofList_def
  by (intro returns_intros) (simp_all add: env_returns_def)

end
