(* ===== verification/FastSync.thy ===== *)
theory FastSync
  imports FpInstance
begin

text \<open>
  Fast sync (\<^verbatim>\<open>finality-provider/service/fastsync.go\<close> and \<^verbatim>\<open>tryFastSync\<close> of
  \<^verbatim>\<open>fp_instance.go\<close>): rounds of at most \<^verbatim>\<open>FastSyncLimit\<close> blocks, of which the unprocessed ones
  with voting power are voted for in one batch. The number of rounds is an argument; the
  lemmas show that one round per height suffices, which blocks a round votes for, and what
  the processed height is afterwards.
\<close>

record FastSyncResult =
  Responses :: "TxResponse list"
  SyncedHeight :: u64
  fsr_LastProcessedHeight :: u64

section \<open>Operations\<close>

fun catch_up_blocks ::
  "('db, 'w, 'z) fp_env_scheme \<Rightarrow> BlockInfo list \<Rightarrow> BlockInfo list \<Rightarrow>
   (('db, 'w, 'y) fp_world_scheme, BlockInfo list) go" where
  "catch_up_blocks E [] catchUpBlocks = ret catchUpBlocks"
| "catch_up_blocks E (b # blocks) catchUpBlocks = get_go (hasProcessed b) (\<lambda>processed.
     if processed then catch_up_blocks E blocks catchUpBlocks
     else try_go (hasVotingPower E b) (\<lambda>hasVp.
       if \<not> hasVp
       then meter IncrementFpTotalBlocksWithoutVotingPower (catch_up_blocks E blocks catchUpBlocks)
       else catch_up_blocks E blocks (catchUpBlocks @ [b])))"

fun FastSync_loop ::
  "('db, 'w, 'z) fp_env_scheme \<Rightarrow> nat \<Rightarrow> u64 \<Rightarrow> u64 \<Rightarrow> u64 \<Rightarrow> TxResponse list \<Rightarrow>
   (('db, 'w, 'y) fp_world_scheme, u64 \<times> TxResponse list) go" where
  "FastSync_loop E 0 startHeight endHeight syncedHeight responses =
     (if startHeight \<le> endHeight then running else ret (syncedHeight, responses))"
| "FastSync_loop E (Suc n) startHeight endHeight syncedHeight responses =
     (if startHeight \<le> endHeight
      then try_go (on_ext (cc_QueryBlocks (env_cc E) startHeight endHeight (FastSyncLimit (env_cfg E)))) (\<lambda>blocks.
        if length blocks < 1 then ret (syncedHeight, responses)
        else let startHeight' = Height (last blocks) + 1
        in try_go (catch_up_blocks E blocks []) (\<lambda>catchUpBlocks.
           if length catchUpBlocks < 1
           then FastSync_loop E n startHeight' endHeight syncedHeight responses
           else try_go (SubmitBatchFinalitySignatures E catchUpBlocks) (\<lambda>res.
             meter (\<lambda>pk. AddToFpTotalVotedBlocks pk (OfLen (length catchUpBlocks))) (
             FastSync_loop E n startHeight' endHeight (Height (last catchUpBlocks)) (responses @ [res])))))
      else ret (syncedHeight, responses))"

text \<open>\<^verbatim>\<open>defer fp.inSync.Store(false)\<close>: on every return.\<close>

definition defer_inSync ::
  "(('db, 'w, 'y) fp_world_scheme, 'a) go \<Rightarrow> (('db, 'w, 'y) fp_world_scheme, 'a) go" where
  "defer_inSync m = handle_go m
     (\<lambda>e. upd_go (set_ins (\<lambda>i. i\<lparr>ins_inSync := False\<rparr>)) (fail e))
     (\<lambda>a. upd_go (set_ins (\<lambda>i. i\<lparr>ins_inSync := False\<rparr>)) (ret a))"

definition FastSync ::
  "('db, 'w, 'z) fp_env_scheme \<Rightarrow> nat \<Rightarrow> u64 \<Rightarrow> u64 \<Rightarrow> (('db, 'w, 'y) fp_world_scheme, FastSyncResult) go" where
  "FastSync E n startHeight endHeight = get_go (\<lambda>s. ins_inSync (fw_ins s)) (\<lambda>inSync.
     upd_go (set_ins (\<lambda>i. i\<lparr>ins_inSync := True\<rparr>)) (
     if inSync then fail (NewErr ''the finality-provider has already been in fast sync'')
     else defer_inSync (
       if startHeight > endHeight
       then fail (NewErr (''the start height '' @ fmt_u64 startHeight @
         '' should not be higher than the end height '' @ fmt_u64 endHeight))
       else try_go (FastSync_loop E n startHeight endHeight 0 []) (\<lambda>(syncedHeight, responses).
         try_go (MustSetLastProcessedHeight E syncedHeight) (\<lambda>_.
         get_go GetLastProcessedHeight (\<lambda>lastProcessed.
         ret \<lparr>Responses = responses, SyncedHeight = syncedHeight,
              fsr_LastProcessedHeight = lastProcessed\<rparr>))))))"

definition tryFastSync ::
  "('db, 'w, 'z) fp_env_scheme \<Rightarrow> nat \<Rightarrow> BlockInfo \<Rightarrow> (('db, 'w, 'y) fp_world_scheme, FastSyncResult option) go" where
  "tryFastSync E n targetBlock = get_go (\<lambda>s. ins_inSync (fw_ins s)) (\<lambda>inSync.
     if inSync
     then get_go GetBtcPkHex (\<lambda>hx. fail (NewErr (''the finality-provider '' @ hx @ '' is already in sync'')))
     else try_go (on_ext (cc_QueryLatestFinalizedBlocks (env_cc E) 1)) (\<lambda>lastFinalizedBlocks.
       case lastFinalizedBlocks of
         [] \<Rightarrow> ret None
       | lastFinalized # _ \<Rightarrow> get_go GetLastProcessedHeight (\<lambda>lastProcessedHeight.
           let lastFinalizedHeight = Height lastFinalized;
               startHeight = (if lastFinalizedHeight < lastProcessedHeight then lastProcessedHeight + 1
                              else lastFinalizedHeight + 1)
           in if startHeight > Height targetBlock
              then fail (NewErr (''the start height '' @ fmt_u64 startHeight @
                '' should not be higher than the current block '' @ fmt_u64 (Height targetBlock)))
              else try_go (FastSync E n startHeight (Height targetBlock)) (\<lambda>res. ret (Some res)))))"

section \<open>Progress of the stored heights\<close>

lemma catch_up_blocks_progress [go_rel_intros]: "go_rel (world_progress E) (catch_up_blocks E bs acc)"
  by (induction bs arbitrary: acc) (auto intro!: go_rel_intros)

lemma FastSync_loop_progress [go_rel_intros]:
  "store_laws E \<Longrightarrow> go_rel (world_progress E) (FastSync_loop E n a e synced rs)"
  by (induction n arbitrary: a synced rs) (auto simp: Let_def intro!: go_rel_intros)

lemma FastSync_progress [go_rel_intros]:
  "store_laws E \<Longrightarrow> go_rel (world_progress E) (FastSync E n a e)"
  unfolding FastSync_def defer_inSync_def by (intro go_rel_intros) (simp_all add: ins_ident_def)

lemma tryFastSync_progress [go_rel_intros]:
  "store_laws E \<Longrightarrow> go_rel (world_progress E) (tryFastSync E n b)"
  unfolding tryFastSync_def by (intro go_rel_intros)

section \<open>Which blocks a round votes for\<close>

definition power_query ::
  "('db, 'w, 'z) fp_env_scheme \<Rightarrow> PublicKey \<Rightarrow> u64 \<Rightarrow> u64 \<Rightarrow> bool" where
  "power_query E pk h p \<longleftrightarrow> (\<exists>w w'.
     retry_Do (env_RetryIf E) RtyAttNum (cc_QueryFinalityProviderVotingPower (env_cc E) pk h) w = (Ok p, w'))"

lemma hasVotingPower_Ok:
  assumes "hasVotingPower E b s = (Ok v, s')"
  shows "fw_db s' = fw_db s \<and> fw_ins s' = fw_ins s \<and>
    (\<exists>p. power_query E (GetBtcPk s) (Height b) p \<and> v = (p \<noteq> 0))"
proof -
  from assms obtain p s1 where "on_ext (retry_Do (env_RetryIf E) RtyAttNum
      (cc_QueryFinalityProviderVotingPower (env_cc E) (GetBtcPk s) (Height b))) s = (Ok p, s1)"
    and "(if p = 0 then ret False else ret True) s1 = (Ok v, s')"
    by (auto simp: hasVotingPower_def GetVotingPowerWithRetry_def get_go_def elim!: try_go_OkE)
  then show ?thesis
    by (auto simp: power_query_def ret_def dest!: on_ext_D split: if_splits)
qed

text \<open>The blocks of a round keep their order; every block is there or left out for a reason.\<close>

definition caught_up ::
  "('db, 'w, 'z) fp_env_scheme \<Rightarrow> ('db, 'w, 'y) fp_world_scheme \<Rightarrow> BlockInfo list \<Rightarrow> BlockInfo list \<Rightarrow> bool" where
  "caught_up E s bs cs \<longleftrightarrow> subseq cs bs \<and>
     (\<forall>b \<in> set cs. \<not> hasProcessed b s \<and> (\<exists>p. power_query E (GetBtcPk s) (Height b) p \<and> p \<noteq> 0)) \<and>
     (\<forall>b \<in> set bs. b \<in> set cs \<or> hasProcessed b s \<or> power_query E (GetBtcPk s) (Height b) 0)"

lemma caught_up_cong:
  "fw_ins s' = fw_ins s \<Longrightarrow> caught_up E s' bs cs = caught_up E s bs cs"
  by (simp add: caught_up_def hasProcessed_def fp_getters)

lemma caught_up_Cons:
  assumes "caught_up E s bs cs"
  shows "hasProcessed b s \<Longrightarrow> caught_up E s (b # bs) cs"
    and "power_query E (GetBtcPk s) (Height b) 0 \<Longrightarrow> caught_up E s (b # bs) cs"
    and "\<not> hasProcessed b s \<Longrightarrow> power_query E (GetBtcPk s) (Height b) p \<Longrightarrow> p \<noteq> 0 \<Longrightarrow>
      caught_up E s (b # bs) (b # cs)"
  using assms by (auto simp: caught_up_def)

lemma catch_up_blocks_Ok:
  assumes "catch_up_blocks E bs acc s = (Ok cs, s')"
  shows "fw_db s' = fw_db s \<and> fw_ins s' = fw_ins s \<and> (\<exists>us. cs = acc @ us \<and> caught_up E s bs us)"
  using assms
proof (induction bs arbitrary: acc s)
  case Nil
  then show ?case by (auto simp: ret_def caught_up_def)
next
  case (Cons b bs)
  show ?case
  proof (cases "hasProcessed b s")
    case True
    with Cons.prems have "catch_up_blocks E bs acc s = (Ok cs, s')" by (simp add: get_go_def)
    with Cons.IH caught_up_Cons(1) [OF _ True] show ?thesis by blast
  next
    case False
    with Cons.prems obtain v s0 s1 where vp: "hasVotingPower E b s = (Ok v, s0)"
      and m: "s1 = (if v then s0 else s0\<lparr>fw_metrics := IncrementFpTotalBlocksWithoutVotingPower (GetBtcPkHex s0) (fw_metrics s0)\<rparr>)"
      and rest: "catch_up_blocks E bs (if v then acc @ [b] else acc) s1 = (Ok cs, s')"
      by (auto simp: get_go_def meter_apply split: if_splits elim!: try_go_OkE)
    from hasVotingPower_Ok [OF vp] m obtain p where s1: "fw_db s1 = fw_db s" "fw_ins s1 = fw_ins s"
      and p: "power_query E (GetBtcPk s) (Height b) p" "v = (p \<noteq> 0)" by (auto split: if_splits)
    from Cons.IH [OF rest] obtain us where us: "cs = (if v then acc @ [b] else acc) @ us"
      "caught_up E s bs us" and s': "fw_db s' = fw_db s" "fw_ins s' = fw_ins s"
      using s1 caught_up_cong by metis
    show ?thesis
    proof (cases v)
      case True
      with us p caught_up_Cons(3) [OF us(2) False p(1)] s' show ?thesis by auto
    next
      case False
      with us p caught_up_Cons(2) [OF us(2)] s' show ?thesis by auto
    qed
  qed
qed

section \<open>The result of a fast sync\<close>

lemma MustSetLastProcessedHeight_Ok:
  assumes "MustSetLastProcessedHeight E h s = (Ok u, s')"
  shows "SetFpLastProcessedHeight E (GetBtcPk s) h (fw_db s) = (Ok (), fw_db s') \<and> fw_ext s' = fw_ext s \<and>
    fw_ins s' = (fw_ins s)\<lparr>ins_fp := (ins_fp (fw_ins s))\<lparr>sfp_LastProcessedHeight := h\<rparr>\<rparr> \<and>
    fw_metrics s' = RecordFpLastProcessedHeight (GetBtcPkHex s) h (fw_metrics s)"
proof -
  let ?t = "set_fp (\<lambda>fp. fp\<lparr>sfp_LastProcessedHeight := h\<rparr>) s"
  from assms obtain t where "on_db (SetFpLastProcessedHeight E (GetBtcPk ?t) h) ?t = (Ok (), t)"
    and "s' = t\<lparr>fw_metrics := RecordFpLastProcessedHeight (GetBtcPkHex t) h (fw_metrics t)\<rparr>"
    by (auto simp: MustSetLastProcessedHeight_def SetLastProcessedHeight_def
        upd_go_def get_go_def crash_def ret_def meter_apply dest!: handle_go_Ok)
  then show ?thesis by (auto simp: fp_getters dest!: on_db_D)
qed

text \<open>
  A round that succeeds: no blocks, no block to vote for, or one batch. The height synced so
  far and the voted height of the instance move together.
\<close>

lemma FastSync_loop_SucE:
  fixes s s' :: "('db, 'w, 'y) fp_world_scheme"
  assumes run: "FastSync_loop E (Suc n) a e synced rs s = (Ok out, s')"
  obtains (stop) "out = (synced, rs)" "fw_ins s' = fw_ins s" "fw_db s' = fw_db s"
  | (none) bs :: "BlockInfo list" and s2 where "fw_ins s2 = fw_ins s" "fw_db s2 = fw_db s"
      "FastSync_loop E n (Height (last bs) + 1) e synced rs (s2 :: ('db, 'w, 'y) fp_world_scheme) = (Ok out, s')"
  | (batch) bs cs :: "BlockInfo list" and res s2 s3 s4 where "fw_ins s2 = fw_ins s" "fw_db s2 = fw_db s"
      "caught_up E s bs cs" "cs \<noteq> []"
      "SubmitBatchFinalitySignatures E cs (s2 :: ('db, 'w, 'y) fp_world_scheme) = (Ok res, s3)"
      "s4 = s3\<lparr>fw_metrics := AddToFpTotalVotedBlocks (GetBtcPkHex s3) (OfLen (length cs)) (fw_metrics s3)\<rparr>"
      "FastSync_loop E n (Height (last bs) + 1) e (Height (last cs)) (rs @ [res]) s4 = (Ok out, s')"
proof (cases "a \<le> e")
  case False
  with run stop show thesis by (simp add: ret_def)
next
  case True
  with run obtain bs s1 where q: "on_ext (cc_QueryBlocks (env_cc E) a e (FastSyncLimit (env_cfg E))) s = (Ok bs, s1)"
    and body: "(if length bs < 1 then ret (synced, rs)
      else let startHeight' = Height (last bs) + 1
        in try_go (catch_up_blocks E bs []) (\<lambda>catchUpBlocks.
           if length catchUpBlocks < 1
           then FastSync_loop E n startHeight' e synced rs
           else try_go (SubmitBatchFinalitySignatures E catchUpBlocks) (\<lambda>res.
             meter (\<lambda>pk. AddToFpTotalVotedBlocks pk (OfLen (length catchUpBlocks))) (
             FastSync_loop E n startHeight' e (Height (last catchUpBlocks)) (rs @ [res]))))) s1 = (Ok out, s')"
    by (simp only: FastSync_loop.simps if_True) (erule try_go_OkE)
  note s1 = on_ext_D [OF q]
  show thesis
  proof (cases "length bs < 1")
    case True
    with body s1 stop show thesis by (simp add: ret_def)
  next
    case False
    with body obtain cs s2 where c: "catch_up_blocks E bs [] s1 = (Ok cs, s2)"
      and rest: "(if length cs < 1 then FastSync_loop E n (Height (last bs) + 1) e synced rs
           else try_go (SubmitBatchFinalitySignatures E cs) (\<lambda>res.
             meter (\<lambda>pk. AddToFpTotalVotedBlocks pk (OfLen (length cs))) (
             FastSync_loop E n (Height (last bs) + 1) e (Height (last cs)) (rs @ [res])))) s2 = (Ok out, s')"
      by (simp only: Let_def if_False) (erule try_go_OkE)
    have s2: "fw_ins s2 = fw_ins s" "fw_db s2 = fw_db s" using catch_up_blocks_Ok [OF c] s1 by simp_all
    have cu: "caught_up E s bs cs" using catch_up_blocks_Ok [OF c] s1 caught_up_cong [of s1 s E bs cs] by simp
    show thesis
    proof (cases "length cs < 1")
      case True
      with rest s2 show thesis by (intro none) (simp_all only: if_True)
    next
      case False
      with rest obtain res s3 where "SubmitBatchFinalitySignatures E cs s2 = (Ok res, s3)"
        "FastSync_loop E n (Height (last bs) + 1) e (Height (last cs)) (rs @ [res])
          (s3\<lparr>fw_metrics := AddToFpTotalVotedBlocks (GetBtcPkHex s3) (OfLen (length cs)) (fw_metrics s3)\<rparr>) = (Ok out, s')"
        by (simp only: if_False) (erule try_go_OkE, simp only: meter_apply)
      with s2 cu False show thesis by (intro batch [OF _ _ cu _ _ refl]) auto
    qed
  qed
qed

lemma FastSync_loop_result:
  assumes "FastSync_loop E n a e synced rs s = (Ok (synced', rs'), s')"
  shows "\<exists>us. rs' = rs @ us \<and>
    (if us = [] then synced' = synced \<and> fw_ins s' = fw_ins s \<and> fw_db s' = fw_db s
     else GetLastVotedHeight s' = synced' \<and> GetLastProcessedHeight s' = synced')"
  using assms
proof (induction n arbitrary: a synced rs s)
  case 0
  then show ?case by (auto simp: ret_def running_def split: if_splits)
next
  case (Suc n)
  from Suc.prems show ?case
  proof (cases rule: FastSync_loop_SucE)
    case stop
    then show ?thesis by simp
  next
    case (none bs s2)
    from Suc.IH [OF none(3)] obtain us where "rs' = rs @ us" "if us = []
      then synced' = synced \<and> fw_ins s' = fw_ins s2 \<and> fw_db s' = fw_db s2
      else GetLastVotedHeight s' = synced' \<and> GetLastProcessedHeight s' = synced'" by blast
    with none(1,2) show ?thesis by (intro exI [of _ us]) simp
  next
    case (batch bs cs res s2 s3 s4)
    have "fw_ins s3 = voted (Height (last cs)) (fw_ins s2)" using batch(5) by (rule SubmitBatch_Ok)
    then have v: "GetLastVotedHeight s' = Height (last cs) \<and> GetLastProcessedHeight s' = Height (last cs)"
      if "fw_ins s' = fw_ins s4" using that batch(6) by (simp add: fp_getters voted_def)
    from Suc.IH [OF batch(7)] obtain us where "rs' = (rs @ [res]) @ us" "if us = []
      then synced' = Height (last cs) \<and> fw_ins s' = fw_ins s4 \<and> fw_db s' = fw_db s4
      else GetLastVotedHeight s' = synced' \<and> GetLastProcessedHeight s' = synced'" by blast
    with v show ?thesis by (intro exI [of _ "res # us"]) (simp split: if_splits)
  qed
qed

lemma FastSync_Ok:
  assumes run: "FastSync E n a e s = (Ok r, s')"
  shows "\<not> ins_inSync (fw_ins s) \<and> a \<le> e \<and> \<not> ins_inSync (fw_ins s') \<and>
    GetLastProcessedHeight s' = SyncedHeight r \<and> fsr_LastProcessedHeight r = SyncedHeight r \<and>
    (if Responses r = [] then SyncedHeight r = 0 \<and> GetLastVotedHeight s' = GetLastVotedHeight s
     else GetLastVotedHeight s' = SyncedHeight r)"
proof -
  let ?s = "set_ins (\<lambda>i. i\<lparr>ins_inSync := True\<rparr>) s"
  from run obtain synced rs s1 s2 where pre: "\<not> ins_inSync (fw_ins s)" "a \<le> e"
    and loop: "FastSync_loop E n a e 0 [] ?s = (Ok (synced, rs), s1)"
    and upd: "MustSetLastProcessedHeight E synced s1 = (Ok (), s2)"
    and r: "r = \<lparr>Responses = rs, SyncedHeight = synced, fsr_LastProcessedHeight = GetLastProcessedHeight s2\<rparr>"
    and s': "s' = set_ins (\<lambda>i. i\<lparr>ins_inSync := False\<rparr>) s2"
    unfolding FastSync_def defer_inSync_def
    by (auto simp: get_go_def upd_go_def fail_def ret_def not_less split: if_splits
        elim!: try_go_OkE dest!: handle_go_Ok)
  from FastSync_loop_result [OF loop] have "if rs = [] then synced = 0 \<and> fw_ins s1 = fw_ins ?s
    else GetLastVotedHeight s1 = synced" by (auto split: if_splits)
  with MustSetLastProcessedHeight_Ok [OF upd] pre show ?thesis
    by (auto simp: r s' fp_getters split: if_splits)
qed

section \<open>Termination\<close>

lemma catch_up_blocks_returns [returns_intros]: "env_returns E \<Longrightarrow> returns (catch_up_blocks E bs acc)"
  by (induction bs arbitrary: acc) (auto intro!: returns_intros)

context range_source
begin

text \<open>One round per height of the range is enough: every round moves the start height up.\<close>

lemma FastSync_loop_returns:
  fixes s :: "('db, 'w, 'y) fp_world_scheme"
  assumes law: lawful and cc: "cc_QueryBlocks (env_cc E) = queryBlocks" and env: "env_returns E"
    and fuel: "unat e < unat a + n"
  shows "fst (FastSync_loop E n a e synced rs s) \<noteq> Running"
  using fuel
proof (induction n arbitrary: a synced rs s)
  case 0
  then show ?case by (simp add: ret_def word_le_nat_alt)
next
  case (Suc n)
  obtain r s1 where q: "on_ext (queryBlocks a e (FastSyncLimit (env_cfg E))) s = (r, s1)" by (metis surj_pair)
  show ?case
  proof (cases "a \<le> e \<and> (\<exists>bs. r = Ok bs \<and> bs \<noteq> [])")
    case True
    then obtain bs where ae: "a \<le> e" and bs: "r = Ok bs" "bs \<noteq> []" by blast
    have nxt: "unat (Height (last bs) + 1) = unat a + length bs"
      using range_next [OF law on_ext_D [OF q [unfolded bs], THEN conjunct1] bs(2)] .
    have "0 < length bs" using bs(2) by simp
    then have fuel': "unat e < unat (Height (last bs) + 1) + n" using Suc.prems nxt by linarith
    have IH: "fst (FastSync_loop E n (Height (last bs) + 1) e x ys t) \<noteq> Running" for x ys
      and t :: "('db, 'w, 'y) fp_world_scheme"
      by (rule Suc.IH [OF fuel'])
    have "returns (try_go (catch_up_blocks E bs []) (\<lambda>cs.
        if length cs < 1 then FastSync_loop E n (Height (last bs) + 1) e synced rs
        else try_go (SubmitBatchFinalitySignatures E cs) (\<lambda>res.
          meter (\<lambda>pk. AddToFpTotalVotedBlocks pk (OfLen (length cs))) (
          FastSync_loop E n (Height (last bs) + 1) e (Height (last cs)) (rs @ [res]))))
        :: (('db, 'w, 'y) fp_world_scheme, _) go)"
      using env IH by (intro returns_intros) (simp_all add: returns_def)
    then show ?thesis using ae bs q by (simp add: cc handle_go_def Let_def returns_def)
  next
    case False
    have "r \<noteq> Running"
      using env q returnsD [of "on_ext (queryBlocks a e (FastSyncLimit (env_cfg E)))"] cc
      by (metis env_returns_def on_ext_returns)
    with False q show ?thesis by (cases r) (auto simp: cc handle_go_def ret_def fail_def)
  qed
qed

lemma FastSync_returns:
  assumes lawful and "cc_QueryBlocks (env_cc E) = queryBlocks" and env: "env_returns E"
    and "unat e < unat a + n"
  shows "returns (FastSync E n a e :: (('db, 'w, 'y) fp_world_scheme, FastSyncResult) go)"
proof -
  have "returns (FastSync_loop E n a e 0 [] :: (('db, 'w, 'y) fp_world_scheme, _) go)"
    unfolding returns_def using FastSync_loop_returns [OF assms] by blast
  then show ?thesis
    unfolding FastSync_def defer_inSync_def by (intro returns_intros env)
qed

end

end
