(* ===== verification/FpRun.thy ===== *)
theory FpRun
  imports FastSync
begin

text \<open>
  The life of an instance (\<^verbatim>\<open>fp_instance.go\<close>): bootstrap, start, stop and the bodies of its
  three goroutines, one function per branch of their \<^verbatim>\<open>select\<close>. Their interleaving with the
  poller is the relation \<open>ins_step\<close>. The lemmas: the stored heights only grow in every run,
  the target channel never blocks its sender, and how a failed start leaves the instance.
\<close>

section \<open>The poller of the instance\<close>

definition poller_env_of :: "('db, 'w, 'z) fp_env_scheme \<Rightarrow> 'w poller_env" where
  "poller_env_of E = \<lparr>pe_cc = env_cc E, pe_cfg = PollerConfig (env_cfg E), pe_RetryIf = env_RetryIf E\<rparr>"

definition run_poller ::
  "ChainPoller \<Rightarrow> ('w polling, 'a) go \<Rightarrow> (('db, 'w, 'y) fp_world_scheme, 'a \<times> ChainPoller) go" where
  "run_poller cp m = (\<lambda>s. case m \<lparr>pl_ext = fw_ext s, pl_cp = cp, pl_metrics = fw_metrics s\<rparr> of
      (Ok a, t) \<Rightarrow> (Ok (a, pl_cp t), s\<lparr>fw_ext := pl_ext t, fw_metrics := pl_metrics t\<rparr>)
    | (Err e, t) \<Rightarrow> (Err e, s\<lparr>fw_ext := pl_ext t, fw_metrics := pl_metrics t\<rparr>)
    | (Crash c, t) \<Rightarrow> (Crash c, s\<lparr>fw_ext := pl_ext t, fw_metrics := pl_metrics t\<rparr>)
    | (Running, t) \<Rightarrow> (Running, s\<lparr>fw_ext := pl_ext t, fw_metrics := pl_metrics t\<rparr>))"

text \<open>A call on \<^verbatim>\<open>fp.poller\<close>, which is \<^verbatim>\<open>nil\<close> until the instance has started.\<close>

definition on_poller :: "('w polling, 'a) go \<Rightarrow> (('db, 'w, 'y) fp_world_scheme, 'a) go" where
  "on_poller m = get_go (\<lambda>s. ins_poller (fw_ins s)) (\<lambda>p. case p of
      None \<Rightarrow> crash ''nil pointer dereference''
    | Some cp \<Rightarrow> (\<lambda>s. case m \<lparr>pl_ext = fw_ext s, pl_cp = cp, pl_metrics = fw_metrics s\<rparr> of
        (r, t) \<Rightarrow> (r, set_ins (\<lambda>i. i\<lparr>ins_poller := Some (pl_cp t)\<rparr>) (s\<lparr>fw_ext := pl_ext t, fw_metrics := pl_metrics t\<rparr>))))"

section \<open>Start and stop\<close>

definition bootstrap ::
  "('db, 'w, 'z) fp_env_scheme \<Rightarrow> nat \<Rightarrow> (('db, 'w, 'y) fp_world_scheme, u64) go" where
  "bootstrap E n =
     try_go (getLatestBlockWithRetry E) (\<lambda>latestBlock.
     get_go (checkLagging E latestBlock) (\<lambda>lagging.
     let continue = try_go (getPollerStartingHeight E) ret
     in if lagging
        then handle_go (tryFastSync E n latestBlock)
          (\<lambda>err. try_go (if errors_Is err (ServiceErr ErrFinalityProviderJailed)
                        then MustSetStatus E JAILED else ret ()) (\<lambda>_.
             if \<not> IsExpected err then fail err else continue))
          (\<lambda>_. continue)
        else continue))"

definition ins_Start ::
  "('db, 'w, 'z) fp_env_scheme \<Rightarrow> nat \<Rightarrow> nat \<Rightarrow> (('db, 'w, 'y) fp_world_scheme, unit) go" where
  "ins_Start E n k = get_go (\<lambda>s. ins_isStarted (fw_ins s)) (\<lambda>started.
     upd_go (set_ins (\<lambda>i. i\<lparr>ins_isStarted := True\<rparr>)) (
     get_go GetBtcPkHex (\<lambda>hx.
     get_go ins_IsJailed (\<lambda>jailed.
     if started then fail (NewErr (''the finality-provider instance '' @ hx @ '' is already started''))
     else if jailed then fail (SuffixErr (Sentinel (ServiceErr ErrFinalityProviderJailed)) ('': '' @ hx))
     else wrap_go (''failed to bootstrap the finality-provider '' @ hx @ '': '') (bootstrap E n) (\<lambda>startHeight.
       wrap_go ''failed to start the poller: ''
         (run_poller NewChainPoller (cp_Start (poller_env_of E) k (startHeight + 1))) (\<lambda>(_, poller).
       upd_go (set_ins (\<lambda>i. i\<lparr>ins_poller := Some poller, ins_laggingTargetChan := Some [],
         ins_quit := Some False\<rparr>)) (ret ())))))))"

text \<open>\<^verbatim>\<open>Stop\<close> up to the close of the quit channel.\<close>

definition ins_Stop :: "('db, 'w, 'z) fp_env_scheme \<Rightarrow> (('db, 'w, 'y) fp_world_scheme, unit) go" where
  "ins_Stop E = get_go (\<lambda>s. ins_isStarted (fw_ins s)) (\<lambda>started.
     upd_go (set_ins (\<lambda>i. i\<lparr>ins_isStarted := False\<rparr>)) (
     if \<not> started
     then get_go GetBtcPkHex (\<lambda>hx. fail (NewErr (''the finality-provider '' @ hx @ '' has already stopped'')))
     else wrap_go ''failed to stop the poller: '' (on_poller (cp_Stop (poller_env_of E))) (\<lambda>_.
       get_go (\<lambda>s. ins_quit (fw_ins s)) (\<lambda>quit. case quit of
         None \<Rightarrow> crash ''close of nil channel''
       | Some isClosed \<Rightarrow> if isClosed then crash ''close of closed channel''
           else upd_go (set_ins (\<lambda>i. i\<lparr>ins_quit := Some True\<rparr>)) (ret ())))))"

section \<open>The goroutines\<close>

text \<open>\<^verbatim>\<open>finalitySigSubmissionLoop\<close>, a block from the poller.\<close>

definition process_block ::
  "('db, 'w, 'z) fp_env_scheme \<Rightarrow> wake list \<Rightarrow> BlockInfo \<Rightarrow> (('db, 'w, 'y) fp_world_scheme, unit) go" where
  "process_block E wakes b = get_go (hasProcessed b) (\<lambda>processed.
     if processed then ret ()
     else handle_go (hasVotingPower E b) reportCriticalErr (\<lambda>hasVp.
       if \<not> hasVp
       then try_go (MustSetLastProcessedHeight E (Height b)) (\<lambda>_.
         meter IncrementFpTotalBlocksWithoutVotingPower (ret ()))
       else handle_go (retrySubmitFinalitySignatureUntilBlockFinalized E b wakes)
         (\<lambda>err. meter IncrementFpTotalFailedVotes (
            if \<not> errors_Is err (ServiceErr ErrFinalityProviderShutDown) then reportCriticalErr err
            else ret ()))
         (\<lambda>_. ret ())))"

text \<open>\<^verbatim>\<open>finalitySigSubmissionLoop\<close>, a target from the lagging check.\<close>

definition process_target ::
  "('db, 'w, 'z) fp_env_scheme \<Rightarrow> nat \<Rightarrow> BlockInfo \<Rightarrow> (('db, 'w, 'y) fp_world_scheme, unit) go" where
  "process_target E n targetBlock =
     handle_go (tryFastSync E n targetBlock)
       (\<lambda>err. upd_go (set_ins (\<lambda>i. i\<lparr>ins_isLagging := False\<rparr>)) (
          if errors_Is err (ServiceErr ErrFinalityProviderSlashed) then reportCriticalErr err else ret ()))
       (\<lambda>res. upd_go (set_ins (\<lambda>i. i\<lparr>ins_isLagging := False\<rparr>)) (case res of
            None \<Rightarrow> ret ()
          | Some r \<Rightarrow> get_go GetLastProcessedHeight (\<lambda>h.
              handle_go (on_poller (SkipToHeight (h + 1))) (\<lambda>_. ret ()) ret)))"

text \<open>The two receives; a receive from an empty channel waits.\<close>

definition sig_loop_block ::
  "('db, 'w, 'z) fp_env_scheme \<Rightarrow> wake list \<Rightarrow> (('db, 'w, 'y) fp_world_scheme, unit) go" where
  "sig_loop_block E wakes = get_go (\<lambda>s. ins_poller (fw_ins s)) (\<lambda>p. case p of
      None \<Rightarrow> crash ''nil pointer dereference''
    | Some cp \<Rightarrow> (case cp_blockInfoChan cp of
        [] \<Rightarrow> running
      | b # chan \<Rightarrow> upd_go (set_ins (\<lambda>i. i\<lparr>ins_poller := Some (cp\<lparr>cp_blockInfoChan := chan\<rparr>)\<rparr>))
          (process_block E wakes b)))"

definition sig_loop_target ::
  "('db, 'w, 'z) fp_env_scheme \<Rightarrow> nat \<Rightarrow> (('db, 'w, 'y) fp_world_scheme, unit) go" where
  "sig_loop_target E n = get_go (\<lambda>s. ins_laggingTargetChan (fw_ins s)) (\<lambda>c. case c of
      None \<Rightarrow> running
    | Some targets \<Rightarrow> (case targets of
        [] \<Rightarrow> running
      | b # chan \<Rightarrow> upd_go (set_ins (\<lambda>i. i\<lparr>ins_laggingTargetChan := Some chan\<rparr>)) (process_target E n b)))"

text \<open>\<^verbatim>\<open>randomnessCommitmentLoop\<close>, a tick.\<close>

definition commit_tick ::
  "('db, 'w, 'z) fp_env_scheme \<Rightarrow> wake list \<Rightarrow> (('db, 'w, 'y) fp_world_scheme, unit) go" where
  "commit_tick E wakes =
     handle_go (getLatestBlockWithRetry E) reportCriticalErr (\<lambda>tipBlock.
     handle_go (retryCommitPubRandUntilBlockFinalized E tipBlock wakes)
       (\<lambda>err. meter IncrementFpTotalFailedRandomness (reportCriticalErr err)) (\<lambda>_. ret ()))"

text \<open>\<^verbatim>\<open>checkLaggingLoop\<close>, a tick. The target channel has room for one block.\<close>

definition lagging_tick ::
  "('db, 'w, 'z) fp_env_scheme \<Rightarrow> (('db, 'w, 'y) fp_world_scheme, unit) go" where
  "lagging_tick E = get_go (\<lambda>s. ins_isLagging (fw_ins s)) (\<lambda>isLagging.
     if isLagging then ret ()
     else handle_go (getLatestBlockWithRetry E) (\<lambda>_. ret ()) (\<lambda>latestBlock.
       get_go (checkLagging E latestBlock) (\<lambda>lagging.
       if \<not> lagging then ret ()
       else upd_go (set_ins (\<lambda>i. i\<lparr>ins_isLagging := True\<rparr>)) (
         get_go (\<lambda>s. ins_laggingTargetChan (fw_ins s)) (\<lambda>c. case c of
           None \<Rightarrow> running
         | Some chan \<Rightarrow> if length chan < 1
             then upd_go (set_ins (\<lambda>i. i\<lparr>ins_laggingTargetChan := Some (chan @ [latestBlock])\<rparr>)) (ret ())
             else running)))))"

section \<open>Runs\<close>

text \<open>
  A started instance: its goroutines take turns, and so does the poller, whose step may only
  touch the poller and the outside world and show the height it polled. A goroutine whose turn ends the process takes no
  further part.
\<close>

definition poller_turn ::
  "('db, 'w) fp_world \<Rightarrow> ('db, 'w) fp_world \<Rightarrow> bool" where
  "poller_turn s s' \<longleftrightarrow> (\<exists>cp cp' w h. ins_poller (fw_ins s) = Some cp \<and>
     s' = set_ins (\<lambda>i. i\<lparr>ins_poller := Some cp'\<rparr>) (s\<lparr>fw_ext := w,
       fw_metrics := (case h of None \<Rightarrow> fw_metrics s | Some p \<Rightarrow> RecordLastPolledHeight p (fw_metrics s))\<rparr>))"

inductive ins_step :: "('db, 'w, 'z) fp_env_scheme \<Rightarrow> ('db, 'w) fp_world \<Rightarrow> ('db, 'w) fp_world \<Rightarrow> bool"
  for E where
  block: "sig_loop_block E wakes s = (Ok (), s') \<Longrightarrow> ins_step E s s'"
| target: "sig_loop_target E n s = (Ok (), s') \<Longrightarrow> ins_step E s s'"
| commit: "commit_tick E wakes s = (Ok (), s') \<Longrightarrow> ins_step E s s'"
| lagging: "FastSyncInterval (env_cfg E) \<noteq> 0 \<Longrightarrow> lagging_tick E s = (Ok (), s') \<Longrightarrow> ins_step E s s'"
| poller: "poller_turn s s' \<Longrightarrow> ins_step E s s'"

inductive ins_run :: "('db, 'w, 'z) fp_env_scheme \<Rightarrow> ('db, 'w) fp_world \<Rightarrow> ('db, 'w) fp_world \<Rightarrow> bool"
  for E where
  start: "ins_run E s s"
| step: "ins_run E s t \<Longrightarrow> ins_step E t u \<Longrightarrow> ins_run E s u"

section \<open>Stored heights in a run\<close>

lemma reportCriticalErr_progress [go_rel_intros]: "go_rel (world_progress E) (reportCriticalErr e)"
  unfolding reportCriticalErr_def by (intro go_rel_intros) (simp add: ins_ident_def)

text \<open>What the poller shows.\<close>

definition polled_le :: "('db, 'z) store_lib_scheme \<Rightarrow> ('w, 'v) polling_scheme \<Rightarrow> ('w, 'v) polling_scheme \<Rightarrow> bool" where
  "polled_le L s s' \<longleftrightarrow> (\<forall>d. metrics_le L d (pl_metrics s) (pl_metrics s'))"

interpretation polled: go_preorder "polled_le L" for L :: "('db, 'z) store_lib_scheme"
  by unfold_locales (auto simp: polled_le_def intro: metrics_le_refl metrics_le_trans)

lemma polled_on_chain [go_rel_intros]: "go_rel (polled_le L) (on_chain m)"
  by (auto simp: go_rel_def on_chain_def zoom_go_def polled_le_def metrics_le_refl split: prod.splits)

lemma polled_upd [go_rel_intros]:
  "go_rel (polled_le L) k \<Longrightarrow> go_rel (polled_le L) (upd_go (set_cp f) k)"
  "(\<And>d x. metrics_le L d x (g x)) \<Longrightarrow> go_rel (polled_le L) k \<Longrightarrow> go_rel (polled_le L) (pl_meter g k)"
  unfolding pl_meter_def by (rule polled.rel_upd; simp add: polled_le_def set_cp_def metrics_le_refl)+

lemma bestHeight_polled [go_rel_intros]: "go_rel (polled_le L) (bestHeight_loop P n)"
  by (induction n) (auto simp: latestBlockWithRetry_def intro!: go_rel_intros)

lemma poller_calls_polled [go_rel_intros]:
  "go_rel (polled_le L) (cp_Start P n h)" "go_rel (polled_le L) (cp_Stop P)" "go_rel (polled_le L) (SkipToHeight h)"
  unfolding cp_Start_def validateStartHeight_def cp_Stop_def SkipToHeight_def by (intro go_rel_intros)+

lemma run_poller_progress [go_rel_intros]:
  fixes E :: "('db, 'w, 'z) fp_env_scheme"
  assumes "go_rel (polled_le E) m"
  shows "go_rel (world_progress E) (run_poller cp m)"
proof (rule go_relI)
  fix s :: "('db, 'w, 'y) fp_world_scheme"
  obtain r t where m: "m \<lparr>pl_ext = fw_ext s, pl_cp = cp, pl_metrics = fw_metrics s\<rparr> = (r, t)" by fastforce
  with go_relD [OF assms m] show "world_progress E s (snd (run_poller cp m s))"
    by (cases r) (auto simp: run_poller_def polled_le_def intro!: world_progress_same)
qed

lemma on_poller_progress [go_rel_intros]:
  fixes E :: "('db, 'w, 'z) fp_env_scheme"
  assumes "go_rel (polled_le E) m"
  shows "go_rel (world_progress E) (on_poller m)"
proof (rule go_relI)
  fix s :: "('db, 'w, 'y) fp_world_scheme"
  show "world_progress E s (snd (on_poller m s))"
  proof (cases "ins_poller (fw_ins s)")
    case (Some cp)
    obtain r t where m: "m \<lparr>pl_ext = fw_ext s, pl_cp = cp, pl_metrics = fw_metrics s\<rparr> = (r, t)" by fastforce
    with go_relD [OF assms m] Some show ?thesis
      by (auto simp: on_poller_def get_go_def polled_le_def ins_ident_def intro!: world_progress_same)
  qed (simp add: on_poller_def get_go_def crash_def world.R_refl)
qed

lemma bootstrap_progress [go_rel_intros]: "store_laws E \<Longrightarrow> go_rel (world_progress E) (bootstrap E n)"
  unfolding bootstrap_def Let_def fp_query_defs by (intro go_rel_intros)

lemma ins_Start_progress [go_rel_intros]: "store_laws E \<Longrightarrow> go_rel (world_progress E) (ins_Start E n k)"
  unfolding ins_Start_def by (intro go_rel_intros) (simp_all add: ins_ident_def)

lemma ins_Stop_progress [go_rel_intros]: "go_rel (world_progress E) (ins_Stop E)"
  unfolding ins_Stop_def by (intro go_rel_intros) (simp_all add: ins_ident_def)

lemma process_block_progress [go_rel_intros]:
  "store_laws E \<Longrightarrow> go_rel (world_progress E) (process_block E wakes b)"
  unfolding process_block_def retrySubmitFinalitySignatureUntilBlockFinalized_def by (intro go_rel_intros)

lemma process_target_progress [go_rel_intros]:
  "store_laws E \<Longrightarrow> go_rel (world_progress E) (process_target E n b)"
  unfolding process_target_def by (intro go_rel_intros) (simp_all add: ins_ident_def)

lemma loops_progress:
  assumes "store_laws E"
  shows "go_rel (world_progress E) (sig_loop_block E wakes)" and "go_rel (world_progress E) (sig_loop_target E n)"
    and "go_rel (world_progress E) (commit_tick E wakes)" and "go_rel (world_progress E) (lagging_tick E)"
  unfolding sig_loop_block_def sig_loop_target_def commit_tick_def lagging_tick_def
    retryCommitPubRandUntilBlockFinalized_def getLatestBlockWithRetry_def
  by (intro go_rel_intros assms; simp add: ins_ident_def)+

lemma ins_step_progress:
  assumes "store_laws E" and "ins_step E s s'"
  shows "world_progress E s s'"
  using assms(2)
proof cases
  case poller
  then show ?thesis
    by (auto simp: poller_turn_def ins_ident_def intro!: world_progress_same go_rel_intros split: option.split)
qed (use loops_progress [OF assms(1)] in \<open>blast dest: go_relD\<close>)+

lemma ins_run_progress:
  assumes "store_laws E" and "ins_run E s s'"
  shows "world_progress E s s'"
  using assms(2)
  by induction (auto intro: world.R_refl world.R_trans ins_step_progress [OF assms(1)])

section \<open>The lagging flag and the target channel\<close>

text \<open>
  The control state of an instance: only the two goroutines of fast sync touch the flag and
  the target channel, only start and stop the rest.
\<close>

definition lag_state :: "FinalityProviderInstance \<Rightarrow> bool \<times> BlockInfo list option \<times> bool \<times> bool \<times> bool option" where
  "lag_state i = (ins_isLagging i, ins_laggingTargetChan i, ins_isStarted i, ins_poller i = None, ins_quit i)"

definition lag_same :: "('db, 'w, 'y) fp_world_scheme \<Rightarrow> ('db, 'w, 'y) fp_world_scheme \<Rightarrow> bool" where
  "lag_same s s' \<longleftrightarrow> lag_state (fw_ins s') = lag_state (fw_ins s)"

interpretation lag: go_preorder lag_same
  by unfold_locales (auto simp: lag_same_def)

lemma lag_leaves [go_rel_intros]:
  "go_rel lag_same (on_ext m)" "go_rel lag_same (on_db m')" "go_rel lag_same (on_poller m'')"
  by (auto simp: go_rel_def lag_same_def on_ext_def on_db_def on_poller_def lag_state_def go_defs
      split: prod.splits option.splits)

lemma lag_meter [go_rel_intros]: "go_rel lag_same k \<Longrightarrow> go_rel lag_same (meter f k)"
  unfolding meter_def by (rule lag.rel_upd) (simp_all add: lag_same_def)

lemma lag_set_ins [go_rel_intros]:
  "(\<And>i. lag_state (f i) = lag_state i) \<Longrightarrow> go_rel lag_same k \<Longrightarrow> go_rel lag_same (upd_go (set_ins f) k)"
  by (rule lag.rel_upd) (simp_all add: lag_same_def)

lemma lag_set_fp [go_rel_intros]: "go_rel lag_same k \<Longrightarrow> go_rel lag_same (upd_go (set_fp f) k)"
  by (rule lag.rel_upd) (simp_all add: lag_same_def lag_state_def)

lemma lag_setters [go_rel_intros]:
  "go_rel lag_same (MustSetLastProcessedHeight E h)" "go_rel lag_same (MustSetStatus E st)"
  "go_rel lag_same (MustUpdateStateAfterFinalitySigSubmission E h)" "go_rel lag_same (reportCriticalErr e)"
  unfolding MustSetLastProcessedHeight_def SetLastProcessedHeight_def MustSetStatus_def SetStatus_def
    MustUpdateStateAfterFinalitySigSubmission_def updateStateAfterFinalitySigSubmission_def reportCriticalErr_def
  by (intro go_rel_intros; simp add: lag_state_def)+

lemma lag_submit [go_rel_intros]: "go_rel lag_same (SubmitFinalitySignature E b)"
  unfolding SubmitFinalitySignature_def fp_query_defs by (intro go_rel_intros)

lemma lag_sign_blocks [go_rel_intros]: "go_rel lag_same (sign_blocks E bs acc)"
  by (induction bs arbitrary: acc) (auto simp: fp_query_defs intro!: go_rel_intros)

lemma lag_batch [go_rel_intros]: "go_rel lag_same (SubmitBatchFinalitySignatures E bs)"
  unfolding SubmitBatchFinalitySignatures_def fp_query_defs by (intro go_rel_intros)

lemma lag_commit [go_rel_intros]: "go_rel lag_same (CommitPubRand E h)"
  unfolding CommitPubRand_def fp_query_defs by (intro go_rel_intros)

lemma lag_retry [go_rel_intros]:
  "go_rel lag_same (retrySubmit_loop E b n wakes)" "go_rel lag_same (retryCommit_loop E b n wakes)"
proof (induction wakes arbitrary: n)
  case Nil
  case 1 show ?case by (subst retrySubmit_loop.simps, simp only: list.case) (intro go_rel_intros)
  case 2 show ?case by (subst retryCommit_loop.simps, simp only: list.case) (intro go_rel_intros)
next
  case (Cons x wakes)
  case 1 show ?case
    by (subst retrySubmit_loop.simps, cases x; simp only: list.case wake.case checkBlockFinalization_def)
       (intro go_rel_intros Cons)+
  case 2 show ?case
    by (subst retryCommit_loop.simps, cases x; simp only: list.case wake.case checkBlockFinalization_def)
       (intro go_rel_intros Cons)+
qed

lemma lag_catch_up [go_rel_intros]: "go_rel lag_same (catch_up_blocks E bs acc)"
  by (induction bs arbitrary: acc) (auto simp: fp_query_defs intro!: go_rel_intros)

lemma lag_FastSync_loop [go_rel_intros]: "go_rel lag_same (FastSync_loop E n a e synced rs)"
  by (induction n arbitrary: a synced rs) (auto simp: Let_def intro!: go_rel_intros)

lemma lag_tryFastSync [go_rel_intros]: "go_rel lag_same (tryFastSync E n b)"
  unfolding tryFastSync_def FastSync_def defer_inSync_def
  by (intro go_rel_intros) (simp_all add: lag_state_def)

lemma lag_process_block [go_rel_intros]: "go_rel lag_same (process_block E wakes b)"
  unfolding process_block_def retrySubmitFinalitySignatureUntilBlockFinalized_def fp_query_defs
  by (intro go_rel_intros)

lemma lag_commit_tick [go_rel_intros]: "go_rel lag_same (commit_tick E wakes)"
  unfolding commit_tick_def retryCommitPubRandUntilBlockFinalized_def getLatestBlockWithRetry_def
  by (intro go_rel_intros)

lemma lag_sig_loop_block [go_rel_intros]:
  fixes E :: "('db, 'w, 'z) fp_env_scheme"
  shows "go_rel lag_same (sig_loop_block E wakes :: (('db, 'w, 'y) fp_world_scheme, unit) go)"
proof (rule go_relI)
  fix s :: "('db, 'w, 'y) fp_world_scheme"
  show "lag_same s (snd (sig_loop_block E wakes s))"
  proof (cases "ins_poller (fw_ins s)")
    case (Some cp)
    show ?thesis
    proof (cases "cp_blockInfoChan cp")
      case (Cons b chan)
      let ?s = "set_ins (\<lambda>i. i\<lparr>ins_poller := Some (cp\<lparr>cp_blockInfoChan := chan\<rparr>)\<rparr>) s"
      have "lag_same ?s (snd (process_block E wakes b ?s))"
        by (rule go_relD [OF lag_process_block prod.collapse [symmetric]])
      moreover have "lag_same s ?s" using Some by (simp add: lag_same_def lag_state_def)
      ultimately have "lag_same s (snd (process_block E wakes b ?s))" by (rule lag.R_trans [rotated])
      with Some Cons show ?thesis by (simp add: sig_loop_block_def get_go_def upd_go_def)
    qed (use Some in \<open>simp add: sig_loop_block_def go_defs lag.R_refl\<close>)
  qed (simp add: sig_loop_block_def go_defs lag.R_refl)
qed

text \<open>While the flag is down the channel is empty, so that the send of the lagging check has room.\<close>

definition lag_inv :: "('db, 'w, 'y) fp_world_scheme \<Rightarrow> bool" where
  "lag_inv s \<longleftrightarrow> (\<exists>chan. ins_laggingTargetChan (fw_ins s) = Some chan \<and> length chan \<le> 1 \<and>
     (\<not> ins_isLagging (fw_ins s) \<longrightarrow> chan = []))"

lemma lag_inv_same: "lag_same s s' \<Longrightarrow> lag_inv s' = lag_inv s"
  by (simp add: lag_same_def lag_inv_def lag_state_def)

lemma process_target_lag:
  assumes "process_target E n b s = (Ok (), s')"
  shows "\<not> ins_isLagging (fw_ins s') \<and> ins_laggingTargetChan (fw_ins s') = ins_laggingTargetChan (fw_ins s)"
proof -
  let ?down = "set_ins (\<lambda>i. i\<lparr>ins_isLagging := False\<rparr>)"
  have tail: "go_rel lag_same (if errors_Is e (ServiceErr ErrFinalityProviderSlashed) then reportCriticalErr e else ret ())"
    "go_rel lag_same (case res of None \<Rightarrow> ret () | Some r \<Rightarrow> get_go GetLastProcessedHeight (\<lambda>h.
        handle_go (on_poller (SkipToHeight (h + 1))) (\<lambda>_. ret ()) ret))" for e and res :: "FastSyncResult option"
    by (intro go_rel_intros)+
  have lag_try: "lag_same s t" if "tryFastSync E n b s = (r, t)" for r t
    using that by (rule go_relD [OF lag_tryFastSync])
  have concl: ?thesis if "lag_same s t" "lag_same (?down t) s'" for t
    using that by (simp add: lag_same_def lag_state_def)
  from handle_go_Ok [OF assms [unfolded process_target_def]] show ?thesis
    unfolding upd_go_def using lag_try concl go_relD [OF tail(1)] go_relD [OF tail(2)] by blast
qed

lemma lagging_tick_cases:
  assumes "lag_inv s"
  shows "lag_inv (snd (lagging_tick E s))"
    and "fst (lagging_tick E s) = Running \<Longrightarrow> fst (getLatestBlockWithRetry E s) = Running"
proof -
  obtain r t where q: "getLatestBlockWithRetry E s = (r, t)" by (metis surj_pair)
  have t: "fw_ins t = fw_ins s"
    using getLatestBlock_D [OF q] by simp
  then have inv: "lag_inv t" using assms by (simp add: lag_inv_def)
  show "lag_inv (snd (lagging_tick E s))"
    using assms inv q t
    by (cases r) (auto simp: lagging_tick_def go_defs lag_inv_def split: if_splits option.splits)
  show "fst (lagging_tick E s) = Running \<Longrightarrow> fst (getLatestBlockWithRetry E s) = Running"
    using assms inv q t
    by (cases r) (auto simp: lagging_tick_def go_defs lag_inv_def split: if_splits option.splits)
qed

lemma ins_step_lag:
  assumes "ins_step E s s'" and "lag_inv s"
  shows "lag_inv s'"
  using assms(1)
proof cases
  case (block wakes)
  then show ?thesis using go_relD [OF lag_sig_loop_block] lag_inv_same assms(2) by blast
next
  case (target n)
  then obtain b chan where c: "ins_laggingTargetChan (fw_ins s) = Some (b # chan)"
    and run: "process_target E n b (set_ins (\<lambda>i. i\<lparr>ins_laggingTargetChan := Some chan\<rparr>) s) = (Ok (), s')"
    by (auto simp: sig_loop_target_def go_defs split: option.splits list.splits)
  from process_target_lag [OF run] c assms(2) show ?thesis by (auto simp: lag_inv_def)
next
  case (commit wakes)
  then show ?thesis using go_relD [OF lag_commit_tick] lag_inv_same assms(2) by blast
next
  case lagging
  then show ?thesis using lagging_tick_cases(1) [OF assms(2), of E] by simp
next
  case poller
  then show ?thesis using assms(2) by (auto simp: poller_turn_def lag_inv_def)
qed

lemma ins_run_lag:
  assumes "ins_run E s s'" and "lag_inv s"
  shows "lag_inv s'"
  using assms by induction (auto intro: ins_step_lag)

section \<open>A start that failed\<close>

text \<open>
  The flag \<^verbatim>\<open>isStarted\<close> is raised before anything can fail and is not lowered on an error, and
  the poller is assigned last.
\<close>

lemma lag_bootstrap [go_rel_intros]: "go_rel lag_same (bootstrap E n)"
  unfolding bootstrap_def Let_def fp_query_defs by (intro go_rel_intros)

lemma lag_run_poller [go_rel_intros]: "go_rel lag_same (run_poller cp m)"
  by (auto simp: go_rel_def run_poller_def lag_same_def split: prod.splits res.splits)

text \<open>
  A start that returns an error leaves the instance marked as started with no poller, so that
  the next start is refused and a stop dereferences the missing poller.
\<close>

lemma ins_Start_failed:
  assumes fresh: "\<not> ins_isStarted (fw_ins s)" "ins_poller (fw_ins s) = None"
    and run: "ins_Start E n k s = (Err e, s')"
  shows "ins_isStarted (fw_ins s') \<and> ins_poller (fw_ins s') = None"
proof -
  let ?s = "set_ins (\<lambda>i. i\<lparr>ins_isStarted := True\<rparr>) s"
  have "lag_same ?s s'"
  proof (cases "ins_IsJailed ?s")
    case True
    with run fresh(1) have "s' = ?s" by (simp add: ins_Start_def go_defs)
    then show ?thesis by (simp add: lag.R_refl)
  next
    case False
    with run fresh(1) have "wrap_go (''failed to bootstrap the finality-provider '' @ GetBtcPkHex ?s @ '': '')
       (bootstrap E n) (\<lambda>startHeight. wrap_go ''failed to start the poller: ''
         (run_poller NewChainPoller (cp_Start (poller_env_of E) k (startHeight + 1))) (\<lambda>(_, poller).
       upd_go (set_ins (\<lambda>i. i\<lparr>ins_poller := Some poller, ins_laggingTargetChan := Some [],
         ins_quit := Some False\<rparr>)) (ret ()))) ?s = (Err e, s')"
      by (simp add: ins_Start_def get_go_def upd_go_def)
    then show ?thesis
    proof (rule try_go_ErrE)
      fix e' assume "bootstrap E n ?s = (Err e', s')"
      then show ?thesis by (rule go_relD [OF lag_bootstrap])
    next
      fix sh t assume b: "bootstrap E n ?s = (Ok sh, t)"
        and "wrap_go ''failed to start the poller: ''
         (run_poller NewChainPoller (cp_Start (poller_env_of E) k (sh + 1))) (\<lambda>(_, poller).
         upd_go (set_ins (\<lambda>i. i\<lparr>ins_poller := Some poller, ins_laggingTargetChan := Some [],
           ins_quit := Some False\<rparr>)) (ret ())) t = (Err e, s')"
      then obtain e' where "run_poller NewChainPoller (cp_Start (poller_env_of E) k (sh + 1)) t = (Err e', s')"
        by (elim try_go_ErrE) (auto simp: upd_go_def ret_def)
      then have "lag_same t s'" by (rule go_relD [OF lag_run_poller])
      with go_relD [OF lag_bootstrap b] show ?thesis by (rule lag.R_trans)
    qed
  qed
  with fresh(2) show ?thesis by (simp add: lag_same_def lag_state_def)
qed

lemma ins_Start_refused:
  assumes "ins_isStarted (fw_ins s)"
  shows "fst (ins_Start E n k s) = Err (NewErr (''the finality-provider instance '' @ GetBtcPkHex s @
    '' is already started''))"
  using assms by (simp add: ins_Start_def go_defs GetBtcPkHex_def fp_getters)

lemma ins_Stop_no_poller:
  assumes "ins_isStarted (fw_ins s)" and "ins_poller (fw_ins s) = None"
  shows "fst (ins_Stop E s) = Crash ''nil pointer dereference''"
  using assms by (simp add: ins_Stop_def on_poller_def go_defs)

end
