(* ===== verification/FpManager.thy ===== *)
theory FpManager
  imports FpRun
begin

text \<open>
  The manager of the finality provider instance (\<^verbatim>\<open>finality-provider/service/fp_manager.go\<close>):
  it creates and starts the one instance, follows its status on the chain, and reacts to its
  critical errors. The bodies of the two monitors are functions; the lemmas give the status
  and the instance after each of their branches.
\<close>

section \<open>State\<close>

record ('db, 'w) mgr_world =
  mw_db :: 'db
  mw_ext :: 'w
  mw_fpIns :: "FinalityProviderInstance option"
  mw_criticalErrChan :: "CriticalError list"
  mw_startOnce :: bool
  mw_stopOnce :: bool
  mw_quit :: bool
  mw_metrics :: FpMetrics

definition NewFinalityProviderManager :: "'db \<Rightarrow> 'w \<Rightarrow> FpMetrics \<Rightarrow> ('db, 'w) mgr_world" where
  "NewFinalityProviderManager d w metrics = \<lparr>mw_db = d, mw_ext = w, mw_fpIns = None, mw_criticalErrChan = [],
     mw_startOnce = False, mw_stopOnce = False, mw_quit = False, mw_metrics = metrics\<rparr>"

definition mgr_db :: "('db, 'a) go \<Rightarrow> (('db, 'w, 'y) mgr_world_scheme, 'a) go" where
  "mgr_db m = zoom_go mw_db (\<lambda>d s. s\<lparr>mw_db := d\<rparr>) m"

definition mgr_ext :: "('w, 'a) go \<Rightarrow> (('db, 'w, 'y) mgr_world_scheme, 'a) go" where
  "mgr_ext m = zoom_go mw_ext (\<lambda>w s. s\<lparr>mw_ext := w\<rparr>) m"

definition mgr_meter ::
  "(FpMetrics \<Rightarrow> FpMetrics) \<Rightarrow> (('db, 'w, 'y) mgr_world_scheme, 'a) go \<Rightarrow> (('db, 'w, 'y) mgr_world_scheme, 'a) go" where [go_defs]:
  "mgr_meter f k = upd_go (\<lambda>s. s\<lparr>mw_metrics := f (mw_metrics s)\<rparr>) k"

text \<open>
  A call on the instance. The critical errors it sends arrive in the manager's channel.
\<close>

definition on_ins :: "(('db, 'w) fp_world, 'a) go \<Rightarrow> (('db, 'w, 'y) mgr_world_scheme, 'a) go" where
  "on_ins m = (\<lambda>s. case mw_fpIns s of
      None \<Rightarrow> (Crash ''nil pointer dereference'', s)
    | Some i \<Rightarrow> (case m \<lparr>fw_db = mw_db s, fw_ext = mw_ext s, fw_ins = i, fw_metrics = mw_metrics s\<rparr> of
        (r, t) \<Rightarrow> (r, s\<lparr>mw_db := fw_db t, mw_ext := fw_ext t,
          mw_fpIns := Some ((fw_ins t)\<lparr>ins_criticalErrChan := []\<rparr>),
          mw_criticalErrChan := mw_criticalErrChan s @ ins_criticalErrChan (fw_ins t),
          mw_metrics := fw_metrics t\<rparr>)))"

definition set_fpIns :: "FinalityProviderInstance option \<Rightarrow> ('db, 'w, 'y) mgr_world_scheme \<Rightarrow>
  ('db, 'w, 'y) mgr_world_scheme" where
  "set_fpIns i s = s\<lparr>mw_fpIns := i\<rparr>"

section \<open>Starting, stopping, removing\<close>

definition GetFinalityProviderInstance :: "(('db, 'w, 'y) mgr_world_scheme, FinalityProviderInstance) go" where
  "GetFinalityProviderInstance = get_go mw_fpIns (\<lambda>i. case i of
      None \<Rightarrow> fail (NewErr ''finality provider does not exist'')
    | Some fpi \<Rightarrow> ret fpi)"

definition IsFinalityProviderRunning :: "bytes \<Rightarrow> ('db, 'w, 'y) mgr_world_scheme \<Rightarrow> bool" where
  "IsFinalityProviderRunning fpPk s = (case mw_fpIns s of
      None \<Rightarrow> False
    | Some i \<Rightarrow> if hex_encode (sfp_BtcPk (ins_fp i)) \<noteq> hex_encode fpPk then False else ins_IsRunning i)"

definition removeFinalityProviderInstance ::
  "('db, 'w, 'z) fp_env_scheme \<Rightarrow> (('db, 'w, 'y) mgr_world_scheme, unit) go" where
  "removeFinalityProviderInstance E = get_go mw_fpIns (\<lambda>fpi. case fpi of
      None \<Rightarrow> fail (NewErr ''the finality provider instance does not exist'')
    | Some i \<Rightarrow>
        if ins_IsRunning i
        then handle_go (on_ins (ins_Stop E))
          (\<lambda>_. fail (NewErr (''failed to stop the finality provider instance '' @
             hex_encode (sfp_BtcPk (ins_fp i)))))
          (\<lambda>_. upd_go (set_fpIns None) (ret ()))
        else upd_go (set_fpIns None) (ret ()))"

definition startFinalityProviderInstance ::
  "('db, 'w, 'z) fp_env_scheme \<Rightarrow> nat \<Rightarrow> nat \<Rightarrow> bytes \<Rightarrow> string \<Rightarrow> (('db, 'w, 'y) mgr_world_scheme, unit) go" where
  "startFinalityProviderInstance E n k pk passphrase = get_go mw_fpIns (\<lambda>fpIns. case fpIns of
      None \<Rightarrow>
        wrap_go (''failed to create finality provider instance '' @ hex_encode pk @ '': '')
          (mgr_db (NewFinalityProviderInstance E pk passphrase)) (\<lambda>i.
        upd_go (set_fpIns (Some i)) (on_ins (ins_Start E n k)))
    | Some _ \<Rightarrow> on_ins (ins_Start E n k))"

text \<open>\<^verbatim>\<open>startOnce\<close> launches the two monitors.\<close>

definition StartFinalityProvider ::
  "('db, 'w, 'z) fp_env_scheme \<Rightarrow> nat \<Rightarrow> nat \<Rightarrow> bytes \<Rightarrow> string \<Rightarrow> (('db, 'w, 'y) mgr_world_scheme, unit) go" where
  "StartFinalityProvider E n k fpPk passphrase = upd_go (\<lambda>s. s\<lparr>mw_startOnce := True\<rparr>) (
     try_go (startFinalityProviderInstance E n k fpPk passphrase) (\<lambda>_. ret ()))"

definition mgr_Stop :: "('db, 'w, 'z) fp_env_scheme \<Rightarrow> (('db, 'w, 'y) mgr_world_scheme, unit) go" where
  "mgr_Stop E = get_go mw_stopOnce (\<lambda>once.
     if once then ret ()
     else upd_go (\<lambda>s. s\<lparr>mw_stopOnce := True, mw_quit := True\<rparr>) (
       get_go mw_fpIns (\<lambda>fpIns. case fpIns of
         None \<Rightarrow> ret ()
       | Some i \<Rightarrow> if \<not> ins_IsRunning i then ret () else on_ins (ins_Stop E))))"

section \<open>The monitors\<close>

definition setFinalityProviderSlashed ::
  "('db, 'w, 'z) fp_env_scheme \<Rightarrow> (('db, 'w, 'y) mgr_world_scheme, unit) go" where
  "setFinalityProviderSlashed E = try_go (on_ins (MustSetStatus E SLASHED)) (\<lambda>_.
     handle_go (removeFinalityProviderInstance E)
       (\<lambda>e. crash (''failed to terminate a slashed finality-provider: '' @ err_msg e)) ret)"

definition setFinalityProviderJailed ::
  "('db, 'w, 'z) fp_env_scheme \<Rightarrow> (('db, 'w, 'y) mgr_world_scheme, unit) go" where
  "setFinalityProviderJailed E = try_go (on_ins (MustSetStatus E JAILED)) (\<lambda>_.
     handle_go (removeFinalityProviderInstance E)
       (\<lambda>e. crash (''failed to terminate a jailed finality-provider: '' @ err_msg e)) ret)"

definition instanceTerminatingMsg :: string where
  "instanceTerminatingMsg = ''terminating the finality-provider instance due to critical error''"

text \<open>\<^verbatim>\<open>monitorCriticalErr\<close>, one error from the channel.\<close>

definition handle_critical_err ::
  "('db, 'w, 'z) fp_env_scheme \<Rightarrow> CriticalError \<Rightarrow> (('db, 'w, 'y) mgr_world_scheme, unit) go" where
  "handle_critical_err E criticalErr =
     handle_go GetFinalityProviderInstance (\<lambda>_. ret ()) (\<lambda>fpi.
     if errors_Is (ce_err criticalErr) (ServiceErr ErrFinalityProviderSlashed)
     then setFinalityProviderSlashed E
     else if errors_Is (ce_err criticalErr) (ServiceErr ErrFinalityProviderJailed)
     then setFinalityProviderJailed E
     else crash instanceTerminatingMsg)"

definition monitorCriticalErr_recv ::
  "('db, 'w, 'z) fp_env_scheme \<Rightarrow> (('db, 'w, 'y) mgr_world_scheme, unit) go" where
  "monitorCriticalErr_recv E = get_go mw_criticalErrChan (\<lambda>chan. case chan of
      [] \<Rightarrow> running
    | ce # rest \<Rightarrow> upd_go (\<lambda>s. s\<lparr>mw_criticalErrChan := rest\<rparr>) (handle_critical_err E ce))"

definition mgr_getLatestBlockWithRetry ::
  "('db, 'w, 'z) fp_env_scheme \<Rightarrow> (('db, 'w, 'y) mgr_world_scheme, BlockInfo) go" where
  "mgr_getLatestBlockWithRetry E = mgr_ext (retry_Do (env_RetryIf E) RtyAttNum (cc_QueryBestBlock (env_cc E)))"

text \<open>\<^verbatim>\<open>monitorStatusUpdate\<close>, one tick. An error of a query ends the tick.\<close>

definition status_update_tick ::
  "('db, 'w, 'z) fp_env_scheme \<Rightarrow> (('db, 'w, 'y) mgr_world_scheme, unit) go" where
  "status_update_tick E = get_go mw_fpIns (\<lambda>fpi. case fpi of
      None \<Rightarrow> ret ()
    | Some i \<Rightarrow>
        handle_go (mgr_getLatestBlockWithRetry E) (\<lambda>_. ret ()) (\<lambda>latestBlock.
        handle_go (on_ins (GetVotingPowerWithRetry E (Height latestBlock))) (\<lambda>_. ret ()) (\<lambda>power.
        if power > 0
        then if sfp_Status (ins_fp i) \<noteq> ACTIVE then on_ins (MustSetStatus E ACTIVE) else ret ()
        else handle_go (on_ins (GetFinalityProviderSlashedOrJailedWithRetry E)) (\<lambda>_. ret ()) (\<lambda>(slashed, jailed).
          if slashed then setFinalityProviderSlashed E
          else if jailed then setFinalityProviderJailed E
          else if sfp_Status (ins_fp i) = ACTIVE then on_ins (MustSetStatus E INACTIVE) else ret ()))))"

section \<open>Queries\<close>

definition provider_info ::
  "('db, 'w, 'z) fp_env_scheme \<Rightarrow> bytes \<Rightarrow> StoredFinalityProvider \<Rightarrow> ('db, 'w, 'y) mgr_world_scheme \<Rightarrow>
   FinalityProviderInfo" where
  "provider_info E pk fp s =
     (let fpInfo = ToFinalityProviderInfo E fp
      in if IsFinalityProviderRunning pk s then fpInfo\<lparr>fpi_IsRunning := True\<rparr> else fpInfo)"

definition AllFinalityProviders ::
  "('db, 'w, 'z) fp_env_scheme \<Rightarrow> (('db, 'w, 'y) mgr_world_scheme, FinalityProviderInfo list) go" where
  "AllFinalityProviders E = try_go (mgr_db (GetAllStoredFinalityProviders E)) (\<lambda>storedFps.
     get_go (\<lambda>s. map (\<lambda>fp. provider_info E (sfp_BtcPk fp) fp s) storedFps) ret)"

definition FinalityProviderInfo_query ::
  "('db, 'w, 'z) fp_env_scheme \<Rightarrow> bytes \<Rightarrow> (('db, 'w, 'y) mgr_world_scheme, FinalityProviderInfo) go" where
  "FinalityProviderInfo_query E fpPk =
     handle_go (of_res (schnorr_ParsePubKey E fpPk)) (\<lambda>e. crash (err_msg e)) (\<lambda>btcPk.
     try_go (mgr_db (GetFinalityProvider E btcPk)) (\<lambda>storedFp.
     get_go (provider_info E fpPk storedFp) ret))"

section \<open>Stored heights\<close>

text \<open>
  The heights in the store never fall, the metrics show no height above the stored one, and
  the instance is always that of a stored provider, if a public key is printed as it was parsed.
\<close>

definition pubkeys_canonical :: "('db, 'z) store_lib_scheme \<Rightarrow> bool" where
  "pubkeys_canonical L \<longleftrightarrow> (\<forall>b pk. schnorr_ParsePubKey L b = Ok pk \<longrightarrow> pk = b)"

definition ins_stored :: "('db, 'w, 'z) fp_env_scheme \<Rightarrow> ('db, 'w, 'y) mgr_world_scheme \<Rightarrow> bool" where
  "ins_stored E s \<longleftrightarrow> (\<forall>i. mw_fpIns s = Some i \<longrightarrow>
     ins_btcPk i = sfp_BtcPk (ins_fp i) \<and> fp_at E (mw_db s) (ins_btcPk i) \<noteq> None)"

definition mgr_progress ::
  "('db, 'w, 'z) fp_env_scheme \<Rightarrow> ('db, 'w, 'y) mgr_world_scheme \<Rightarrow> ('db, 'w, 'y) mgr_world_scheme \<Rightarrow> bool" where
  "mgr_progress E s s' \<longleftrightarrow> fp_progress E (mw_db s) (mw_db s') \<and>
     (fp_wf E (mw_db s) \<longrightarrow> metrics_le E (mw_db s') (mw_metrics s) (mw_metrics s')) \<and>
     (pubkeys_canonical E \<and> fp_wf E (mw_db s) \<and> ins_stored E s \<longrightarrow> ins_stored E s')"

interpretation mgr: go_preorder "mgr_progress E" for E :: "('db, 'w, 'z) fp_env_scheme"
proof
  fix s t u :: "('db, 'w, 'a) mgr_world_scheme"
  show "mgr_progress E s s" by (simp add: mgr_progress_def progress.R_refl metrics_le_refl)
  assume st: "mgr_progress E s t" and tu: "mgr_progress E t u"
  then have "fp_progress E (mw_db s) (mw_db u)" unfolding mgr_progress_def by (blast intro: progress.R_trans)
  moreover have "fp_wf E (mw_db s) \<longrightarrow> metrics_le E (mw_db u) (mw_metrics s) (mw_metrics u)"
    using st tu unfolding mgr_progress_def by (blast intro: metered_trans [of E "mw_db s" "mw_db t"])
  ultimately show "mgr_progress E s u" using st tu by (auto simp: mgr_progress_def fp_progress_def)
qed

lemma mgr_progressI:
  assumes "fp_progress E (mw_db s) (mw_db s')"
    and "\<And>i. mw_fpIns s' = Some i \<Longrightarrow> \<exists>j. mw_fpIns s = Some j \<and> ins_ident i = ins_ident j"
    and "fp_wf E (mw_db s) \<Longrightarrow> metrics_le E (mw_db s') (mw_metrics s) (mw_metrics s')"
  shows "mgr_progress E s s'"
  unfolding mgr_progress_def ins_stored_def
proof (intro conjI impI allI, rule assms(1), erule assms(3))
  fix i assume wf: "pubkeys_canonical E \<and> fp_wf E (mw_db s) \<and> (\<forall>i. mw_fpIns s = Some i \<longrightarrow>
      ins_btcPk i = sfp_BtcPk (ins_fp i) \<and> fp_at E (mw_db s) (ins_btcPk i) \<noteq> None)" and i: "mw_fpIns s' = Some i"
  from assms(2) [OF i] obtain j where "mw_fpIns s = Some j" "ins_ident i = ins_ident j" by blast
  with wf have "ins_btcPk i = sfp_BtcPk (ins_fp i)" "fp_at E (mw_db s) (ins_btcPk i) \<noteq> None" by (auto simp: ins_ident_def)
  moreover from this(2) assms(1) wf have "fp_at E (mw_db s') (ins_btcPk i) \<noteq> None"
    unfolding fp_progress_def by (metis option.exhaust option.distinct(1))
  ultimately show "ins_btcPk i = sfp_BtcPk (ins_fp i)" "fp_at E (mw_db s') (ins_btcPk i) \<noteq> None" by simp_all
qed

lemma mgr_ext_progress [go_rel_intros]: "go_rel (mgr_progress E) (mgr_ext m)"
  by (auto simp: go_rel_def mgr_ext_def zoom_go_def progress.R_refl metrics_le_refl intro!: mgr_progressI split: prod.splits)

lemma mgr_db_progress [go_rel_intros]: "go_rel (fp_progress E) m \<Longrightarrow> go_rel (mgr_progress E) (mgr_db m)"
  unfolding mgr_db_def by (erule go_rel_zoom) (rule mgr_progressI, simp_all add: metrics_le_refl)

lemma on_ins_progress [go_rel_intros]:
  fixes E :: "('db, 'w, 'z) fp_env_scheme"
  assumes "go_rel (world_progress E) m"
  shows "go_rel (mgr_progress E) (on_ins m)"
proof (rule go_relI)
  fix s :: "('db, 'w, 'y) mgr_world_scheme"
  show "mgr_progress E s (snd (on_ins m s))"
  proof (cases "mw_fpIns s")
    case (Some i)
    obtain r t where m: "m \<lparr>fw_db = mw_db s, fw_ext = mw_ext s, fw_ins = i, fw_metrics = mw_metrics s\<rparr> = (r, t)" by fastforce
    with go_relD [OF assms m] have "fp_progress E (mw_db s) (fw_db t)" "ins_ident (fw_ins t) = ins_ident i"
      "fp_wf E (mw_db s) \<longrightarrow> metrics_le E (fw_db t) (mw_metrics s) (fw_metrics t)"
      by (simp_all add: world_progress_def)
    with Some m show ?thesis by (auto simp: on_ins_def ins_ident_def intro!: mgr_progressI)
  qed (simp add: on_ins_def mgr.R_refl)
qed

lemma mgr_upd_progress [go_rel_intros]:
  "(\<And>s. mw_db (f s) = mw_db s \<and> mw_metrics (f s) = mw_metrics s \<and> (mw_fpIns (f s) = mw_fpIns s \<or> mw_fpIns (f s) = None)) \<Longrightarrow>
   go_rel (mgr_progress E) k \<Longrightarrow> go_rel (mgr_progress E) (upd_go f k)"
  by (rule mgr.rel_upd, rule mgr_progressI) (simp_all add: progress.R_refl metrics_le_refl, metis option.distinct(1))

lemma mgr_meter_progress [go_rel_intros]:
  "(\<And>d m. metrics_le E d m (f m)) \<Longrightarrow> go_rel (mgr_progress E) k \<Longrightarrow> go_rel (mgr_progress E) (mgr_meter f k)"
  unfolding mgr_meter_def by (rule mgr.rel_upd, rule mgr_progressI) (simp_all add: progress.R_refl)

lemma NewFinalityProviderInstance_progress [go_rel_intros]:
  "go_rel (fp_progress E) (NewFinalityProviderInstance E pk pass)"
  unfolding NewFinalityProviderInstance_def GetFinalityProvider_def by (intro go_rel_intros)

lemma remove_progress [go_rel_intros]:
  "store_laws E \<Longrightarrow> go_rel (mgr_progress E) (removeFinalityProviderInstance E)"
  unfolding removeFinalityProviderInstance_def by (intro go_rel_intros) (simp_all add: set_fpIns_def)

lemma NewFinalityProviderInstance_stored:
  assumes "pubkeys_canonical E" and "fp_wf E d" and "NewFinalityProviderInstance E pk pass d = (Ok i, d')"
  shows "d' = d \<and> ins_btcPk i = sfp_BtcPk (ins_fp i) \<and> fp_at E d (ins_btcPk i) \<noteq> None"
proof -
  from assms(3) obtain k sfp where get: "GetFinalityProvider E k d = (Ok sfp, d')"
    and i: "ins_btcPk i = sfp_BtcPk sfp" "ins_fp i = sfp"
    unfolding NewFinalityProviderInstance_def
    by (auto simp: handle_go_def of_res_def ret_def fail_def crash_def split: res.splits prod.splits if_splits)
  from get obtain p where d': "d' = d" and p: "fp_at E d k = Some p" "protoFpToStoredFinalityProvider E p = Ok sfp"
    by (auto simp: GetFinalityProvider_def fp_at_def dest!: kv_View_OkD split: if_splits option.splits res.splits)
  from p(2) have "schnorr_ParsePubKey E (pfp_BtcPk p) = Ok (sfp_BtcPk sfp)"
    by (auto simp: protoFpToStoredFinalityProvider_def go_defs split: res.splits option.splits)
  with assms(1) have "sfp_BtcPk sfp = pfp_BtcPk p" by (simp add: pubkeys_canonical_def)
  also have "\<dots> = k" using assms(2) p(1) by (simp add: fp_wf_def fp_ok_def)
  finally show ?thesis using d' i p(1) by simp
qed

lemma startInstance_progress [go_rel_intros]:
  fixes E :: "('db, 'w, 'z) fp_env_scheme"
  assumes "store_laws E"
  shows "go_rel (mgr_progress E) (startFinalityProviderInstance E n k pk pass)"
proof (rule go_relI)
  fix s :: "('db, 'w, 'y) mgr_world_scheme"
  have start: "go_rel (mgr_progress E :: ('db, 'w, 'y) mgr_world_scheme \<Rightarrow> _) (on_ins (ins_Start E n k))" using assms by (intro go_rel_intros)
  show "mgr_progress E s (snd (startFinalityProviderInstance E n k pk pass s))"
  proof (cases "mw_fpIns s")
    case None
    obtain r d where new: "NewFinalityProviderInstance E pk pass (mw_db s) = (r, d)" by fastforce
    have d: "fp_progress E (mw_db s) d" by (rule go_relD [OF NewFinalityProviderInstance_progress new])
    have "mgr_progress E s (set_fpIns (Some i) (s\<lparr>mw_db := d\<rparr>))" if "r = Ok i" for i
      using NewFinalityProviderInstance_stored [OF _ _ new [unfolded that]] d
      by (auto simp: mgr_progress_def ins_stored_def set_fpIns_def metrics_le_refl)
    moreover have "mgr_progress E s (s\<lparr>mw_db := d\<rparr>)" using d None by (intro mgr_progressI) (simp_all add: metrics_le_refl)
    ultimately show ?thesis
      using start None new
      by (cases r) (auto simp: startFinalityProviderInstance_def get_go_def handle_go_def mgr_db_def zoom_go_def upd_go_def fail_def
          go_rel_def intro: mgr.R_trans)
  qed (use start in \<open>simp add: startFinalityProviderInstance_def get_go_def go_rel_def\<close>)
qed

lemma StartFinalityProvider_progress [go_rel_intros]:
  "store_laws E \<Longrightarrow> go_rel (mgr_progress E) (StartFinalityProvider E n k pk pass)"
  unfolding StartFinalityProvider_def by (intro go_rel_intros) simp_all

lemma mgr_Stop_progress [go_rel_intros]: "store_laws E \<Longrightarrow> go_rel (mgr_progress E) (mgr_Stop E)"
  unfolding mgr_Stop_def by (intro go_rel_intros) simp_all

lemma set_terminal_progress [go_rel_intros]:
  "store_laws E \<Longrightarrow> go_rel (mgr_progress E) (setFinalityProviderSlashed E)"
  "store_laws E \<Longrightarrow> go_rel (mgr_progress E) (setFinalityProviderJailed E)"
  unfolding setFinalityProviderSlashed_def setFinalityProviderJailed_def by (intro go_rel_intros; assumption)+

lemma monitors_progress [go_rel_intros]:
  assumes "store_laws E"
  shows "go_rel (mgr_progress E) (monitorCriticalErr_recv E)" and "go_rel (mgr_progress E) (status_update_tick E)"
  unfolding monitorCriticalErr_recv_def handle_critical_err_def GetFinalityProviderInstance_def
    status_update_tick_def mgr_getLatestBlockWithRetry_def GetVotingPowerWithRetry_def
    GetFinalityProviderSlashedOrJailedWithRetry_def
  by (intro go_rel_intros assms; simp)+

section \<open>What the monitors do to the status\<close>

definition stored_status :: "('db, 'z) store_lib_scheme \<Rightarrow> 'db \<Rightarrow> bytes \<Rightarrow> FinalityProviderStatus option" where
  "stored_status L d pk = map_option pfp_Status (fp_at L d pk)"

lemma SetFpStatus_stored:
  assumes "store_ok L d" and "SetFpStatus L pk st d = (Ok u, d')"
  shows "stored_status L d' = (stored_status L d)(pk \<mapsto> st) \<and> store_ok L d' \<and> stored_status L d pk \<noteq> None"
proof -
  have laws: "store_laws L" "fp_wf L d" using assms(1) by (simp_all add: store_ok_def)
  obtain p where "fp_at L d pk = Some p" "fp_at L d' = (fp_at L d)(pk \<mapsto> p\<lparr>pfp_Status := st\<rparr>)"
    by (rule SetFpStatus_Ok [OF laws assms(2)])
  then show ?thesis
    using store_ok_progress [OF assms(1) SetFpStatus_progress [OF laws(1)] assms(2)]
    by (auto simp: stored_status_def fun_eq_iff)
qed

lemma MustSetStatus_Ok:
  assumes "MustSetStatus E st s = (Ok u, s')"
  shows "SetFpStatus E (GetBtcPk s) st (fw_db s) = (Ok (), fw_db s') \<and> fw_ext s' = fw_ext s \<and>
    fw_ins s' = (fw_ins s)\<lparr>ins_fp := (ins_fp (fw_ins s))\<lparr>sfp_Status := st\<rparr>\<rparr>"
proof -
  let ?t = "set_fp (\<lambda>fp. fp\<lparr>sfp_Status := st\<rparr>) s"
  from assms have "on_db (SetFpStatus E (GetBtcPk ?t) st) ?t = (Ok (), s')"
    by (auto simp: MustSetStatus_def SetStatus_def upd_go_def get_go_def crash_def ret_def dest!: handle_go_Ok)
  then show ?thesis by (auto simp: fp_getters dest!: on_db_D)
qed

text \<open>\<open>ins_at s pk st\<close>: the manager has an instance of \<open>pk\<close> with status \<open>st\<close>.\<close>

definition ins_at :: "('db, 'w, 'y) mgr_world_scheme \<Rightarrow> bytes \<Rightarrow> FinalityProviderStatus \<Rightarrow> bool" where
  "ins_at s pk st \<longleftrightarrow> (\<exists>i. mw_fpIns s = Some i \<and> sfp_BtcPk (ins_fp i) = pk \<and> sfp_Status (ins_fp i) = st)"

lemma on_ins_MustSetStatus_Ok:
  assumes ok: "store_ok E (mw_db s)" and at: "ins_at s pk st0"
    and run: "on_ins (MustSetStatus E st) s = (Ok u, s')"
  shows "ins_at s' pk st \<and> stored_status E (mw_db s') = (stored_status E (mw_db s))(pk \<mapsto> st) \<and> store_ok E (mw_db s')"
proof -
  from at obtain i where i: "mw_fpIns s = Some i" "sfp_BtcPk (ins_fp i) = pk" by (auto simp: ins_at_def)
  let ?w = "\<lparr>fw_db = mw_db s, fw_ext = mw_ext s, fw_ins = i, fw_metrics = mw_metrics s\<rparr>"
  from run i obtain t where t: "MustSetStatus E st ?w = (Ok u, t)"
    and s': "mw_db s' = fw_db t" "mw_fpIns s' = Some ((fw_ins t)\<lparr>ins_criticalErrChan := []\<rparr>)"
    by (auto simp: on_ins_def split: prod.splits)
  from MustSetStatus_Ok [OF t] i(2) have set: "SetFpStatus E pk st (mw_db s) = (Ok (), fw_db t)"
    and ins: "fw_ins t = i\<lparr>ins_fp := (ins_fp i)\<lparr>sfp_Status := st\<rparr>\<rparr>" by (simp_all add: fp_getters)
  from SetFpStatus_stored [OF ok set] ins s' i(2) show ?thesis by (auto simp: ins_at_def)
qed

lemma ins_Stop_db: "ins_Stop E s = (r, s') \<Longrightarrow> fw_db s' = fw_db s"
  by (auto simp: ins_Stop_def on_poller_def go_defs split: if_splits option.splits prod.splits res.splits)

lemma remove_Ok:
  assumes "removeFinalityProviderInstance E s = (Ok u, s')"
  shows "mw_fpIns s' = None \<and> mw_db s' = mw_db s"
proof (cases "mw_fpIns s")
  case None
  with assms show ?thesis by (simp add: removeFinalityProviderInstance_def go_defs)
next
  case (Some i)
  obtain r t where stop: "ins_Stop E \<lparr>fw_db = mw_db s, fw_ext = mw_ext s, fw_ins = i, fw_metrics = mw_metrics s\<rparr> = (r, t)" by (metis surj_pair)
  with ins_Stop_db [OF stop] assms Some show ?thesis
    by (cases r) (auto simp: removeFinalityProviderInstance_def on_ins_def set_fpIns_def go_defs split: if_splits)
qed

text \<open>A slashed or jailed provider is marked as such in the store, and its instance is gone.\<close>

lemma set_terminal_Ok:
  assumes ok: "store_ok E (mw_db s)" and at: "ins_at s pk st0"
  shows "setFinalityProviderSlashed E s = (Ok u, s') \<Longrightarrow> mw_fpIns s' = None \<and>
      stored_status E (mw_db s') = (stored_status E (mw_db s))(pk \<mapsto> SLASHED)"
    and "setFinalityProviderJailed E s = (Ok u, s') \<Longrightarrow> mw_fpIns s' = None \<and>
      stored_status E (mw_db s') = (stored_status E (mw_db s))(pk \<mapsto> JAILED)"
proof -
  have *: "mw_fpIns s' = None \<and> stored_status E (mw_db s') = (stored_status E (mw_db s))(pk \<mapsto> st)"
    if "try_go (on_ins (MustSetStatus E st)) (\<lambda>_. handle_go (removeFinalityProviderInstance E)
      (\<lambda>e. crash (m @ err_msg e)) ret) s = (Ok u, s')" for st m
  proof -
    from that obtain s1 where set: "on_ins (MustSetStatus E st) s = (Ok (), s1)"
      and rm: "handle_go (removeFinalityProviderInstance E) (\<lambda>e. crash (m @ err_msg e)) ret s1 = (Ok u, s')"
      by (elim try_go_OkE) auto
    from rm have "removeFinalityProviderInstance E s1 = (Ok u, s')"
      by (auto simp: crash_def ret_def dest!: handle_go_Ok)
    with remove_Ok on_ins_MustSetStatus_Ok [OF ok at set] show ?thesis by metis
  qed
  show "setFinalityProviderSlashed E s = (Ok u, s') \<Longrightarrow> mw_fpIns s' = None \<and>
      stored_status E (mw_db s') = (stored_status E (mw_db s))(pk \<mapsto> SLASHED)"
    unfolding setFinalityProviderSlashed_def by (rule *)
  show "setFinalityProviderJailed E s = (Ok u, s') \<Longrightarrow> mw_fpIns s' = None \<and>
      stored_status E (mw_db s') = (stored_status E (mw_db s))(pk \<mapsto> JAILED)"
    unfolding setFinalityProviderJailed_def by (rule *)
qed

text \<open>The documented transitions: the status after a tick, from the answers of the chain.\<close>

definition next_status :: "FinalityProviderStatus \<Rightarrow> u64 \<Rightarrow> bool \<Rightarrow> bool \<Rightarrow> FinalityProviderStatus" where
  "next_status st vp slashed jailed =
     (if vp > 0 then ACTIVE else if slashed then SLASHED else if jailed then JAILED
      else if st = ACTIVE then INACTIVE else st)"

lemma on_ins_query_Ok:
  assumes "on_ins (GetVotingPowerWithRetry E h) s = (Ok p, s')"
  shows "mw_db s' = mw_db s \<and> (ins_at s' = ins_at s)"
  using assms
  by (auto simp: on_ins_def GetVotingPowerWithRetry_def get_go_def ins_at_def fun_eq_iff
      split: option.splits prod.splits dest!: on_ext_D)

lemma on_ins_slashed_Ok:
  assumes "on_ins (GetFinalityProviderSlashedOrJailedWithRetry E) s = (Ok p, s')"
  shows "mw_db s' = mw_db s \<and> (ins_at s' = ins_at s)"
  using assms
  by (auto simp: on_ins_def GetFinalityProviderSlashedOrJailedWithRetry_def get_go_def ins_at_def fun_eq_iff
      split: option.splits prod.splits dest!: on_ext_D)

lemma mgr_getLatestBlock_Ok:
  "mgr_getLatestBlockWithRetry E s = (r, s') \<Longrightarrow> mw_db s' = mw_db s \<and> ins_at s' = ins_at s"
  by (auto simp: mgr_getLatestBlockWithRetry_def mgr_ext_def zoom_go_def ins_at_def fun_eq_iff split: prod.splits)

lemma status_update_tick_Ok:
  assumes ok: "store_ok E (mw_db s)" and at: "ins_at s pk st" and stored: "stored_status E (mw_db s) pk = Some st"
    and block: "mgr_getLatestBlockWithRetry E s = (Ok b, s1)"
    and pw: "on_ins (GetVotingPowerWithRetry E (Height b)) s1 = (Ok vp, s2)"
    and sj: "on_ins (GetFinalityProviderSlashedOrJailedWithRetry E) s2 = (Ok (slashed, jailed), s3)"
    and run: "status_update_tick E s = (Ok (), s')"
  shows "stored_status E (mw_db s') = (stored_status E (mw_db s))(pk \<mapsto> next_status st vp slashed jailed) \<and>
    (if vp = 0 \<and> (slashed \<or> jailed) then mw_fpIns s' = None
     else ins_at s' pk (next_status st vp slashed jailed))"
proof -
  note s1 = mgr_getLatestBlock_Ok [OF block] and s2 = on_ins_query_Ok [OF pw] and s3 = on_ins_slashed_Ok [OF sj]
  have ok2: "store_ok E (mw_db s2)" "store_ok E (mw_db s3)" and at2: "ins_at s2 pk st" "ins_at s3 pk st"
    and db: "mw_db s2 = mw_db s" "mw_db s3 = mw_db s"
    using ok at s1 s2 s3 by simp_all
  have same: "(stored_status E (mw_db s))(pk \<mapsto> st) = stored_status E (mw_db s)"
    using stored by auto
  from at obtain i where i: "mw_fpIns s = Some i" "sfp_Status (ins_fp i) = st" by (auto simp: ins_at_def)
  show ?thesis
  proof (cases "vp > 0")
    case True
    with run i block pw have "(if st \<noteq> ACTIVE then on_ins (MustSetStatus E ACTIVE) else ret ()) s2 = (Ok (), s')"
      by (simp add: status_update_tick_def get_go_def handle_go_def)
    with True on_ins_MustSetStatus_Ok [OF ok2(1) at2(1)] show ?thesis
      by (cases "st = ACTIVE") (use at2 db same in \<open>auto simp: next_status_def ret_def\<close>)
  next
    case False
    with run i block pw sj have rest: "(if slashed then setFinalityProviderSlashed E
        else if jailed then setFinalityProviderJailed E
        else if st = ACTIVE then on_ins (MustSetStatus E INACTIVE) else ret ()) s3 = (Ok (), s')"
      by (simp add: status_update_tick_def get_go_def handle_go_def cong: if_cong split del: if_split)
    have vp: "vp = 0" using False by (simp add: word_gt_0)
    consider "slashed" | "\<not> slashed" "jailed" | "\<not> slashed" "\<not> jailed" "st = ACTIVE"
      | "\<not> slashed" "\<not> jailed" "st \<noteq> ACTIVE" by blast
    then show ?thesis
    proof cases
      case 1
      with rest vp set_terminal_Ok(1) [OF ok2(2) at2(2)] db show ?thesis by (simp add: next_status_def)
    next
      case 2
      with rest vp set_terminal_Ok(2) [OF ok2(2) at2(2)] db show ?thesis by (simp add: next_status_def)
    next
      case 3
      with rest vp on_ins_MustSetStatus_Ok [OF ok2(2) at2(2)] db show ?thesis by (simp add: next_status_def)
    next
      case 4
      with rest vp at2 db same show ?thesis by (auto simp: next_status_def ret_def)
    qed
  qed
qed

text \<open>
  An instance that is there is the one that is started, whatever key is asked for; after a
  start that failed, it stays there.
\<close>

lemma start_existing:
  "mw_fpIns s = Some i \<Longrightarrow> startFinalityProviderInstance E n k pk pass s = on_ins (ins_Start E n k) s"
  by (simp add: startFinalityProviderInstance_def get_go_def)

lemma start_again_refused:
  assumes "mw_fpIns s = Some i" and "ins_isStarted i"
  shows "\<exists>m. fst (StartFinalityProvider E n k pk pass s) = Err (NewErr m)"
proof -
  obtain t where "ins_Start E n k \<lparr>fw_db = mw_db s, fw_ext = mw_ext s, fw_ins = i, fw_metrics = mw_metrics s\<rparr> =
      (Err (NewErr (''the finality-provider instance '' @
        GetBtcPkHex \<lparr>fw_db = mw_db s, fw_ext = mw_ext s, fw_ins = i, fw_metrics = mw_metrics s\<rparr> @ '' is already started'')), t)"
    using ins_Start_refused [of "\<lparr>fw_db = mw_db s, fw_ext = mw_ext s, fw_ins = i, fw_metrics = mw_metrics s\<rparr>" E n k] assms(2)
    by (metis fp_world.select_convs(3) prod.collapse)
  then show ?thesis
    using assms(1) by (simp add: StartFinalityProvider_def startFinalityProviderInstance_def on_ins_def go_defs)
qed

end
