(* ===== verification/EotsRpc.thy ===== *)
theory EotsRpc
  imports EotsManager
begin

text \<open>
  The EOTS manager behind gRPC: the handlers of the daemon
  (\<^verbatim>\<open>eotsmanager/service/rpcserver.go\<close>) and the client that the finality provider uses as
  its manager (\<^verbatim>\<open>eotsmanager/client/rpcclient.go\<close>). The state is a pair of the remote
  manager and the network. Over a network that loses nothing, the client is the manager up
  to the texts of errors; over any network, it keeps the contract \<open>eots_contract\<close>.
\<close>

section \<open>Messages and the network\<close>

record CreateKeyRequest =
  ckr_Name :: string
  ckr_Passphrase :: string
  ckr_HdPath :: string

record CreateRandomnessPairListRequest =
  crr_Uid :: bytes
  crr_ChainId :: bytes
  crr_StartHeight :: u64
  crr_Num :: u32
  crr_Passphrase :: string

record KeyRecordRequest =
  krr_Uid :: bytes
  krr_Passphrase :: string

record KeyRecordResponse =
  krs_Name :: string
  krs_PrivateKey :: bytes

record SignEOTSRequest =
  ser_Uid :: bytes
  ser_ChainId :: bytes
  ser_Msg :: bytes
  ser_Height :: u64
  ser_Passphrase :: string

record SignSchnorrSigRequest =
  ssr_Uid :: bytes
  ssr_Msg :: bytes
  ssr_Passphrase :: string

text \<open>
  gRPC: a request or a response may be lost, and the error of a handler reaches the client
  as a status, which is another error. The decoders of the client are the curve library's.
\<close>

record 'n rpc_net =
  grpc_Dial :: "string \<Rightarrow> ('n, unit) go"
  net_send :: "('n, unit) go"
  net_recv :: "('n, unit) go"
  rpc_status :: "go_error \<Rightarrow> go_error"
  conn_Close :: "('n, unit) go"
  FieldVal_SetByteSlice :: "bytes \<Rightarrow> FieldVal"
  rpc_ModNScalar_SetByteSlice :: "bytes \<Rightarrow> ModNScalar"
  rpc_PrivKeyFromBytes :: "bytes \<Rightarrow> PrivateKey"
  schnorr_ParseSignature :: "bytes \<Rightarrow> bytes res"

definition on_manager :: "('w, 'a) go \<Rightarrow> ('w \<times> 'n, 'a) go" where
  "on_manager m = zoom_go fst (\<lambda>w s. (w, snd s)) m"

definition on_net :: "('n, 'a) go \<Rightarrow> ('w \<times> 'n, 'a) go" where
  "on_net m = zoom_go snd (\<lambda>n s. (fst s, n)) m"

definition rpc_call :: "('n, 'z) rpc_net_scheme \<Rightarrow> ('w, 'a) go \<Rightarrow> ('w \<times> 'n, 'a) go" where
  "rpc_call N handler =
     try_go (on_net (net_send N)) (\<lambda>_.
     handle_go (on_manager handler)
       (\<lambda>e. try_go (on_net (net_recv N)) (\<lambda>_. fail (rpc_status N e)))
       (\<lambda>a. try_go (on_net (net_recv N)) (\<lambda>_. ret a)))"

section \<open>The server\<close>

definition srv_Ping :: "('w, unit) go" where
  "srv_Ping = ret ()"

definition srv_CreateKey :: "('w, 'y) EOTSManager_scheme \<Rightarrow> CreateKeyRequest \<Rightarrow> ('w, bytes) go" where
  "srv_CreateKey em req =
     try_go (em_CreateKey em (ckr_Name req) (ckr_Passphrase req) (ckr_HdPath req)) (\<lambda>pk. ret pk)"

definition srv_CreateRandomnessPairList ::
  "('w, 'y) EOTSManager_scheme \<Rightarrow> CreateRandomnessPairListRequest \<Rightarrow> ('w, bytes list) go" where
  "srv_CreateRandomnessPairList em req =
     try_go (em_CreateRandomnessPairList em (crr_Uid req) (crr_ChainId req) (crr_StartHeight req)
       (crr_Num req) (crr_Passphrase req)) (\<lambda>pubRandList.
     ret (map (\<lambda>p. p) pubRandList))"

definition srv_KeyRecord :: "('w, 'y) EOTSManager_scheme \<Rightarrow> KeyRecordRequest \<Rightarrow> ('w, KeyRecordResponse) go" where
  "srv_KeyRecord em req =
     try_go (em_KeyRecord em (krr_Uid req) (krr_Passphrase req)) (\<lambda>record.
     ret \<lparr>krs_Name = kr_Name record, krs_PrivateKey = kr_PrivKey record\<rparr>)"

definition srv_SignEOTS :: "('w, 'y) EOTSManager_scheme \<Rightarrow> SignEOTSRequest \<Rightarrow> ('w, bytes) go" where
  "srv_SignEOTS em req =
     try_go (em_SignEOTS em (ser_Uid req) (ser_ChainId req) (ser_Msg req) (ser_Height req)
       (ser_Passphrase req)) (\<lambda>sig. ret sig)"

definition srv_SignSchnorrSig :: "('w, 'y) EOTSManager_scheme \<Rightarrow> SignSchnorrSigRequest \<Rightarrow> ('w, bytes) go" where
  "srv_SignSchnorrSig em req =
     try_go (em_SignSchnorrSig em (ssr_Uid req) (ssr_Msg req) (ssr_Passphrase req)) (\<lambda>sig. ret sig)"

section \<open>The client\<close>

definition cl_Ping :: "('n, 'z) rpc_net_scheme \<Rightarrow> ('w \<times> 'n, unit) go" where
  "cl_Ping N = try_go (rpc_call N srv_Ping) (\<lambda>_. ret ())"

definition NewEOTSManagerGRpcClient :: "('n, 'z) rpc_net_scheme \<Rightarrow> string \<Rightarrow> ('w \<times> 'n, unit) go" where
  "NewEOTSManagerGRpcClient N remoteAddr =
     wrap_go (''failed to build gRPC connection to '' @ remoteAddr @ '': '')
       (on_net (grpc_Dial N remoteAddr)) (\<lambda>_.
     wrap_go ''the EOTS manager server is not responding: '' (cl_Ping N) (\<lambda>_. ret ()))"

definition cl_CreateKey ::
  "('n, 'z) rpc_net_scheme \<Rightarrow> ('w, 'y) EOTSManager_scheme \<Rightarrow> string \<Rightarrow> string \<Rightarrow> string \<Rightarrow>
   ('w \<times> 'n, bytes) go" where
  "cl_CreateKey N em name passphrase hdPath =
     try_go (rpc_call N (srv_CreateKey em
       \<lparr>ckr_Name = name, ckr_Passphrase = passphrase, ckr_HdPath = hdPath\<rparr>)) (\<lambda>pk. ret pk)"

definition cl_CreateRandomnessPairList ::
  "('n, 'z) rpc_net_scheme \<Rightarrow> ('w, 'y) EOTSManager_scheme \<Rightarrow> bytes \<Rightarrow> bytes \<Rightarrow> u64 \<Rightarrow> u32 \<Rightarrow> string \<Rightarrow>
   ('w \<times> 'n, FieldVal list) go" where
  "cl_CreateRandomnessPairList N em uid chainID startHeight num passphrase =
     try_go (rpc_call N (srv_CreateRandomnessPairList em
       \<lparr>crr_Uid = uid, crr_ChainId = chainID, crr_StartHeight = startHeight, crr_Num = num,
        crr_Passphrase = passphrase\<rparr>)) (\<lambda>pubRandList.
     ret (map (FieldVal_SetByteSlice N) pubRandList))"

definition cl_KeyRecord ::
  "('n, 'z) rpc_net_scheme \<Rightarrow> ('w, 'y) EOTSManager_scheme \<Rightarrow> bytes \<Rightarrow> string \<Rightarrow> ('w \<times> 'n, KeyRecord) go" where
  "cl_KeyRecord N em uid passphrase =
     try_go (rpc_call N (srv_KeyRecord em \<lparr>krr_Uid = uid, krr_Passphrase = passphrase\<rparr>)) (\<lambda>res.
     ret \<lparr>kr_Name = krs_Name res, kr_PrivKey = rpc_PrivKeyFromBytes N (krs_PrivateKey res)\<rparr>)"

definition cl_SignEOTS ::
  "('n, 'z) rpc_net_scheme \<Rightarrow> ('w, 'y) EOTSManager_scheme \<Rightarrow> bytes \<Rightarrow> bytes \<Rightarrow> bytes \<Rightarrow> u64 \<Rightarrow> string \<Rightarrow>
   ('w \<times> 'n, ModNScalar) go" where
  "cl_SignEOTS N em uid chaiID msg height passphrase =
     try_go (rpc_call N (srv_SignEOTS em
       \<lparr>ser_Uid = uid, ser_ChainId = chaiID, ser_Msg = msg, ser_Height = height,
        ser_Passphrase = passphrase\<rparr>)) (\<lambda>sig.
     ret (rpc_ModNScalar_SetByteSlice N sig))"

definition cl_SignSchnorrSig ::
  "('n, 'z) rpc_net_scheme \<Rightarrow> ('w, 'y) EOTSManager_scheme \<Rightarrow> bytes \<Rightarrow> bytes \<Rightarrow> string \<Rightarrow> ('w \<times> 'n, bytes) go" where
  "cl_SignSchnorrSig N em uid msg passphrase =
     try_go (rpc_call N (srv_SignSchnorrSig em
       \<lparr>ssr_Uid = uid, ssr_Msg = msg, ssr_Passphrase = passphrase\<rparr>)) (\<lambda>sigBytes.
     try_go (of_res (schnorr_ParseSignature N sigBytes)) ret)"

definition grpc_EOTSManager ::
  "('n, 'z) rpc_net_scheme \<Rightarrow> ('w, 'y) EOTSManager_scheme \<Rightarrow> ('w \<times> 'n) EOTSManager" where
  "grpc_EOTSManager N em =
     \<lparr>em_CreateKey = cl_CreateKey N em,
      em_CreateRandomnessPairList = cl_CreateRandomnessPairList N em,
      em_KeyRecord = cl_KeyRecord N em,
      em_SignEOTS = cl_SignEOTS N em,
      em_SignSchnorrSig = cl_SignSchnorrSig N em,
      em_Close = on_net (conn_Close N)\<rparr>"

section \<open>A call through the network\<close>

lemma rpc_call_Ok:
  assumes "rpc_call N h s = (Ok a, s')"
  shows "h (fst s) = (Ok a, fst s')"
  using assms
  by (auto simp: rpc_call_def on_net_def on_manager_def go_defs split: prod.splits res.splits)

text \<open>The handler runs at most once: the manager is left as it was or as the handler leaves it.\<close>

lemma rpc_call_once:
  "rpc_call N h s = (r, s') \<Longrightarrow> fst s' = fst s \<or> fst s' = snd (h (fst s))"
  by (auto simp: rpc_call_def on_net_def on_manager_def go_defs split: prod.splits res.splits)

lemma rpc_client_once:
  assumes "try_go (rpc_call N h) (\<lambda>a. of_res (f a)) s = (r, s')"
  shows "fst s' = fst s \<or> fst s' = snd (h (fst s))"
proof -
  obtain x t where call: "rpc_call N h s = (x, t)" by (metis surj_pair)
  with assms have "s' = t" by (cases x) (simp_all add: go_defs)
  with rpc_call_once [OF call] show ?thesis by simp
qed

definition res_map :: "(go_error \<Rightarrow> go_error) \<Rightarrow> ('a \<Rightarrow> 'b) \<Rightarrow> 'a res \<Rightarrow> 'b res" where
  "res_map f g r = (case r of Ok a \<Rightarrow> Ok (g a) | Err e \<Rightarrow> Err (f e) | Crash c \<Rightarrow> Crash c | Running \<Rightarrow> Running)"

definition lossless :: "('n, 'z) rpc_net_scheme \<Rightarrow> bool" where
  "lossless N \<longleftrightarrow> net_send N = ret () \<and> net_recv N = ret ()"

lemma rpc_call_lossless:
  "lossless N \<Longrightarrow> rpc_call N h s = (res_map (rpc_status N) id (fst (h (fst s))), (snd (h (fst s)), snd s))"
  by (auto simp: rpc_call_def on_net_def on_manager_def lossless_def res_map_def go_defs
      split: prod.splits res.splits)

text \<open>
  What the decoders of the client promise: the canonical bytes of a value decode to that
  value, for the values the manager returns.
\<close>

definition em_canonical :: "('n, 'z) rpc_net_scheme \<Rightarrow> ('w, 'y) EOTSManager_scheme \<Rightarrow> bool" where
  "em_canonical N em \<longleftrightarrow>
     (\<forall>u c h n p w prs w'. em_CreateRandomnessPairList em u c h n p w = (Ok prs, w') \<longrightarrow>
        map (FieldVal_SetByteSlice N) prs = prs) \<and>
     (\<forall>u c m h p w sg w'. em_SignEOTS em u c m h p w = (Ok sg, w') \<longrightarrow>
        rpc_ModNScalar_SetByteSlice N sg = sg) \<and>
     (\<forall>u m p w sg w'. em_SignSchnorrSig em u m p w = (Ok sg, w') \<longrightarrow> schnorr_ParseSignature N sg = Ok sg) \<and>
     (\<forall>u p w k w'. em_KeyRecord em u p w = (Ok k, w') \<longrightarrow>
        rpc_PrivKeyFromBytes N (kr_PrivKey k) = kr_PrivKey k)"

lemma em_canonicalD:
  assumes "em_canonical N em"
  shows "em_CreateRandomnessPairList em u c h n p w = (Ok prs, w') \<Longrightarrow> map (FieldVal_SetByteSlice N) prs = prs"
    and "em_SignEOTS em u c m h p w = (Ok sg, w') \<Longrightarrow> rpc_ModNScalar_SetByteSlice N sg = sg"
    and "em_SignSchnorrSig em u m p w = (Ok sg', w') \<Longrightarrow> schnorr_ParseSignature N sg' = Ok sg'"
    and "em_KeyRecord em u p w = (Ok k, w') \<Longrightarrow> rpc_PrivKeyFromBytes N (kr_PrivKey k) = kr_PrivKey k"
proof -
  note * = assms [unfolded em_canonical_def]
  show "em_CreateRandomnessPairList em u c h n p w = (Ok prs, w') \<Longrightarrow> map (FieldVal_SetByteSlice N) prs = prs"
    using * by metis
  show "em_SignEOTS em u c m h p w = (Ok sg, w') \<Longrightarrow> rpc_ModNScalar_SetByteSlice N sg = sg"
    using * by metis
  show "em_SignSchnorrSig em u m p w = (Ok sg', w') \<Longrightarrow> schnorr_ParseSignature N sg' = Ok sg'"
    using * by metis
  show "em_KeyRecord em u p w = (Ok k, w') \<Longrightarrow> rpc_PrivKeyFromBytes N (kr_PrivKey k) = kr_PrivKey k"
    using * by metis
qed

lemma cl_CreateRandomnessPairList_Ok:
  assumes "em_canonical N em" and "cl_CreateRandomnessPairList N em u c h n p s = (Ok prs, s')"
  shows "em_CreateRandomnessPairList em u c h n p (fst s) = (Ok prs, fst s')"
proof -
  from assms(2) obtain prs' where
    "em_CreateRandomnessPairList em u c h n p (fst s) = (Ok prs', fst s')"
    and "prs = map (FieldVal_SetByteSlice N) prs'"
    unfolding cl_CreateRandomnessPairList_def
    by (elim try_go_OkE) (auto simp: ret_def srv_CreateRandomnessPairList_def elim!: try_go_OkE dest!: rpc_call_Ok)
  with em_canonicalD(1) [OF assms(1)] show ?thesis by simp
qed

lemma cl_SignEOTS_Ok:
  assumes "em_canonical N em" and "cl_SignEOTS N em u c m h p s = (Ok sg, s')"
  shows "em_SignEOTS em u c m h p (fst s) = (Ok sg, fst s')"
proof -
  from assms(2) obtain sg' where
    "em_SignEOTS em u c m h p (fst s) = (Ok sg', fst s')" and "sg = rpc_ModNScalar_SetByteSlice N sg'"
    unfolding cl_SignEOTS_def
    by (elim try_go_OkE) (auto simp: ret_def srv_SignEOTS_def elim!: try_go_OkE dest!: rpc_call_Ok)
  with em_canonicalD(2) [OF assms(1)] show ?thesis by simp
qed

lemma cl_CreateRandomnessPairList_state:
  assumes "cl_CreateRandomnessPairList N em u c h n p s = (r, s')"
  shows "fst s' = fst s \<or> fst s' = snd (em_CreateRandomnessPairList em u c h n p (fst s))"
proof -
  from assms have "try_go (rpc_call N (srv_CreateRandomnessPairList em
       \<lparr>crr_Uid = u, crr_ChainId = c, crr_StartHeight = h, crr_Num = n, crr_Passphrase = p\<rparr>))
     (\<lambda>prs. of_res (Ok (map (FieldVal_SetByteSlice N) prs))) s = (r, s')"
    by (simp add: cl_CreateRandomnessPairList_def of_res_def ret_def)
  from rpc_client_once [OF this] show ?thesis by (simp add: srv_CreateRandomnessPairList_def)
qed

lemma cl_SignEOTS_state:
  assumes "cl_SignEOTS N em u c m h p s = (r, s')"
  shows "fst s' = fst s \<or> fst s' = snd (em_SignEOTS em u c m h p (fst s))"
proof -
  from assms have "try_go (rpc_call N (srv_SignEOTS em
       \<lparr>ser_Uid = u, ser_ChainId = c, ser_Msg = m, ser_Height = h, ser_Passphrase = p\<rparr>))
     (\<lambda>sg. of_res (Ok (rpc_ModNScalar_SetByteSlice N sg))) s = (r, s')"
    by (simp add: cl_SignEOTS_def of_res_def ret_def)
  from rpc_client_once [OF this] show ?thesis by (simp add: srv_SignEOTS_def)
qed

section \<open>The client keeps the contract\<close>

locale remote_eots = eots_contract "em_CreateRandomnessPairList em" "em_SignEOTS em" pubRandAt signedWith invar
  for em :: "('w, 'y) EOTSManager_scheme"
    and pubRandAt :: "'w \<Rightarrow> bytes \<Rightarrow> bytes \<Rightarrow> u64 \<Rightarrow> string \<Rightarrow> FieldVal option"
    and signedWith :: "'w \<Rightarrow> bytes \<Rightarrow> string \<Rightarrow> FieldVal \<Rightarrow> bytes \<Rightarrow> ModNScalar \<Rightarrow> bool"
    and invar :: "'w \<Rightarrow> bool" +
  fixes N :: "('n, 'z) rpc_net_scheme"
begin

definition rinvar :: "'w \<times> 'n \<Rightarrow> bool" where
  "rinvar s \<longleftrightarrow> invar (fst s) \<and> em_canonical N em"

lemma create_remote:
  assumes "rinvar s" and "cl_CreateRandomnessPairList N em u c h n p s = (r, s')"
  shows "rinvar s' \<and> pubRandAt (fst s') = pubRandAt (fst s) \<and> signedWith (fst s') = signedWith (fst s)"
  using cl_CreateRandomnessPairList_state [OF assms(2)] assms(1)
    create_frame [of "fst s" u c h n p _ "snd (em_CreateRandomnessPairList em u c h n p (fst s))"]
  by (auto simp: rinvar_def) (metis surj_pair snd_conv)+

lemma sign_remote:
  assumes "rinvar s" and "cl_SignEOTS N em u c m h p s = (r, s')"
  shows "rinvar s' \<and> pubRandAt (fst s') = pubRandAt (fst s) \<and> signedWith (fst s') = signedWith (fst s)"
  using cl_SignEOTS_state [OF assms(2)] assms(1)
    sign_frame [of "fst s" u c m h p _ "snd (em_SignEOTS em u c m h p (fst s))"]
  by (auto simp: rinvar_def) (metis surj_pair snd_conv)+

end

sublocale remote_eots \<subseteq> client: eots_contract "cl_CreateRandomnessPairList N em" "cl_SignEOTS N em"
    "\<lambda>s. pubRandAt (fst s)" "\<lambda>s. signedWith (fst s)" rinvar
proof unfold_locales
  fix s s' :: "'w \<times> 'n" and pk cid h n pass prs
  assume inv: "rinvar s" and run: "cl_CreateRandomnessPairList N em pk cid h n pass s = (Ok prs, s')"
  then show "length prs = unat n \<and>
     (\<forall>i < unat n. pubRandAt (fst s) pk cid (h + of_nat i) pass = Some (prs ! i))"
    using create_nth cl_CreateRandomnessPairList_Ok unfolding rinvar_def by blast
next
  fix s s' :: "'w \<times> 'n" and pk cid h n pass r
  assume "rinvar s" and "cl_CreateRandomnessPairList N em pk cid h n pass s = (r, s')"
  then show "rinvar s' \<and> pubRandAt (fst s') = pubRandAt (fst s) \<and> signedWith (fst s') = signedWith (fst s)"
    by (rule create_remote)
next
  fix s s' :: "'w \<times> 'n" and pk cid msg h pass sg
  assume "rinvar s" and "cl_SignEOTS N em pk cid msg h pass s = (Ok sg, s')"
  then show "\<exists>pr. pubRandAt (fst s) pk cid h pass = Some pr \<and> signedWith (fst s) pk pass pr msg sg"
    using sign_rand cl_SignEOTS_Ok unfolding rinvar_def by blast
next
  fix s s' :: "'w \<times> 'n" and pk cid msg h pass r
  assume "rinvar s" and "cl_SignEOTS N em pk cid msg h pass s = (r, s')"
  then show "rinvar s' \<and> pubRandAt (fst s') = pubRandAt (fst s) \<and> signedWith (fst s') = signedWith (fst s)"
    by (rule sign_remote)
qed

text \<open>The daemon serves the local manager.\<close>

interpretation eotsd: remote_eots "local_EOTSManager L" "lm_pubRandAt L" "lm_signedWith L"
    "\<lambda>s. keyring_readonly L" N
  for L :: "('db, 'kr, 'z) eots_lib_scheme" and N :: "('n, 'y) rpc_net_scheme"
  unfolding remote_eots_def local_EOTSManager_def EOTSManager.simps by (rule local_em.eots_contract_axioms)

end
