(* ===== verification/BuildVersion.thy ===== *)
theory BuildVersion
  imports Prelude
begin

text \<open>
  The version of the binaries (\<^verbatim>\<open>version/version.go\<close>). The variables of the package are set by the linker
  and by the build information of the runtime, so that they are a record here. Strings are
  ASCII text: a rune is a character.
\<close>

record version_vars =
  Commit :: string
  CommitHash :: string
  RawTags :: string
  GoVersion :: string
  agentName :: string

definition semanticAlphabet :: string where
  "semanticAlphabet = ''0123456789ABCDEFGHIJKLMNOPQRSTUVWXYZabcdefghijklmnopqrstuvwxyz-.''"

definition AppPreRelease :: string where
  "AppPreRelease = ''alpha''"

definition strings_ContainsRune :: "string \<Rightarrow> char \<Rightarrow> bool" where
  "strings_ContainsRune s r \<longleftrightarrow> r \<in> set s"

definition normalizeVerString :: "string \<Rightarrow> string \<Rightarrow> string" where
  "normalizeVerString str alphabet = [r \<leftarrow> str. strings_ContainsRune alphabet r]"

definition semanticVersion :: string where
  "semanticVersion =
     (let version = fmt_nat 0 @ ''.'' @ fmt_nat 2 @ ''.'' @ fmt_nat 2;
          preRelease = normalizeVerString AppPreRelease semanticAlphabet
      in if preRelease \<noteq> '''' then version @ ''-'' @ preRelease else version)"

definition Version :: "version_vars \<Rightarrow> string" where
  "Version v = semanticVersion @ '' commit='' @ Commit v"

text \<open>A name with a character outside of the alphabet panics and leaves the old name.\<close>

definition SetAgentName :: "string \<Rightarrow> (version_vars, unit) go" where
  "SetAgentName newAgentName =
     (if \<forall>r \<in> set newAgentName. strings_ContainsRune semanticAlphabet r
      then upd_go (\<lambda>v. v\<lparr>agentName := newAgentName\<rparr>) (ret ())
      else crash ''rune is not in the semantic alphabet'')"

definition is_space :: "char \<Rightarrow> bool" where
  "is_space c \<longleftrightarrow> c \<in> {CHR 0x09, CHR 0x0A, CHR 0x0B, CHR 0x0C, CHR 0x0D, CHR '' ''}"

definition strings_TrimSpace :: "string \<Rightarrow> string" where
  "strings_TrimSpace s = rev (dropWhile is_space (rev (dropWhile is_space s)))"

definition UserAgent :: "version_vars \<Rightarrow> string \<Rightarrow> string" where
  "UserAgent v initiator =
     (let cleanInitiator = normalizeVerString (strings_TrimSpace initiator) (semanticAlphabet @ ''. '');
          cleanInitiator' = (if length cleanInitiator > 0 then '',initiator='' @ cleanInitiator else cleanInitiator)
      in agentName v @ ''/v'' @ semanticVersion @ ''/commit='' @ Commit v @ take 150 cleanInitiator')"

fun strings_Split :: "string \<Rightarrow> char \<Rightarrow> string \<Rightarrow> string list" where
  "strings_Split acc sep [] = [rev acc]"
| "strings_Split acc sep (c # cs) = (if c = sep then rev acc # strings_Split [] sep cs else strings_Split (c # acc) sep cs)"

text \<open>\<^verbatim>\<open>nil\<close> is the empty list.\<close>

definition Tags :: "version_vars \<Rightarrow> string list" where
  "Tags v = (if length (RawTags v) = 0 then [] else strings_Split '''' CHR '','' (RawTags v))"

text \<open>\<^verbatim>\<open>init\<close>: the check of the constant, then the settings of the build information, if there is one.\<close>

definition build_setting :: "string \<times> string \<Rightarrow> version_vars \<Rightarrow> version_vars" where
  "build_setting = (\<lambda>(key, val) v.
     if key = ''vcs.revision'' then v\<lparr>CommitHash := val\<rparr>
     else if key = ''-tags'' then v\<lparr>RawTags := val\<rparr> else v)"

definition version_init :: "(string \<times> (string \<times> string) list) option \<Rightarrow> (version_vars, unit) go" where
  "version_init info =
     (if \<not> (\<forall>r \<in> set AppPreRelease. strings_ContainsRune semanticAlphabet r)
      then crash ''rune is not in the semantic alphabet''
      else case info of
        None \<Rightarrow> ret ()
      | Some (goVersion, settings) \<Rightarrow> upd_go (\<lambda>v. fold build_setting settings (v\<lparr>GoVersion := goVersion\<rparr>)) (ret ()))"

lemma normalize_keeps:
  "set (normalizeVerString s a) \<subseteq> set a" "length (normalizeVerString s a) \<le> length s"
  "set s \<subseteq> set a \<Longrightarrow> normalizeVerString s a = s"
  by (auto simp: normalizeVerString_def strings_ContainsRune_def subset_eq)

text \<open>The part of the initiator takes at most 150 characters of the user agent, and only safe ones.\<close>

lemma UserAgent_initiator:
  "\<exists>tl. UserAgent v i = agentName v @ ''/v'' @ semanticVersion @ ''/commit='' @ Commit v @ tl \<and> length tl \<le> 150 \<and>
     set tl \<subseteq> set ('',='' @ semanticAlphabet @ '' '')"
proof -
  let ?c = "normalizeVerString (strings_TrimSpace i) (semanticAlphabet @ ''. '')"
  let ?c' = "if length ?c > 0 then '',initiator='' @ ?c else ?c"
  have "set ?c \<subseteq> set (semanticAlphabet @ ''. '')" by (rule normalize_keeps)
  moreover have "set '',initiator='' \<subseteq> set ('',='' @ semanticAlphabet @ '' '')" "set ''. '' \<subseteq> set (semanticAlphabet @ '' '')"
    by (auto simp: semanticAlphabet_def)
  ultimately have "set ?c' \<subseteq> set ('',='' @ semanticAlphabet @ '' '')" by auto
  then have "set (take 150 ?c') \<subseteq> set ('',='' @ semanticAlphabet @ '' '')" using set_take_subset by fast
  then show ?thesis unfolding UserAgent_def Let_def by (intro exI [of _ "take 150 ?c'"]) simp
qed

lemma strings_Split_parts:
  "length (strings_Split acc sep cs) = Suc (count_list cs sep)"
  "sep \<notin> set acc \<Longrightarrow> part \<in> set (strings_Split acc sep cs) \<Longrightarrow> sep \<notin> set part"
  by (induction acc sep cs rule: strings_Split.induct) (auto split: if_splits)

lemma Version_semantic: "Version v = ''0.2.2-alpha commit='' @ Commit v"
proof -
  have "semanticVersion = ''0.2.2-alpha''" by code_simp
  then show ?thesis by (simp add: Version_def)
qed

end
