(* ===== verification/FpApp.thy ===== *)
theory FpApp
  imports FpManager Keyring EotsRpc BuildVersion
begin

text \<open>
  The daemon (\<^verbatim>\<open>finality-provider/service/app.go\<close>) and its gRPC handlers
  (\<^verbatim>\<open>finality-provider/service/rpcserver.go\<close>): creating and registering providers, following
  their status before an instance runs, unjailing and editing. Requests to the event loop and
  the registration loop are calls that wait (\<open>Running\<close>) unless the loops are serving.
\<close>

section \<open>State\<close>

record ('db, 'w, 'kr) app_world = "('db, 'w) mgr_world" +
  aw_kr :: 'kr
  aw_input :: string
  aw_startOnce :: bool
  aw_stopOnce :: bool
  aw_quit :: bool

record ('db, 'w, 'kr) app_env = "('db, 'w) fp_env" +
  ae_kr :: "'kr keyring_lib"
  ae_KeyDirectory :: string
  ae_ChainID :: string
  ae_KeyringBackend :: string
  NewBIP340PubKeyFromHex :: "string \<Rightarrow> bytes res"
  NewBIP340PubKey :: "bytes \<Rightarrow> bytes res"
  NewBIP340Signature :: "bytes \<Rightarrow> bytes res"
  AccAddressFromBech32 :: "string \<Rightarrow> bytes res"
  Pop_Marshal :: "bytes \<Rightarrow> bytes res"
  pd_Marshal :: "Description \<Rightarrow> bytes res"
  ErrVotingPowerTableNotUpdated :: "u64 \<Rightarrow> string"
  secp256k1_Sign :: "bytes \<Rightarrow> bytes \<Rightarrow> bytes res"
  PrivateKey_Serialize :: "PrivateKey \<Rightarrow> bytes"
  ModNScalar_String :: "bytes \<Rightarrow> string"
  ModNScalar_Negate :: "bytes \<Rightarrow> bytes"
  ae_version :: version_vars

definition app_kr :: "('kr \<times> string, 'a) go \<Rightarrow> (('db, 'w, 'kr, 'y) app_world_scheme, 'a) go" where
  "app_kr m = zoom_go (\<lambda>s. (aw_kr s, aw_input s)) (\<lambda>(k, i) s. s\<lparr>aw_kr := k, aw_input := i\<rparr>) m"

text \<open>\<^verbatim>\<open>MustToBTCPK\<close> panics when the bytes are not a public key.\<close>

definition MustToBTCPK :: "('db, 'z) store_lib_scheme \<Rightarrow> bytes \<Rightarrow> ('s, PublicKey) go" where
  "MustToBTCPK L pk = handle_go (of_res (schnorr_ParsePubKey L pk)) (\<lambda>e. crash (err_msg e)) ret"

section \<open>Creation and shutdown\<close>

definition NewFinalityProviderApp ::
  "('db, 'w, 'kr, 'z) app_env_scheme \<Rightarrow> (('db, 'w, 'kr, 'y) app_world_scheme, unit) go" where
  "NewFinalityProviderApp E =
     wrap_go ''failed to initiate finality provider store: '' (mgr_db (NewFinalityProviderStore E)) (\<lambda>_.
     wrap_go ''failed to initiate public randomness store: '' (mgr_db (NewPubRandProofStore E)) (\<lambda>_.
     upd_go (\<lambda>s. s\<lparr>aw_input := ''''\<rparr>) (
     wrap_go ''failed to create keyring: ''
       (app_kr (CreateKeyring (ae_kr E) (ae_KeyDirectory E) (ae_ChainID E) (ae_KeyringBackend E))) (\<lambda>_.
     mgr_meter NewFpMetrics (
     upd_go (\<lambda>s. s\<lparr>mw_fpIns := None, mw_criticalErrChan := [], mw_startOnce := False, mw_stopOnce := False,
       mw_quit := False, aw_startOnce := False, aw_stopOnce := False, aw_quit := False\<rparr>) (ret ()))))))"

definition app_Start :: "(('db, 'w, 'kr, 'y) app_world_scheme, unit) go" where
  "app_Start = upd_go (\<lambda>s. s\<lparr>aw_startOnce := True\<rparr>) (ret ())"

definition app_Stop ::
  "('db, 'w, 'kr, 'z) app_env_scheme \<Rightarrow> (('db, 'w, 'kr, 'y) app_world_scheme, unit) go" where
  "app_Stop E = get_go aw_stopOnce (\<lambda>once.
     if once then ret ()
     else upd_go (\<lambda>s. s\<lparr>aw_stopOnce := True, aw_quit := True\<rparr>) (
       try_go (mgr_Stop E) (\<lambda>_.
       try_go (mgr_ext (em_Close (env_em E))) (\<lambda>_. ret ()))))"

text \<open>The loops serve requests between start and stop.\<close>

definition app_serving :: "('db, 'w, 'kr, 'y) app_world_scheme \<Rightarrow> bool" where
  "app_serving s \<longleftrightarrow> aw_startOnce s \<and> \<not> aw_quit s"

section \<open>Creating a provider\<close>

record createFinalityProviderRequest =
  cfr_keyName :: string
  cfr_passPhrase :: string
  cfr_hdPath :: string
  cfr_chainID :: string
  cfr_eotsPk :: "bytes option"
  cfr_description :: Description
  cfr_commission :: LegacyDec

definition handleCreateFinalityProviderRequest ::
  "('db, 'w, 'kr, 'z) app_env_scheme \<Rightarrow> createFinalityProviderRequest \<Rightarrow>
   (('db, 'w, 'kr, 'y) app_world_scheme, FinalityProviderInfo) go" where
  "handleCreateFinalityProviderRequest E req =
     try_go (NewChainKeyringControllerWithKeyring (cfr_keyName req)) (\<lambda>kr.
     try_go (handle_go (app_kr (ck_Address (ae_kr E) kr (cfr_passPhrase req)))
       (\<lambda>_. wrap_go (''failed to create chain key '' @ cfr_keyName req @ '': '')
          (app_kr (ck_CreateChainKey (ae_kr E) kr (cfr_passPhrase req) (cfr_hdPath req) '''')) (\<lambda>keyInfo.
          ret (cki_AccAddress keyInfo))) ret) (\<lambda>fpAddr.
     try_go (case cfr_eotsPk req of
         Some pk \<Rightarrow> ret pk
       | None \<Rightarrow> try_go (mgr_ext (em_CreateKey (env_em E) (cfr_keyName req) (cfr_passPhrase req) (cfr_hdPath req)))
           (\<lambda>fpPkBytes. of_res (NewBIP340PubKey E fpPkBytes))) (\<lambda>fpPk.
     wrap_go ''failed to get finality-provider record: ''
       (mgr_ext (em_KeyRecord (env_em E) fpPk (cfr_passPhrase req))) (\<lambda>fpRecord.
     wrap_go ''failed to create proof-of-possession of the finality-provider: ''
       (CreatePop (ae_kr E) fpAddr (kr_PrivKey fpRecord)) (\<lambda>pop.
     try_go (MustToBTCPK E fpPk) (\<lambda>btcPk.
     wrap_go ''failed to save finality-provider: ''
       (mgr_db (CreateFinalityProvider E fpAddr btcPk (cfr_description req) (cfr_commission req)
         (cfr_keyName req) (cfr_chainID req) pop)) (\<lambda>_.
     mgr_meter (RecordFpStatus (hex_encode fpPk) CREATED) (
     try_go (mgr_db (GetFinalityProvider E btcPk)) (\<lambda>storedFp.
     ret (ToFinalityProviderInfo E storedFp))))))))))"

definition app_CreateFinalityProvider ::
  "('db, 'w, 'kr, 'z) app_env_scheme \<Rightarrow> string \<Rightarrow> string \<Rightarrow> string \<Rightarrow> string \<Rightarrow> bytes option \<Rightarrow> Description \<Rightarrow>
   LegacyDec \<Rightarrow> (('db, 'w, 'kr, 'y) app_world_scheme, FinalityProviderInfo) go" where
  "app_CreateFinalityProvider E keyName chainID passPhrase hdPath eotsPk description commission =
     get_go app_serving (\<lambda>serving.
     if \<not> serving then running
     else handleCreateFinalityProviderRequest E
       \<lparr>cfr_keyName = keyName, cfr_passPhrase = passPhrase, cfr_hdPath = hdPath, cfr_chainID = chainID,
        cfr_eotsPk = eotsPk, cfr_description = description, cfr_commission = commission\<rparr>)"

text \<open>The key of the chain keyring, created when it is not there.\<close>

definition loadChainKeyring ::
  "('db, 'w, 'kr, 'z) app_env_scheme \<Rightarrow> string \<Rightarrow> string \<Rightarrow> string \<Rightarrow>
   (('db, 'w, 'kr, 'y) app_world_scheme, string \<times> bytes) go" where
  "loadChainKeyring E keyName passPhrase hdPath =
     try_go (NewChainKeyringControllerWithKeyring keyName) (\<lambda>kr.
     try_go (handle_go (app_kr (GetChainPrivKey (ae_kr E) kr passPhrase))
       (\<lambda>_. wrap_go (''failed to create chain key '' @ keyName @ '': '')
          (app_kr (ck_CreateChainKey (ae_kr E) kr passPhrase hdPath '''')) (\<lambda>keyInfo.
          ret (PrivateKey_Serialize E (cki_PrivateKey keyInfo)))) ret) (\<lambda>chainSk.
     ret (kr, chainSk)))"

text \<open>A chain key made on a keyring of its own, and the replacement of the client controller.\<close>

definition CreateChainKey ::
  "('kr, 'z) keyring_lib_scheme \<Rightarrow> string \<Rightarrow> string \<Rightarrow> string \<Rightarrow> string \<Rightarrow> string \<Rightarrow> string \<Rightarrow> string \<Rightarrow>
   ('kr \<times> string, ChainKeyInfo) go" where
  "CreateChainKey K keyringDir chainID keyName backend passphrase hdPath mnemonic =
     try_go (CreateClientCtx K keyringDir chainID) (\<lambda>sdkCtx.
     try_go (NewChainKeyringController K sdkCtx keyName backend) (\<lambda>krController.
     ck_CreateChainKey K krController passphrase hdPath mnemonic))"

definition UpdateClientController ::
  "('db, 'w, 'kr, 'z) app_env_scheme \<Rightarrow> 'w client_controller \<Rightarrow> ('db, 'w, 'kr, 'z) app_env_scheme" where
  "UpdateClientController E cc = E\<lparr>env_cc := cc\<rparr>"

definition SignRawMsg ::
  "('db, 'w, 'kr, 'z) app_env_scheme \<Rightarrow> string \<Rightarrow> string \<Rightarrow> string \<Rightarrow> bytes \<Rightarrow>
   (('db, 'w, 'kr, 'y) app_world_scheme, bytes) go" where
  "SignRawMsg E keyName passPhrase hdPath rawMsgToSign =
     try_go (loadChainKeyring E keyName passPhrase hdPath) (\<lambda>(_, chainSk).
     of_res (secp256k1_Sign E chainSk rawMsgToSign))"

definition StoreFinalityProvider ::
  "('db, 'w, 'kr, 'z) app_env_scheme \<Rightarrow> string \<Rightarrow> string \<Rightarrow> string \<Rightarrow> string \<Rightarrow> Description \<Rightarrow> LegacyDec \<Rightarrow>
   (('db, 'w, 'kr, 'y) app_world_scheme, StoredFinalityProvider) go" where
  "StoreFinalityProvider E keyName passPhrase hdPath chainID description commission =
     try_go (loadChainKeyring E keyName passPhrase hdPath) (\<lambda>(kr, _).
     try_go (app_kr (ck_Address (ae_kr E) kr passPhrase)) (\<lambda>fpAddr.
     try_go (mgr_ext (em_CreateKey (env_em E) keyName passPhrase hdPath)) (\<lambda>fpPkBytes.
     try_go (of_res (NewBIP340PubKey E fpPkBytes)) (\<lambda>fpPk.
     wrap_go ''failed to get finality-provider record: ''
       (mgr_ext (em_KeyRecord (env_em E) fpPk passPhrase)) (\<lambda>fpRecord.
     wrap_go ''failed to create proof-of-possession of the finality provider: ''
       (CreatePop (ae_kr E) fpAddr (kr_PrivKey fpRecord)) (\<lambda>pop.
     try_go (MustToBTCPK E fpPk) (\<lambda>btcPk.
     wrap_go ''failed to save finality-provider: ''
       (mgr_db (CreateFinalityProvider E fpAddr btcPk description commission keyName chainID pop)) (\<lambda>_.
     mgr_meter (RecordFpStatus (hex_encode fpPk) CREATED) (
     try_go (mgr_db (GetFinalityProvider E btcPk)) ret)))))))))"

definition getFpPrivKey ::
  "('db, 'w, 'kr, 'z) app_env_scheme \<Rightarrow> bytes \<Rightarrow> (('db, 'w, 'kr, 'y) app_world_scheme, PrivateKey) go" where
  "getFpPrivKey E fpPk = try_go (mgr_ext (em_KeyRecord (env_em E) fpPk '''')) (\<lambda>record. ret (kr_PrivKey record))"

section \<open>Registering a provider\<close>

record registerFinalityProviderRequest =
  rfr_fpAddr :: bytes
  rfr_btcPubKey :: bytes
  rfr_pop :: bytes
  rfr_description :: Description
  rfr_commission :: LegacyDec

record RegisterFinalityProviderResponse =
  rfs_bbnAddress :: bytes
  rfs_btcPubKey :: bytes
  rfs_TxHash :: string

text \<open>\<^verbatim>\<open>eventLoop\<close>, the event that a provider is registered.\<close>

definition handle_registered_event ::
  "('db, 'w, 'kr, 'z) app_env_scheme \<Rightarrow> bytes \<Rightarrow> bytes \<Rightarrow> string \<Rightarrow>
   (('db, 'w, 'kr, 'y) app_world_scheme, RegisterFinalityProviderResponse) go" where
  "handle_registered_event E bbnAddress btcPubKey txHash =
     try_go (MustToBTCPK E btcPubKey) (\<lambda>btcPk.
     handle_go (mgr_db (SetFpStatus E btcPk REGISTERED))
       (\<lambda>_. crash ''failed to set finality-provider status to REGISTERED'') (\<lambda>_.
     mgr_meter (RecordFpStatus (hex_encode btcPubKey) REGISTERED) (
     ret \<lparr>rfs_bbnAddress = bbnAddress, rfs_btcPubKey = btcPubKey, rfs_TxHash = txHash\<rparr>)))"

text \<open>\<^verbatim>\<open>registrationLoop\<close>, one request, up to the response of the event loop.\<close>

definition handle_register_request ::
  "('db, 'w, 'kr, 'z) app_env_scheme \<Rightarrow> registerFinalityProviderRequest \<Rightarrow>
   (('db, 'w, 'kr, 'y) app_world_scheme, RegisterFinalityProviderResponse) go" where
  "handle_register_request E req =
     try_go (of_res (Pop_Marshal E (rfr_pop req))) (\<lambda>popBytes.
     try_go (of_res (Description_Marshal E (rfr_description req))) (\<lambda>desBytes.
     try_go (MustToBTCPK E (rfr_btcPubKey req)) (\<lambda>btcPk.
     try_go (mgr_ext (cc_RegisterFinalityProvider (env_cc E) btcPk popBytes (rfr_commission req) desBytes)) (\<lambda>res.
     handle_registered_event E (rfr_fpAddr req) (rfr_btcPubKey req) (TxHash res)))))"

definition app_RegisterFinalityProvider ::
  "('db, 'w, 'kr, 'z) app_env_scheme \<Rightarrow> string \<Rightarrow>
   (('db, 'w, 'kr, 'y) app_world_scheme, RegisterFinalityProviderResponse) go" where
  "app_RegisterFinalityProvider E fpPkStr =
     try_go (of_res (NewBIP340PubKeyFromHex E fpPkStr)) (\<lambda>fpPk.
     try_go (MustToBTCPK E fpPk) (\<lambda>btcPk.
     try_go (mgr_db (GetFinalityProvider E btcPk)) (\<lambda>fp.
     if sfp_Status fp \<noteq> CREATED then fail (NewErr ''finality-provider is already registered'')
     else try_go (of_res (NewBIP340Signature E (BtcSig (sfp_Pop fp)))) (\<lambda>btcSig.
       try_go (of_res (AccAddressFromBech32 E (sfp_FPAddr fp))) (\<lambda>fpAddr.
       get_go app_serving (\<lambda>serving.
       if \<not> serving then running
       else handle_register_request E
         \<lparr>rfr_fpAddr = fpAddr, rfr_btcPubKey = sfp_BtcPk fp, rfr_pop = btcSig,
          rfr_description = sfp_Description fp, rfr_commission = sfp_Commission fp\<rparr>))))))"

section \<open>Status and instances\<close>

definition StartHandlingFinalityProvider ::
  "('db, 'w, 'kr, 'z) app_env_scheme \<Rightarrow> nat \<Rightarrow> nat \<Rightarrow> bytes \<Rightarrow> string \<Rightarrow>
   (('db, 'w, 'kr, 'y) app_world_scheme, unit) go" where
  "StartHandlingFinalityProvider E n k fpPk passphrase = StartFinalityProvider E n k fpPk passphrase"

definition allowedErr :: "('db, 'w, 'kr, 'z) app_env_scheme \<Rightarrow> u64 \<Rightarrow> string" where
  "allowedErr E h = ''failed to query Finality Voting Power at Height '' @ fmt_u64 h @
     '': rpc error: code = Unknown desc = '' @ ErrVotingPowerTableNotUpdated E h @ '': unknown request''"

text \<open>The loop over the stored providers; the flag is the named result \<^verbatim>\<open>fpInstanceRunning\<close>.\<close>

fun sync_status_loop ::
  "('db, 'w, 'kr, 'z) app_env_scheme \<Rightarrow> nat \<Rightarrow> nat \<Rightarrow> u64 \<Rightarrow> StoredFinalityProvider list \<Rightarrow> bool \<Rightarrow>
   (('db, 'w, 'kr, 'y) app_world_scheme, bool) go" where
  "sync_status_loop E n k h [] fpInstanceRunning = ret fpInstanceRunning"
| "sync_status_loop E n k h (fp # fps) fpInstanceRunning =
     try_go (handle_go (mgr_ext (cc_QueryFinalityProviderVotingPower (env_cc E) (sfp_BtcPk fp) h))
       (\<lambda>err. if strings_EqualFold (err_msg err) (allowedErr E h) then ret (Some 0) else ret None)
       (\<lambda>vp. ret (Some vp))) (\<lambda>r. case r of
         None \<Rightarrow> sync_status_loop E n k h fps fpInstanceRunning
       | Some vp \<Rightarrow> get_go (IsFinalityProviderRunning (sfp_BtcPk fp)) (\<lambda>isRunning.
           if isRunning then sync_status_loop E n k h fps True
           else try_go (mgr_db (UpdateFpStatusFromVotingPower E vp fp)) (\<lambda>newStatus.
             let fp' = fp\<lparr>sfp_Status := newStatus\<rparr>
             in if \<not> ShouldStart fp' then sync_status_loop E n k h fps fpInstanceRunning
                else try_go (StartFinalityProvider E n k (sfp_BtcPk fp) '''') (\<lambda>_.
                  sync_status_loop E n k h fps True))))"

definition SyncFinalityProviderStatus ::
  "('db, 'w, 'kr, 'z) app_env_scheme \<Rightarrow> nat \<Rightarrow> nat \<Rightarrow> (('db, 'w, 'kr, 'y) app_world_scheme, bool) go" where
  "SyncFinalityProviderStatus E n k =
     try_go (mgr_ext (cc_QueryBestBlock (env_cc E))) (\<lambda>latestBlock.
     try_go (mgr_db (GetAllStoredFinalityProviders E)) (\<lambda>fps.
     sync_status_loop E n k (Height latestBlock) fps False))"

text \<open>\<^verbatim>\<open>syncChainFpStatusLoop\<close>, one tick: whether the loop stops.\<close>

definition sync_status_tick ::
  "('db, 'w, 'kr, 'z) app_env_scheme \<Rightarrow> nat \<Rightarrow> nat \<Rightarrow> (('db, 'w, 'kr, 'y) app_world_scheme, bool) go" where
  "sync_status_tick E n k = handle_go (SyncFinalityProviderStatus E n k) (\<lambda>_. ret False) ret"

text \<open>\<^verbatim>\<open>metricsUpdateLoop\<close>, one tick.\<close>

definition metrics_update_tick ::
  "('db, 'w, 'kr, 'z) app_env_scheme \<Rightarrow> (('db, 'w, 'kr, 'y) app_world_scheme, unit) go" where
  "metrics_update_tick E = handle_go (mgr_db (GetAllStoredFinalityProviders E)) (\<lambda>_. ret ()) (\<lambda>fps.
     mgr_meter (UpdateFpMetrics fps) (ret ()))"

definition app_UnjailFinalityProvider ::
  "('db, 'w, 'kr, 'z) app_env_scheme \<Rightarrow> bytes \<Rightarrow> (('db, 'w, 'kr, 'y) app_world_scheme, string) go" where
  "app_UnjailFinalityProvider E fpPk =
     try_go (MustToBTCPK E fpPk) (\<lambda>btcPk.
     wrap_go ''failed to get finality provider from db: '' (mgr_db (GetFinalityProvider E btcPk)) (\<lambda>_.
     wrap_go ''failed to send unjail transaction: ''
       (mgr_ext (cc_UnjailFinalityProvider (env_cc E) btcPk)) (\<lambda>res.
     wrap_go ''failed to update finality-provider status after unjailing: ''
       (mgr_db (SetFpStatus E btcPk INACTIVE)) (\<lambda>_.
     mgr_meter (RecordFpStatus (hex_encode fpPk) INACTIVE) (
     ret (TxHash res))))))"

section \<open>The gRPC handlers\<close>

definition rpc_GetInfo :: "('db, 'w, 'kr, 'z) app_env_scheme \<Rightarrow> ('s, string) go" where
  "rpc_GetInfo E = ret (Version (ae_version E))"

definition parseOptEotsPk :: "('db, 'w, 'kr, 'z) app_env_scheme \<Rightarrow> string \<Rightarrow> ('s, bytes option) go" where
  "parseOptEotsPk E eotsPkHex =
     (if length eotsPkHex > 0 then try_go (of_res (NewBIP340PubKeyFromHex E eotsPkHex)) (\<lambda>pk. ret (Some pk))
      else ret None)"

record CreateFinalityProviderRequest =
  cfq_KeyName :: string
  cfq_Passphrase :: string
  cfq_HdPath :: string
  cfq_Description :: bytes
  cfq_ChainId :: string
  cfq_Commission :: string
  cfq_EotsPkHex :: string

definition rpc_CreateFinalityProvider ::
  "('db, 'w, 'kr, 'z) app_env_scheme \<Rightarrow> CreateFinalityProviderRequest \<Rightarrow>
   (('db, 'w, 'kr, 'y) app_world_scheme, FinalityProviderInfo) go" where
  "rpc_CreateFinalityProvider E req =
     try_go (of_res (LegacyNewDecFromStr E (cfq_Commission req))) (\<lambda>commissionRate.
     try_go (of_res (Description_Unmarshal E (cfq_Description req))) (\<lambda>description.
     try_go (parseOptEotsPk E (cfq_EotsPkHex req)) (\<lambda>eotsPk.
     app_CreateFinalityProvider E (cfq_KeyName req) (cfq_ChainId req) (cfq_Passphrase req) (cfq_HdPath req)
       eotsPk description commissionRate)))"

definition rpc_RegisterFinalityProvider ::
  "('db, 'w, 'kr, 'z) app_env_scheme \<Rightarrow> nat \<Rightarrow> nat \<Rightarrow> string \<Rightarrow> string \<Rightarrow>
   (('db, 'w, 'kr, 'y) app_world_scheme, string) go" where
  "rpc_RegisterFinalityProvider E n k btcPkHex passphrase =
     wrap_go ''failed to register the finality-provider to Babylon: ''
       (app_RegisterFinalityProvider E btcPkHex) (\<lambda>txRes.
     wrap_go (''failed to start the registered finality-provider '' @ AccAddress_String E (rfs_bbnAddress txRes) @ '': '')
       (StartHandlingFinalityProvider E n k (rfs_btcPubKey txRes) passphrase) (\<lambda>_.
     ret (rfs_TxHash txRes)))"

record AddFinalitySignatureResponse =
  afr_TxHash :: string
  afr_ExtractedSkHex :: string
  afr_LocalSkHex :: string

definition rpc_AddFinalitySignature ::
  "('db, 'w, 'kr, 'z) app_env_scheme \<Rightarrow> string \<Rightarrow> u64 \<Rightarrow> bytes \<Rightarrow>
   (('db, 'w, 'kr, 'y) app_world_scheme, AddFinalitySignatureResponse) go" where
  "rpc_AddFinalitySignature E btcPkHex height appHash =
     try_go (of_res (NewBIP340PubKeyFromHex E btcPkHex)) (\<lambda>fpPk.
     try_go GetFinalityProviderInstance (\<lambda>fpi.
     if hex_encode (sfp_BtcPk (ins_fp fpi)) \<noteq> btcPkHex
     then fail (NewErr (''the finality provider running does not match the request, got: '' @ btcPkHex @
       '', expected: '' @ hex_encode (sfp_BtcPk (ins_fp fpi))))
     else try_go (on_ins (TestSubmitFinalitySignatureAndExtractPrivKey E
         \<lparr>Height = height, Hash = appHash, Finalized = False\<rparr>)) (\<lambda>(txRes, privKey).
       case privKey of
         None \<Rightarrow> ret \<lparr>afr_TxHash = TxHash txRes, afr_ExtractedSkHex = '''', afr_LocalSkHex = ''''\<rparr>
       | Some sk \<Rightarrow> try_go (getFpPrivKey E fpPk) (\<lambda>localPrivKey.
           let extracted = ModNScalar_String E sk;
               localSkHex = ModNScalar_String E localPrivKey;
               localSkNegateHex = ModNScalar_String E (ModNScalar_Negate E localPrivKey)
           in if extracted = localSkHex
              then ret \<lparr>afr_TxHash = TxHash txRes, afr_ExtractedSkHex = extracted, afr_LocalSkHex = localSkHex\<rparr>
              else if extracted = localSkNegateHex
              then ret \<lparr>afr_TxHash = TxHash txRes, afr_ExtractedSkHex = extracted, afr_LocalSkHex = localSkNegateHex\<rparr>
              else fail (NewErr (''the finality-provider'' @ [CHR 0x27] @
                ''s BTC private key is extracted but does not match the local key,extrated: '' @ extracted @
                '', local: '' @ localSkHex @ '', local-negated: '' @ localSkNegateHex))))))"

definition rpc_UnjailFinalityProvider ::
  "('db, 'w, 'kr, 'z) app_env_scheme \<Rightarrow> nat \<Rightarrow> nat \<Rightarrow> string \<Rightarrow>
   (('db, 'w, 'kr, 'y) app_world_scheme, string) go" where
  "rpc_UnjailFinalityProvider E n k btcPkHex =
     try_go (of_res (NewBIP340PubKeyFromHex E btcPkHex)) (\<lambda>fpPk.
     wrap_go ''failed to unjail the finality-provider: '' (app_UnjailFinalityProvider E fpPk) (\<lambda>txHash.
     wrap_go ''failed to start the finality provider instance after unjailing: ''
       (StartHandlingFinalityProvider E n k fpPk '''') (\<lambda>_. ret txHash)))"

definition GetFinalityProviderInfo ::
  "('db, 'w, 'kr, 'z) app_env_scheme \<Rightarrow> bytes \<Rightarrow> (('db, 'w, 'kr, 'y) app_world_scheme, FinalityProviderInfo) go" where
  "GetFinalityProviderInfo E fpPk = FinalityProviderInfo_query E fpPk"

definition ListAllFinalityProvidersInfo ::
  "('db, 'w, 'kr, 'z) app_env_scheme \<Rightarrow> (('db, 'w, 'kr, 'y) app_world_scheme, FinalityProviderInfo list) go" where
  "ListAllFinalityProvidersInfo E = AllFinalityProviders E"

definition rpc_QueryFinalityProvider ::
  "('db, 'w, 'kr, 'z) app_env_scheme \<Rightarrow> string \<Rightarrow> (('db, 'w, 'kr, 'y) app_world_scheme, FinalityProviderInfo) go" where
  "rpc_QueryFinalityProvider E btcPkHex =
     try_go (of_res (NewBIP340PubKeyFromHex E btcPkHex)) (\<lambda>fpPk. GetFinalityProviderInfo E fpPk)"

definition rpc_EditFinalityProvider ::
  "('db, 'w, 'kr, 'z) app_env_scheme \<Rightarrow> string \<Rightarrow> string \<Rightarrow> Description \<Rightarrow>
   (('db, 'w, 'kr, 'y) app_world_scheme, unit) go" where
  "rpc_EditFinalityProvider E btcPkHex commission description =
     try_go (of_res (NewBIP340PubKeyFromHex E btcPkHex)) (\<lambda>fpPk.
     try_go (of_res (LegacyNewDecFromStr E commission)) (\<lambda>rate.
     try_go (of_res (pd_Marshal E description)) (\<lambda>descBytes.
     try_go (MustToBTCPK E fpPk) (\<lambda>fpPub.
     try_go (mgr_ext (cc_EditFinalityProvider (env_cc E) fpPub (Some rate) descBytes)) (\<lambda>updatedMsg.
     try_go (mgr_db (SetFpDescription E fpPub (efp_Description updatedMsg) (efp_Commission updatedMsg))) (\<lambda>_.
     ret ()))))))"

definition rpc_QueryFinalityProviderList ::
  "('db, 'w, 'kr, 'z) app_env_scheme \<Rightarrow> (('db, 'w, 'kr, 'y) app_world_scheme, FinalityProviderInfo list) go" where
  "rpc_QueryFinalityProviderList E = try_go (ListAllFinalityProvidersInfo E) ret"

definition rpc_SignMessageFromChainKey ::
  "('db, 'w, 'kr, 'z) app_env_scheme \<Rightarrow> string \<Rightarrow> string \<Rightarrow> string \<Rightarrow> bytes \<Rightarrow>
   (('db, 'w, 'kr, 'y) app_world_scheme, bytes) go" where
  "rpc_SignMessageFromChainKey E keyName passphrase hdPath msgToSign =
     try_go (SignRawMsg E keyName passphrase hdPath msgToSign) ret"

text \<open>An empty key name or backend is refused before a keyring is opened.\<close>

lemma CreateChainKey_refused:
  assumes "keyringDir \<noteq> ''''" and "keyName = '''' \<or> backend = ''''"
  shows "\<exists>m. CreateChainKey K keyringDir chainID keyName backend passphrase hdPath mnemonic s = (Err (NewErr m), s)"
  using assms by (auto simp: CreateChainKey_def CreateClientCtx_def NewChainKeyringController_def go_defs)

section \<open>Runs of the daemon\<close>

text \<open>
  Everything that happens in the daemon, in any order: the gRPC handlers, the ticks of the
  loops, the monitors of the manager, and the turns of the goroutines of the instance.
  Whatever a call returns, the run goes on from the state it leaves.
\<close>

inductive app_step ::
  "('db, 'w, 'kr, 'z) app_env_scheme \<Rightarrow> ('db, 'w, 'kr) app_world \<Rightarrow> ('db, 'w, 'kr) app_world \<Rightarrow> bool"
  for E where
  start: "app_Start s = (r, s') \<Longrightarrow> app_step E s s'"
| stop: "app_Stop E s = (r, s') \<Longrightarrow> app_step E s s'"
| create: "rpc_CreateFinalityProvider E req s = (q, s') \<Longrightarrow> app_step E s s'"
| register: "rpc_RegisterFinalityProvider E n k pk pass s = (q', s') \<Longrightarrow> app_step E s s'"
| add_sig: "rpc_AddFinalitySignature E pk h hash s = (a, s') \<Longrightarrow> app_step E s s'"
| unjail: "rpc_UnjailFinalityProvider E n k pk s = (q', s') \<Longrightarrow> app_step E s s'"
| edit: "rpc_EditFinalityProvider E pk c desc s = (r, s') \<Longrightarrow> app_step E s s'"
| sign_msg: "rpc_SignMessageFromChainKey E kn pass hdp msg s = (b, s') \<Longrightarrow> app_step E s s'"
| sync: "sync_status_tick E n k s = (f, s') \<Longrightarrow> app_step E s s'"
| metrics: "metrics_update_tick E s = (r, s') \<Longrightarrow> app_step E s s'"
| status: "status_update_tick E s = (r, s') \<Longrightarrow> app_step E s s'"
| critical: "monitorCriticalErr_recv E s = (r, s') \<Longrightarrow> app_step E s s'"
| block: "on_ins (sig_loop_block E wakes) s = (r, s') \<Longrightarrow> app_step E s s'"
| target: "on_ins (sig_loop_target E n) s = (r, s') \<Longrightarrow> app_step E s s'"
| commit: "on_ins (commit_tick E wakes) s = (r, s') \<Longrightarrow> app_step E s s'"
| lagging: "on_ins (lagging_tick E) s = (r, s') \<Longrightarrow> app_step E s s'"
| poller: "mw_fpIns s = Some i \<Longrightarrow> app_step E s (s\<lparr>mw_ext := w, mw_fpIns := Some (i\<lparr>ins_poller := p\<rparr>),
     mw_metrics := (case h of None \<Rightarrow> mw_metrics s | Some x \<Rightarrow> RecordLastPolledHeight x (mw_metrics s))\<rparr>)"

inductive app_run ::
  "('db, 'w, 'kr, 'z) app_env_scheme \<Rightarrow> ('db, 'w, 'kr) app_world \<Rightarrow> ('db, 'w, 'kr) app_world \<Rightarrow> bool"
  for E where
  init: "app_run E s s"
| step: "app_run E s t \<Longrightarrow> app_step E t u \<Longrightarrow> app_run E s u"

lemma app_kr_progress [go_rel_intros]: "go_rel (mgr_progress E) (app_kr m)"
  by (auto simp: go_rel_def app_kr_def zoom_go_def progress.R_refl metrics_le_refl intro!: mgr_progressI split: prod.splits)

lemma MustToBTCPK_progress [go_rel_intros]: "go_rel (mgr_progress E) (MustToBTCPK L pk)"
  unfolding MustToBTCPK_def by (intro go_rel_intros)

lemma GetFinalityProvider_progress [go_rel_intros]: "go_rel (fp_progress E) (GetFinalityProvider L pk)"
  unfolding GetFinalityProvider_def by (rule View_progress)

lemma GetAll_progress [go_rel_intros]: "go_rel (fp_progress E) (GetAllStoredFinalityProviders L)"
  unfolding GetAllStoredFinalityProviders_def by (rule View_progress)

lemma create_progress [go_rel_intros]:
  "store_laws E \<Longrightarrow> go_rel (mgr_progress E) (handleCreateFinalityProviderRequest E req)"
  unfolding handleCreateFinalityProviderRequest_def NewChainKeyringControllerWithKeyring_def CreatePop_def
  by (intro go_rel_intros)

lemma rpc_create_progress:
  "store_laws E \<Longrightarrow> go_rel (mgr_progress E) (rpc_CreateFinalityProvider E req)"
  unfolding rpc_CreateFinalityProvider_def app_CreateFinalityProvider_def parseOptEotsPk_def
  by (intro go_rel_intros)

lemma rpc_register_progress:
  "store_laws E \<Longrightarrow> go_rel (mgr_progress E) (rpc_RegisterFinalityProvider E n k pk pass)"
  unfolding rpc_RegisterFinalityProvider_def app_RegisterFinalityProvider_def handle_register_request_def
    handle_registered_event_def StartHandlingFinalityProvider_def
  by (intro go_rel_intros)

lemma extract_priv_key_progress [go_rel_intros]: "go_rel (world_progress E) (extract_priv_key E evs)"
  by (induction evs) (auto simp: Let_def intro!: go_rel_intros)

lemma TestSubmit_progress [go_rel_intros]:
  "go_rel (world_progress E) (TestSubmitFinalitySignatureAndExtractPrivKey E b)"
  unfolding TestSubmitFinalitySignatureAndExtractPrivKey_def fp_query_defs by (intro go_rel_intros)

lemma rpc_add_sig_progress: "go_rel (mgr_progress E) (rpc_AddFinalitySignature E pk h hash)"
  unfolding rpc_AddFinalitySignature_def GetFinalityProviderInstance_def getFpPrivKey_def Let_def
  by (intro go_rel_intros)

lemma rpc_unjail_progress: "store_laws E \<Longrightarrow> go_rel (mgr_progress E) (rpc_UnjailFinalityProvider E n k pk)"
  unfolding rpc_UnjailFinalityProvider_def app_UnjailFinalityProvider_def StartHandlingFinalityProvider_def
  by (intro go_rel_intros)

lemma rpc_edit_progress: "store_laws E \<Longrightarrow> go_rel (mgr_progress E) (rpc_EditFinalityProvider E pk c x)"
  unfolding rpc_EditFinalityProvider_def by (intro go_rel_intros)

lemma rpc_sign_progress: "go_rel (mgr_progress E) (rpc_SignMessageFromChainKey E kn pass hdp msg)"
  unfolding rpc_SignMessageFromChainKey_def SignRawMsg_def loadChainKeyring_def
    NewChainKeyringControllerWithKeyring_def
  by (intro go_rel_intros)

lemma sync_loop_progress [go_rel_intros]:
  "store_laws E \<Longrightarrow> go_rel (mgr_progress E) (sync_status_loop E n k h fps b)"
  by (induction fps arbitrary: b) (simp_all add: Let_def, intro go_rel_intros, intro go_rel_intros)

lemma sync_tick_progress: "store_laws E \<Longrightarrow> go_rel (mgr_progress E) (sync_status_tick E n k)"
  unfolding sync_status_tick_def SyncFinalityProviderStatus_def by (intro go_rel_intros)

lemma metrics_tick_progress: "go_rel (mgr_progress E) (metrics_update_tick E)"
  unfolding metrics_update_tick_def by (intro go_rel_intros)

lemma app_life_progress:
  "go_rel (mgr_progress E) app_Start" "store_laws E \<Longrightarrow> go_rel (mgr_progress E) (app_Stop E)"
  unfolding app_Start_def app_Stop_def by (intro go_rel_intros; simp)+

lemmas app_handlers_progress =
  app_life_progress rpc_create_progress rpc_register_progress rpc_add_sig_progress rpc_unjail_progress
  rpc_edit_progress rpc_sign_progress sync_tick_progress metrics_tick_progress monitors_progress

lemma app_step_progress:
  assumes laws: "store_laws E" and step: "app_step E s s'"
  shows "mgr_progress E s s'"
  using step
proof cases
  case (poller i w p h)
  then show ?thesis by (auto simp: progress.R_refl ins_ident_def intro!: mgr_progressI go_rel_intros split: option.split)
qed (erule go_relD [rotated], intro app_handlers_progress on_ins_progress loops_progress laws)+

lemma app_run_progress:
  assumes "store_laws E" and "app_run E s s'"
  shows "mgr_progress E s s'"
  using assms(2)
  by induction (auto intro: mgr.R_refl mgr.R_trans app_step_progress [OF assms(1)])

end
