(* ===== verification/Wiring.thy ===== *)
theory Wiring
  imports FpApp
begin

text \<open>
  The daemon as it is put together (\<^verbatim>\<open>NewFinalityProviderAppFromConfig\<close> of \<^verbatim>\<open>app.go\<close>): the
  EOTS manager is the gRPC client of a daemon that serves the local manager, the consumer
  chain is the Babylon controller, and the outside world is the pair of both. The contracts
  of the components hold for the parts in place.
\<close>

section \<open>Both parts on one world\<close>

definition lift_em :: "('a, 'y) EOTSManager_scheme \<Rightarrow> ('a \<times> 'c) EOTSManager" where
  "lift_em em =
     \<lparr>em_CreateKey = (\<lambda>a b c. on_manager (em_CreateKey em a b c)),
      em_CreateRandomnessPairList = (\<lambda>a b c d e. on_manager (em_CreateRandomnessPairList em a b c d e)),
      em_KeyRecord = (\<lambda>a b. on_manager (em_KeyRecord em a b)),
      em_SignEOTS = (\<lambda>a b c d e. on_manager (em_SignEOTS em a b c d e)),
      em_SignSchnorrSig = (\<lambda>a b c. on_manager (em_SignSchnorrSig em a b c)),
      em_Close = on_manager (em_Close em)\<rparr>"

definition lift_cc :: "('c, 'y) client_controller_scheme \<Rightarrow> ('a \<times> 'c) client_controller" where
  "lift_cc cc =
     \<lparr>cc_RegisterFinalityProvider = (\<lambda>a b c d. on_net (cc_RegisterFinalityProvider cc a b c d)),
      cc_CommitPubRandList = (\<lambda>a b c d e. on_net (cc_CommitPubRandList cc a b c d e)),
      cc_SubmitFinalitySig = (\<lambda>a b c d e. on_net (cc_SubmitFinalitySig cc a b c d e)),
      cc_SubmitBatchFinalitySigs = (\<lambda>a b c d e. on_net (cc_SubmitBatchFinalitySigs cc a b c d e)),
      cc_UnjailFinalityProvider = (\<lambda>a. on_net (cc_UnjailFinalityProvider cc a)),
      cc_QueryFinalityProviderVotingPower = (\<lambda>a b. on_net (cc_QueryFinalityProviderVotingPower cc a b)),
      cc_QueryFinalityProviderSlashedOrJailed = (\<lambda>a. on_net (cc_QueryFinalityProviderSlashedOrJailed cc a)),
      cc_EditFinalityProvider = (\<lambda>a b c. on_net (cc_EditFinalityProvider cc a b c)),
      cc_QueryLatestFinalizedBlocks = (\<lambda>a. on_net (cc_QueryLatestFinalizedBlocks cc a)),
      cc_QueryLastCommittedPublicRand = (\<lambda>a b. on_net (cc_QueryLastCommittedPublicRand cc a b)),
      cc_QueryBlock = (\<lambda>a. on_net (cc_QueryBlock cc a)),
      cc_QueryBlocks = (\<lambda>a b c. on_net (cc_QueryBlocks cc a b c)),
      cc_QueryBestBlock = on_net (cc_QueryBestBlock cc),
      cc_QueryActivatedHeight = on_net (cc_QueryActivatedHeight cc),
      cc_Close = on_net (cc_Close cc)\<rparr>"

type_synonym ('edb, 'ekr, 'n, 'c) fpd_ext = "(('edb, 'ekr) LocalEOTSManager \<times> 'n) \<times> 'c"

definition fpd_env ::
  "('db, ('edb, 'ekr, 'n, 'c) fpd_ext, 'z) fp_env_scheme \<Rightarrow> ('edb, 'ekr, 'x) eots_lib_scheme \<Rightarrow>
   ('n, 'v) rpc_net_scheme \<Rightarrow> ('c, 'u) BabylonController_scheme \<Rightarrow>
   ('db, ('edb, 'ekr, 'n, 'c) fpd_ext, 'z) fp_env_scheme" where
  "fpd_env E L N B = E\<lparr>env_em := lift_em (grpc_EOTSManager N (local_EOTSManager L)),
     env_cc := lift_cc (Babylon_ClientController B)\<rparr>"

text \<open>
  The configuration reaches the components: the instance reads its own part, the keyring and
  the Babylon client that of the chain. The app that is returned is its state and the
  environment of its components.
\<close>

definition configured ::
  "FpdConfig \<Rightarrow> ('db, 'w, 'kr, 'z) app_env_scheme \<Rightarrow> ('db, 'w, 'kr, 'z) app_env_scheme" where
  "configured cfg E = (let bbn = cfg_BabylonConfig cfg in
     E\<lparr>env_cfg := Config.truncate cfg, ae_KeyDirectory := bbn_KeyDirectory bbn, ae_ChainID := bbn_ChainID bbn,
       ae_KeyringBackend := bbn_KeyringBackend bbn\<rparr>)"

definition NewFinalityProviderAppFromConfig ::
  "('db, ('edb, 'ekr, 'n, 'c) fpd_ext, 'kr, 'z) app_env_scheme \<Rightarrow> ('edb, 'ekr, 'x) eots_lib_scheme \<Rightarrow>
   ('n, 'v) rpc_net_scheme \<Rightarrow> ('c, 'u) BabylonController_scheme \<Rightarrow> FpdConfig \<Rightarrow>
   (('db, ('edb, 'ekr, 'n, 'c) fpd_ext, 'kr, 'y) app_world_scheme,
    ('db, ('edb, 'ekr, 'n, 'c) fpd_ext, 'kr, 'z) app_env_scheme) go" where
  "NewFinalityProviderAppFromConfig E L N B cfg =
     text_go (''failed to create rpc client for the consumer chain '' @ cfg_ChainName cfg @ '': '')
       (mgr_ext (on_net (NewClientController (B\<lparr>bc_cfg := cfg_BabylonConfig cfg\<rparr>) (cfg_ChainName cfg)))) (\<lambda>cc.
     wrap_go ''failed to create EOTS manager client: ''
       (mgr_ext (on_manager (NewEOTSManagerGRpcClient N (cfg_EOTSManagerAddress cfg)))) (\<lambda>_.
     let E' = (configured cfg E)\<lparr>env_em := lift_em (grpc_EOTSManager N (local_EOTSManager L)), env_cc := lift_cc cc\<rparr>
     in try_go (NewFinalityProviderApp E') (\<lambda>_. ret E')))"

section \<open>The contracts in place\<close>

lemma on_manager_D: "on_manager m s = (r, s') \<Longrightarrow> m (fst s) = (r, fst s') \<and> snd s' = snd s"
  by (auto simp: on_manager_def zoom_go_def split: prod.splits)

lemma on_net_D: "on_net m s = (r, s') \<Longrightarrow> m (snd s) = (r, snd s') \<and> fst s' = fst s"
  by (auto simp: on_net_def zoom_go_def split: prod.splits)

lemma eots_contract_lift:
  assumes "eots_contract create sign pubRandAt signedWith invar"
  shows "eots_contract (\<lambda>a b c d e. on_manager (create a b c d e)) (\<lambda>a b c d e. on_manager (sign a b c d e))
    (\<lambda>s. pubRandAt (fst s)) (\<lambda>s. signedWith (fst s)) (\<lambda>s. invar (fst s))"
  by unfold_locales
     (use eots_contract.create_nth [OF assms] eots_contract.create_frame [OF assms]
        eots_contract.sign_rand [OF assms] eots_contract.sign_frame [OF assms] on_manager_D in \<open>metis\<close>)+

interpretation fpd: voter "fpd_env E L N B" "\<lambda>w. lm_pubRandAt L (fst (fst w))"
    "\<lambda>w. lm_signedWith L (fst (fst w))" "\<lambda>w. keyring_readonly L \<and> em_canonical N (local_EOTSManager L)"
  for E :: "('db, ('edb, 'ekr, 'n, 'c) fpd_ext, 'z) fp_env_scheme" and L :: "('edb, 'ekr, 'x) eots_lib_scheme"
    and N :: "('n, 'v) rpc_net_scheme" and B :: "('c, 'u) BabylonController_scheme"
  using eots_contract_lift [OF eotsd.client.eots_contract_axioms [of N L]]
  by (simp add: voter_def fpd_env_def lift_em_def grpc_EOTSManager_def eotsd.rinvar_def)

interpretation fpd_range: range_source "\<lambda>a b c. on_net (bbn_QueryBlocks B a b c)" "list_blocks_law B"
  for B :: "('c, 'u) BabylonController_scheme"
  by unfold_locales
     (use babylon_range.range_height babylon_range.range_limit babylon_range.range_order on_net_D in \<open>metis\<close>)+

interpretation fpd_block: block_source "\<lambda>h. on_net (bbn_QueryBlock B h)" "block_law B"
  for B :: "('c, 'u) BabylonController_scheme"
  by unfold_locales (use babylon.query_height babylon.query_bound on_net_D in \<open>metis\<close>)+

lemma fpd_env_cc:
  "cc_QueryBlocks (env_cc (fpd_env E L N B)) = (\<lambda>a b c. on_net (bbn_QueryBlocks B a b c))"
  "cc_QueryBlock (env_cc (fpd_env E L N B)) = (\<lambda>h. on_net (bbn_QueryBlock B h))"
  "cc_SubmitFinalitySig (env_cc (fpd_env E L N B)) = (\<lambda>a b c d e. on_net (bbn_SubmitFinalitySig B a b c d e))"
  "cc_SubmitBatchFinalitySigs (env_cc (fpd_env E L N B)) =
     (\<lambda>a b c d e. on_net (bbn_SubmitBatchFinalitySigs B a b c d e))"
  by (simp_all add: fpd_env_def lift_cc_def Babylon_ClientController_def)

end
