(* ===== verification/Demo.thy ===== *)
theory Demo
  imports Wiring
begin

text \<open>
  Concrete third-party components, small enough to run: a database that is a list of buckets,
  a marshalling of four bytes, a keyring with one private key per name, a signature scheme
  that concatenates, a network that loses nothing and a chain of a hundred blocks that logs
  the messages it receives. They satisfy the laws the development assumes, and the witnesses
  of the properties run on them.
\<close>

section \<open>The database\<close>

type_synonym mem_db = "(string \<times> (bytes \<times> bytes) list) list"

definition mem_HasBucket :: "mem_db \<Rightarrow> string \<Rightarrow> bool" where
  "mem_HasBucket d b = (map_of d b \<noteq> None)"

definition mem_Create :: "string \<Rightarrow> mem_db \<Rightarrow> mem_db res" where
  "mem_Create b d = (if map_of d b = None then Ok ((b, []) # d) else Ok d)"

definition mem_Get :: "mem_db \<Rightarrow> string \<Rightarrow> bytes \<Rightarrow> bytes option" where
  "mem_Get d b k = (case map_of d b of None \<Rightarrow> None | Some l \<Rightarrow> map_of l k)"

definition mem_Put :: "string \<Rightarrow> bytes \<Rightarrow> bytes \<Rightarrow> mem_db \<Rightarrow> mem_db res" where
  "mem_Put b k v d = (case map_of d b of
      None \<Rightarrow> Err (NewErr ''no bucket'') | Some l \<Rightarrow> Ok ((b, (k, v) # l) # d))"

definition mem_Entries :: "mem_db \<Rightarrow> string \<Rightarrow> (bytes \<times> bytes) list" where
  "mem_Entries d b = (case map_of d b of None \<Rightarrow> []
     | Some l \<Rightarrow> map (\<lambda>k. (k, the (map_of l k))) (remdups (map fst l)))"

section \<open>The stores\<close>

text \<open>Providers of one byte keys with heights below 256; the rest of a provider is fixed.\<close>

definition demo_fp :: "u8 \<Rightarrow> u8 \<Rightarrow> u8 \<Rightarrow> FinalityProviderStatus \<Rightarrow> proto_FinalityProvider" where
  "demo_fp x v p st = \<lparr>pfp_FpAddr = ''addr'', pfp_BtcPk = [x], pfp_Description = [], pfp_Commission = ''0'',
     pfp_Pop = Some \<lparr>BtcSig = []\<rparr>, pfp_KeyName = ''key'', pfp_ChainId = ''chain'',
     pfp_LastVotedHeight = ucast v, pfp_LastProcessedHeight = ucast p, pfp_Status = st\<rparr>"

fun status_byte :: "FinalityProviderStatus \<Rightarrow> u8" where
  "status_byte CREATED = 0"
| "status_byte REGISTERED = 1"
| "status_byte ACTIVE = 2"
| "status_byte INACTIVE = 3"
| "status_byte SLASHED = 4"
| "status_byte JAILED = 5"

definition byte_status :: "u8 \<Rightarrow> FinalityProviderStatus" where
  "byte_status b = (if b = 0 then CREATED else if b = 1 then REGISTERED else if b = 2 then ACTIVE
     else if b = 3 then INACTIVE else if b = 4 then SLASHED else JAILED)"

definition demo_Marshal :: "proto_FinalityProvider \<Rightarrow> bytes res" where
  "demo_Marshal q = (let x = hd (pfp_BtcPk q); v = ucast (pfp_LastVotedHeight q);
       p = ucast (pfp_LastProcessedHeight q)
     in if q = demo_fp x v p (pfp_Status q) then Ok [x, v, p, status_byte (pfp_Status q)]
        else Err (NewErr ''marshal''))"

definition demo_Unmarshal :: "bytes \<Rightarrow> proto_FinalityProvider res" where
  "demo_Unmarshal bs = (if length bs = 4 then Ok (demo_fp (bs ! 0) (bs ! 1) (bs ! 2) (byte_status (bs ! 3)))
     else Err (NewErr ''unmarshal''))"

definition demo_desc :: Description where
  "demo_desc = \<lparr>Moniker = '''', Identity = '''', Website = '''', SecurityContact = '''', Details = ''''\<rparr>"

definition demo_proof :: merkle_Proof where
  "demo_proof = \<lparr>Total = 1, Index = 0, LeafHash = [], Aunts = []\<rparr>"

section \<open>The EOTS daemon\<close>

definition demo_record :: "string \<Rightarrow> keyring_Record" where
  "demo_record name = \<lparr>rec_PubKey = Ok (Secp256k1PubKey [9]),
     rec_LocalPrivKey = Some (Secp256k1PrivKey (bytes_of_string name)), rec_Address = Ok [7]\<rparr>"

definition demo_eots :: "(mem_db, unit) eots_lib" where
  "demo_eots =
     \<lparr>kv_begin = (\<lambda>d. Ok ()), kv_commit = Ok, kv_HasBucket = mem_HasBucket,
      kv_CreateTopLevelBucket = mem_Create, kv_Get = mem_Get, kv_Put = mem_Put, kv_Entries = mem_Entries,
      keyring_New = (\<lambda>a b c. ret ()), keyring_Key = (\<lambda>n. ret (demo_record n)),
      keyring_NewAccount = (\<lambda>n m p h a. ret (demo_record n)),
      keyring_SupportedAlgorithms = (\<lambda>k. [''secp256k1'']),
      NewSigningAlgoFromString = (\<lambda>s l. Ok s),
      bip39_NewEntropy = (\<lambda>n. ret [1]), bip39_NewMnemonic = (\<lambda>b. Ok ''mnemonic''),
      btcec_ParsePubKey = Ok, btcec_PrivKeyFromBytes = (\<lambda>b. b),
      hmac_sha256 = (\<lambda>k m. k @ m), ModNScalar_SetByteSlice = (\<lambda>b. b), ScalarBaseMult_X = (\<lambda>b. 1 # b),
      eots_Sign = (\<lambda>k r m. Ok (k @ r @ m)), schnorr_Sign = (\<lambda>k m. Ok (k @ m))\<rparr>"

definition demo_net :: "unit rpc_net" where
  "demo_net =
     \<lparr>grpc_Dial = (\<lambda>a. ret ()), net_send = ret (), net_recv = ret (),
      rpc_status = (\<lambda>e. textErr ''rpc error: code = Unknown desc = '' e), conn_Close = ret (),
      FieldVal_SetByteSlice = (\<lambda>b. b), rpc_ModNScalar_SetByteSlice = (\<lambda>b. b),
      rpc_PrivKeyFromBytes = (\<lambda>b. b), schnorr_ParseSignature = Ok\<rparr>"

section \<open>The chain\<close>

text \<open>
  The world of the chain is the log of the messages sent to it. It has blocks up to height
  100, block 3 is the last finalized one; the provider \<open>[9]\<close> has voting power at every height
  but 5.
\<close>

definition demo_block :: "u64 \<Rightarrow> IndexedBlock" where
  "demo_block h = \<lparr>ib_Height = h, ib_AppHash = [ucast h], ib_Finalized = (h \<le> 3)\<rparr>"

definition demo_page :: "QueriedBlockStatus \<Rightarrow> PageRequest \<Rightarrow> IndexedBlock list" where
  "demo_page st pg = (case page_Key pg of
      None \<Rightarrow> if st = QueriedBlockStatus_FINALIZED then [demo_block 3] else [demo_block 100]
    | Some k \<Rightarrow> if k = Uint64ToBigEndian 4 \<and> page_Limit pg \<ge> 2 then [demo_block 4, demo_block 5] else [])"

definition demo_bbncfg :: BBNConfig where
  "demo_bbncfg = \<lparr>bbn_Key = ''node'', bbn_ChainID = ''chain'', bbn_RPCAddr = '''', bbn_GRPCAddr = '''',
     bbn_AccountPrefix = ''bbn'', bbn_KeyringBackend = ''test'', bbn_GasAdjustment = 1, bbn_GasPrices = '''',
     bbn_KeyDirectory = '''', bbn_Debug = True, bbn_Timeout = 20, bbn_BlockTimeout = 60, bbn_OutputFormat = ''text'',
     bbn_SignModeStr = ''direct''\<rparr>"

definition demo_bbn :: "sdk_Msg list BabylonController" where
  "demo_bbn =
     \<lparr>bbn_keyring_Key = (\<lambda>n. ret (demo_record n)), Bech32ifyAddressBytes = (\<lambda>p b. Ok ''bbn1''),
      ReliablySendMsgs = (\<lambda>ms ex un w. (Ok (Some \<lparr>TxHash = ''tx'', Events = []\<rparr>), w @ ms)),
      bbn_GetAddr = ret ''bbn1'', bbn_New = (\<lambda>c. ret ()),
      q_FinalityProvider = (\<lambda>pk. ret \<lparr>fpr_Addr = ''BBN1'', fpr_Description = demo_desc\<lparr>Moniker := ''m''\<rparr>,
        fpr_Commission = 0, fpr_SlashedBtcHeight = 0, fpr_Jailed = False\<rparr>),
      q_FinalityProviders = (\<lambda>pg. ret ([], None)),
      q_FinalityProviderPowerAtHeight = (\<lambda>pk h. ret (if h = 5 then 0 else 10)),
      q_ListPubRandCommit = (\<lambda>pk pg. ret []),
      q_ListBlocks = (\<lambda>st pg. ret (demo_page st pg)),
      q_Block = (\<lambda>h. if h \<le> 100 then ret (demo_block h) else fail (NewErr ''not found'')),
      q_ActivatedHeight = ret 1, q_BlockchainInfo = ret [(100, [])],
      q_BTCHeaderChainTip = ret [], q_CurrentEpoch = ret 0, q_VotesAtHeight = (\<lambda>h. ret []),
      q_BTCDelegations = (\<lambda>st pg. ret []),
      q_BTCCheckpointParams = ret \<lparr>BtcConfirmationDepth = 1, CheckpointFinalizationTimeout = 2\<rparr>,
      q_BTCStakingParams = ret \<lparr>bsp_CovenantPks = [], bsp_SlashingPkScript = [], bsp_CovenantQuorum = 1,
        bsp_MinSlashingTxFeeSat = 0, bsp_SlashingRate = 0, bsp_MinUnbondingTimeBlocks = 1\<rparr>,
      bbn_IsRunning = (\<lambda>w. False), bbn_Stop = ret (),
      Pop_Unmarshal = Ok, sdk_Description_Unmarshal = (\<lambda>b. Ok demo_desc),
      proto_Description_Unmarshal = (\<lambda>b. Ok demo_desc), cmt_Proof_Unmarshal = Ok, BIP340_ToBTCPK = Ok,
      bc_cfg = demo_bbncfg\<rparr>"

section \<open>The finality provider daemon\<close>

type_synonym demo_ext = "((mem_db, unit) LocalEOTSManager \<times> unit) \<times> sdk_Msg list"

definition demo_cfg :: Config where
  "demo_cfg = \<lparr>NumPubRand = 2, NumPubRandMax = 10, MinRandHeightGap = 5, StatusUpdateInterval = 1,
     RandomnessCommitInterval = 1, SubmissionRetryInterval = 1, MaxSubmissionRetries = 2, FastSyncInterval = 1,
     FastSyncLimit = 10, FastSyncGap = 3, SyncFpStatusInterval = 1, PollerConfig = DefaultChainPollerConfig\<rparr>"

definition demo_errs :: bbn_errors where
  "demo_errs = \<lparr>ErrBlockNotFound = ''block is not found'', ErrInvalidFinalitySig = ''invalid finality sig'',
     ErrNoPubRandYet = ''no pub rand yet'', ErrPubRandNotFound = ''public randomness is not found'',
     ErrTooFewPubRand = ''too few'', ErrFpAlreadySlashed = ''already slashed'', ErrFpAlreadyJailed = ''already jailed''\<rparr>"

definition demo_kr :: "unit keyring_lib" where
  "demo_kr =
     \<lparr>ck_UserHomeDir = Ok ''/home'', ck_New = (\<lambda>a b c. ret ()), ck_Key = (\<lambda>n. ret (demo_record n)),
      ck_NewAccount = (\<lambda>n m p h a. ret (demo_record n)), ck_SupportedAlgorithms = (\<lambda>k. []),
      ck_NewSigningAlgoFromString = (\<lambda>s l. Ok s), ck_NewEntropy = (\<lambda>n. ret [1]),
      ck_NewMnemonic = (\<lambda>b. Ok ''mnemonic''), ck_PrivKeyFromBytes = (\<lambda>b. (b, [9])),
      NewPoPBTC = (\<lambda>a k. Ok [])\<rparr>"

definition demo_app :: "(mem_db, demo_ext, unit) app_env" where
  "demo_app =
     \<lparr>kv_begin = (\<lambda>d. Ok ()), kv_commit = Ok, kv_HasBucket = mem_HasBucket,
      kv_CreateTopLevelBucket = mem_Create, kv_Get = mem_Get, kv_Put = mem_Put, kv_Entries = mem_Entries,
      pm_Marshal = demo_Marshal, pm_Unmarshal = demo_Unmarshal,
      Description_Marshal = (\<lambda>x. if x = demo_desc then Ok [] else Err (NewErr ''marshal'')),
      Description_Unmarshal = (\<lambda>b. Ok demo_desc),
      LegacyDec_String = (\<lambda>c. replicate (nat (2 * \<bar>c\<bar> - (if c < 0 then 1 else 0))) CHR ''1'' @ ''0''),
      LegacyNewDecFromStr = (\<lambda>s. if s = '''' then Err (NewErr ''decimal string cannot be empty'') else
        (let n = length s - 1 in Ok (if even n then int (n div 2) else - int (n div 2 + 1)))),
      schnorr_ParsePubKey = Ok, AccAddress_String = (\<lambda>a. ''addr''),
      Proof_Marshal = (\<lambda>p. Ok [ucast (word_of_int (Index p) :: u64)]),
      merkle_ProofsFromByteSlices = (\<lambda>bs. (concat bs,
        map (\<lambda>i. demo_proof\<lparr>Total := int (length bs), Index := int i\<rparr>) [0..<length bs])),
      env_cc = lift_cc (Babylon_ClientController demo_bbn),
      env_em = lift_em (grpc_EOTSManager demo_net (local_EOTSManager demo_eots)),
      env_cfg = demo_cfg, env_errs = demo_errs, env_RetryIf = (\<lambda>e. True),
      tmhash = (\<lambda>b. b), FieldVal_String = hex_encode, Evidence_Unmarshal = (\<lambda>s. Ok []),
      Evidence_ExtractBTCSK = (\<lambda>b. Ok []),
      ae_kr = demo_kr, ae_KeyDirectory = '''', ae_ChainID = ''chain'', ae_KeyringBackend = ''test'',
      NewBIP340PubKeyFromHex = (\<lambda>s. Ok [9]), NewBIP340PubKey = Ok, NewBIP340Signature = Ok,
      AccAddressFromBech32 = (\<lambda>s. Ok [7]), Pop_Marshal = Ok, pd_Marshal = (\<lambda>x. Ok []),
      ErrVotingPowerTableNotUpdated = (\<lambda>h. ''not updated''),
      secp256k1_Sign = (\<lambda>k m. Ok (k @ m)), PrivateKey_Serialize = (\<lambda>b. b),
      ModNScalar_String = hex_encode, ModNScalar_Negate = (\<lambda>b. b),
      ae_version = \<lparr>Commit = ''c'', CommitHash = '''', RawTags = '''', GoVersion = '''', agentName = ''fpd''\<rparr>\<rparr>"

text \<open>The database and the world after a provider was created and voted for height 3.\<close>

definition demo_db :: mem_db where
  "demo_db = [(finalityProviderBucketName, [([9], [9, 3, 3, 2])]), (pubRandProofBucketName, [])]"

text \<open>What changes of the manager: its passphrase reader and its metrics.\<close>

type_synonym demo_reader = "string \<times> EotsMetrics"

definition demo_em :: "demo_reader \<Rightarrow> (mem_db, unit) LocalEOTSManager" where
  "demo_em i = \<lparr>lm_kr = (), lm_es = [(eotsBucketName, [([9], bytes_of_string ''k'')])], lm_input = fst i,
     lm_metrics = snd i\<rparr>"

definition demo_idle :: demo_reader where
  "demo_idle = ('''', \<lparr>prom_calls = [], eotsMetricsRegisterOnce = True\<rparr>)"

definition demo_listed :: "u64 \<Rightarrow> demo_reader \<Rightarrow> demo_reader" where
  "demo_listed h i = (fst i, SetEotsFpLastGeneratedRandomnessHeight (hex_encode [9]) (OfUint64 h)
     (IncrementEotsFpTotalGeneratedRandomnessCounter (hex_encode [9]) (snd i)))"

definition demo_signed :: "u64 \<Rightarrow> demo_reader \<Rightarrow> demo_reader" where
  "demo_signed h i = (fst i, SetEotsFpLastEotsSignHeight (hex_encode [9]) (OfUint64 h)
     (IncrementEotsFpTotalEotsSignCounter (hex_encode [9]) (snd i)))"

definition demo_schnorred :: "demo_reader \<Rightarrow> demo_reader" where
  "demo_schnorred i = (fst i, IncrementEotsFpTotalSchnorrSignCounter (hex_encode [9]) (snd i))"

definition demo_fm :: FpMetrics where
  "demo_fm = \<lparr>prom_calls = [], fpMetricsRegisterOnce = True, previousVoteByFp = None, previousRandomnessByFp = None,
     fm_clock = int, fm_readings = 0\<rparr>"

definition demo_out :: "demo_reader \<Rightarrow> sdk_Msg list \<Rightarrow> demo_ext" where
  "demo_out i log = ((demo_em i, ()), log)"

definition demo_ins :: FinalityProviderInstance where
  "demo_ins = \<lparr>ins_btcPk = [9], ins_fp = \<lparr>sfp_FPAddr = ''addr'', sfp_BtcPk = [9], sfp_Description = demo_desc,
       sfp_Commission = 0, sfp_Pop = \<lparr>BtcSig = []\<rparr>, sfp_KeyName = ''key'', sfp_ChainID = ''chain'',
       sfp_LastVotedHeight = 3, sfp_LastProcessedHeight = 3, sfp_Status = ACTIVE\<rparr>,
     ins_passphrase = '''', ins_isStarted = False, ins_inSync = False, ins_isLagging = False,
     ins_poller = None, ins_laggingTargetChan = None, ins_quit = None, ins_criticalErrChan = []\<rparr>"

definition demo_world :: "(mem_db, demo_ext) fp_world" where
  "demo_world = \<lparr>fw_db = demo_db, fw_ext = demo_out demo_idle [], fw_ins = demo_ins, fw_metrics = demo_fm\<rparr>"

definition demo_bi :: "u64 \<Rightarrow> BlockInfo" where
  "demo_bi h = \<lparr>Height = h, Hash = [ucast h], Finalized = False\<rparr>"

section \<open>The laws hold\<close>

lemma mem_laws:
  assumes "kv_commit K = Ok" and "kv_HasBucket K = mem_HasBucket" and "kv_CreateTopLevelBucket K = mem_Create"
    and "kv_Get K = mem_Get" and "kv_Put K = mem_Put" and "kv_Entries K = mem_Entries"
  shows "kv_laws K"
proof -
  have 1: "kv_commit_ok K" using assms by (simp add: kv_commit_ok_def)
  have 2: "kv_put_ok K"
    using assms by (auto simp: kv_put_ok_def mem_Put_def mem_Get_def mem_HasBucket_def split: option.splits)
  have 3: "kv_create_ok K"
    using assms by (auto simp: kv_create_ok_def mem_Create_def mem_Get_def mem_HasBucket_def split: if_splits option.splits)
  have e: "(k, v) \<in> set (map (\<lambda>k. (k, the (map_of l k))) (remdups (map fst l))) \<longleftrightarrow> map_of l k = Some v"
    for k v and l :: "(bytes \<times> bytes) list"
  proof (cases "map_of l k")
    case None
    then have "k \<notin> fst ` set l" by (simp add: map_of_eq_None_iff)
    with None show ?thesis by auto
  next
    case (Some u)
    then have "k \<in> fst ` set l" by (metis domI dom_map_of_conv_image_fst)
    with Some show ?thesis by auto
  qed
  have 4: "kv_entries_ok K"
    unfolding kv_entries_ok_def assms mem_Entries_def mem_Get_def
    by (auto simp: e o_def simp del: set_map set_remdups split: option.splits)
  from 1 2 3 4 show ?thesis by (simp add: kv_laws_def)
qed

lemma demo_app_kv [simp]:
  "kv_begin demo_app d = Ok ()" "kv_commit demo_app = Ok" "kv_HasBucket demo_app = mem_HasBucket"
  "kv_CreateTopLevelBucket demo_app = mem_Create" "kv_Get demo_app = mem_Get" "kv_Put demo_app = mem_Put"
  "kv_Entries demo_app = mem_Entries" "pm_Marshal demo_app = demo_Marshal" "pm_Unmarshal demo_app = demo_Unmarshal"
  "schnorr_ParsePubKey demo_app = Ok" "Description_Unmarshal demo_app b = Ok demo_desc"
  "Proof_Marshal demo_app p = Ok [ucast (word_of_int (Index p) :: u64)]"
  by (simp_all add: demo_app_def)

lemma demo_app_parts:
  "env_cc demo_app = lift_cc (Babylon_ClientController demo_bbn)"
  "env_em demo_app = lift_em (grpc_EOTSManager demo_net (local_EOTSManager demo_eots))"
  by (simp_all add: demo_app_def)

lemma demo_app_env [simp]:
  "env_cfg demo_app = demo_cfg" "env_errs demo_app = demo_errs" "env_RetryIf demo_app e = True"
  "tmhash demo_app b = b"
  by (simp_all add: demo_app_def)

lemma demo_eots_kv [simp]:
  "kv_begin demo_eots d = Ok ()" "kv_commit demo_eots = Ok" "kv_HasBucket demo_eots = mem_HasBucket"
  "kv_CreateTopLevelBucket demo_eots = mem_Create" "kv_Get demo_eots = mem_Get" "kv_Put demo_eots = mem_Put"
  "kv_Entries demo_eots = mem_Entries"
  by (simp_all add: demo_eots_def)

lemma demo_eots_kr [simp]:
  "keyring_Key demo_eots n = ret (demo_record n)" "btcec_PrivKeyFromBytes demo_eots b = b"
  "hmac_sha256 demo_eots k m = k @ m" "ModNScalar_SetByteSlice demo_eots b = b"
  "ScalarBaseMult_X demo_eots b = 1 # b" "eots_Sign demo_eots k r m = Ok (k @ r @ m)"
  "schnorr_Sign demo_eots k m = Ok (k @ m)"
  by (simp_all add: demo_eots_def)

lemma demo_net_simps [simp]:
  "net_send demo_net = ret ()" "net_recv demo_net = ret ()" "FieldVal_SetByteSlice demo_net b = b"
  "rpc_ModNScalar_SetByteSlice demo_net b = b" "rpc_PrivKeyFromBytes demo_net b = b"
  "schnorr_ParseSignature demo_net b = Ok b"
  by (simp_all add: demo_net_def)

lemma demo_marshal: "demo_Marshal q = Ok v \<Longrightarrow> demo_Unmarshal v = Ok q"
proof -
  have "byte_status (status_byte st) = st" for st by (cases st) (simp_all add: byte_status_def)
  then show "demo_Marshal q = Ok v \<Longrightarrow> demo_Unmarshal v = Ok q"
    by (auto simp: demo_Marshal_def demo_Unmarshal_def Let_def split: if_splits)
qed

lemma demo_store_laws: "store_laws demo_app"
  by (simp add: store_laws_def mem_laws demo_marshal)

lemma demo_eots_laws: "kv_laws demo_eots" "keyring_readonly demo_eots" "lossless demo_net"
  by (simp_all add: mem_laws keyring_readonly_def lossless_def ret_def)

lemma demo_canonical: "em_canonical demo_net (em :: 'w EOTSManager)"
proof -
  have "map (FieldVal_SetByteSlice demo_net) prs = prs" for prs by (simp add: map_idI)
  then show ?thesis by (simp add: em_canonical_def)
qed

lemma demo_fpd_env: "fpd_env demo_app demo_eots demo_net demo_bbn = demo_app"
  by (simp add: fpd_env_def demo_app_def)

lemma demo_wf: "fp_wf demo_app demo_db"
  by (auto simp: fp_wf_def fp_at_def demo_db_def mem_Get_def fp_ok_def demo_Unmarshal_def demo_fp_def
      split: option.splits if_splits)

section \<open>Runs\<close>

lemma demo_record_simps [simp]:
  "rec_LocalPrivKey (demo_record n) = Some (Secp256k1PrivKey (bytes_of_string n))"
  "rec_Address (demo_record n) = Ok [7]" "rec_PubKey (demo_record n) = Ok (Secp256k1PubKey [9])"
  by (simp_all add: demo_record_def)

lemma demo_key: "getEOTSPrivKey demo_eots [9] p (demo_em i) = (Ok (bytes_of_string ''k''), demo_em (p, snd i))"
  by (simp add: getEOTSPrivKey_def lm_store_def lm_keyring_def GetEOTSKeyName_def kv_View_def go_defs demo_em_def
      mem_HasBucket_def mem_Get_def input_Reset_def eotsPrivKeyFromRecord_def)

lemma demo_name: "lm_store (GetEOTSKeyName demo_eots [9]) (demo_em i) = (Ok ''k'', demo_em i)"
  by (simp add: lm_store_def GetEOTSKeyName_def kv_View_def go_defs demo_em_def mem_HasBucket_def mem_Get_def)

definition demo_rand :: "bytes \<Rightarrow> u64 \<Rightarrow> FieldVal" where
  "demo_rand cid h = 1 # bytes_of_string ''k'' @ Uint64ToBigEndian h @ cid"

lemma demo_pair: "getRandomnessPair demo_eots [9] cid h p (demo_em i) =
    (Ok (tl (demo_rand cid h), demo_rand cid h), demo_em (p, snd i))"
  by (simp add: getRandomnessPair_def lm_KeyRecord_def handle_go_def demo_name demo_key ret_def
      GenerateRandomness_def demo_rand_def Let_def)

lemma demo_loop: "randomness_loop demo_eots [9] cid h p j n acc (demo_em i) =
    (Ok (acc @ map (\<lambda>m. demo_rand cid (h + of_nat m)) [j..<j + n]), demo_em (if n = 0 then i else (p, snd i)))"
  by (induction n arbitrary: j acc i) (simp_all add: handle_go_def demo_pair ret_def upt_rec)

lemma demo_em_meter: "lm_metrics (demo_em i) = snd i" "(demo_em i)\<lparr>lm_metrics := m\<rparr> = demo_em (fst i, m)"
  by (simp_all add: demo_em_def)

lemma demo_create [simp]: "em_CreateRandomnessPairList (env_em demo_app) [9] cid h n p (demo_out i log) =
    (Ok (map (\<lambda>m. demo_rand cid (h + of_nat m)) [0..<unat n]), demo_out (demo_listed h (if unat n = 0 then i else (p, snd i))) log)"
  by (simp add: demo_em_meter demo_listed_def demo_app_parts demo_out_def lift_em_def grpc_EOTSManager_def cl_CreateRandomnessPairList_def rpc_call_def
      srv_CreateRandomnessPairList_def local_EOTSManager_def lm_CreateRandomnessPairList_def on_manager_def
      on_net_def demo_loop go_defs)

lemma demo_sign [simp]: "em_SignEOTS (env_em demo_app) [9] cid msg h p (demo_out i log) =
    (Ok (bytes_of_string ''k'' @ tl (demo_rand cid h) @ msg), demo_out (demo_signed h (p, snd i)) log)"
  by (simp add: demo_em_meter demo_signed_def demo_app_parts demo_out_def lift_em_def grpc_EOTSManager_def cl_SignEOTS_def rpc_call_def
      srv_SignEOTS_def local_EOTSManager_def lm_SignEOTS_def on_manager_def on_net_def demo_pair demo_key go_defs)

lemma demo_schnorr [simp]: "em_SignSchnorrSig (env_em demo_app) [9] msg p (demo_out i log) =
    (Ok (bytes_of_string ''k'' @ msg), demo_out (demo_schnorred (p, snd i)) log)"
  by (simp add: demo_em_meter demo_schnorred_def demo_app_parts demo_out_def lift_em_def grpc_EOTSManager_def cl_SignSchnorrSig_def rpc_call_def
      srv_SignSchnorrSig_def local_EOTSManager_def lm_SignSchnorrSig_def signSchnorrSigFromPrivKey_def
      on_manager_def on_net_def demo_key go_defs)

end
