(* ===== verification/DemoRuns.thy ===== *)
theory DemoRuns
  imports Demo
begin

text \<open>
  What the concrete daemon does: the answers of its chain and of its EOTS manager, the
  commitment of the randomness of heights 4 and 5, and the vote for block 4.
\<close>

lemma demo_app_more [simp]:
  "Description_Marshal demo_app demo_desc = Ok []" "LegacyDec_String demo_app 0 = ''0''"
  "LegacyNewDecFromStr demo_app ''0'' = Ok 0"
  "AccAddress_String demo_app addr = ''addr''" "NewBIP340PubKeyFromHex demo_app hx = Ok [9]"
  "NewBIP340Signature demo_app sg = Ok sg" "AccAddressFromBech32 demo_app addr' = Ok [7]" "Pop_Marshal demo_app sg = Ok sg"
  by (simp_all add: demo_app_def Let_def)

lemma demo_bi_simps [simp]: "Height (demo_bi h) = h" "Hash (demo_bi h) = [ucast h]" "Finalized (demo_bi h) = False"
  by (simp_all add: demo_bi_def)

section \<open>The answers of the chain\<close>

definition demo_tx :: TxResponse where
  "demo_tx = \<lparr>TxHash = ''tx'', Events = []\<rparr>"

lemma demo_signer [simp]: "mustGetTxSigner demo_bbn w = (Ok ''bbn1'', w)"
  by (simp add: mustGetTxSigner_def GetKeyAddress_def demo_bbn_def go_defs)

lemma demo_send [simp]: "reliablySendMsgs demo_bbn ms ex un w = (Ok (Some demo_tx), w @ ms)"
  by (simp add: reliablySendMsgs_def demo_bbn_def demo_tx_def)

lemma demo_tx_response [simp]: "tx_response (Some demo_tx) w = (Ok demo_tx, w)"
  by (simp add: tx_response_def demo_tx_def ret_def)

lemma demo_bbn_simps [simp]:
  "q_FinalityProviderPowerAtHeight demo_bbn pk h = ret (if h = 5 then 0 else 10)"
  "q_ListPubRandCommit demo_bbn pk pg = ret []" "q_ListBlocks demo_bbn st pg = ret (demo_page st pg)"
  "q_Block demo_bbn h = (if h \<le> 100 then ret (demo_block h) else fail (NewErr ''not found''))"
  "q_ActivatedHeight demo_bbn = ret 1" "cmt_Proof_Unmarshal demo_bbn pf = Ok pf"
  "q_FinalityProvider demo_bbn pk = ret \<lparr>fpr_Addr = ''BBN1'', fpr_Description = demo_desc\<lparr>Moniker := ''m''\<rparr>,
     fpr_Commission = 0, fpr_SlashedBtcHeight = 0, fpr_Jailed = False\<rparr>"
  "bbn_IsRunning demo_bbn w = False"
  by (simp_all add: demo_bbn_def)

lemmas demo_cc_defs = demo_app_parts(1) lift_cc_def Babylon_ClientController_def on_net_def demo_out_def go_defs

lemma demo_cc_commit [simp]: "cc_CommitPubRandList (env_cc demo_app) pk h n c sg (demo_out i log) =
    (Ok demo_tx, demo_out i (log @ [MsgCommitPubRandList ''bbn1'' pk h n c sg]))"
  by (simp add: demo_cc_defs bbn_CommitPubRandList_def reliablySendMsg_def)

lemma demo_cc_vote [simp]: "cc_SubmitFinalitySig (env_cc demo_app) pk b pr pf sg (demo_out i log) =
    (Ok demo_tx, demo_out i (log @ [AddFinalitySig (finality_sig_msg demo_bbn pk b pr pf sg ''bbn1'')]))"
  by (simp add: demo_cc_defs bbn_SubmitFinalitySig_def reliablySendMsg_def)

lemma demo_cc_batch1 [simp]:
  "cc_SubmitBatchFinalitySigs (env_cc demo_app) pk [b] [pr] [pf] [sg] (demo_out i log) =
    (Ok demo_tx, demo_out i (log @ [AddFinalitySig (finality_sig_msg demo_bbn pk b pr pf sg ''bbn1'')]))"
  by (simp add: demo_cc_defs bbn_SubmitBatchFinalitySigs_def)

lemma demo_cc_batch2 [simp]:
  "cc_SubmitBatchFinalitySigs (env_cc demo_app) pk [b, b'] [pr, pr'] [pf, pf'] [sg, sg'] (demo_out i log) =
    (Ok demo_tx, demo_out i (log @ [AddFinalitySig (finality_sig_msg demo_bbn pk b pr pf sg ''bbn1''),
       AddFinalitySig (finality_sig_msg demo_bbn pk b' pr' pf' sg' ''bbn1'')]))"
  by (simp add: demo_cc_defs bbn_SubmitBatchFinalitySigs_def)

lemma demo_cc_last [simp]:
  "cc_QueryLastCommittedPublicRand (env_cc demo_app) pk n (demo_out i log) = (Ok [], demo_out i log)"
  by (simp add: demo_cc_defs bbn_QueryLastCommittedPublicRand_def)

lemma demo_cc_power [simp]: "cc_QueryFinalityProviderVotingPower (env_cc demo_app) pk h (demo_out i log) =
    (Ok (if h = 5 then 0 else 10), demo_out i log)"
  by (simp add: demo_cc_defs bbn_QueryFinalityProviderVotingPower_def)

lemma demo_cc_block [simp]: "cc_QueryBlock (env_cc demo_app) h (demo_out i log) =
    (if h \<le> 100 then (Ok \<lparr>Height = h, Hash = [ucast h], Finalized = (h \<le> 3)\<rparr>, demo_out i log)
     else (Err (WrapErr (''failed to query indexed block at height '' @ fmt_u64 h @ '': '') (NewErr ''not found'')),
       demo_out i log))"
  by (simp add: demo_cc_defs bbn_QueryBlock_def demo_block_def)

lemma demo_cc_best [simp]: "cc_QueryBestBlock (env_cc demo_app) (demo_out i log) = (Ok (demo_bi 100), demo_out i log)"
  by (simp add: demo_cc_defs bbn_QueryBestBlock_def queryLatestBlocks_def demo_page_def demo_block_def demo_bi_def)

lemma demo_cc_finalized [simp]:
  "cc_QueryLatestFinalizedBlocks (env_cc demo_app) n (demo_out i log) = (Ok [demo_bi 3], demo_out i log)"
  by (simp add: demo_cc_defs bbn_QueryLatestFinalizedBlocks_def queryLatestBlocks_def demo_page_def demo_block_def
      demo_bi_def)

lemma demo_cc_slashed [simp]: "cc_QueryFinalityProviderSlashedOrJailed (env_cc demo_app) pk (demo_out i log) =
    (Ok (False, False), demo_out i log)"
  by (simp add: demo_cc_defs bbn_QueryFinalityProviderSlashedOrJailed_def)

lemma demo_cc_activated [simp]: "cc_QueryActivatedHeight (env_cc demo_app) (demo_out i log) = (Ok 1, demo_out i log)"
  by (simp add: demo_cc_defs bbn_QueryActivatedHeight_def)

text \<open>A query that succeeds at once is not repeated.\<close>

lemma demo_retry [simp]:
  "retry_Do g n (cc_QueryLastCommittedPublicRand (env_cc demo_app) pk m) (demo_out i log) = (Ok [], demo_out i log)"
  "retry_Do g n (cc_QueryFinalityProviderVotingPower (env_cc demo_app) pk h) (demo_out i log) =
    (Ok (if h = 5 then 0 else 10), demo_out i log)"
  "retry_Do g n (cc_QueryBestBlock (env_cc demo_app)) (demo_out i log) = (Ok (demo_bi 100), demo_out i log)"
  "retry_Do g n (cc_QueryLatestFinalizedBlocks (env_cc demo_app) m) (demo_out i log) =
    (Ok [demo_bi 3], demo_out i log)"
  "retry_Do g n (cc_QueryFinalityProviderSlashedOrJailed (env_cc demo_app) pk) (demo_out i log) =
    (Ok (False, False), demo_out i log)"
  by (rule retry_Do_Ok, simp)+

section \<open>Committing randomness\<close>

lemma demo_ins_simps [simp]: "ins_btcPk demo_ins = [9]" "ins_passphrase demo_ins = ''''"
  "sfp_BtcPk (ins_fp demo_ins) = [9]" "sfp_ChainID (ins_fp demo_ins) = ''chain''"
  "sfp_LastProcessedHeight (ins_fp demo_ins) = 3" "sfp_LastVotedHeight (ins_fp demo_ins) = 3"
  "sfp_Status (ins_fp demo_ins) = ACTIVE" "ins_isStarted demo_ins = False" "ins_inSync demo_ins = False"
  "ins_poller demo_ins = None"
  by (simp_all add: demo_ins_def)

lemma demo_cfg_simps [simp]: "NumPubRand demo_cfg = 2" "MinRandHeightGap demo_cfg = 5"
  "MaxSubmissionRetries demo_cfg = 2" "FastSyncLimit demo_cfg = 10" "FastSyncGap demo_cfg = 3"
  "PollerConfig demo_cfg = DefaultChainPollerConfig"
  by (simp_all add: demo_cfg_def)

definition demo_pr :: "u64 \<Rightarrow> FieldVal" where
  "demo_pr h = demo_rand (bytes_of_string ''chain'') h"

lemma demo_pr_inject [simp]: "demo_pr h = demo_pr k \<longleftrightarrow> h = k"
  by (simp add: demo_pr_def demo_rand_def)

definition demo_db4 :: mem_db where
  "demo_db4 = [(pubRandProofBucketName, [(demo_pr 5, [1]), (demo_pr 4, [0])]),
     (pubRandProofBucketName, [(demo_pr 4, [0])])] @ demo_db"

definition demo_msg4 :: sdk_Msg where
  "demo_msg4 = MsgCommitPubRandList ''bbn1'' [9] 4 2 (demo_pr 4 @ demo_pr 5)
     (bytes_of_string ''k'' @ Uint64ToBigEndian 4 @ Uint64ToBigEndian 2 @ demo_pr 4 @ demo_pr 5)"

text \<open>The metrics of both daemons after the commitment.\<close>

definition demo_em4 :: demo_reader where
  "demo_em4 = demo_schnorred (demo_listed 4 demo_idle)"

definition demo_fm4 :: FpMetrics where
  "demo_fm4 = AddToFpTotalCommittedRandomness (hex_encode [9]) (OfLen (length [demo_pr 4, demo_pr 5])) (RecordFpLastCommittedRandomnessHeight (hex_encode [9]) 0
     (RecordFpRandomnessTime (hex_encode [9]) demo_fm))"

definition demo_world4 :: "(mem_db, demo_ext) fp_world" where
  "demo_world4 = \<lparr>fw_db = demo_db4, fw_ext = demo_out demo_em4 [demo_msg4], fw_ins = demo_ins, fw_metrics = demo_fm4\<rparr>"

lemma demo_reader_simps [simp]:
  "fst demo_idle = ''''" "fst (demo_listed h i) = fst i" "fst (demo_signed h i) = fst i" "fst (demo_schnorred i) = fst i"
  "fst demo_em4 = ''''"
  by (simp_all add: demo_idle_def demo_listed_def demo_signed_def demo_schnorred_def demo_em4_def)

lemma demo_reader_same [simp]: "fst i = p \<Longrightarrow> (p, snd i) = i"
  by auto

lemma demo_getPubRandList [simp]:
  assumes "fw_ext s = demo_out i log" "ins_btcPk (fw_ins s) = [9]" "sfp_ChainID (ins_fp (fw_ins s)) = ''chain''"
  shows "getPubRandList demo_app h n s = (Ok (map (\<lambda>m. demo_pr (h + of_nat m)) [0..<unat n]),
    s\<lparr>fw_ext := demo_out (demo_listed h (if unat n = 0 then i else (ins_passphrase (fw_ins s), snd i))) log\<rparr>)"
  using assms by (simp add: getPubRandList_def get_go_def on_ext_def zoom_go_def fp_getters GetChainID_def demo_pr_def)

lemma demo_signFinalitySig [simp]:
  assumes "fw_ext s = demo_out i log" "ins_btcPk (fw_ins s) = [9]" "sfp_ChainID (ins_fp (fw_ins s)) = ''chain''"
  shows "signFinalitySig demo_app b s =
    (Ok (bytes_of_string ''k'' @ tl (demo_pr (Height b)) @ Uint64ToBigEndian (Height b) @ Hash b),
     s\<lparr>fw_ext := demo_out (demo_signed (Height b) (ins_passphrase (fw_ins s), snd i)) log\<rparr>)"
  using assms by (simp add: signFinalitySig_def get_go_def on_ext_def zoom_go_def fp_getters GetChainID_def demo_pr_def
      handle_go_def ret_def getMsgToSignForVote_def)

lemma demo_proofs: "GetPubRandCommitAndProofs demo_app [demo_pr 4, demo_pr 5] = (demo_pr 4 @ demo_pr 5,
    [demo_proof\<lparr>Total := 2, Index := 0\<rparr>, demo_proof\<lparr>Total := 2, Index := 1\<rparr>])"
  by (simp add: GetPubRandCommitAndProofs_def demo_app_def)

lemma demo_add: "AddPubRandProofList demo_app [demo_pr 4, demo_pr 5]
     [demo_proof\<lparr>Total := 2, Index := 0\<rparr>, demo_proof\<lparr>Total := 2, Index := 1\<rparr>] demo_db = (Ok (), demo_db4)"
  by (simp add: demo_db4_def AddPubRandProofList_def kv_Batch_def go_defs demo_db_def mem_HasBucket_def mem_Get_def
      mem_Put_def demo_proof_def pubRandProofBucketName_def finalityProviderBucketName_def)

lemmas demo_run_defs = meter_apply on_ext_def on_db_def zoom_go_def get_go_def handle_go_def upd_go_def index_go_def ret_def
  fp_getters of_res_def

lemma demo_commit: "CommitPubRand demo_app 3 demo_world = (Ok (Some demo_tx), demo_world4)"
  by (simp add: demo_world_def demo_world4_def CommitPubRand_def GetLastCommittedHeight_def
      lastCommittedPublicRandWithRetry_def demo_run_defs commit_start_height_def prs_AddPubRandProofList_def
      demo_add demo_proofs upt_rec signPubRandCommit_def getHashToSignForCommitPubRand_def demo_msg4_def demo_em4_def demo_fm4_def)

section \<open>Voting\<close>

definition demo_db5 :: mem_db where
  "demo_db5 = [(finalityProviderBucketName, [([9], [9, 4, 4, 2]), ([9], [9, 3, 3, 2])])] @ demo_db4"

definition demo_vote4 :: sdk_Msg where
  "demo_vote4 = AddFinalitySig (finality_sig_msg demo_bbn [9] (demo_bi 4) (demo_pr 4) [0]
     (bytes_of_string ''k'' @ tl (demo_pr 4) @ Uint64ToBigEndian 4 @ [4]) ''bbn1'')"

text \<open>The gauges of the heights after a vote.\<close>

definition demo_moved :: "u64 \<Rightarrow> FpMetrics \<Rightarrow> FpMetrics" where
  "demo_moved h m = RecordFpLastProcessedHeight (hex_encode [9]) h (RecordFpLastVotedHeight (hex_encode [9]) h m)"

definition demo_world5 :: "(mem_db, demo_ext) fp_world" where
  "demo_world5 = \<lparr>fw_db = demo_db5, fw_ext = demo_out (demo_listed 4 (demo_signed 4 demo_em4)) [demo_msg4, demo_vote4],
     fw_ins = voted 4 demo_ins, fw_metrics = IncrementFpTotalVotedBlocks (hex_encode [9]) (RecordFpVoteTime (hex_encode [9])
       (demo_moved 4 demo_fm4))\<rparr>"

lemma demo_set_voted: "SetFpLastVotedHeight demo_app [9] 4 demo_db4 = (Ok (), demo_db5)"
  by (simp add: demo_db4_def demo_db5_def demo_db_def SetFpLastVotedHeight_def setFinalityProviderState_def
      saveFinalityProvider_def kv_Batch_def go_defs mem_HasBucket_def mem_Get_def mem_Put_def
      pubRandProofBucketName_def finalityProviderBucketName_def demo_Unmarshal_def demo_Marshal_def demo_fp_def
      byte_status_def)

lemma demo_proof4: "GetPubRandProof demo_app (demo_pr 4) demo_db4 = (Ok [0], demo_db4)"
  by (simp add: GetPubRandProof_def kv_View_def go_defs demo_db4_def mem_HasBucket_def mem_Get_def)

lemma demo_update: "fw_ins s = demo_ins \<Longrightarrow> fw_db s = demo_db4 \<Longrightarrow>
    MustUpdateStateAfterFinalitySigSubmission demo_app 4 s =
      (Ok (), s\<lparr>fw_db := demo_db5, fw_ins := voted 4 demo_ins, fw_metrics := demo_moved 4 (fw_metrics s)\<rparr>)"
  by (simp add: MustUpdateStateAfterFinalitySigSubmission_def updateStateAfterFinalitySigSubmission_def demo_run_defs
      set_fp_def set_ins_def demo_set_voted voted_def demo_moved_def)

lemma demo_submit: "SubmitFinalitySignature demo_app (demo_bi 4) demo_world4 = (Ok demo_tx, demo_world5)"
  by (simp add: SubmitFinalitySignature_def demo_world4_def demo_world5_def demo_run_defs prs_GetPubRandProof_def
      demo_proof4 demo_update demo_bi_def demo_vote4_def voted_def)

lemma demo_em_proofs: "GetPubRandProofList demo_app [demo_pr 4, demo_pr 5] demo_db4 = (Ok [[0], [1]], demo_db4)"
  by (simp add: GetPubRandProofList_def kv_View_def go_defs demo_db4_def mem_HasBucket_def mem_Get_def)

definition demo_sig :: "u64 \<Rightarrow> ModNScalar" where
  "demo_sig h = bytes_of_string ''k'' @ tl (demo_pr h) @ Uint64ToBigEndian h @ [ucast h]"

definition demo_batch :: "u64 \<Rightarrow> sdk_Msg list" where
  "demo_batch h = [AddFinalitySig (finality_sig_msg demo_bbn [9] (demo_bi 4) (demo_pr 4) [0] (demo_sig 4) ''bbn1''),
     AddFinalitySig (finality_sig_msg demo_bbn [9] (demo_bi h) (demo_pr 5) [1] (demo_sig h) ''bbn1'')]"

text \<open>A batch of block 4 and another block: the second randomness sent is that of height 5.\<close>

lemma demo_submit_batch:
  assumes "fst (SetFpLastVotedHeight demo_app [9] h demo_db4) = Ok ()"
  shows "SubmitBatchFinalitySignatures demo_app [demo_bi 4, demo_bi h] demo_world4 = (Ok demo_tx,
     \<lparr>fw_db = snd (SetFpLastVotedHeight demo_app [9] h demo_db4), fw_ext = demo_out (demo_signed h (demo_signed 4 (demo_listed 4 demo_em4))) (demo_msg4 # demo_batch h),
      fw_ins = voted h demo_ins, fw_metrics = demo_moved h demo_fm4\<rparr>)"
  using assms
  by (cases "SetFpLastVotedHeight demo_app [9] h demo_db4")
     (simp add: SubmitBatchFinalitySignatures_def demo_world4_def demo_run_defs prs_GetPubRandProofList_def
      demo_em_proofs upt_rec MustUpdateStateAfterFinalitySigSubmission_def updateStateAfterFinalitySigSubmission_def
      set_fp_def set_ins_def voted_def demo_batch_def demo_sig_def demo_moved_def)

lemma demo_set_voted_at:
  "fst (SetFpLastVotedHeight demo_app [9] 5 demo_db4) = Ok ()" "fst (SetFpLastVotedHeight demo_app [9] 6 demo_db4) = Ok ()"
  by (simp_all add: demo_db4_def demo_db_def SetFpLastVotedHeight_def setFinalityProviderState_def
      saveFinalityProvider_def kv_Batch_def go_defs mem_HasBucket_def mem_Get_def mem_Put_def
      pubRandProofBucketName_def finalityProviderBucketName_def demo_Unmarshal_def demo_Marshal_def demo_fp_def
      byte_status_def)

lemma demo_store_ok: "store_ok demo_app demo_db4"
proof -
  have "fp_at demo_app demo_db4 = fp_at demo_app demo_db"
    by (simp add: fp_at_def fun_eq_iff demo_db4_def demo_db_def mem_Get_def pubRandProofBucketName_def
        finalityProviderBucketName_def)
  with demo_wf demo_store_laws show ?thesis by (simp add: store_ok_def fp_wf_def)
qed

end
