(* ===== verification/StoreProperties.thy ===== *)
theory StoreProperties
  imports DemoRuns
begin

text \<open>
  The properties of the two stores of the finality provider daemon
  (\<^verbatim>\<open>finality-provider/store\<close>), with their witnesses on the concrete database.
\<close>

section \<open>The provider store\<close>

lemma ret_OkD: "ret a s = (Ok b, t) \<Longrightarrow> b = a \<and> t = s"
  by (simp add: ret_def)

text \<open>C19. The height setters refine the abstract registry of heights: a successful vote raises
  both heights of its key to the maximum with the new one, a processed block raises only the
  processed height, a status change touches no height, and all keep the invariant of the store.\<close>

theorem height_setters_refine:
  assumes "store_ok L d"
  shows "(SetFpLastVotedHeight L k h d = (Ok u, d1) \<longrightarrow> store_ok L d1 \<and>
      (\<exists>v p. stored_heights L d k = Some (v, p) \<and>
        stored_heights L d1 = (stored_heights L d)(k \<mapsto> (max v h, max p h)))) \<and>
    (SetFpLastProcessedHeight L k h d = (Ok u, d2) \<longrightarrow> store_ok L d2 \<and>
      (\<exists>v p. stored_heights L d k = Some (v, p) \<and>
        stored_heights L d2 = (stored_heights L d)(k \<mapsto> (v, max p h)))) \<and>
    (SetFpStatus L k st d = (Ok u, d3) \<longrightarrow> store_ok L d3 \<and> stored_heights L d3 = stored_heights L d)"
  using fpstore.voted_Ok [OF assms] fpstore.processed_Ok [OF assms] fpstore.status_Ok [OF assms] by blast

theorem height_setters_refine_witness:
  "store_ok demo_app demo_db5 \<and> stored_heights demo_app demo_db5 [9] = Some (4, 4)"
proof -
  have "stored_heights demo_app demo_db4 [9] = Some (3, 3)"
    by (simp add: stored_heights_def fp_at_def demo_db4_def demo_db_def mem_Get_def pubRandProofBucketName_def
        finalityProviderBucketName_def demo_Unmarshal_def demo_fp_def)
  with height_setters_refine [OF demo_store_ok, of "[9]" 4 "()" demo_db5] demo_set_voted show ?thesis
    by (auto simp: max_def)
qed

text \<open>C20. A provider that was created is read back as it was given, with status CREATED and
  heights zero, its key was free before, and creating it again is refused without a change.\<close>

theorem create_then_get:
  assumes laws: "store_laws L" "codec_laws L" and parse: "schnorr_ParsePubKey L pk = Ok pk"
    and tx: "kv_begin L d' = Ok ()"
    and run: "CreateFinalityProvider L addr pk des c kn cid sg d = (Ok u, d')"
  shows "fp_at L d pk = None \<and>
    GetFinalityProvider L pk d' = (Ok \<lparr>sfp_FPAddr = AccAddress_String L addr, sfp_BtcPk = pk,
       sfp_Description = des, sfp_Commission = c, sfp_Pop = \<lparr>BtcSig = sg\<rparr>, sfp_KeyName = kn, sfp_ChainID = cid,
       sfp_LastVotedHeight = 0, sfp_LastProcessedHeight = 0, sfp_Status = CREATED\<rparr>, d') \<and>
    CreateFinalityProvider L addr pk des c kn cid sg d' =
       (Err (Sentinel (FpStoreErr ErrDuplicateFinalityProvider)), d')"
proof -
  let ?p = "\<lambda>b. \<lparr>pfp_FpAddr = AccAddress_String L addr, pfp_BtcPk = pk, pfp_Description = b,
          pfp_Commission = LegacyDec_String L c, pfp_Pop = Some \<lparr>BtcSig = sg\<rparr>,
          pfp_KeyName = kn, pfp_ChainId = cid, pfp_LastVotedHeight = 0,
          pfp_LastProcessedHeight = 0, pfp_Status = CREATED\<rparr>"
  from run obtain b where b: "Description_Marshal L des = Ok b"
    and int: "createFinalityProviderInternal L (?p b) d = (Ok u, d')"
    unfolding CreateFinalityProvider_def by (elim try_go_OkE) (auto simp: of_res_def)
  note created = createFinalityProviderInternal_Ok [OF laws(1) int]
  have at: "fp_at L d' pk = Some (?p b)" using created(2) by simp
  then obtain v where v: "kv_Get L d' finalityProviderBucketName pk = Some v" "pm_Unmarshal L v = Ok (?p b)"
    by (auto simp: fp_at_def split: option.splits res.splits)
  have codec: "Description_Unmarshal L b = Ok des" "LegacyNewDecFromStr L (LegacyDec_String L c) = Ok c"
    using laws(2) b by (auto simp: codec_laws_def)
  have "fp_at L d pk = None" using created(1) by (simp add: fp_at_def)
  moreover have "GetFinalityProvider L pk d' = (Ok \<lparr>sfp_FPAddr = AccAddress_String L addr, sfp_BtcPk = pk,
       sfp_Description = des, sfp_Commission = c, sfp_Pop = \<lparr>BtcSig = sg\<rparr>, sfp_KeyName = kn, sfp_ChainID = cid,
       sfp_LastVotedHeight = 0, sfp_LastProcessedHeight = 0, sfp_Status = CREATED\<rparr>, d')"
    using created(3) v codec parse tx
    by (simp add: GetFinalityProvider_def kv_View_def protoFpToStoredFinalityProvider_def go_defs)
  moreover have "CreateFinalityProvider L addr pk des c kn cid sg d' =
       (Err (Sentinel (FpStoreErr ErrDuplicateFinalityProvider)), d')"
    using created(3) v b tx
    by (simp add: CreateFinalityProvider_def createFinalityProviderInternal_def kv_Batch_def go_defs)
  ultimately show ?thesis by blast
qed

lemma demo_codec: "codec_laws demo_app"
proof -
  have "LegacyNewDecFromStr demo_app (LegacyDec_String demo_app c) = Ok c" for c
    by (cases "c < 0") (auto simp: demo_app_def Let_def nat_diff_distrib nat_mult_distrib)
  then show ?thesis by (auto simp: codec_laws_def demo_app_def)
qed

theorem create_then_get_witness:
  "\<exists>d' fp. CreateFinalityProvider demo_app [7] [9] demo_desc 0 ''key'' ''chain'' []
     [(finalityProviderBucketName, [])] = (Ok (), d') \<and>
     GetFinalityProvider demo_app [9] d' = (Ok fp, d') \<and> sfp_Status fp = CREATED"
proof -
  let ?d = "[(finalityProviderBucketName, [])] :: mem_db"
  let ?d' = "(finalityProviderBucketName, [([9], [9, 0, 0, 0])]) # ?d"
  have run: "CreateFinalityProvider demo_app [7] [9] demo_desc 0 ''key'' ''chain'' [] ?d = (Ok (), ?d')"
    by (simp add: CreateFinalityProvider_def createFinalityProviderInternal_def saveFinalityProvider_def kv_Batch_def
        go_defs mem_HasBucket_def mem_Get_def mem_Put_def demo_Marshal_def demo_fp_def)
  have p: "schnorr_ParsePubKey demo_app [9] = Ok [9]" "kv_begin demo_app ?d' = Ok ()" by simp_all
  show ?thesis using create_then_get [OF demo_store_laws demo_codec p run] run by auto
qed



definition synced_status :: "FinalityProviderStatus \<Rightarrow> u64 \<Rightarrow> FinalityProviderStatus" where
  "synced_status st vp = (if st = SLASHED then SLASHED else if vp > 0 then ACTIVE
     else if st = CREATED then REGISTERED else if st = ACTIVE then INACTIVE else st)"

text \<open>A sync of the voting power moves a provider along the documented transitions: SLASHED
  stays, any voting power makes it ACTIVE, and without voting power CREATED becomes REGISTERED
  and ACTIVE becomes INACTIVE. The store has the returned status and the same heights.\<close>

lemma sync_refines_synced_status:
  assumes ok: "store_ok L d" and st: "stored_status L d (sfp_BtcPk fp) = Some (sfp_Status fp)"
    and run: "UpdateFpStatusFromVotingPower L vp fp d = (Ok st', d')"
  shows "st' = synced_status (sfp_Status fp) vp \<and> stored_status L d' = (stored_status L d)(sfp_BtcPk fp \<mapsto> st') \<and>
    stored_heights L d' = stored_heights L d \<and> store_ok L d'"
proof -
  have set: "st' = x \<and> stored_status L d' = (stored_status L d)(sfp_BtcPk fp \<mapsto> x) \<and>
      stored_heights L d' = stored_heights L d \<and> store_ok L d'"
    if "try_go (SetFpStatus L (sfp_BtcPk fp) x) (\<lambda>_. ret x) d = (Ok st', d')" for x
  proof -
    from that obtain u where "SetFpStatus L (sfp_BtcPk fp) x d = (Ok u, d')" and x: "st' = x"
      by (elim try_go_OkE) (auto simp: ret_def)
    with SetFpStatus_stored [OF ok] fpstore.status_Ok [OF ok] show ?thesis by blast
  qed
  have same: "(stored_status L d)(sfp_BtcPk fp \<mapsto> sfp_Status fp) = stored_status L d" using st by auto
  show ?thesis
    using run ok same
    by (cases "sfp_Status fp")
       (auto simp: UpdateFpStatusFromVotingPower_def synced_status_def split: if_splits dest!: set ret_OkD)
qed

lemma demo_set_status: "SetFpStatus demo_app [9] st demo_db =
    (Ok (), (finalityProviderBucketName, [([9], [9, 3, 3, status_byte st]), ([9], [9, 3, 3, 2])]) # demo_db)"
  by (simp add: demo_db_def SetFpStatus_def setFinalityProviderState_def saveFinalityProvider_def kv_Batch_def go_defs
      mem_HasBucket_def mem_Get_def mem_Put_def demo_Unmarshal_def demo_Marshal_def demo_fp_def)

lemma demo_status: "stored_status demo_app demo_db [9] = Some ACTIVE"
  by (simp add: stored_status_def fp_at_def demo_db_def mem_Get_def demo_Unmarshal_def demo_fp_def byte_status_def)

lemma sync_refines_synced_status_witness:
  "\<exists>d'. UpdateFpStatusFromVotingPower demo_app 0 (ins_fp demo_ins) demo_db = (Ok INACTIVE, d') \<and>
     stored_status demo_app d' [9] = Some INACTIVE"
proof -
  have ok: "store_ok demo_app demo_db" using demo_store_laws demo_wf by (simp add: store_ok_def)
  have st: "stored_status demo_app demo_db (sfp_BtcPk (ins_fp demo_ins)) = Some (sfp_Status (ins_fp demo_ins))"
    by (simp add: demo_status)
  obtain d' where run: "UpdateFpStatusFromVotingPower demo_app 0 (ins_fp demo_ins) demo_db = (Ok INACTIVE, d')"
    by (simp add: UpdateFpStatusFromVotingPower_def handle_go_def demo_set_status ret_def)
  from sync_refines_synced_status [OF ok st run] run show ?thesis by simp
qed

lemma GetAll_forEach_Ok:
  assumes "GetAll_forEach L acc kvs = Ok fps"
  shows "\<exists>us. fps = acc @ us \<and> list_all2 (\<lambda>kv fp. \<exists>p. pm_Unmarshal L (snd kv) = Ok p \<and>
    protoFpToStoredFinalityProvider L p = Ok fp) kvs us"
  using assms
proof (induction kvs arbitrary: acc)
  case (Cons kv kvs)
  obtain k v where kv: "kv = (k, v)" by (cases kv)
  with Cons.prems obtain p fp where p: "pm_Unmarshal L v = Ok p" "protoFpToStoredFinalityProvider L p = Ok fp"
    and rest: "GetAll_forEach L (acc @ [fp]) kvs = Ok fps"
    by (auto split: res.splits)
  from Cons.IH [OF rest] obtain us where "fps = (acc @ [fp]) @ us"
    "list_all2 (\<lambda>kv fp. \<exists>p. pm_Unmarshal L (snd kv) = Ok p \<and> protoFpToStoredFinalityProvider L p = Ok fp) kvs us"
    by blast
  with p kv show ?case by (intro exI [of _ "fp # us"]) simp
qed auto

lemma stored_BtcPk: "protoFpToStoredFinalityProvider L p = Ok fp \<Longrightarrow> schnorr_ParsePubKey L (pfp_BtcPk p) = Ok (sfp_BtcPk fp)"
  by (auto simp: protoFpToStoredFinalityProvider_def go_defs split: res.splits option.splits)

text \<open>The list of all stored providers has exactly one entry per key of the store, each with
  the data stored under that key.\<close>

lemma all_providers_listed:
  assumes laws: "store_laws L" and wf: "fp_wf L d" and parse: "\<forall>pk pk'. schnorr_ParsePubKey L pk = Ok pk' \<longrightarrow> pk' = pk"
    and run: "GetAllStoredFinalityProviders L d = (Ok fps, d')"
  shows "d' = d \<and> distinct (map sfp_BtcPk fps) \<and>
    (\<forall>k fp. fp \<in> set fps \<and> sfp_BtcPk fp = k \<longleftrightarrow>
       (\<exists>p. fp_at L d k = Some p \<and> protoFpToStoredFinalityProvider L p = Ok fp)) \<and>
    (\<forall>k p. fp_at L d k = Some p \<longrightarrow> (\<exists>fp. protoFpToStoredFinalityProvider L p = Ok fp))"
proof -
  let ?es = "kv_Entries L d finalityProviderBucketName"
  have kv: "kv_laws L" using laws by (simp add: store_laws_def)
  note entries = kv_Entries_laws [OF kv, where d = d and b = finalityProviderBucketName]
  from run have d: "d' = d" and all: "GetAll_forEach L [] ?es = Ok fps"
    unfolding GetAllStoredFinalityProviders_def by (auto dest!: kv_View_OkD split: if_splits)
  from GetAll_forEach_Ok [OF all] have rel: "list_all2 (\<lambda>kv fp. \<exists>p. pm_Unmarshal L (snd kv) = Ok p \<and>
    protoFpToStoredFinalityProvider L p = Ok fp) ?es fps" by simp
  have key: "sfp_BtcPk fp = k" if "(k, v) \<in> set ?es" "pm_Unmarshal L v = Ok p" "protoFpToStoredFinalityProvider L p = Ok fp"
    for k v p fp
  proof -
    have "fp_at L d k = Some p" using that entries by (simp add: fp_at_def)
    then have "pfp_BtcPk p = k" using wf by (auto simp: fp_wf_def fp_ok_def)
    with stored_BtcPk [OF that(3)] parse show ?thesis by metis
  qed
  have keys: "map sfp_BtcPk fps = map fst ?es"
  proof (rule nth_equalityI)
    show "length (map sfp_BtcPk fps) = length (map fst ?es)" using rel by (simp add: list_all2_lengthD)
    fix i assume i: "i < length (map sfp_BtcPk fps)"
    then have "i < length ?es" using rel by (simp add: list_all2_lengthD)
    with list_all2_nthD [OF rel this] key [of "fst (?es ! i)" "snd (?es ! i)"] i
    show "map sfp_BtcPk fps ! i = map fst ?es ! i" by auto
  qed
  have mem: "fp \<in> set fps \<longleftrightarrow> (\<exists>kv \<in> set ?es. \<exists>p. pm_Unmarshal L (snd kv) = Ok p \<and>
      protoFpToStoredFinalityProvider L p = Ok fp)" for fp
    using rel by (force simp: in_set_conv_nth list_all2_conv_all_nth)
  have "fp \<in> set fps \<and> sfp_BtcPk fp = k \<longleftrightarrow>
      (\<exists>p. fp_at L d k = Some p \<and> protoFpToStoredFinalityProvider L p = Ok fp)" (is "?l = ?r") for k fp
  proof
    assume l: ?l
    then obtain k' v p where e: "(k', v) \<in> set ?es" "pm_Unmarshal L v = Ok p" "protoFpToStoredFinalityProvider L p = Ok fp"
      using mem by (metis prod.collapse)
    with key [OF e] l entries(1) show ?r by (auto simp: fp_at_def)
  next
    assume ?r
    then obtain v p where e: "(k, v) \<in> set ?es" "pm_Unmarshal L v = Ok p" "protoFpToStoredFinalityProvider L p = Ok fp"
      using entries(1) by (auto simp: fp_at_def split: option.splits res.splits)
    with key [OF e] mem show ?l by force
  qed
  moreover have "\<exists>fp. protoFpToStoredFinalityProvider L p = Ok fp" if "fp_at L d k = Some p" for k p
  proof -
    from that obtain v where "(k, v) \<in> set ?es" "pm_Unmarshal L v = Ok p"
      using entries(1) by (auto simp: fp_at_def split: option.splits res.splits)
    with rel show ?thesis by (force simp: in_set_conv_nth list_all2_conv_all_nth)
  qed
  moreover have "distinct (map sfp_BtcPk fps)" using keys entries(2) by simp
  ultimately show ?thesis using d by (intro conjI allI impI)
qed

lemma all_providers_listed_witness:
  "\<exists>fps. GetAllStoredFinalityProviders demo_app demo_db = (Ok fps, demo_db) \<and> map sfp_BtcPk fps = [[9]] \<and>
     distinct (map sfp_BtcPk fps)"
proof -
  obtain fps where run: "GetAllStoredFinalityProviders demo_app demo_db = (Ok fps, demo_db)"
    and keys: "map sfp_BtcPk fps = [[9]]"
    by (simp add: GetAllStoredFinalityProviders_def kv_View_def go_defs demo_db_def mem_HasBucket_def mem_Entries_def
        demo_Unmarshal_def demo_fp_def protoFpToStoredFinalityProvider_def)
  have p: "\<forall>pk pk'. schnorr_ParsePubKey demo_app pk = Ok pk' \<longrightarrow> pk' = pk" by simp
  have "distinct (map sfp_BtcPk fps)"
    by (rule all_providers_listed [OF demo_store_laws demo_wf p run, THEN conjunct2, THEN conjunct1])
  with run keys show ?thesis by (intro exI [of _ fps] conjI)
qed

section \<open>The proof store\<close>

lemma put_proofs_bucket:
  assumes "kv_laws L" and "put_proofs L kvs t = (Ok u, t')"
  shows "kv_HasBucket L t' b = kv_HasBucket L t b"
  using assms(2)
proof (induction kvs arbitrary: t)
  case (Cons kv kvs)
  obtain k v where kv: "kv = (k, v)" by (cases kv)
  from Cons.prems [unfolded kv] show ?case
    by (rule put_proofs_ConsE) (use Cons.IH kv_Put_laws(1) [OF assms(1)] in metis)+
qed (simp add: ret_def)

lemma AddPubRandProofList_bucket:
  assumes "kv_laws L" and "AddPubRandProofList L prs pfs d = (Ok u, d')"
  shows "kv_HasBucket L d' pubRandProofBucketName"
  using assms
  by (auto simp: AddPubRandProofList_def go_defs put_proofs_bucket kv_commit_laws split: if_splits res.splits
      elim!: kv_Batch_OkE)

text \<open>C21. Proofs of new public randomness come back as they were added, in the order asked for.\<close>

theorem proofs_round_trip:
  assumes laws: "kv_laws L" and tx: "kv_begin L d' = Ok ()"
    and new: "distinct prs" "\<forall>pr \<in> set prs. proof_at L d pr = None"
    and run: "AddPubRandProofList L prs pfs d = (Ok u, d')"
  shows "\<exists>bs. marshal_proofs L pfs = Ok bs \<and> length bs = length prs \<and>
    GetPubRandProofList L prs d' = (Ok bs, d') \<and>
    (\<forall>i < length prs. GetPubRandProof L (prs ! i) d' = (Ok (bs ! i), d'))"
  using laws run
proof (rule AddPubRandProofList_Ok)
  fix bs assume bs: "length prs = length pfs" "marshal_proofs L pfs = Ok bs"
    and at: "proof_at L d' = map_of (zip prs bs) ++ proof_at L d"
  have len: "length bs = length prs" using bs marshal_proofs_length [OF bs(2)] by simp
  have has: "kv_HasBucket L d' pubRandProofBucketName" using laws run by (rule AddPubRandProofList_bucket)
  have i: "proof_at L d' (prs ! i) = Some (bs ! i)" if "i < length prs" for i
    using that at new len by (simp add: map_add_Some_iff map_of_zip_nth)
  then have "map (proof_at L d') prs = map Some bs" using len by (intro nth_equalityI) simp_all
  then have "GetPubRandProofList L prs d' = (Ok bs, d')"
    using has tx by (simp add: GetPubRandProofList_def kv_View_def go_defs get_proofs_found)
  moreover have "\<forall>i < length prs. GetPubRandProof L (prs ! i) d' = (Ok (bs ! i), d')"
    using has tx i by (auto simp: GetPubRandProof_def kv_View_def go_defs proof_at_def split: option.splits)
  ultimately show ?thesis using bs len by blast
qed

theorem proofs_round_trip_witness:
  "GetPubRandProofList demo_app [demo_pr 4, demo_pr 5] demo_db4 = (Ok [[0], [1]], demo_db4)"
proof -
  have laws: "kv_laws demo_app" using demo_store_laws by (simp add: store_laws_def)
  have new: "\<forall>pr \<in> set [demo_pr 4, demo_pr 5]. proof_at demo_app demo_db pr = None"
    by (simp add: proof_at_def demo_db_def mem_Get_def pubRandProofBucketName_def finalityProviderBucketName_def)
  have "distinct [demo_pr 4, demo_pr 5]" "kv_begin demo_app demo_db4 = Ok ()" by simp_all
  from proofs_round_trip [OF laws this(2,1) new demo_add] show ?thesis by (auto simp: demo_proof_def)
qed

text \<open>A proof that is stored is never replaced: adding a list keeps the proof of every public
  randomness that had one, also when the new commitment has another proof for it.\<close>

lemma first_proof_wins:
  assumes "kv_laws L" and "AddPubRandProofList L prs pfs d = (r, d')" and "proof_at L d pr = Some v"
  shows "proof_at L d' pr = Some v"
proof (cases "r = Ok ()")
  case True
  with assms(2) have "AddPubRandProofList L prs pfs d = (Ok (), d')" by simp
  with assms(1) show ?thesis by (rule AddPubRandProofList_Ok) (simp add: assms(3))
next
  case False
  with AddPubRandProofList_failed [OF assms(2)] assms(3) show ?thesis by simp
qed

lemma first_proof_wins_witness:
  "proof_at demo_app (snd (AddPubRandProofList demo_app [demo_pr 4] [demo_proof\<lparr>Index := 7\<rparr>] demo_db4)) (demo_pr 4) = Some [0]"
proof -
  have laws: "kv_laws demo_app" using demo_store_laws by (simp add: store_laws_def)
  have "proof_at demo_app demo_db4 (demo_pr 4) = Some [0]" by (simp add: proof_at_def demo_db4_def mem_Get_def)
  from first_proof_wins [OF laws prod.collapse [symmetric] this] show ?thesis .
qed

end
