(* ===== verification/EotsProperties.thy ===== *)
theory EotsProperties
  imports DemoRuns
begin

text \<open>
  The properties of the EOTS manager (\<^verbatim>\<open>eotsmanager\<close>): the store of key names, the
  randomness of the local manager, and the gRPC client.
\<close>

section \<open>Keys and randomness\<close>

text \<open>C9. For every height of a list of public randomness, a signature that the manager makes later at
  this height is made with the private part of the randomness the list has for it, and asking for
  the list again gives the same list.\<close>

theorem listed_randomness_is_used:
  assumes "keyring_readonly L" and "lm_CreateRandomnessPairList L pk cid h n pass s = (Ok prs, s1)"
    and "i < unat n" and "lm_SignEOTS L pk cid msg (h + of_nat i) pass s1 = (Ok sg, s2)"
    and "lm_CreateRandomnessPairList L pk cid h n pass s2 = (Ok prs', s3)"
  shows "length prs = unat n \<and> lm_signedWith L s pk pass (prs ! i) msg sg \<and> prs' = prs"
proof -
  note frame = local_em.sign_frame [OF assms(1,4)] local_em.create_frame [OF assms(1,2)]
  have "prs' = prs"
    using local_em.create_nth [OF assms(1,2)] local_em.create_nth [OF assms(1,5)] frame
    by (auto intro!: nth_equalityI)
  with local_em.create_nth [OF assms(1,2)] local_em.listed_then_signed [OF assms(1-4)] show ?thesis by simp
qed

theorem listed_randomness_is_used_witness:
  "\<exists>prs sg. fst (lm_CreateRandomnessPairList demo_eots [9] [] 4 2 '''' (demo_em demo_idle)) = Ok prs \<and> length prs = 2 \<and>
     lm_signedWith demo_eots (demo_em demo_idle) [9] '''' (prs ! 1) [3] sg"
proof -
  define prs where "prs = map (\<lambda>m. demo_rand [] (4 + of_nat m)) [0..<unat (2 :: u32)]"
  have list: "lm_CreateRandomnessPairList demo_eots [9] [] 4 2 '''' (demo_em i) = (Ok prs, demo_em (demo_listed 4 ('''', snd i)))" for i
    by (simp add: lm_CreateRandomnessPairList_def handle_go_def demo_loop prs_def upt_rec lm_meter_apply demo_em_meter
        demo_listed_def ret_def)
  obtain sg i where sg: "lm_SignEOTS demo_eots [9] [] [3] (4 + of_nat 1) '''' (demo_em (demo_listed 4 ('''', snd demo_idle))) = (Ok sg, demo_em i)"
    by (simp add: lm_SignEOTS_def demo_pair demo_key demo_em_meter go_defs)
  have i: "1 < unat (2 :: u32)" by simp
  show ?thesis
    using listed_randomness_is_used [OF demo_eots_laws(2) list i sg list] list by auto
qed

text \<open>A key name that was added is the one looked up, no other key changes, and a key that has a
  name, an empty name and a lookup of an unknown key are errors.\<close>

lemma key_names:
  assumes laws: "kv_laws K" and has: "kv_HasBucket K d eotsBucketName" and tx: "\<forall>d. kv_begin K d = Ok ()"
  shows "(AddEOTSKeyName K pk nm d = (Ok u, d') \<longrightarrow> GetEOTSKeyName K pk d' = (Ok nm, d') \<and>
      (\<forall>pk' \<noteq> pk. key_name_at K d' pk' = key_name_at K d pk')) \<and>
    (key_name_at K d pk \<noteq> None \<longrightarrow>
      AddEOTSKeyName K pk nm d = (Err (Sentinel (EotsStoreErr ErrDuplicateEOTSKeyName)), d)) \<and>
    (key_name_at K d pk = None \<longrightarrow> AddEOTSKeyName K pk '''' d = (Err (NewErr ''cannot save empty key name''), d) \<and>
      GetEOTSKeyName K pk d = (Err (Sentinel (EotsStoreErr ErrEOTSKeyNameNotFound)), d))"
proof -
  have 1: "GetEOTSKeyName K pk d' = (Ok nm, d') \<and> (\<forall>pk' \<noteq> pk. key_name_at K d' pk' = key_name_at K d pk')"
    if "AddEOTSKeyName K pk nm d = (Ok u, d')"
  proof -
    note * = AddEOTSKeyName_Ok [OF laws that]
    have at: "key_name_at K d' pk = Some nm" using * by simp
    then obtain v where "kv_Get K d' eotsBucketName pk = Some v" "string_of_bytes v = nm"
      by (auto simp: key_name_at_def)
    then have "GetEOTSKeyName K pk d' = (Ok nm, d')"
      using * tx by (simp add: GetEOTSKeyName_def kv_View_def go_defs)
    with * show ?thesis by simp
  qed
  have 2: "AddEOTSKeyName K pk nm d = (Err (Sentinel (EotsStoreErr ErrDuplicateEOTSKeyName)), d)"
    if "key_name_at K d pk \<noteq> None"
    using that has tx by (auto simp: AddEOTSKeyName_def key_name_at_def kv_Batch_def go_defs)
  have 3: "AddEOTSKeyName K pk '''' d = (Err (NewErr ''cannot save empty key name''), d) \<and>
      GetEOTSKeyName K pk d = (Err (Sentinel (EotsStoreErr ErrEOTSKeyNameNotFound)), d)"
    if "key_name_at K d pk = None"
    using that has tx
    by (simp add: AddEOTSKeyName_def GetEOTSKeyName_def saveEOTSKeyName_def key_name_at_def kv_Batch_def kv_View_def go_defs)
  from 1 2 3 show ?thesis by blast
qed

lemma key_names_witness:
  "AddEOTSKeyName demo_eots [9] ''new'' (lm_es (demo_em demo_idle)) =
     (Err (Sentinel (EotsStoreErr ErrDuplicateEOTSKeyName)), lm_es (demo_em demo_idle))"
proof -
  have has: "kv_HasBucket demo_eots (lm_es (demo_em demo_idle)) eotsBucketName"
    and tx: "\<forall>d. kv_begin demo_eots d = Ok ()"
    and at: "key_name_at demo_eots (lm_es (demo_em demo_idle)) [9] \<noteq> None"
    by (simp_all add: demo_em_def mem_HasBucket_def key_name_at_def mem_Get_def)
  from key_names [OF demo_eots_laws(1) has tx, of "[9]" "''new''"] at show ?thesis by blast
qed

text \<open>A keyring that does not know the name yet.\<close>

definition demo_new :: "(mem_db, unit) eots_lib" where
  "demo_new = demo_eots\<lparr>keyring_Key := (\<lambda>n. fail (NewErr ''key not found''))\<rparr>"

lemma lm_keyring_es: "lm_keyring m s = (r, t) \<Longrightarrow> lm_es t = lm_es s"
  by (auto simp: lm_keyring_def zoom_go_def split: prod.splits)

lemma CreateKeyWithMnemonic_Ok:
  assumes "CreateKeyWithMnemonic L name pass hp m s = (Ok pk, s')"
  shows "AddEOTSKeyName L pk name (lm_es s) = (Ok (), lm_es s')"
proof -
  from assms obtain ex s1 where 1: "keyExists L name s = (Ok ex, s1)"
    and rest: "(if ex then fail (Sentinel (EotsTypesErr ErrFinalityProviderAlreadyExisted))
     else get_go lm_kr (\<lambda>kr.
     try_go (of_res (NewSigningAlgoFromString L ''secp256k1'' (keyring_SupportedAlgorithms L kr))) (\<lambda>algo.
     input_Reset (pass @ [CHR 0x0A] @ pass) (
     try_go (lm_keyring (keyring_NewAccount L name m pass hp algo)) (\<lambda>record.
     try_go (loadBIP340PubKeyFromKeyringRecord L record) (\<lambda>eotsPk.
     try_go (lm_store (AddEOTSKeyName L eotsPk name)) (\<lambda>_. lm_meter IncrementEotsCreatedKeysCounter (ret eotsPk)))))))) s1 = (Ok pk, s')"
    unfolding CreateKeyWithMnemonic_def by (rule try_go_OkE)
  from 1 have es1: "lm_es s1 = lm_es s"
    by (auto simp: keyExists_def ret_def dest!: handle_go_Ok dest: lm_keyring_es)
  from rest obtain algo where "input_Reset (pass @ [CHR 0x0A] @ pass) (
     try_go (lm_keyring (keyring_NewAccount L name m pass hp algo)) (\<lambda>record.
     try_go (loadBIP340PubKeyFromKeyringRecord L record) (\<lambda>eotsPk.
     try_go (lm_store (AddEOTSKeyName L eotsPk name)) (\<lambda>_. lm_meter IncrementEotsCreatedKeysCounter (ret eotsPk))))) s1 = (Ok pk, s')"
    by (auto simp: fail_def get_go_def of_res_def split: if_splits elim!: try_go_OkE)
  then obtain rec s3 eotsPk s4 s5 u where "lm_keyring (keyring_NewAccount L name m pass hp algo)
       (s1\<lparr>lm_input := pass @ [CHR 0x0A] @ pass\<rparr>) = (Ok rec, s3)"
    and load: "loadBIP340PubKeyFromKeyringRecord L rec s3 = (Ok eotsPk, s4)"
    and add: "lm_store (AddEOTSKeyName L eotsPk name) s4 = (Ok u, s5)" and pk: "pk = eotsPk" "lm_es s' = lm_es s5"
    unfolding input_Reset_def upd_go_def by (elim try_go_OkE) (auto simp: ret_def lm_meter_apply)
  then have es3: "lm_es s3 = lm_es s" using es1 by (auto dest: lm_keyring_es)
  from load have "s4 = s3"
    by (auto simp: loadBIP340PubKeyFromKeyringRecord_def go_defs split: res.splits any_PubKey.splits)
  with es3 add pk show ?thesis by (auto simp: lm_store_def zoom_go_def split: prod.splits)
qed

text \<open>A key that was created is new, and its public key is bound to the name it was created with:
  the manager finds the record of this name for it.\<close>

lemma created_key_is_bound:
  assumes laws: "kv_laws L" and run: "CreateKey L name pass hp s = (Ok pk, s')"
  shows "key_name_at L (lm_es s) pk = None \<and> name \<noteq> '''' \<and>
    key_name_at L (lm_es s') = (key_name_at L (lm_es s))(pk \<mapsto> name)"
proof -
  from run obtain m t where m: "NewMnemonic L s = (Ok m, t)"
    and c: "CreateKeyWithMnemonic L name pass hp m t = (Ok pk, s')"
    unfolding CreateKey_def by (elim try_go_OkE) (auto simp: ret_def elim: try_go_OkE)
  from m have "lm_es t = lm_es s" by (auto simp: NewMnemonic_def go_defs split: prod.splits res.splits)
  with CreateKeyWithMnemonic_Ok [OF c] AddEOTSKeyName_Ok [OF laws] show ?thesis by metis
qed

lemma created_key_is_bound_witness:
  "\<exists>s'. CreateKey demo_new ''n'' '''' '''' \<lparr>lm_kr = (), lm_es = [(eotsBucketName, [])], lm_input = '''', lm_metrics = snd demo_idle\<rparr> = (Ok [9], s') \<and>
     key_name_at demo_new (lm_es s') [9] = Some ''n''"
proof -
  let ?s = "\<lparr>lm_kr = (), lm_es = [(eotsBucketName, [])], lm_input = '''', lm_metrics = snd demo_idle\<rparr> :: (mem_db, unit) LocalEOTSManager"
  obtain s' where run: "CreateKey demo_new ''n'' '''' '''' ?s = (Ok [9], s')"
    by (simp add: CreateKey_def NewMnemonic_def CreateKeyWithMnemonic_def keyExists_def lm_keyring_def lm_store_def
        input_Reset_def loadBIP340PubKeyFromKeyringRecord_def AddEOTSKeyName_def saveEOTSKeyName_def kv_Batch_def go_defs
        demo_new_def demo_eots_def mem_HasBucket_def mem_Get_def mem_Put_def)
  have "kv_laws demo_new" by (simp add: demo_new_def demo_eots_def mem_laws)
  from created_key_is_bound [OF this run] run show ?thesis by auto
qed

section \<open>The manager behind gRPC\<close>

text \<open>C10. Over a network that loses nothing, the gRPC client is the manager behind it: each operation
  has the same result and the same effect on the manager, only the texts of errors change.\<close>

theorem grpc_client_is_the_manager:
  assumes net: "lossless N" and dec: "em_canonical N em"
  shows "em_CreateKey (grpc_EOTSManager N em) nm pass hp s = (let r = em_CreateKey em nm pass hp (fst s) in
      (res_map (rpc_status N) (\<lambda>a. a) (fst r), snd r, snd s)) \<and>
    em_CreateRandomnessPairList (grpc_EOTSManager N em) u c h n pass s =
      (let r = em_CreateRandomnessPairList em u c h n pass (fst s) in
      (res_map (rpc_status N) (\<lambda>a. a) (fst r), snd r, snd s)) \<and>
    em_KeyRecord (grpc_EOTSManager N em) u pass s = (let r = em_KeyRecord em u pass (fst s) in
      (res_map (rpc_status N) (\<lambda>a. a) (fst r), snd r, snd s)) \<and>
    em_SignEOTS (grpc_EOTSManager N em) u c m h pass s = (let r = em_SignEOTS em u c m h pass (fst s) in
      (res_map (rpc_status N) (\<lambda>a. a) (fst r), snd r, snd s)) \<and>
    em_SignSchnorrSig (grpc_EOTSManager N em) u m pass s = (let r = em_SignSchnorrSig em u m pass (fst s) in
      (res_map (rpc_status N) (\<lambda>a. a) (fst r), snd r, snd s))"
proof -
  note defs = grpc_EOTSManager_def cl_CreateKey_def cl_CreateRandomnessPairList_def cl_KeyRecord_def cl_SignEOTS_def
    cl_SignSchnorrSig_def srv_CreateKey_def srv_CreateRandomnessPairList_def srv_KeyRecord_def srv_SignEOTS_def
    srv_SignSchnorrSig_def rpc_call_lossless [OF net] go_defs res_map_def
  note canon = em_canonicalD [OF dec]
  have 1: "em_CreateKey (grpc_EOTSManager N em) nm pass hp s = (let r = em_CreateKey em nm pass hp (fst s) in
      (res_map (rpc_status N) (\<lambda>a. a) (fst r), snd r, snd s))"
    by (auto simp: defs split: prod.splits res.splits)
  have 2: "em_CreateRandomnessPairList (grpc_EOTSManager N em) u c h n pass s =
      (let r = em_CreateRandomnessPairList em u c h n pass (fst s) in
      (res_map (rpc_status N) (\<lambda>a. a) (fst r), snd r, snd s))"
    using canon(1) by (auto simp: defs split: prod.splits res.splits)
  have 3: "em_KeyRecord (grpc_EOTSManager N em) u pass s = (let r = em_KeyRecord em u pass (fst s) in
      (res_map (rpc_status N) (\<lambda>a. a) (fst r), snd r, snd s))"
    using canon(4) by (auto simp: defs split: prod.splits res.splits)
  have 4: "em_SignEOTS (grpc_EOTSManager N em) u c m h pass s = (let r = em_SignEOTS em u c m h pass (fst s) in
      (res_map (rpc_status N) (\<lambda>a. a) (fst r), snd r, snd s))"
    using canon(2) by (auto simp: defs split: prod.splits res.splits)
  have 5: "em_SignSchnorrSig (grpc_EOTSManager N em) u m pass s = (let r = em_SignSchnorrSig em u m pass (fst s) in
      (res_map (rpc_status N) (\<lambda>a. a) (fst r), snd r, snd s))"
    using canon(3) by (auto simp: defs split: prod.splits res.splits)
  from 1 2 3 4 5 show ?thesis by blast
qed

theorem grpc_client_is_the_manager_witness:
  "fst (em_SignEOTS (grpc_EOTSManager demo_net (local_EOTSManager demo_eots)) [9] [] [3] 4 '''' (demo_em demo_idle, ())) =
     Ok (bytes_of_string ''k'' @ tl (demo_rand [] 4) @ [3])"
proof -
  have "fst (em_SignEOTS (local_EOTSManager demo_eots) [9] [] [3] 4 '''' (demo_em demo_idle)) =
      Ok (bytes_of_string ''k'' @ tl (demo_rand [] 4) @ [3])"
    by (simp add: local_EOTSManager_def lm_SignEOTS_def demo_pair demo_key go_defs)
  moreover note grpc_client_is_the_manager [OF demo_eots_laws(3) demo_canonical,
      of "local_EOTSManager demo_eots" "''''" "''''" "''''" "(demo_em demo_idle, ())" "[9]" "[]" 4 0 "[3]"]
  ultimately show ?thesis by (auto simp: res_map_def Let_def)
qed

lemma client_once:
  "fst (snd (try_go (rpc_call N (try_go h (\<lambda>a. ret (g a)))) (\<lambda>a. of_res (f a)) s)) \<in> {fst s, snd (h (fst s))}"
proof -
  have "snd (try_go h (\<lambda>a. ret (g a)) w) = snd (h w)" for w
    by (cases "h w"; cases "fst (h w)") (auto simp: go_defs)
  with rpc_client_once [of N "try_go h (\<lambda>a. ret (g a))" f s] show ?thesis by (metis insert_iff prod.collapse)
qed

lemma client_once_ret:
  "fst (snd (try_go (rpc_call N (try_go h (\<lambda>a. ret (g a)))) (\<lambda>a. ret (k a)) s)) \<in> {fst s, snd (h (fst s))}"
  using client_once [where f = "\<lambda>a. Ok (k a)"] by (simp add: of_res_def ret_def)


end
