(* ===== verification/ChainProperties.thy ===== *)
theory ChainProperties
  imports DemoRuns
begin

text \<open>
  The properties of the chain poller (\<^verbatim>\<open>chain_poller.go\<close>) and of the Babylon controller
  (\<^verbatim>\<open>clientcontroller/babylon.go\<close>).
\<close>

section \<open>The poller\<close>

text \<open>The states of a poller that was started at a height, with what its consumer received since the start
  or the last skip.\<close>

definition polled :: "'w poller_env \<Rightarrow> u64 \<Rightarrow> 'w poll_sys \<Rightarrow> bool" where
  "polled P h t \<longleftrightarrow> (\<exists>n w m s. cp_Start P n h \<lparr>pl_ext = w, pl_cp = NewChainPoller, pl_metrics = m\<rparr> = (Ok (), s) \<and>
     poller_reach P \<lparr>pl_ext = pl_ext s, pl_cp = pl_cp s, pl_metrics = pl_metrics s, sys_received = [], sys_base = h\<rparr> t)"

lemma bestHeight_loop_Ok:
  assumes "bestHeight_loop P n s = (Ok x, s')"
  shows "(\<exists>b w w'. retry_Do (pe_RetryIf P) RtyAttNum (cc_QueryBestBlock (pe_cc P)) w = (Ok b, w') \<and> x = Height b) \<and>
    pl_cp s' = pl_cp s"
  using assms
proof (induction n arbitrary: s)
  case (Suc n)
  obtain r s1 where q: "latestBlockWithRetry P s = (r, s1)" by (metis surj_pair)
  then obtain w where w: "retry_Do (pe_RetryIf P) RtyAttNum (cc_QueryBestBlock (pe_cc P)) (pl_ext s) = (r, w)"
    and s1: "s1 = s\<lparr>pl_ext := w\<rparr>"
    by (auto simp: latestBlockWithRetry_def on_chain_def zoom_go_def split: prod.splits)
  show ?case
  proof (cases r)
    case (Ok b)
    with Suc.prems q have "x = Height b \<and> s' = s1" by (simp add: handle_go_def ret_def)
    with w Ok s1 show ?thesis by auto
  next
    case (Err e)
    with Suc.prems q have "bestHeight_loop P n s1 = (Ok x, s')" by (simp add: handle_go_def)
    from Suc.IH [OF this] s1 show ?thesis by simp
  qed (use Suc.prems q in \<open>simp_all add: handle_go_def\<close>)
qed (simp add: running_def)

lemma cp_Start_Ok:
  assumes "cp_Start P n h s = (Ok (), s')"
  shows "\<not> cp_isStarted (pl_cp s) \<and> h \<noteq> 0 \<and>
    (\<exists>b w w'. retry_Do (pe_RetryIf P) RtyAttNum (cc_QueryBestBlock (pe_cc P)) w = (Ok b, w') \<and> h \<le> Height b + 1) \<and>
    pl_cp s' = (pl_cp s)\<lparr>cp_isStarted := True, cp_nextHeight := h, cp_pc := Activating\<rparr>"
proof -
  let ?s = "set_cp (\<lambda>cp. cp\<lparr>cp_isStarted := True\<rparr>) s"
  have started: "\<not> cp_isStarted (pl_cp s)"
    using assms by (auto simp: cp_Start_def get_go_def upd_go_def fail_def)
  with assms obtain s1 where valid: "validateStartHeight P n h ?s = (Ok (), s1)"
    and s': "pl_cp s' = (pl_cp s1)\<lparr>cp_nextHeight := h, cp_pc := Activating\<rparr>"
    by (auto simp: cp_Start_def get_go_def upd_go_def ret_def pl_meter_def set_cp_def elim!: try_go_OkE)
  have h: "h \<noteq> 0" using valid by (auto simp: validateStartHeight_def fail_def)
  with valid obtain best s2 where "bestHeight_loop P n ?s = (Ok best, s2)"
    "(if h > best + 1 then fail (NewErr (''start height '' @ fmt_u64 h @
          '' is more than the next chain tip height '' @ fmt_u64 (best + 1))) else ret ()) s2 = (Ok (), s1)"
    by (simp only: validateStartHeight_def if_False) (erule try_go_OkE)
  then have loop: "bestHeight_loop P n ?s = (Ok best, s1)" and pre: "h \<le> best + 1"
    by (auto simp: fail_def ret_def not_less split: if_splits)
  from bestHeight_loop_Ok [OF loop] pre s' started h show ?thesis by (auto simp: set_cp_def)
qed

lemma polled_inv:
  assumes "block_law B" and "cc_QueryBlock (pe_cc P) = bbn_QueryBlock B" and "polled P h t"
  shows "poller_inv P t"
proof -
  from assms(3) obtain n w m s where start: "cp_Start P n h \<lparr>pl_ext = w, pl_cp = NewChainPoller, pl_metrics = m\<rparr> = (Ok (), s)"
    and reach: "poller_reach P \<lparr>pl_ext = pl_ext s, pl_cp = pl_cp s, pl_metrics = pl_metrics s, sys_received = [], sys_base = h\<rparr> t"
    by (auto simp: polled_def)
  from cp_Start_Ok [OF start] have "poller_inv P \<lparr>pl_ext = pl_ext s, pl_cp = pl_cp s, pl_metrics = pl_metrics s, sys_received = [], sys_base = h\<rparr>"
    by (simp add: poller_inv_def sys_blocks_def pending_def NewChainPoller_def)
  with babylon.poller_reach_inv [OF assms(2,1) reach] show ?thesis by blast
qed

text \<open>C5. Whatever the interleaving of the poller, its consumer, skips and stops, the blocks the consumer
  received since the start or the last skip have consecutive heights, the blocks in the channel
  follow them, the channel never holds more than its capacity, and the next height to retrieve
  follows them all: no block is lost, repeated or reordered.\<close>

theorem poller_delivers_consecutive_heights:
  assumes "block_law B" and "cc_QueryBlock (pe_cc P) = bbn_QueryBlock B" and "polled P h t"
  shows "(\<forall>i < length (sys_received t @ cp_blockInfoChan (pl_cp t)).
      unat (Height ((sys_received t @ cp_blockInfoChan (pl_cp t)) ! i)) = unat (sys_base t) + i) \<and>
    length (cp_blockInfoChan (pl_cp t)) \<le> unat (BufferSize (pe_cfg P)) \<and>
    NextHeight (pl_cp t) = sys_base t + of_nat (length (sys_blocks t))"
proof -
  have inv: "poller_inv P t" using assms by (rule polled_inv)
  have "unat (Height ((sys_received t @ cp_blockInfoChan (pl_cp t)) ! i)) = unat (sys_base t) + i"
    if "i < length (sys_received t @ cp_blockInfoChan (pl_cp t))" for i
  proof -
    have "sys_blocks t ! i = (sys_received t @ cp_blockInfoChan (pl_cp t)) ! i" "i < length (sys_blocks t)"
      using that by (simp_all add: sys_blocks_def nth_append)
    with poller_inv_height(1) [OF inv, of i] show ?thesis by simp
  qed
  with inv show ?thesis by (auto simp: poller_inv_def capacity_def NextHeight_def)
qed

subsection \<open>A concrete poller\<close>

definition demo_P :: "u32 \<Rightarrow> sdk_Msg list poller_env" where
  "demo_P n = \<lparr>pe_cc = Babylon_ClientController demo_bbn, pe_cfg = DefaultChainPollerConfig\<lparr>BufferSize := n\<rparr>,
     pe_RetryIf = (\<lambda>e. True)\<rparr>"

definition demo_pm :: FpMetrics where
  "demo_pm = RecordPollerStartingHeight 4 demo_fm"

definition demo_pm5 :: FpMetrics where
  "demo_pm5 = RecordLastPolledHeight 4 demo_pm"

definition demo_poll :: "FpMetrics \<Rightarrow> BlockInfo list \<Rightarrow> u64 \<Rightarrow> poller_pc \<Rightarrow> BlockInfo list \<Rightarrow> u64 \<Rightarrow> sdk_Msg list poll_sys" where
  "demo_poll m chan h pc rs base = \<lparr>pl_ext = [], pl_cp = \<lparr>cp_isStarted = True, cp_quit = False, cp_blockInfoChan = chan,
     cp_nextHeight = h, cp_failedCycles = 0, cp_pc = pc\<rparr>, pl_metrics = m, sys_received = rs, sys_base = base\<rparr>"

lemma demo_block_law: "block_law demo_bbn"
proof -
  have "unat h < 2 ^ 63" if "h \<le> 100" for h :: u64
    using that by (simp add: word_le_nat_alt)
  then show ?thesis by (auto simp: block_law_def ret_def fail_def split: if_splits)
qed

lemma demo_P_simps [simp]: "cc_QueryBlock (pe_cc (demo_P n)) = bbn_QueryBlock demo_bbn"
  "capacity (demo_P n) = unat n" "BufferSize (pe_cfg (demo_P n)) = n"
  by (simp_all add: demo_P_def Babylon_ClientController_def capacity_def)

lemma demo_best: "retry_Do f n (cc_QueryBestBlock (pe_cc (demo_P m))) w = (Ok (demo_bi 100), w)"
  by (rule retry_Do_Ok) (simp add: demo_P_def Babylon_ClientController_def bbn_QueryBestBlock_def queryLatestBlocks_def
      demo_page_def demo_block_def demo_bi_def go_defs)

lemma demo_started: "polled (demo_P n) 4 (demo_poll demo_pm [] 4 Activating [] 4)"
proof -
  have "latestBlockWithRetry (demo_P n) s = (Ok (demo_bi 100), s)" for s :: "sdk_Msg list polling"
    by (simp add: latestBlockWithRetry_def on_chain_def zoom_go_def demo_best)
  then have "cp_Start (demo_P n) 1 4 \<lparr>pl_ext = [], pl_cp = NewChainPoller, pl_metrics = demo_fm\<rparr> =
      (Ok (), \<lparr>pl_ext = [], pl_cp = pl_cp (demo_poll demo_pm [] 4 Activating [] 4), pl_metrics = demo_pm\<rparr>)"
    by (simp add: cp_Start_def validateStartHeight_def NewChainPoller_def demo_poll_def set_cp_def handle_go_def
        get_go_def upd_go_def ret_def pl_meter_def demo_pm_def)
  then show ?thesis
    unfolding polled_def by (intro exI conjI) (assumption, simp add: demo_poll_def poller_reach.init)
qed

lemma polled_step: "polled P h t \<Longrightarrow> poller_step P t ev u \<Longrightarrow> polled P h u"
  unfolding polled_def by (blast intro: poller_reach.more)

lemma demo_activate: "poller_step (demo_P n) (demo_poll demo_pm [] 4 Activating [] 4) EvActivate (demo_poll demo_pm [] 4 Retrieving [] 4)"
proof -
  have run: "activation_round (demo_P n) (demo_poll demo_pm [] 4 Activating [] 4) = (Ok (), demo_poll demo_pm [] 4 Retrieving [] 4)"
    by (simp add: activation_round_def demo_P_def Babylon_ClientController_def bbn_QueryActivatedHeight_def on_chain_def
        go_defs demo_poll_def set_cp_def)
  have "poller_step (demo_P n) (demo_poll demo_pm [] 4 Activating [] 4) EvActivate
      ((demo_poll demo_pm [] 4 Retrieving [] 4)\<lparr>sys_base := cp_nextHeight (pl_cp (demo_poll demo_pm [] 4 Retrieving [] 4))\<rparr>)"
    by (rule poller_step.activated [OF _ run]) (simp_all add: demo_poll_def)
  then show ?thesis by (simp add: demo_poll_def)
qed

lemma demo_retrieve:
  assumes "h \<le> 100"
  shows "poller_step (demo_P n) (demo_poll m chan h Retrieving rs base) EvRetrieve
    (demo_poll (RecordLastPolledHeight h m) chan (h + 1) (Pushing \<lparr>Height = h, Hash = [ucast h], Finalized = h \<le> 3\<rparr>) rs base)"
proof -
  have "bbn_QueryBlock demo_bbn h [] = (Ok \<lparr>Height = h, Hash = [ucast h], Finalized = h \<le> 3\<rparr>, [])"
    using assms by (simp add: bbn_QueryBlock_def demo_block_def handle_go_def ret_def)
  then have "blockWithRetry (demo_P n) h (demo_poll m chan h Retrieving rs base) =
      (Ok \<lparr>Height = h, Hash = [ucast h], Finalized = h \<le> 3\<rparr>, demo_poll m chan h Retrieving rs base)"
    by (simp add: blockWithRetry_def on_chain_def zoom_go_def retry_Do_Ok demo_poll_def)
  then have "poll_round (demo_P n) (demo_poll m chan h Retrieving rs base) =
      (Ok (), demo_poll (RecordLastPolledHeight h m) chan (h + 1) (Pushing \<lparr>Height = h, Hash = [ucast h], Finalized = h \<le> 3\<rparr>) rs base)"
    by (simp add: poll_round_def get_go_def handle_go_def upd_go_def ret_def set_cp_def pl_meter_def) (simp add: demo_poll_def)
  then show ?thesis by (intro poller_step.retrieve) (simp add: demo_poll_def)
qed

lemma demo_push:
  "length chan < unat n \<Longrightarrow> poller_step (demo_P n) (demo_poll m chan h (Pushing b) rs base) EvPush
    (demo_poll m (chan @ [b]) h Selecting rs base)"
  using poller_step.push [of "demo_poll m chan h (Pushing b) rs base" b "demo_P n"] by (simp add: demo_poll_def set_cp_def)

lemma demo_tick: "poller_step (demo_P n) (demo_poll m chan h Selecting rs base) EvTick (demo_poll m chan h Retrieving rs base)"
  using poller_step.tick [of "demo_poll m chan h Selecting rs base" "demo_P n"] by (simp add: demo_poll_def set_cp_def)

lemma demo_receive: "poller_step (demo_P n) (demo_poll m (b # chan) h pc rs base) EvReceive (demo_poll m chan h pc (rs @ [b]) base)"
  using poller_step.receive [of "demo_poll m (b # chan) h pc rs base" b chan "demo_P n"] by (simp add: demo_poll_def set_cp_def)

text \<open>After block 4 was pushed: at the \<^verbatim>\<open>select\<close> with one block in the channel.\<close>

lemma demo_selecting: "n \<ge> 1 \<Longrightarrow> polled (demo_P n) 4 (demo_poll demo_pm5 [\<lparr>Height = 4, Hash = [4], Finalized = False\<rparr>] 5 Selecting [] 4)"
  using polled_step [OF polled_step [OF polled_step [OF demo_started demo_activate] demo_retrieve] demo_push, of n]
  by (simp add: word_le_nat_alt demo_pm5_def)

theorem poller_delivers_consecutive_heights_witness:
  "\<exists>t. polled (demo_P 1) 4 t \<and> map (\<lambda>b. unat (Height b)) (sys_received t) = [4] \<and> NextHeight (pl_cp t) = 5"
proof -
  let ?b = "\<lparr>Height = 4, Hash = [4], Finalized = False\<rparr>"
  let ?t = "demo_poll demo_pm5 [] 5 Selecting [?b] 4"
  have t: "polled (demo_P 1) 4 ?t" using polled_step [OF demo_selecting demo_receive, of 1] by simp
  from poller_delivers_consecutive_heights [OF demo_block_law demo_P_simps(1) t]
  have "NextHeight (pl_cp ?t) = 4 + of_nat (length (sys_blocks ?t))" "unat (Height ?b) = 4"
    by (simp_all add: demo_poll_def)
  with t show ?thesis by (intro exI [of _ ?t]) (simp add: demo_poll_def sys_blocks_def pending_def)
qed

text \<open>A skip that succeeds moves forward only, drops the whole channel, and the next height retrieved is
  the target; a request that is served and does not move forward is refused without an effect on
  the channel or the next height.\<close>

lemma skip_drains_and_jumps:
  assumes "block_law B" and "cc_QueryBlock (pe_cc P) = bbn_QueryBlock B" and "polled P h0 t"
  shows "(SkipToHeight h t = (Ok (), t') \<longrightarrow> NextHeight (pl_cp t) < h \<and> NextHeight (pl_cp t') = h \<and>
      cp_blockInfoChan (pl_cp t') = []) \<and>
    (SkipToHeight h t = (Err e, t') \<longrightarrow> (h \<le> NextHeight (pl_cp t) \<or> \<not> cp_IsRunning (pl_cp t) \<or> cp_quit (pl_cp t)) \<and>
      NextHeight (pl_cp t') = NextHeight (pl_cp t) \<and> cp_blockInfoChan (pl_cp t') = cp_blockInfoChan (pl_cp t))"
proof -
  have inv: "poller_inv P t" using assms by (rule polled_inv)
  have 1: "NextHeight (pl_cp t) < h \<and> NextHeight (pl_cp t') = h \<and> cp_blockInfoChan (pl_cp t') = []"
    if "SkipToHeight h t = (Ok (), t')"
    using SkipToHeight_Ok [OF that] skip_drains [OF inv] by (simp add: NextHeight_def set_cp_def)
  have 2: "(h \<le> NextHeight (pl_cp t) \<or> \<not> cp_IsRunning (pl_cp t) \<or> cp_quit (pl_cp t)) \<and>
      NextHeight (pl_cp t') = NextHeight (pl_cp t) \<and> cp_blockInfoChan (pl_cp t') = cp_blockInfoChan (pl_cp t)"
    if "SkipToHeight h t = (Err e, t')"
    using that by (auto simp: SkipToHeight_def serve_skip_def go_defs set_cp_def NextHeight_def split: if_splits)
  from 1 2 show ?thesis by blast
qed

lemma skip_drains_and_jumps_witness:
  "\<exists>t t'. polled (demo_P 1) 4 t \<and> cp_blockInfoChan (pl_cp t) \<noteq> [] \<and> SkipToHeight 9 t = (Ok (), t') \<and>
     NextHeight (pl_cp t') = 9 \<and> cp_blockInfoChan (pl_cp t') = []"
proof -
  let ?t = "demo_poll demo_pm5 [\<lparr>Height = 4, Hash = [4], Finalized = False\<rparr>] 5 Selecting [] 4"
  have t: "polled (demo_P 1) 4 ?t" by (rule demo_selecting) simp
  obtain t' where run: "SkipToHeight 9 ?t = (Ok (), t')"
    by (simp add: SkipToHeight_def serve_skip_def demo_poll_def cp_IsRunning_def go_defs)
  from skip_drains_and_jumps [OF demo_block_law demo_P_simps(1) t, of 9 t'] run t show ?thesis
    by (intro exI [of _ ?t] exI [of _ t']) (simp add: demo_poll_def)
qed

text \<open>A poller starts only once, not at height 0 and not beyond the height after the best block of the
  chain; it then waits for the activation with the given height as the next one.\<close>

lemma poller_start_range:
  assumes "cp_Start P n h s = (r, s')"
  shows "(cp_isStarted (pl_cp s) \<longrightarrow> r = Err (NewErr ''the poller is already started'')) \<and> (h = 0 \<longrightarrow> r \<noteq> Ok ()) \<and>
    (r = Ok () \<longrightarrow> (\<exists>b w w'. retry_Do (pe_RetryIf P) RtyAttNum (cc_QueryBestBlock (pe_cc P)) w = (Ok b, w') \<and>
        h \<le> Height b + 1) \<and> NextHeight (pl_cp s') = h \<and> cp_pc (pl_cp s') = Activating \<and> cp_IsRunning (pl_cp s'))"
proof -
  have "r = Err (NewErr ''the poller is already started'')" if "cp_isStarted (pl_cp s)"
    using that assms by (simp add: cp_Start_def get_go_def upd_go_def fail_def)
  moreover have "h \<noteq> 0 \<and> (\<exists>b w w'. retry_Do (pe_RetryIf P) RtyAttNum (cc_QueryBestBlock (pe_cc P)) w = (Ok b, w') \<and>
      h \<le> Height b + 1) \<and> NextHeight (pl_cp s') = h \<and> cp_pc (pl_cp s') = Activating \<and> cp_IsRunning (pl_cp s')"
    if "r = Ok ()"
    using cp_Start_Ok [of P n h s s'] assms that by (auto simp: NextHeight_def cp_IsRunning_def)
  ultimately show ?thesis by blast
qed

lemma poller_start_range_witness:
  "fst (cp_Start (demo_P 1) 1 0 \<lparr>pl_ext = [], pl_cp = NewChainPoller, pl_metrics = demo_fm\<rparr>) \<noteq> Ok ()"
  using poller_start_range [OF prod.collapse [symmetric]] by blast



section \<open>The Babylon controller\<close>


lemma demo_list_blocks: "list_blocks_law demo_bbn"
proof -
  have page: "(c \<noteq> 0 \<longrightarrow> length bs \<le> unat c) \<and> (\<forall>i < length bs. unat (ib_Height (bs ! i)) = unat s + i \<and> unat (ib_Height (bs ! i)) < 2 ^ 63)"
    if "bs = demo_page QueriedBlockStatus_ANY \<lparr>page_Key = Some (Uint64ToBigEndian s), page_Limit = c, page_Reverse = False\<rparr>"
    for s c :: u64 and bs
    using that by (auto simp: demo_page_def demo_block_def less_Suc_eq word_le_nat_alt)
  show ?thesis
    unfolding list_blocks_law_def demo_bbn_simps ret_def prod.inject res.inject
    by (intro allI impI) (rule page, erule conjunct1 [THEN sym])
qed


lemma batch_msgs_Ok:
  assumes "batch_msgs B pk prs pfs sgs i bs acc w = (Ok msgs, w')"
  shows "\<exists>us. msgs = acc @ us \<and> length us = length bs \<and> (\<forall>j < length bs. \<exists>signer cp.
    cmt_Proof_Unmarshal B (pfs ! (i + j)) = Ok cp \<and> i + j < length pfs \<and> i + j < length prs \<and>
    us ! j = AddFinalitySig (finality_sig_msg B pk (bs ! j) (prs ! (i + j)) cp (sgs ! (i + j)) signer))"
  using assms
proof (induction bs arbitrary: i acc w)
  case Nil
  then show ?case by (simp add: ret_def)
next
  case (Cons b bs)
  then obtain cp signer w1 where i: "i < length pfs" "i < length prs"
    and cp: "cmt_Proof_Unmarshal B (pfs ! i) = Ok cp"
    and rest: "batch_msgs B pk prs pfs sgs (Suc i) bs
       (acc @ [AddFinalitySig (finality_sig_msg B pk b (prs ! i) cp (sgs ! i) signer)]) w1 = (Ok msgs, w')"
    by (auto simp: of_res_def elim!: try_go_OkE index_go_OkE)
  from Cons.IH [OF rest] obtain us where
    us: "msgs = (acc @ [AddFinalitySig (finality_sig_msg B pk b (prs ! i) cp (sgs ! i) signer)]) @ us" "length us = length bs"
    and each: "\<forall>j < length bs. \<exists>signer cp. cmt_Proof_Unmarshal B (pfs ! (Suc i + j)) = Ok cp \<and> Suc i + j < length pfs \<and>
       Suc i + j < length prs \<and>
       us ! j = AddFinalitySig (finality_sig_msg B pk (bs ! j) (prs ! (Suc i + j)) cp (sgs ! (Suc i + j)) signer)"
    by blast
  let ?us = "AddFinalitySig (finality_sig_msg B pk b (prs ! i) cp (sgs ! i) signer) # us"
  have "\<exists>signer cp. cmt_Proof_Unmarshal B (pfs ! (i + j)) = Ok cp \<and> i + j < length pfs \<and> i + j < length prs \<and>
    ?us ! j = AddFinalitySig (finality_sig_msg B pk ((b # bs) ! j) (prs ! (i + j)) cp (sgs ! (i + j)) signer)"
    if "j < length (b # bs)" for j
    using that each i cp by (cases j) auto
  with us show ?case by (intro exI [of _ ?us]) simp
qed

text \<open>A batch is sent in one transaction with one message per block, in the order of the blocks; the
  \<open>i\<close>-th message has the height and hash of the \<open>i\<close>-th block and the \<open>i\<close>-th randomness, proof and
  signature.\<close>

lemma batch_has_a_message_per_block:
  assumes "bbn_SubmitBatchFinalitySigs B pk bs prs pfs sgs w = (Ok res, w')"
  shows "length sgs = length bs \<and> (\<exists>msgs tx w1 un. length msgs = length bs \<and>
    ReliablySendMsgs B msgs emptyErrs un w1 = (Ok (Some tx), w') \<and>
    (\<forall>i < length bs. \<exists>signer cp. cmt_Proof_Unmarshal B (pfs ! i) = Ok cp \<and> i < length pfs \<and> i < length prs \<and>
      msgs ! i = AddFinalitySig \<lparr>afs_Signer = signer, afs_FpBtcPk = pk, afs_BlockHeight = Height (bs ! i),
        afs_PubRand = prs ! i, afs_Proof = cp, afs_BlockAppHash = Hash (bs ! i), afs_FinalitySig = sgs ! i\<rparr>))"
proof -
  have len: "length sgs = length bs"
    using assms by (auto simp: bbn_SubmitBatchFinalitySigs_def fail_def split: if_splits)
  with assms obtain msgs w1 r w2 where msgs: "batch_msgs B pk prs pfs sgs 0 bs [] w = (Ok msgs, w1)"
    and send: "reliablySendMsgs B msgs emptyErrs [sdkErrInvalidFinalitySig, sdkErrPubRandNotFound, sdkErrFpAlreadySlashed] w1 =
      (Ok r, w2)" and tx: "tx_response r w2 = (Ok res, w')"
    by (auto simp: bbn_SubmitBatchFinalitySigs_def elim!: try_go_OkE)
  from tx obtain t where "r = Some t" "w' = w2" by (auto simp: tx_response_def crash_def ret_def split: option.splits)
  with send have sent: "ReliablySendMsgs B msgs emptyErrs [sdkErrInvalidFinalitySig, sdkErrPubRandNotFound,
      sdkErrFpAlreadySlashed] w1 = (Ok (Some t), w')" by (simp add: reliablySendMsgs_def)
  from batch_msgs_Ok [OF msgs] have "length msgs = length bs"
    "\<forall>i < length bs. \<exists>signer cp. cmt_Proof_Unmarshal B (pfs ! i) = Ok cp \<and> i < length pfs \<and> i < length prs \<and>
      msgs ! i = AddFinalitySig \<lparr>afs_Signer = signer, afs_FpBtcPk = pk, afs_BlockHeight = Height (bs ! i),
        afs_PubRand = prs ! i, afs_Proof = cp, afs_BlockAppHash = Hash (bs ! i), afs_FinalitySig = sgs ! i\<rparr>"
    by (auto simp: finality_sig_msg_def)
  with len sent show ?thesis by blast
qed

lemma batch_has_a_message_per_block_witness:
  "\<exists>w'. bbn_SubmitBatchFinalitySigs demo_bbn [9] [demo_bi 4, demo_bi 5] [[1], [2]] [[3], [4]] [[5], [6]] [] = (Ok demo_tx, w') \<and>
     (\<exists>msgs. length msgs = 2 \<and> (\<exists>signer cp. msgs ! 1 = AddFinalitySig \<lparr>afs_Signer = signer, afs_FpBtcPk = [9],
        afs_BlockHeight = 5, afs_PubRand = [2], afs_Proof = cp, afs_BlockAppHash = [5], afs_FinalitySig = [6]\<rparr>))"
proof -
  obtain w' where run: "bbn_SubmitBatchFinalitySigs demo_bbn [9] [demo_bi 4, demo_bi 5] [[1], [2]] [[3], [4]] [[5], [6]] [] =
      (Ok demo_tx, w')"
    by (simp add: bbn_SubmitBatchFinalitySigs_def go_defs)
  from batch_has_a_message_per_block [OF run] obtain msgs where m: "length msgs = length [demo_bi 4, demo_bi 5]"
    "\<forall>i < length [demo_bi 4, demo_bi 5]. \<exists>signer cp. msgs ! i = AddFinalitySig \<lparr>afs_Signer = signer, afs_FpBtcPk = [9],
        afs_BlockHeight = Height ([demo_bi 4, demo_bi 5] ! i), afs_PubRand = [[1], [2]] ! i, afs_Proof = cp,
        afs_BlockAppHash = Hash ([demo_bi 4, demo_bi 5] ! i), afs_FinalitySig = [[5], [6]] ! i\<rparr>"
    by blast
  from m(2) [rule_format, of 1] m(1) run show ?thesis by (intro exI [of _ w'] conjI exI [of _ msgs]) simp_all
qed

lemma fail_not_Ok: "fail e s = (Ok a, t) \<longleftrightarrow> False"
  by (simp add: fail_def)

text \<open>An edit keeps what the request leaves empty: each field of the description that is sent is that of
  the request, or that of the chain when the request has none; the commission is kept when none is
  given; and only the owner of the provider's address sends it.\<close>

lemma edit_keeps_empty_fields:
  assumes "bbn_EditFinalityProvider B pk rate desc w = (Ok msg, w')"
  shows "\<exists>req old w1 w2. proto_Description_Unmarshal B desc = Ok req \<and> QueryFinalityProvider B pk w1 = (Ok old, w2) \<and>
    (\<exists>signer w3. mustGetTxSigner B w2 = (Ok signer, w3) \<and> strings_EqualFold (fpr_Addr old) signer) \<and>
    efp_BtcPk msg = pk \<and> efp_Commission msg = (case rate of None \<Rightarrow> fpr_Commission old | Some r \<Rightarrow> r) \<and>
    (\<forall>field \<in> {Moniker, Identity, Website, SecurityContact, Details}. field (efp_Description msg) =
       (if field req = '''' then field (fpr_Description old) else field req)) \<and>
    (\<exists>tx w4. reliablySendMsg B (EditFinalityProviderMsg msg) emptyErrs emptyErrs w4 = (Ok tx, w'))"
proof -
  from assms obtain req old w1 signer w2 addr w3 tx where req: "proto_Description_Unmarshal B desc = Ok req"
    and old: "QueryFinalityProvider B pk w = (Ok old, w1)" and signer: "mustGetTxSigner B w1 = (Ok signer, w2)"
    and eq: "strings_EqualFold (fpr_Addr old) signer"
    and sent: "reliablySendMsg B (EditFinalityProviderMsg msg) emptyErrs emptyErrs w3 = (Ok tx, w')"
    and msg: "msg = \<lparr>efp_Addr = addr, efp_BtcPk = pk,
      efp_Description = \<lparr>Moniker = getValueOrDefault (Moniker req) (Moniker (fpr_Description old)),
        Identity = getValueOrDefault (Identity req) (Identity (fpr_Description old)),
        Website = getValueOrDefault (Website req) (Website (fpr_Description old)),
        SecurityContact = getValueOrDefault (SecurityContact req) (SecurityContact (fpr_Description old)),
        Details = getValueOrDefault (Details req) (Details (fpr_Description old))\<rparr>,
      efp_Commission = (case rate of None \<Rightarrow> fpr_Commission old | Some r \<Rightarrow> r)\<rparr>"
    unfolding bbn_EditFinalityProvider_def
    by (elim try_go_OkE, cases rate) (auto simp: of_res_def Let_def ret_def fail_not_Ok split: if_splits elim!: try_go_OkE)
  have "\<forall>field \<in> {Moniker, Identity, Website, SecurityContact, Details}. field (efp_Description msg) =
       (if field req = '''' then field (fpr_Description old) else field req)"
    by (simp add: msg getValueOrDefault_def)
  moreover have "efp_BtcPk msg = pk" "efp_Commission msg = (case rate of None \<Rightarrow> fpr_Commission old | Some r \<Rightarrow> r)"
    by (simp_all add: msg)
  ultimately show ?thesis using req old signer eq sent by blast
qed

lemma edit_keeps_empty_fields_witness:
  "\<exists>msg w'. bbn_EditFinalityProvider demo_bbn [9] (Some 7) [] [] = (Ok msg, w') \<and> efp_Commission msg = 7 \<and>
     Moniker (efp_Description msg) = ''m''"
proof -
  have fold: "strings_EqualFold ''BBN1'' ''bbn1''" by code_simp
  have d: "proto_Description_Unmarshal demo_bbn [] = Ok demo_desc" by (simp add: demo_bbn_def)
  obtain msg w' where run: "bbn_EditFinalityProvider demo_bbn [9] (Some 7) [] [] = (Ok msg, w')"
    by (simp add: bbn_EditFinalityProvider_def QueryFinalityProvider_def reliablySendMsg_def fold d go_defs Let_def)
  have "QueryFinalityProvider demo_bbn [9] w = (Ok \<lparr>fpr_Addr = ''BBN1'', fpr_Description = demo_desc\<lparr>Moniker := ''m''\<rparr>,
     fpr_Commission = 0, fpr_SlashedBtcHeight = 0, fpr_Jailed = False\<rparr>, w)" for w
    by (simp add: QueryFinalityProvider_def handle_go_def ret_def)
  with d have "efp_Commission msg = 7 \<and> Moniker (efp_Description msg) = ''m''"
    using edit_keeps_empty_fields [OF run] by (auto simp: demo_desc_def)
  with run show ?thesis by blast
qed

end
