(* ===== verification/InstanceProperties.thy ===== *)
theory InstanceProperties
  imports DemoRuns
begin

text \<open>
  The properties of a finality provider instance (\<^verbatim>\<open>fp_instance.go\<close>, \<^verbatim>\<open>fastsync.go\<close>) with the
  parts in place: the EOTS manager behind gRPC and the Babylon controller.
\<close>

section \<open>Votes and the committed randomness\<close>

text \<open>What the local manager has for the provider of an instance: the public randomness of a height,
  and that a signature of the vote for a block was made with the private part of one.\<close>

definition fp_rand :: "('edb, 'ekr, 'x) eots_lib_scheme \<Rightarrow> ('db, ('edb, 'ekr, 'n, 'c) fpd_ext) fp_world \<Rightarrow>
  u64 \<Rightarrow> FieldVal option" where
  "fp_rand L s h = lm_pubRandAt L (fst (fst (fw_ext s))) (ins_btcPk (fw_ins s)) (GetChainID s) h
     (ins_passphrase (fw_ins s))"

definition fp_vote :: "('edb, 'ekr, 'x) eots_lib_scheme \<Rightarrow> ('db, ('edb, 'ekr, 'n, 'c) fpd_ext) fp_world \<Rightarrow>
  BlockInfo \<Rightarrow> FieldVal \<Rightarrow> ModNScalar \<Rightarrow> bool" where
  "fp_vote L s b pr sg \<longleftrightarrow> lm_signedWith L (fst (fst (fw_ext s))) (ins_btcPk (fw_ins s)) (ins_passphrase (fw_ins s)) pr
     (getMsgToSignForVote (Height b) (Hash b)) sg"



text \<open>C3. A batch of blocks with consecutive heights: the \<open>i\<close>-th public randomness, proof and signature
  that are sent belong to the \<open>i\<close>-th block, and both heights move to the last block.\<close>

theorem batch_matches_randomness:
  assumes eots: "keyring_readonly L" "em_canonical N (local_EOTSManager L)"
    and run: "SubmitBatchFinalitySignatures (fpd_env E L N B) bs s = (Ok res, s')"
    and consecutive: "\<forall>i < length bs. Height (bs ! i) = Height (hd bs) + of_nat i"
  shows "\<exists>prs pfs sgs w. length prs = length bs \<and> length pfs = length bs \<and> length sgs = length bs \<and>
    (\<forall>i < length bs. fp_rand L s (Height (bs ! i)) = Some (prs ! i) \<and> fp_vote L s (bs ! i) (prs ! i) (sgs ! i) \<and>
       proof_at (fpd_env E L N B) (fw_db s) (prs ! i) = Some (pfs ! i)) \<and>
    bbn_SubmitBatchFinalitySigs B (GetBtcPk s) bs prs pfs sgs w = (Ok res, snd (fw_ext s')) \<and>
    GetLastVotedHeight s' = Height (last bs) \<and> GetLastProcessedHeight s' = Height (last bs)"
proof -
  from eots have inv: "keyring_readonly L \<and> em_canonical N (local_EOTSManager L)" by simp
  from fpd.submit_batch [OF inv run] obtain prs pfs sgs w where
    lens: "length prs = length bs" "length pfs = length bs" "length sgs = length bs"
    and each: "\<forall>i < length bs. fp_rand L s (Height (hd bs) + of_nat i) = Some (prs ! i) \<and>
       proof_at (fpd_env E L N B) (fw_db s) (prs ! i) = Some (pfs ! i) \<and>
       (\<exists>pr. fp_rand L s (Height (bs ! i)) = Some pr \<and> fp_vote L s (bs ! i) pr (sgs ! i))"
    and sent: "cc_SubmitBatchFinalitySigs (env_cc (fpd_env E L N B)) (GetBtcPk s) bs prs pfs sgs w = (Ok res, fw_ext s')"
    unfolding fpd.rand_of_def fpd.vote_signed_def fp_rand_def fp_vote_def by blast
  have "\<forall>i < length bs. fp_rand L s (Height (bs ! i)) = Some (prs ! i) \<and> fp_vote L s (bs ! i) (prs ! i) (sgs ! i) \<and>
       proof_at (fpd_env E L N B) (fw_db s) (prs ! i) = Some (pfs ! i)"
    using each consecutive by auto
  moreover from sent have "bbn_SubmitBatchFinalitySigs B (GetBtcPk s) bs prs pfs sgs (snd w) = (Ok res, snd (fw_ext s'))"
    by (auto simp: fpd_env_cc dest: on_net_D)
  moreover have "fw_ins s' = voted (Height (last bs)) (fw_ins s)" using run by (auto elim: SubmitBatch_Ok)
  ultimately show ?thesis
    using lens by (intro exI [of _ prs] exI [of _ pfs] exI [of _ sgs]) (auto simp: fp_getters voted_def)
qed

theorem batch_matches_randomness_witness:
  "\<exists>prs sgs. length prs = 2 \<and> fp_rand demo_eots demo_world4 5 = Some (prs ! 1) \<and>
     fp_vote demo_eots demo_world4 (demo_bi 5) (prs ! 1) (sgs ! 1)"
proof -
  obtain s' where run: "SubmitBatchFinalitySignatures (fpd_env demo_app demo_eots demo_net demo_bbn)
      [demo_bi 4, demo_bi 5] demo_world4 = (Ok demo_tx, s')"
    by (simp add: demo_fpd_env demo_submit_batch demo_set_voted_at)
  have consecutive: "\<forall>i < length [demo_bi 4, demo_bi 5].
      Height ([demo_bi 4, demo_bi 5] ! i) = Height (hd [demo_bi 4, demo_bi 5]) + of_nat i"
    by (auto simp: less_Suc_eq)
  from batch_matches_randomness [OF demo_eots_laws(2) demo_canonical run consecutive] obtain prs sgs where
    "length prs = length [demo_bi 4, demo_bi 5]" and "\<forall>i < length [demo_bi 4, demo_bi 5].
       fp_rand demo_eots demo_world4 (Height ([demo_bi 4, demo_bi 5] ! i)) = Some (prs ! i) \<and>
       fp_vote demo_eots demo_world4 ([demo_bi 4, demo_bi 5] ! i) (prs ! i) (sgs ! i)"
    by blast
  then show ?thesis by (intro exI [of _ prs] exI [of _ sgs]) (auto dest!: spec [where x = 1])
qed

text \<open>C36. A batch with a gap is sent with the wrong randomness: where the height of a block is not the
  height of the first block plus its index, the signature is made with the randomness of the block
  and the randomness that is sent is another one.\<close>

theorem gapped_batch_mismatch:
  assumes eots: "keyring_readonly L" "em_canonical N (local_EOTSManager L)"
    and run: "SubmitBatchFinalitySignatures (fpd_env E L N B) bs s = (Ok res, s')"
    and gap: "i < length bs" "fp_rand L s (Height (bs ! i)) \<noteq> fp_rand L s (Height (hd bs) + of_nat i)"
  shows "\<exists>prs pfs sgs w pr. bbn_SubmitBatchFinalitySigs B (GetBtcPk s) bs prs pfs sgs w = (Ok res, snd (fw_ext s')) \<and>
    fp_rand L s (Height (bs ! i)) = Some pr \<and> fp_vote L s (bs ! i) pr (sgs ! i) \<and> prs ! i \<noteq> pr"
proof -
  from eots have inv: "keyring_readonly L \<and> em_canonical N (local_EOTSManager L)" by simp
  from fpd.submit_batch [OF inv run] gap obtain prs pfs sgs w pr where
    each: "fp_rand L s (Height (hd bs) + of_nat i) = Some (prs ! i)" "fp_rand L s (Height (bs ! i)) = Some pr"
      "fp_vote L s (bs ! i) pr (sgs ! i)"
    and sent: "cc_SubmitBatchFinalitySigs (env_cc (fpd_env E L N B)) (GetBtcPk s) bs prs pfs sgs w = (Ok res, fw_ext s')"
    unfolding fpd.rand_of_def fpd.vote_signed_def fp_rand_def fp_vote_def by blast
  from sent have "bbn_SubmitBatchFinalitySigs B (GetBtcPk s) bs prs pfs sgs (snd w) = (Ok res, snd (fw_ext s'))"
    by (auto simp: fpd_env_cc dest: on_net_D)
  with each gap(2) show ?thesis by auto
qed

lemma demo_fp_rand: "fp_rand demo_eots demo_world4 h = Some (demo_pr h)"
  by (simp add: fp_rand_def lm_pubRandAt_def demo_world4_def demo_out_def fp_getters demo_pair demo_pr_def)

theorem gapped_batch_mismatch_witness:
  "\<exists>prs pfs sgs w s'. SubmitBatchFinalitySignatures demo_app [demo_bi 4, demo_bi 6] demo_world4 = (Ok demo_tx, s') \<and>
     bbn_SubmitBatchFinalitySigs demo_bbn [9] [demo_bi 4, demo_bi 6] prs pfs sgs w = (Ok demo_tx, snd (fw_ext s')) \<and>
     fp_vote demo_eots demo_world4 (demo_bi 6) (demo_pr 6) (sgs ! 1) \<and> prs ! 1 \<noteq> demo_pr 6"
proof -
  obtain s' where run: "SubmitBatchFinalitySignatures (fpd_env demo_app demo_eots demo_net demo_bbn)
      [demo_bi 4, demo_bi 6] demo_world4 = (Ok demo_tx, s')"
    by (simp add: demo_fpd_env demo_submit_batch demo_set_voted_at)
  have "GetBtcPk demo_world4 = [9]" by (simp add: fp_getters demo_world4_def)
  with gapped_batch_mismatch [OF demo_eots_laws(2) demo_canonical run, of 1] run
  show ?thesis by (simp add: demo_fp_rand demo_fpd_env)
qed

section \<open>No second vote after a restart\<close>

lemma NewFinalityProviderInstance_Ok:
  assumes "NewFinalityProviderInstance E pk pass d = (Ok i, d')"
  obtains btcPk p where "schnorr_ParsePubKey E pk = Ok btcPk" "fp_at E d btcPk = Some p"
    "protoFpToStoredFinalityProvider E p = Ok (ins_fp i)" "d' = d"
proof -
  from assms obtain btcPk sfp where parse: "schnorr_ParsePubKey E pk = Ok btcPk"
    and get: "GetFinalityProvider E btcPk d = (Ok sfp, d')" and i: "ins_fp i = sfp"
    by (auto simp: NewFinalityProviderInstance_def of_res_def crash_def fail_def ret_def split: if_splits
        elim!: try_go_OkE dest!: handle_go_Ok)
  from get have d: "d' = d" and "\<exists>v. kv_Get E d finalityProviderBucketName btcPk = Some v \<and>
      (\<exists>p. pm_Unmarshal E v = Ok p \<and> protoFpToStoredFinalityProvider E p = Ok sfp)"
    by (auto simp: GetFinalityProvider_def dest!: kv_View_OkD split: if_splits option.splits res.splits)
  then show thesis using that [OF parse _ _ d] i by (auto simp: fp_at_def)
qed

lemma stored_fp_heights: "protoFpToStoredFinalityProvider L p = Ok fp \<Longrightarrow>
    sfp_LastVotedHeight fp = pfp_LastVotedHeight p \<and> sfp_LastProcessedHeight fp = pfp_LastProcessedHeight p"
  by (auto simp: protoFpToStoredFinalityProvider_def go_defs split: res.splits option.splits)

text \<open>C4. A block that was voted for is never voted for again after a restart: whatever the instance
  did after the vote, the instance that is made from the store does nothing for this block or a
  block below it.\<close>

theorem no_second_vote_after_restart:
  assumes ok: "store_ok E (fw_db s)" and vote: "SubmitFinalitySignature E b s = (Ok res, s1)"
    and run: "ins_run E s1 s2" and parse: "schnorr_ParsePubKey E pk = Ok (GetBtcPk s)"
    and restart: "NewFinalityProviderInstance E pk pass (fw_db s2) = (Ok i, d)" and old: "Height b' \<le> Height b"
  shows "process_block E wakes b' \<lparr>fw_db = d, fw_ext = w, fw_ins = i, fw_metrics = m\<rparr> =
    (Ok (), \<lparr>fw_db = d, fw_ext = w, fw_ins = i, fw_metrics = m\<rparr>)"
proof -
  have "SetFpLastVotedHeight E (GetBtcPk s) (Height b) (fw_db s) = (Ok (), fw_db s1)"
    using vote by (rule SubmitFinalitySignature_Ok)
  from fpstore.voted_Ok [OF ok this] obtain q where ok1: "store_ok E (fw_db s1)"
    and q: "fp_at E (fw_db s1) (GetBtcPk s) = Some q" "Height b \<le> pfp_LastProcessedHeight q"
    by (auto simp: stored_heights_def fun_eq_iff split: if_splits)
  from ok1 ins_run_progress [OF _ run] q obtain q' where "fp_at E (fw_db s2) (GetBtcPk s) = Some q'"
    "Height b \<le> pfp_LastProcessedHeight q'"
    by (force simp: store_ok_def world_progress_def fp_progress_def fp_le_def)
  moreover obtain p where "fp_at E (fw_db s2) (GetBtcPk s) = Some p" "protoFpToStoredFinalityProvider E p = Ok (ins_fp i)"
    using NewFinalityProviderInstance_Ok [OF restart] parse by (metis res.inject(1))
  ultimately have "Height b' \<le> sfp_LastProcessedHeight (ins_fp i)"
    using old stored_fp_heights by fastforce
  then show ?thesis by (simp add: process_block_def get_go_def hasProcessed_def fp_getters ret_def)
qed

lemma demo_new_instance: "NewFinalityProviderInstance demo_app [9] '''' demo_db5 = (Ok (voted 4 demo_ins), demo_db5)"
  by (simp add: NewFinalityProviderInstance_def GetFinalityProvider_def protoFpToStoredFinalityProvider_def
      ShouldStart_def kv_View_def go_defs demo_db5_def demo_db4_def demo_db_def mem_HasBucket_def mem_Get_def
      pubRandProofBucketName_def finalityProviderBucketName_def demo_Unmarshal_def demo_fp_def byte_status_def
      demo_ins_def voted_def)

theorem no_second_vote_after_restart_witness:
  "\<forall>w m. process_block demo_app [] (demo_bi 4) \<lparr>fw_db = demo_db5, fw_ext = w, fw_ins = voted 4 demo_ins, fw_metrics = m\<rparr> =
     (Ok (), \<lparr>fw_db = demo_db5, fw_ext = w, fw_ins = voted 4 demo_ins, fw_metrics = m\<rparr>)"
proof -
  have "store_ok demo_app (fw_db demo_world4)" using demo_store_ok by (simp add: demo_world4_def)
  moreover have "schnorr_ParsePubKey demo_app [9] = Ok (GetBtcPk demo_world4)" by (simp add: demo_world4_def fp_getters)
  moreover have "NewFinalityProviderInstance demo_app [9] '''' (fw_db demo_world5) = (Ok (voted 4 demo_ins), demo_db5)"
    by (simp add: demo_world5_def demo_new_instance)
  ultimately show ?thesis
    by (intro allI no_second_vote_after_restart [OF _ demo_submit ins_run.start]) simp_all
qed

section \<open>Committing randomness\<close>

lemma query_Ok:
  "lastCommittedPublicRandWithRetry E n s = (r, s') \<Longrightarrow> fw_db s' = fw_db s \<and> fw_ins s' = fw_ins s \<and> fw_metrics s' = fw_metrics s"
  by (auto simp: lastCommittedPublicRandWithRetry_def get_go_def dest: on_ext_D)

lemma GetLastCommittedHeight_Ok:
  "GetLastCommittedHeight E s = (Ok h, s') \<Longrightarrow> fw_db s' = fw_db s \<and> fw_ins s' = fw_ins s \<and> fw_metrics s' = fw_metrics s"
  unfolding GetLastCommittedHeight_def
  by (auto simp: ret_def fail_def split: list.splits if_splits elim!: try_go_OkE dest!: query_Ok)

lemma CommitPubRand_Ok:
  fixes s :: "('db, 'w, 'y) fp_world_scheme"
  assumes "CommitPubRand E tip s = (Ok (Some tx), s')"
  obtains last start prs sg w and s1 :: "('db, 'w, 'y) fp_world_scheme" and w' where
    "commit_start_height (env_cfg E) last tip = Some start"
    "GetLastCommittedHeight E s = (Ok last, s1)" "fw_ins s1 = fw_ins s"
    "em_CreateRandomnessPairList (env_em E) (ins_btcPk (fw_ins s)) (GetChainID s) start (NumPubRand (env_cfg E))
       (ins_passphrase (fw_ins s)) (fw_ext s1) = (Ok prs, w)"
    "AddPubRandProofList E prs (snd (GetPubRandCommitAndProofs E prs)) (fw_db s) = (Ok (), fw_db s')"
    "cc_CommitPubRandList (env_cc E) (GetBtcPk s) start (of_nat (length prs)) (fst (GetPubRandCommitAndProofs E prs)) sg w'
       = (Ok tx, fw_ext s')"
    "fw_ins s' = fw_ins s"
    "fw_metrics s' = AddToFpTotalCommittedRandomness (GetBtcPkHex s) (OfLen (length prs))
       (RecordFpLastCommittedRandomnessHeight (GetBtcPkHex s) last (RecordFpRandomnessTime (GetBtcPkHex s) (fw_metrics s)))"
proof -
  from assms obtain last s1 where l: "GetLastCommittedHeight E s = (Ok last, s1)"
    and rest: "(case commit_start_height (env_cfg E) last tip of
       None \<Rightarrow> ret None
     | Some startHeight \<Rightarrow>
         wrap_go ''failed to generate randomness: ''
           (getPubRandList E startHeight (NumPubRand (env_cfg E))) (\<lambda>pubRandList.
         let numPubRand = of_nat (length pubRandList);
             (commitment, proofList) = GetPubRandCommitAndProofs E pubRandList
         in wrap_go ''failed to save public randomness to DB: ''
              (prs_AddPubRandProofList E pubRandList proofList) (\<lambda>_.
            wrap_go ''failed to sign the Schnorr signature: ''
              (signPubRandCommit E startHeight numPubRand commitment) (\<lambda>schnorrSig.
            get_go GetBtcPk (\<lambda>pk.
            wrap_go ''failed to commit public randomness to the consumer chain: ''
              (on_ext (cc_CommitPubRandList (env_cc E) pk startHeight numPubRand commitment schnorrSig)) (\<lambda>res.
            meter RecordFpRandomnessTime (
            meter (\<lambda>pk. RecordFpLastCommittedRandomnessHeight pk last) (
            meter (\<lambda>pk. AddToFpTotalCommittedRandomness pk (OfLen (length pubRandList))) (
            ret (Some res)))))))))) s1 = (Ok (Some tx), s')"
    unfolding CommitPubRand_def by (rule try_go_OkE)
  from rest obtain start where start: "commit_start_height (env_cfg E) last tip = Some start"
    by (auto simp: ret_def split: option.splits)
  with rest obtain prs s2 s3 sg s4 s5 where prs: "getPubRandList E start (NumPubRand (env_cfg E)) s1 = (Ok prs, s2)"
    and add: "prs_AddPubRandProofList E prs (snd (GetPubRandCommitAndProofs E prs)) s2 = (Ok (), s3)"
    and sg: "signPubRandCommit E start (of_nat (length prs)) (fst (GetPubRandCommitAndProofs E prs)) s3 = (Ok sg, s4)"
    and cc: "on_ext (cc_CommitPubRandList (env_cc E) (GetBtcPk s4) start (of_nat (length prs))
       (fst (GetPubRandCommitAndProofs E prs)) sg) s4 = (Ok tx, s5)"
    and s': "s' = s5\<lparr>fw_metrics := AddToFpTotalCommittedRandomness (GetBtcPkHex s5) (OfLen (length prs))
       (RecordFpLastCommittedRandomnessHeight (GetBtcPkHex s5) last (RecordFpRandomnessTime (GetBtcPkHex s5) (fw_metrics s5)))\<rparr>"
    by (auto simp: Let_def get_go_def ret_def meter_apply split: prod.splits elim!: try_go_OkE)
  note * = GetLastCommittedHeight_Ok [OF l] getPubRandList_Ok [OF prs]
    on_db_D [OF add [unfolded prs_AddPubRandProofList_def]] on_ext_D [OF cc]
  have sg': "fw_db s4 = fw_db s3 \<and> fw_ins s4 = fw_ins s3 \<and> fw_metrics s4 = fw_metrics s3"
    using sg by (auto simp: signPubRandCommit_def get_go_def dest: on_ext_D)
  show thesis
    by (rule that [of last start s1 prs "fw_ext s2" sg "fw_ext s4"]) (use * sg' s' l start in \<open>auto simp: fp_getters\<close>)
qed

text \<open>Queries of the chain leave the EOTS manager alone.\<close>

definition same_eots :: "'a \<times> 'c \<Rightarrow> 'a \<times> 'c \<Rightarrow> bool" where
  "same_eots w w' \<longleftrightarrow> fst w' = fst w"

interpretation same_eots: go_preorder same_eots
  by unfold_locales (auto simp: same_eots_def)

lemma on_net_same_eots: "go_rel same_eots (on_net m)"
  by (auto simp: go_rel_def same_eots_def on_net_def zoom_go_def split: prod.splits)

lemma last_committed_eots:
  assumes "GetLastCommittedHeight (fpd_env E L N B) s = (Ok h, s')"
  shows "fst (fw_ext s') = fst (fw_ext s)"
proof -
  have "cc_QueryLastCommittedPublicRand (env_cc (fpd_env E L N B)) =
      (\<lambda>a b. on_net (bbn_QueryLastCommittedPublicRand B a b))"
    by (simp add: fpd_env_def lift_cc_def Babylon_ClientController_def)
  then have same: "go_rel same_eots (retry_Do f n (cc_QueryLastCommittedPublicRand (env_cc (fpd_env E L N B)) pk m))"
    for f n pk m
    by (simp add: same_eots.rel_retry on_net_same_eots)
  from assms obtain ms s1 where "lastCommittedPublicRandWithRetry (fpd_env E L N B) 1 s = (Ok ms, s1)" and "s' = s1"
    unfolding GetLastCommittedHeight_def by (auto simp: ret_def fail_def split: list.splits if_splits elim!: try_go_OkE)
  then show ?thesis
    by (auto simp: lastCommittedPublicRandWithRetry_def get_go_def same_eots_def dest!: on_ext_D go_relD [OF same])
qed

text \<open>C8. A successful commitment sends a commitment to the provider's randomness of consecutive heights, as
  many as configured, and the store has a proof for every one of them: the proof of its position
  when it had none before. So a vote at each of these heights finds its proof.\<close>

theorem committed_randomness_has_proofs:
  assumes eots: "keyring_readonly L" "em_canonical N (local_EOTSManager L)" and F: "F = fpd_env E L N B"
    and laws: "kv_laws F" and run: "CommitPubRand F tip s = (Ok (Some tx), s')"
  shows "\<exists>start prs bs sg w. length prs = unat (NumPubRand (env_cfg F)) \<and>
    marshal_proofs F (snd (GetPubRandCommitAndProofs F prs)) = Ok bs \<and> length bs = length prs \<and>
    (\<forall>i < length prs. fp_rand L s (start + of_nat i) = Some (prs ! i) \<and> proof_at F (fw_db s') (prs ! i) \<noteq> None \<and>
       (proof_at F (fw_db s) (prs ! i) = None \<and> distinct prs \<longrightarrow> proof_at F (fw_db s') (prs ! i) = Some (bs ! i))) \<and>
    bbn_CommitPubRandList B (GetBtcPk s) start (of_nat (length prs)) (fst (GetPubRandCommitAndProofs F prs)) sg w =
      (Ok tx, snd (fw_ext s'))"
proof -
  from run obtain last start prs sg w s1 w' where
    l: "GetLastCommittedHeight F s = (Ok last, s1)" and ins: "fw_ins s1 = fw_ins s"
    and list: "em_CreateRandomnessPairList (env_em F) (ins_btcPk (fw_ins s)) (GetChainID s) start
        (NumPubRand (env_cfg F)) (ins_passphrase (fw_ins s)) (fw_ext s1) = (Ok prs, w)"
    and add: "AddPubRandProofList F prs (snd (GetPubRandCommitAndProofs F prs)) (fw_db s) = (Ok (), fw_db s')"
    and cc: "cc_CommitPubRandList (env_cc F) (GetBtcPk s) start (of_nat (length prs))
       (fst (GetPubRandCommitAndProofs F prs)) sg w' = (Ok tx, fw_ext s')"
    by (rule CommitPubRand_Ok)
  from eots have "keyring_readonly L \<and> em_canonical N (local_EOTSManager L)" by simp
  from fpd.create_nth [OF this list [unfolded F]] last_committed_eots [OF l [unfolded F]]
  have prs: "length prs = unat (NumPubRand (env_cfg F))" "\<forall>i < length prs. fp_rand L s (start + of_nat i) = Some (prs ! i)"
    by (auto simp: F fp_rand_def)
  from laws add obtain bs where bs: "length prs = length (snd (GetPubRandCommitAndProofs F prs))"
    "marshal_proofs F (snd (GetPubRandCommitAndProofs F prs)) = Ok bs"
    and at: "proof_at F (fw_db s') = map_of (zip prs bs) ++ proof_at F (fw_db s)"
    by (rule AddPubRandProofList_Ok)
  have len: "length bs = length prs" using bs marshal_proofs_length [OF bs(2)] by simp
  have "proof_at F (fw_db s') (prs ! i) \<noteq> None \<and>
       (proof_at F (fw_db s) (prs ! i) = None \<and> distinct prs \<longrightarrow> proof_at F (fw_db s') (prs ! i) = Some (bs ! i))"
    if "i < length prs" for i
  proof -
    have "prs ! i \<in> set prs" using that by simp
    then obtain y where y: "map_of (zip prs bs) (prs ! i) = Some y"
      using len map_of_zip_is_None [of prs bs "prs ! i"] by fastforce
    moreover have "y = bs ! i" if "distinct prs"
      using y map_of_zip_nth [of prs bs i] that len \<open>i < length prs\<close> by simp
    ultimately show ?thesis by (auto simp: at map_add_def split: option.splits)
  qed
  moreover from cc have "bbn_CommitPubRandList B (GetBtcPk s) start (of_nat (length prs))
      (fst (GetPubRandCommitAndProofs F prs)) sg (snd w') = (Ok tx, snd (fw_ext s'))"
    by (auto simp: F fpd_env_def lift_cc_def Babylon_ClientController_def dest: on_net_D)
  ultimately show ?thesis using prs bs len by blast
qed

theorem committed_randomness_has_proofs_witness:
  "\<exists>start prs sg w. length prs = 2 \<and> (\<forall>i < 2. fp_rand demo_eots demo_world (start + of_nat i) = Some (prs ! i) \<and>
       proof_at demo_app (fw_db demo_world4) (prs ! i) \<noteq> None) \<and>
     bbn_CommitPubRandList demo_bbn [9] start 2 (fst (GetPubRandCommitAndProofs demo_app prs)) sg w = (Ok demo_tx, [demo_msg4])"
proof -
  have laws: "kv_laws demo_app" using demo_store_laws by (simp add: store_laws_def)
  have world: "GetBtcPk demo_world = [9]" "snd (fw_ext demo_world4) = [demo_msg4]"
    by (simp_all add: fp_getters demo_world_def demo_world4_def demo_out_def)
  from committed_randomness_has_proofs [OF demo_eots_laws(2) demo_canonical demo_fpd_env [symmetric] laws demo_commit]
  obtain start prs sg w where "length prs = unat (NumPubRand (env_cfg demo_app))" "\<forall>i < length prs. fp_rand demo_eots demo_world (start + of_nat i) = Some (prs ! i) \<and>
       proof_at demo_app (fw_db demo_world4) (prs ! i) \<noteq> None"
     "bbn_CommitPubRandList demo_bbn [9] start (of_nat (length prs)) (fst (GetPubRandCommitAndProofs demo_app prs)) sg w =
       (Ok demo_tx, [demo_msg4])"
    unfolding world by blast
  then show ?thesis by (intro exI [of _ start] exI [of _ prs] exI [of _ sg] exI [of _ w]) simp
qed

end
