(* ===== verification/DemoReturns.thy ===== *)
theory DemoReturns
  imports DemoRuns
begin

text \<open>
  Every call of the concrete daemon returns: those of the database, of the EOTS manager
  behind the network that loses nothing, and of the chain.
\<close>

lemma on_manager_returns [returns_intros]: "returns m \<Longrightarrow> returns (on_manager m)"
  unfolding on_manager_def by (rule returns_zoom)

lemma on_net_returns [returns_intros]: "returns m \<Longrightarrow> returns (on_net m)"
  unfolding on_net_def by (rule returns_zoom)

lemma rpc_call_returns [returns_intros]:
  "returns (net_send N) \<Longrightarrow> returns (net_recv N) \<Longrightarrow> returns h \<Longrightarrow> returns (rpc_call N h)"
  unfolding rpc_call_def by (intro returns_intros)

section \<open>The EOTS manager\<close>

lemma demo_key_returns [returns_intros]:
  "returns (lm_store (GetEOTSKeyName demo_eots pk))" "returns (getEOTSPrivKey demo_eots pk p)"
proof -
  show 1: "returns (lm_store (GetEOTSKeyName demo_eots pk))" for pk
    unfolding lm_store_def GetEOTSKeyName_def
    by (intro returns_intros kv_View_returns) (auto simp: kv_returns_def demo_eots_def mem_Put_def split: option.splits)
  have 2: "returns (eotsPrivKeyFromRecord demo_eots r)" for r
    by (auto simp: eotsPrivKeyFromRecord_def returns_def go_defs split: option.splits any_PrivKey.splits)
  show "returns (getEOTSPrivKey demo_eots pk p)"
    unfolding getEOTSPrivKey_def lm_keyring_def input_Reset_def demo_eots_kr
    by (intro returns_intros 1 2)
qed

lemma demo_pair_returns [returns_intros]: "returns (getRandomnessPair demo_eots pk cid h p)"
  unfolding getRandomnessPair_def lm_KeyRecord_def by (intro returns_intros)

lemma demo_loop_returns [returns_intros]: "returns (randomness_loop demo_eots pk cid h p i n acc)"
  by (induction n arbitrary: i acc) (auto intro!: returns_intros)

lemma demo_em_returns:
  "returns (em_CreateRandomnessPairList (env_em demo_app) a b c d e)" "returns (em_SignEOTS (env_em demo_app) a b f c e)"
  "returns (em_SignSchnorrSig (env_em demo_app) a b e)"
  unfolding demo_app_parts lift_em_def grpc_EOTSManager_def local_EOTSManager_def EOTSManager.simps
    cl_CreateRandomnessPairList_def srv_CreateRandomnessPairList_def lm_CreateRandomnessPairList_def
    cl_SignEOTS_def srv_SignEOTS_def lm_SignEOTS_def cl_SignSchnorrSig_def srv_SignSchnorrSig_def
    lm_SignSchnorrSig_def signSchnorrSigFromPrivKey_def lm_meter_def demo_net_simps
  by (intro returns_intros; simp)+

section \<open>The chain\<close>

lemma demo_send_returns [returns_intros]:
  "returns (reliablySendMsgs demo_bbn ms ex un)" "returns (mustGetTxSigner demo_bbn)" "returns (tx_response r)"
  by (auto simp: returns_def tx_response_def go_defs split: option.splits)

lemma demo_batch_returns [returns_intros]: "returns (batch_msgs demo_bbn pk prs pfs sgs i bs ms)"
  by (induction bs arbitrary: i ms) (auto intro!: returns_intros)

lemma demo_cc_returns:
  "returns (cc_SubmitFinalitySig (env_cc demo_app) a b c d e)"
  "returns (cc_SubmitBatchFinalitySigs (env_cc demo_app) a bs cs ds es)"
  "returns (cc_QueryFinalityProviderVotingPower (env_cc demo_app) a h)"
  "returns (cc_QueryBlocks (env_cc demo_app) h h' n)" "returns (cc_QueryBlock (env_cc demo_app) h)"
  "returns (cc_QueryLastCommittedPublicRand (env_cc demo_app) a h)"
  "returns (cc_CommitPubRandList (env_cc demo_app) a h h' x y)"
  unfolding demo_app_parts lift_cc_def Babylon_ClientController_def client_controller.simps bbn_SubmitFinalitySig_def
    bbn_SubmitBatchFinalitySigs_def bbn_QueryFinalityProviderVotingPower_def bbn_QueryBlocks_def queryLatestBlocks_def
    bbn_QueryBlock_def bbn_QueryLastCommittedPublicRand_def bbn_CommitPubRandList_def reliablySendMsg_def Let_def
    demo_bbn_simps
  by (intro returns_intros; simp)+

lemma demo_env_returns: "env_returns demo_app"
proof -
  have "kv_returns demo_app" by (auto simp: kv_returns_def mem_Put_def split: option.splits)
  moreover have "demo_Marshal p \<noteq> Running" "demo_Unmarshal b \<noteq> Running" for p b
    by (simp_all add: demo_Marshal_def demo_Unmarshal_def Let_def)
  ultimately show ?thesis by (simp add: env_returns_def demo_em_returns demo_cc_returns)
qed

end
