(* ===== verification/RetryProperties.thy ===== *)
theory RetryProperties
  imports InstanceProperties DemoReturns
begin

text \<open>
  The properties of an instance on the way to a vote or a commitment: where a commitment
  starts, what a failed submission leaves behind, and that the retries end.
\<close>

section \<open>Where a commitment and the poller start\<close>

text \<open>Commitments adjoin: when the chain reports a commitment of \<open>n\<close> heights from \<open>start\<close>, the next one
  starts at \<open>start + n\<close>, so that no height is committed twice and none is left out; and nothing is
  committed while the last committed height is ahead of the tip by the configured gap.\<close>

lemma commitments_adjoin:
  assumes last: "lastCommittedPublicRandWithRetry E 1 s = (Ok [(start, resp)], s1)"
    and some: "start + prc_NumPubRand resp - 1 \<noteq> 0"
  shows "(start + prc_NumPubRand resp - 1 \<ge> ucast (MinRandHeightGap (env_cfg E)) + tip \<longrightarrow>
       CommitPubRand E tip s = (Ok None, s1) \<and> fw_db s1 = fw_db s \<and> fw_ins s1 = fw_ins s) \<and>
    (CommitPubRand E tip s = (Ok (Some tx), s') \<longrightarrow> (\<exists>prs sg w.
       cc_CommitPubRandList (env_cc E) (GetBtcPk s) (start + prc_NumPubRand resp) (of_nat (length prs))
         (fst (GetPubRandCommitAndProofs E prs)) sg w = (Ok tx, fw_ext s')))"
proof -
  have h: "GetLastCommittedHeight E s = (Ok (start + prc_NumPubRand resp - 1), s1)"
    using last by (simp add: GetLastCommittedHeight_def handle_go_def ret_def)
  have "CommitPubRand E tip s = (Ok None, s1) \<and> fw_db s1 = fw_db s \<and> fw_ins s1 = fw_ins s"
    if "start + prc_NumPubRand resp - 1 \<ge> ucast (MinRandHeightGap (env_cfg E)) + tip"
  proof -
    have "commit_start_height (env_cfg E) (start + prc_NumPubRand resp - 1) tip = None"
      using some that by (simp add: commit_start_height_def)
    then show ?thesis using h query_Ok [OF last] by (simp add: CommitPubRand_def handle_go_def ret_def)
  qed
  moreover have "\<exists>prs sg w. cc_CommitPubRandList (env_cc E) (GetBtcPk s) (start + prc_NumPubRand resp)
         (of_nat (length prs)) (fst (GetPubRandCommitAndProofs E prs)) sg w = (Ok tx, fw_ext s')"
    if run: "CommitPubRand E tip s = (Ok (Some tx), s')"
  proof -
    from run obtain l st s2 prs sg w where l: "commit_start_height (env_cfg E) l tip = Some st"
      "GetLastCommittedHeight E s = (Ok l, s2)"
      and cc: "cc_CommitPubRandList (env_cc E) (GetBtcPk s) st (of_nat (length prs))
         (fst (GetPubRandCommitAndProofs E prs)) sg w = (Ok tx, fw_ext s')"
      by (rule CommitPubRand_Ok)
    from l h have "l = start + prc_NumPubRand resp - 1" by simp
    with l some have "st = start + prc_NumPubRand resp" by (auto simp: commit_start_height_def split: if_splits)
    with cc show ?thesis by blast
  qed
  ultimately show ?thesis by blast
qed

text \<open>A chain that has a commitment of two heights from 4.\<close>

definition demo_committed :: "(mem_db, demo_ext, unit) app_env" where
  "demo_committed = demo_app\<lparr>env_cc := (env_cc demo_app)\<lparr>cc_QueryLastCommittedPublicRand :=
     (\<lambda>pk n. ret [(4, \<lparr>prc_NumPubRand = 2, prc_Commitment = []\<rparr>)])\<rparr>\<rparr>"

lemma demo_committed_last: "lastCommittedPublicRandWithRetry demo_committed 1 demo_world4 =
    (Ok [(4, \<lparr>prc_NumPubRand = 2, prc_Commitment = []\<rparr>)], demo_world4)"
  by (simp add: lastCommittedPublicRandWithRetry_def demo_committed_def RtyAttNum_def get_go_def on_ext_def zoom_go_def
      retry_Do_Ok ret_def demo_world4_def)

lemma commitments_adjoin_witness: "CommitPubRand demo_committed 0 demo_world4 = (Ok None, demo_world4)"
proof -
  have "(4 :: u64) + prc_NumPubRand \<lparr>prc_NumPubRand = 2, prc_Commitment = []\<rparr> - 1 \<noteq> 0" by simp
  from commitments_adjoin [OF demo_committed_last this, of 0] show ?thesis by (simp add: demo_committed_def)
qed

text \<open>The height the poller is started after, in automatic mode, is the highest of the last processed
  height, the last finalized height and 1; otherwise it is the configured height.\<close>

lemma poller_starting_height:
  assumes "getPollerStartingHeight E s = (Ok h, s')"
  shows "if AutoChainScanningMode (PollerConfig (env_cfg E))
    then \<exists>bs. latestFinalizedBlocksWithRetry E 1 s = (Ok bs, s') \<and>
      h = max 1 (max (GetLastProcessedHeight s) (case bs of [] \<Rightarrow> 0 | b # _ \<Rightarrow> Height b))
    else h = StaticChainScanningStartHeight (PollerConfig (env_cfg E)) \<and> s' = s"
proof (cases "AutoChainScanningMode (PollerConfig (env_cfg E))")
  case True
  have max1: "(if x = 0 then 1 else x) = max (1 :: u64) x" for x
    by (auto simp: max_def word_le_nat_alt unat_eq_0 Suc_le_eq)
  have init: "(case bs of [] \<Rightarrow> x | b # _ \<Rightarrow> if Height b > x then Height b else x) =
      max x (case bs of [] \<Rightarrow> 0 | b # _ \<Rightarrow> Height b)" for bs and x :: u64
    by (auto simp: max_def split: list.splits)
  from True assms obtain bs where "latestFinalizedBlocksWithRetry E 1 s = (Ok bs, s')"
    and "h = (let x = GetLastProcessedHeight s; initial = (case bs of [] \<Rightarrow> x | b # _ \<Rightarrow> if Height b > x then Height b else x)
      in if initial = 0 then 1 else initial)"
    unfolding getPollerStartingHeight_def get_go_def Let_def ret_def by (auto elim: try_go_OkE)
  with True show ?thesis by (simp only: Let_def max1 init if_True) blast
next
  case False
  with assms show ?thesis by (simp add: getPollerStartingHeight_def ret_def)
qed

lemma poller_starting_height_witness:
  "getPollerStartingHeight demo_app demo_world5 = (Ok 4, demo_world5) \<and>
   (\<exists>bs. latestFinalizedBlocksWithRetry demo_app 1 demo_world5 = (Ok bs, demo_world5) \<and>
      (4 :: u64) = max 1 (max (GetLastProcessedHeight demo_world5) (case bs of [] \<Rightarrow> 0 | b # _ \<Rightarrow> Height b)))"
proof -
  have run: "getPollerStartingHeight demo_app demo_world5 = (Ok 4, demo_world5)"
    by (simp add: getPollerStartingHeight_def DefaultChainPollerConfig_def latestFinalizedBlocksWithRetry_def demo_run_defs
        demo_world5_def voted_def)
  from poller_starting_height [OF run] run show ?thesis by (simp add: DefaultChainPollerConfig_def)
qed

section \<open>A failed submission\<close>

text \<open>Operations whose error leaves the state in the relation, whatever they do on success.\<close>

definition err_rel :: "('s \<Rightarrow> 's \<Rightarrow> bool) \<Rightarrow> ('s, 'a) go \<Rightarrow> bool" where
  "err_rel R m \<longleftrightarrow> (\<forall>s e s'. m s = (Err e, s') \<longrightarrow> R s s')"

named_theorems err_rel_intros

lemma err_rel_if [err_rel_intros]: "err_rel R a \<Longrightarrow> err_rel R b \<Longrightarrow> err_rel R (if c then a else b)"
  by simp

lemma err_rel_get [err_rel_intros]: "(\<And>a. err_rel R (k a)) \<Longrightarrow> err_rel R (get_go f k)"
  by (simp add: err_rel_def get_go_def)

lemma err_rel_index [err_rel_intros]: "(\<And>a. err_rel R (k a)) \<Longrightarrow> err_rel R (index_go xs i k)"
  by (simp add: err_rel_def index_go_def crash_def)

context go_preorder
begin

lemma err_rel_go: "go_rel R m \<Longrightarrow> err_rel R m"
  by (auto simp: err_rel_def dest: go_relD)

lemma err_rel_handle:
  assumes "go_rel R m" and "\<And>e. go_rel R (h e)" and "\<And>a. err_rel R (k a)"
  shows "err_rel R (handle_go m h k)"
  unfolding err_rel_def
proof (intro allI impI)
  fix s e s' assume run: "handle_go m h k s = (Err e, s')"
  obtain r t where m: "m s = (r, t)" by (cases "m s")
  have "R s t" using assms(1) m by (rule go_relD)
  moreover have "R t s'"
  proof (cases r)
    case (Ok a)
    with run m have "k a t = (Err e, s')" by (simp add: handle_go_def)
    with assms(3) show ?thesis by (auto simp: err_rel_def)
  next
    case (Err x)
    with run m have "h x t = (Err e, s')" by (simp add: handle_go_def)
    with assms(2) show ?thesis by (rule go_relD)
  qed (use run m in \<open>simp_all add: handle_go_def R_refl\<close>)
  ultimately show "R s s'" by (rule R_trans)
qed

end

definition same_local :: "('db, 'w, 'y) fp_world_scheme \<Rightarrow> ('db, 'w, 'y) fp_world_scheme \<Rightarrow> bool" where
  "same_local s s' \<longleftrightarrow> fw_db s' = fw_db s \<and> fw_ins s' = fw_ins s \<and> fw_metrics s' = fw_metrics s"

interpretation same_local: go_preorder same_local
  by unfold_locales (auto simp: same_local_def)

lemma same_local_ext [go_rel_intros]: "go_rel same_local (on_ext m)"
  by (auto simp: go_rel_def same_local_def on_ext_def zoom_go_def split: prod.splits)

lemma same_local_view [go_rel_intros]: "go_rel same_local (on_db (kv_View K f))"
  by (auto simp: go_rel_def same_local_def on_db_def zoom_go_def kv_View_def go_defs split: prod.splits res.splits)

lemma same_local_sign [go_rel_intros]: "go_rel same_local (sign_blocks E bs acc)"
  by (induction bs arbitrary: acc) (auto simp: signFinalitySig_def intro!: go_rel_intros)

lemma err_rel_update:
  "err_rel same_local (try_go (MustUpdateStateAfterFinalitySigSubmission E h) (\<lambda>_. ret res))"
  "err_rel same_local (try_go (MustUpdateStateAfterFinalitySigSubmission E h) (\<lambda>_. meter f (meter g (ret res))))"
  by (auto simp: err_rel_def MustUpdateStateAfterFinalitySigSubmission_def go_defs split: prod.splits res.splits)

lemma SubmitFinalitySignature_Err:
  "SubmitFinalitySignature E b s = (Err e, s') \<Longrightarrow> same_local s s'"
proof -
  have "err_rel same_local (SubmitFinalitySignature E b)"
    unfolding SubmitFinalitySignature_def fp_query_defs GetPubRandProof_def
    by (intro same_local.err_rel_handle err_rel_intros err_rel_update go_rel_intros)
  then show "SubmitFinalitySignature E b s = (Err e, s') \<Longrightarrow> same_local s s'" by (auto simp: err_rel_def)
qed

lemma SubmitBatch_Err:
  "SubmitBatchFinalitySignatures E bs s = (Err e, s') \<Longrightarrow> same_local s s'"
proof -
  have "err_rel same_local (SubmitBatchFinalitySignatures E bs)"
    unfolding SubmitBatchFinalitySignatures_def fp_query_defs GetPubRandProofList_def
    by (intro same_local.err_rel_handle err_rel_intros err_rel_update go_rel_intros same_local.err_rel_go)
  then show "SubmitBatchFinalitySignatures E bs s = (Err e, s') \<Longrightarrow> same_local s s'" by (auto simp: err_rel_def)
qed

text \<open>C23. A submission that fails leaves the store, the instance and its metrics as they were: heights only move
  with a vote the chain accepted.\<close>

theorem failed_submission_changes_nothing:
  assumes "SubmitFinalitySignature E b s = (Err e, s') \<or> SubmitBatchFinalitySignatures E bs s = (Err e, s')"
  shows "fw_db s' = fw_db s \<and> fw_ins s' = fw_ins s \<and> fw_metrics s' = fw_metrics s"
  using assms by (auto simp: same_local_def dest: SubmitFinalitySignature_Err SubmitBatch_Err)

text \<open>A chain that refuses every vote.\<close>

definition demo_refusing :: "string \<Rightarrow> (mem_db, demo_ext, unit) app_env" where
  "demo_refusing m = demo_app\<lparr>env_cc := (env_cc demo_app)\<lparr>cc_SubmitFinalitySig := (\<lambda>pk b pr pf sg. fail (NewErr m))\<rparr>\<rparr>"

lemma demo_refusing_same:
  "signFinalitySig (demo_refusing m) = signFinalitySig demo_app" "getPubRandList (demo_refusing m) = getPubRandList demo_app"
  "GetPubRandProof (demo_refusing m) = GetPubRandProof demo_app"
  "cc_SubmitFinalitySig (env_cc (demo_refusing m)) pk b pr pf sg = fail (NewErr m)"
  by (simp_all add: fun_eq_iff demo_refusing_def signFinalitySig_def getPubRandList_def GetPubRandProof_def kv_View_def
      cong: if_cong)

lemma demo_refuse: "SubmitFinalitySignature (demo_refusing m) (demo_bi 4) demo_world4 =
    (Err (WrapErr ''failed to send finality signature to the consumer chain: '' (NewErr m)),
     demo_world4\<lparr>fw_ext := demo_out (demo_listed 4 (demo_signed 4 demo_em4)) [demo_msg4]\<rparr>)"
  by (simp add: SubmitFinalitySignature_def demo_world4_def demo_run_defs prs_GetPubRandProof_def demo_proof4
      demo_refusing_same fail_def)

theorem failed_submission_changes_nothing_witness:
  "\<exists>e s'. SubmitFinalitySignature (demo_refusing ''out of gas'') (demo_bi 4) demo_world4 = (Err e, s') \<and>
     fw_db s' = demo_db4 \<and> fw_ins s' = demo_ins \<and> fw_metrics s' = demo_fm4"
proof -
  obtain e s' where run: "SubmitFinalitySignature (demo_refusing ''out of gas'') (demo_bi 4) demo_world4 = (Err e, s')"
    using demo_refuse [of "''out of gas''"] by blast
  from failed_submission_changes_nothing [where bs = "[]", OF disjI1, OF run] run show ?thesis by (simp add: demo_world4_def)
qed

section \<open>The retries end\<close>

text \<open>Every call a retry makes returns.\<close>

definition calls_return :: "('db, 'w, 'z) fp_env_scheme \<Rightarrow> bool" where
  "calls_return E \<longleftrightarrow> env_returns E \<and> (\<forall>pf. Proof_Marshal E pf \<noteq> Running) \<and>
     (\<forall>a b c d e. returns (cc_SubmitFinalitySig (env_cc E) a b c d e)) \<and> (\<forall>h. returns (cc_QueryBlock (env_cc E) h)) \<and>
     (\<forall>a b. returns (cc_QueryLastCommittedPublicRand (env_cc E) a b)) \<and>
     (\<forall>a b c d e. returns (cc_CommitPubRandList (env_cc E) a b c d e)) \<and>
     (\<forall>a b c. returns (em_SignSchnorrSig (env_em E) a b c))"

lemma put_proofs_returns: "kv_returns L \<Longrightarrow> returns (put_proofs L kvs)"
proof (induction kvs)
  case (Cons kv kvs)
  then show ?case by (cases kv) (auto simp: kv_returns_def intro!: returns_intros)
qed (simp add: returns_ret)

lemma marshal_proofs_returns: "(\<And>pf. Proof_Marshal L pf \<noteq> Running) \<Longrightarrow> marshal_proofs L pfs \<noteq> Running"
  by (induction pfs) (auto split: res.splits)

lemma proof_store_returns [returns_intros]:
  assumes "calls_return E"
  shows "returns (AddPubRandProofList E prs pfs)" and "returns (GetPubRandProof E pr)"
proof -
  have kv: "kv_returns E" using assms by (simp add: calls_return_def env_returns_def)
  show "returns (AddPubRandProofList E prs pfs)"
    unfolding AddPubRandProofList_def
    using assms by (intro returns_intros kv_Batch_returns kv put_proofs_returns marshal_proofs_returns) (simp add: calls_return_def)
  show "returns (GetPubRandProof E pr)"
    unfolding GetPubRandProof_def by (rule kv_View_returns [OF kv]) (auto split: option.splits)
qed

lemma getPubRandList_returns [returns_intros]: "calls_return E \<Longrightarrow> returns (getPubRandList E h n)"
  unfolding getPubRandList_def by (intro returns_intros) (simp add: calls_return_def env_returns_def)

lemma submission_returns [returns_intros]:
  assumes calls: "calls_return E"
  shows "returns (SubmitFinalitySignature E b)" and "returns (CommitPubRand E h)" and "returns (checkBlockFinalization E h)"
proof -
  have env: "env_returns E" using calls by (simp add: calls_return_def)
  show "returns (SubmitFinalitySignature E b)"
    unfolding SubmitFinalitySignature_def prs_GetPubRandProof_def
    by (intro returns_intros calls env) (use calls in \<open>simp add: calls_return_def\<close>)
  show "returns (CommitPubRand E h)"
    unfolding CommitPubRand_def GetLastCommittedHeight_def lastCommittedPublicRandWithRetry_def prs_AddPubRandProofList_def
      signPubRandCommit_def Let_def
    by (intro returns_intros calls env) (use calls in \<open>simp_all add: calls_return_def\<close>)
  show "returns (checkBlockFinalization E h)"
    unfolding checkBlockFinalization_def by (intro returns_intros) (use calls in \<open>simp add: calls_return_def\<close>)
qed

text \<open>The counter of the failed cycles does not wrap before it passes the bound.\<close>

lemma next_cycle:
  fixes n m :: u32
  assumes "n \<le> m" "m \<noteq> -1" "\<not> m < n + 1"
  shows "n + 1 \<le> m" and "unat m - unat (n + 1) = unat m - unat n - 1" and "unat n < unat m"
proof -
  have "n \<noteq> -1" using assms(1,2) word_order.extremum_uniqueI by auto
  then have "1 + n \<noteq> 0" by (simp add: eq_neg_iff_add_eq_0 add.commute)
  then have s: "unat (n + 1) = unat n + 1" using unatSuc [of n] by (simp add: add.commute)
  with assms(3) show "n + 1 \<le> m" "unat m - unat (n + 1) = unat m - unat n - 1" "unat n < unat m"
    by (simp_all add: word_le_nat_alt word_less_nat_alt)
qed

lemma retrySubmit_loop_returns:
  fixes E :: "('db, 'w, 'z) fp_env_scheme"
  assumes calls: "calls_return E" and bound: "MaxSubmissionRetries (env_cfg E) \<noteq> -1"
    and "n \<le> MaxSubmissionRetries (env_cfg E)" and "unat (MaxSubmissionRetries (env_cfg E)) - unat n \<le> length wakes"
  shows "returns (retrySubmit_loop E b n wakes :: (('db, 'w, 'y) fp_world_scheme, TxResponse option) go)"
  using assms(3,4)
proof (induction wakes arbitrary: n)
  case Nil
  then have "MaxSubmissionRetries (env_cfg E) < n + 1" using next_cycle(3) [OF _ bound] by fastforce
  then show ?case
    by (subst retrySubmit_loop.simps, simp only: if_True) (intro returns_intros calls)
next
  case (Cons x wakes)
  have again: "returns (retrySubmit_loop E b (n + 1) wakes :: (('db, 'w, 'y) fp_world_scheme, TxResponse option) go)"
    if "\<not> MaxSubmissionRetries (env_cfg E) < n + 1"
    using Cons next_cycle [OF Cons.prems(1) bound that] by simp
  show ?case
    by (cases "MaxSubmissionRetries (env_cfg E) < n + 1"; subst retrySubmit_loop.simps; cases x;
        simp only: if_True if_False list.case wake.case; intro returns_intros calls again)
qed

lemma retryCommit_loop_returns:
  fixes E :: "('db, 'w, 'z) fp_env_scheme"
  assumes calls: "calls_return E" and bound: "MaxSubmissionRetries (env_cfg E) \<noteq> -1"
    and "n \<le> MaxSubmissionRetries (env_cfg E)" and "unat (MaxSubmissionRetries (env_cfg E)) - unat n \<le> length wakes"
  shows "returns (retryCommit_loop E b n wakes :: (('db, 'w, 'y) fp_world_scheme, TxResponse option) go)"
  using assms(3,4)
proof (induction wakes arbitrary: n)
  case Nil
  then have "MaxSubmissionRetries (env_cfg E) < n + 1" using next_cycle(3) [OF _ bound] by fastforce
  then show ?case
    by (subst retryCommit_loop.simps, simp only: if_True) (intro returns_intros calls)
next
  case (Cons x wakes)
  have again: "returns (retryCommit_loop E b (n + 1) wakes :: (('db, 'w, 'y) fp_world_scheme, TxResponse option) go)"
    if "\<not> MaxSubmissionRetries (env_cfg E) < n + 1"
    using Cons next_cycle [OF Cons.prems(1) bound that] by simp
  show ?case
    by (cases "MaxSubmissionRetries (env_cfg E) < n + 1"; subst retryCommit_loop.simps; cases x;
        simp only: if_True if_False list.case wake.case; intro returns_intros calls again)
qed

text \<open>C22. Both retry loops end: when every call returns, and the bound on the retries is not the largest
  32-bit number (the counter of failed cycles would wrap around it), as many wake-ups as the bound
  are enough for a result.\<close>

theorem retries_end:
  fixes s :: "('db, 'w, 'y) fp_world_scheme"
  assumes "calls_return E" and "MaxSubmissionRetries (env_cfg E) \<noteq> -1"
    and "unat (MaxSubmissionRetries (env_cfg E)) \<le> length wakes"
  shows "fst (retrySubmitFinalitySignatureUntilBlockFinalized E b wakes s) \<noteq> Running \<and>
    fst (retryCommitPubRandUntilBlockFinalized E b wakes s) \<noteq> Running"
  using retrySubmit_loop_returns [OF assms(1,2), of 0 wakes b] retryCommit_loop_returns [OF assms(1,2), of 0 wakes b] assms(3)
  by (auto simp: returns_def retrySubmitFinalitySignatureUntilBlockFinalized_def retryCommitPubRandUntilBlockFinalized_def)

theorem retries_end_witness:
  "fst (retrySubmitFinalitySignatureUntilBlockFinalized demo_app (demo_bi 4) [Timer, Timer] demo_world4) \<noteq> Running"
proof -
  have "calls_return demo_app" by (simp add: calls_return_def demo_env_returns demo_em_returns demo_cc_returns)
  moreover have "MaxSubmissionRetries (env_cfg demo_app) \<noteq> -1"
    "unat (MaxSubmissionRetries (env_cfg demo_app)) \<le> length [Timer, Timer]" by simp_all
  ultimately show ?thesis by (rule retries_end [THEN conjunct1])
qed

section \<open>What is signed, and what stops a vote\<close>

text \<open>The message of a vote determines the height and the hash it is for: no signature of one vote is
  a signature of another.\<close>

lemma vote_message_injective:
  "getMsgToSignForVote h hash = getMsgToSignForVote h' hash' \<longleftrightarrow> h = h' \<and> hash = hash'"
  by (auto simp: getMsgToSignForVote_def append_eq_append_conv)

text \<open>C35. A block whose vote the chain refuses for good is reported once as a critical error, is counted as a
  failed vote, and is not marked as processed: no retry is made, and neither the store nor the
  heights of the instance change.\<close>

theorem refused_vote_is_reported:
  assumes new: "\<not> hasProcessed b s" and power: "hasVotingPower E b s = (Ok True, s1)"
    and refused: "SubmitFinalitySignature E b s1 = (Err e, s2)" and err: "IsUnrecoverable (env_errs E) e"
    and "\<not> errors_Is e (ServiceErr ErrFinalityProviderShutDown)"
  shows "process_block E wakes b s = (Ok (), s2\<lparr>fw_ins := (fw_ins s)\<lparr>ins_criticalErrChan :=
      ins_criticalErrChan (fw_ins s) @ [\<lparr>ce_err = e, ce_fpBtcPk = GetBtcPk s\<rparr>]\<rparr>,
      fw_metrics := IncrementFpTotalFailedVotes (GetBtcPkHex s) (fw_metrics s)\<rparr>) \<and> fw_db s2 = fw_db s"
proof -
  have same: "same_local s1 s2" using refused by (rule SubmitFinalitySignature_Err)
  have "go_rel same_local (hasVotingPower E b)" unfolding fp_query_defs by (intro go_rel_intros)
  then have same1: "same_local s s1" using power by (rule go_relD)
  have "retrySubmitFinalitySignatureUntilBlockFinalized E b wakes s1 = (Err e, s2)"
    using refused err
    by (simp add: retrySubmitFinalitySignatureUntilBlockFinalized_def retrySubmit_loop.simps [of E b 0] handle_go_def fail_def)
  with new power assms(5) same same1 show ?thesis
    by (cases s2) (simp add: process_block_def get_go_def handle_go_def reportCriticalErr_def upd_go_def ret_def same_local_def
        set_ins_def fp_getters meter_def)
qed

theorem refused_vote_is_reported_witness:
  "\<exists>s'. process_block (demo_refusing ''already slashed'') [] (demo_bi 4) demo_world4 = (Ok (), s') \<and>
     length (ins_criticalErrChan (fw_ins s')) = 1 \<and> fw_db s' = demo_db4"
proof -
  let ?E = "demo_refusing ''already slashed''"
  have power: "hasVotingPower ?E (demo_bi 4) demo_world4 = (Ok True, demo_world4)"
    by (simp add: hasVotingPower_def GetVotingPowerWithRetry_def demo_refusing_def demo_run_defs demo_world4_def)
  have new: "\<not> hasProcessed (demo_bi 4) demo_world4" by (simp add: hasProcessed_def fp_getters demo_world4_def)
  have err: "IsUnrecoverable (env_errs ?E) (WrapErr ''failed to send finality signature to the consumer chain: ''
      (NewErr ''already slashed''))"
    by (rule IsUnrecoverable_wrap) (simp add: IsUnrecoverable_def unrecoverableErrors_def demo_refusing_def demo_errs_def
        strings_Contains_def)
  show ?thesis
    using refused_vote_is_reported [OF new power demo_refuse err, of "[]"] by (simp add: demo_world4_def demo_ins_def)
qed

end
