(* ===== verification/SyncProperties.thy ===== *)
theory SyncProperties
  imports RetryProperties ChainProperties
begin

text \<open>
  The properties of fast sync (\<^verbatim>\<open>fastsync.go\<close>) and of the life of an instance: start, the
  lagging check and its channel.
\<close>

section \<open>A concrete fast sync\<close>

lemma demo_blocks [simp]:
  "cc_QueryBlocks (env_cc demo_app) 4 100 10 (demo_out i log) = (Ok [demo_bi 4, demo_bi 5], demo_out i log)"
  "cc_QueryBlocks (env_cc demo_app) 6 100 10 (demo_out i log) = (Ok [], demo_out i log)"
  by (simp_all add: demo_cc_defs bbn_QueryBlocks_def queryLatestBlocks_def demo_page_def demo_block_def demo_bi_def
      Uint64ToBigEndian_inject)

lemma demo_catch_up:
  "catch_up_blocks demo_app [demo_bi 4, demo_bi 5] []
       \<lparr>fw_db = d, fw_ext = demo_out i log, fw_ins = demo_ins\<lparr>ins_isStarted := c, ins_inSync := b\<rparr>, fw_metrics = m\<rparr> =
     (Ok [demo_bi 4], \<lparr>fw_db = d, fw_ext = demo_out i log, fw_ins = demo_ins\<lparr>ins_isStarted := c, ins_inSync := b\<rparr>,
       fw_metrics = IncrementFpTotalBlocksWithoutVotingPower (hex_encode [9]) m\<rparr>)"
  by (simp add: hasProcessed_def hasVotingPower_def GetVotingPowerWithRetry_def demo_run_defs)

lemma demo_proof_list: "GetPubRandProofList demo_app [demo_pr 4] demo_db4 = (Ok [[0]], demo_db4)"
  by (simp add: GetPubRandProofList_def kv_View_def go_defs demo_db4_def mem_HasBucket_def mem_Get_def)

lemma demo_submit_one:
  assumes "fst i = ''''"
  shows "SubmitBatchFinalitySignatures demo_app [demo_bi 4]
     \<lparr>fw_db = demo_db4, fw_ext = demo_out i log, fw_ins = demo_ins\<lparr>ins_isStarted := c, ins_inSync := b\<rparr>, fw_metrics = m\<rparr> = (Ok demo_tx,
     \<lparr>fw_db = demo_db5, fw_ext = demo_out (demo_signed 4 (demo_listed 4 i)) (log @ [demo_vote4]),
      fw_ins = (voted 4 demo_ins)\<lparr>ins_isStarted := c, ins_inSync := b\<rparr>, fw_metrics = demo_moved 4 m\<rparr>)"
  using assms
  by (simp add: SubmitBatchFinalitySignatures_def demo_run_defs prs_GetPubRandProofList_def demo_proof_list upt_rec
      MustUpdateStateAfterFinalitySigSubmission_def updateStateAfterFinalitySigSubmission_def set_fp_def set_ins_def
      demo_set_voted voted_def demo_vote4_def demo_moved_def)

definition demo_db6 :: mem_db where
  "demo_db6 = (finalityProviderBucketName, [([9], [9, 4, 4, 2]), ([9], [9, 4, 4, 2]), ([9], [9, 3, 3, 2])]) # demo_db5"

lemma demo_set_processed: "SetFpLastProcessedHeight demo_app [9] 4 demo_db5 = (Ok (), demo_db6)"
  by (simp add: demo_db4_def demo_db5_def demo_db6_def demo_db_def SetFpLastProcessedHeight_def setFinalityProviderState_def
      saveFinalityProvider_def kv_Batch_def go_defs mem_HasBucket_def mem_Get_def mem_Put_def
      pubRandProofBucketName_def finalityProviderBucketName_def demo_Unmarshal_def demo_Marshal_def demo_fp_def
      byte_status_def)

definition demo_started_world :: "bool \<Rightarrow> FpMetrics \<Rightarrow> (mem_db, demo_ext) fp_world" where
  "demo_started_world c m = \<lparr>fw_db = demo_db4, fw_ext = demo_out demo_em4 [demo_msg4], fw_ins = demo_ins\<lparr>ins_isStarted := c\<rparr>,
     fw_metrics = m\<rparr>"

text \<open>The metrics of a fast sync of blocks 4 and 5: block 5 has no voting power.\<close>

definition demo_synced :: "FpMetrics \<Rightarrow> FpMetrics" where
  "demo_synced m = AddToFpTotalVotedBlocks (hex_encode [9]) (OfLen (length [demo_bi 4])) (demo_moved 4
     (IncrementFpTotalBlocksWithoutVotingPower (hex_encode [9]) m))"

definition demo_world6 :: "bool \<Rightarrow> FpMetrics \<Rightarrow> (mem_db, demo_ext) fp_world" where
  "demo_world6 c m = \<lparr>fw_db = demo_db6, fw_ext = demo_out (demo_signed 4 (demo_listed 4 demo_em4)) [demo_msg4, demo_vote4],
     fw_ins = (voted 4 demo_ins)\<lparr>ins_isStarted := c\<rparr>,
     fw_metrics = RecordFpLastProcessedHeight (hex_encode [9]) 4 (demo_synced m)\<rparr>"

definition demo_result :: FastSyncResult where
  "demo_result = \<lparr>Responses = [demo_tx], SyncedHeight = 4, fsr_LastProcessedHeight = 4\<rparr>"

lemma demo_inSync: "ins_inSync_update (\<lambda>_. False) demo_ins = demo_ins" "voted 4 (demo_ins\<lparr>ins_isStarted := c\<rparr>) = (voted 4 demo_ins)\<lparr>ins_isStarted := c\<rparr>"
  by (simp_all add: demo_ins_def voted_def)

lemma demo_sync_loop:
  "FastSync_loop demo_app (Suc (Suc 0)) 4 100 0 [] \<lparr>fw_db = demo_db4, fw_ext = demo_out demo_em4 [demo_msg4],
     fw_ins = demo_ins\<lparr>ins_isStarted := c, ins_inSync := b\<rparr>, fw_metrics = m\<rparr> = (Ok (4, [demo_tx]),
     \<lparr>fw_db = demo_db5, fw_ext = demo_out (demo_signed 4 (demo_listed 4 demo_em4)) [demo_msg4, demo_vote4],
      fw_ins = (voted 4 demo_ins)\<lparr>ins_isStarted := c, ins_inSync := b\<rparr>, fw_metrics = demo_synced m\<rparr>)"
  by (simp add: on_ext_def zoom_go_def handle_go_def Let_def demo_catch_up demo_submit_one ret_def meter_apply
      demo_synced_def fp_getters voted_def del: catch_up_blocks.simps)

lemma demo_sync: "FastSync demo_app (Suc (Suc 0)) 4 100 (demo_started_world c m) = (Ok demo_result, demo_world6 c m)"
  using demo_sync_loop [where b = True and c = c and m = m]
  by (simp add: FastSync_def demo_started_world_def demo_world6_def demo_result_def defer_inSync_def set_ins_def
      MustSetLastProcessedHeight_def SetLastProcessedHeight_def set_fp_def demo_set_processed demo_run_defs
      voted_def demo_ins_def del: FastSync_loop.simps)

section \<open>Fast sync\<close>



text \<open>C24. A round of fast sync votes for exactly the blocks of the page that need a vote, in the order of the
  page: a block is voted for only if it was not processed and the chain answered a voting power for
  its height, and it is left out only if it was processed or the chain answered that there is none.
  The filter itself changes neither the store nor the instance.\<close>

theorem fast_sync_votes_for_the_right_blocks:
  assumes "catch_up_blocks E bs [] s = (Ok cs, s')"
  shows "subseq cs bs \<and>
    (\<forall>b \<in> set cs. \<not> hasProcessed b s \<and> (\<exists>p > 0. power_query E (GetBtcPk s) (Height b) p)) \<and>
    (\<forall>b \<in> set bs. b \<in> set cs \<or> hasProcessed b s \<or> power_query E (GetBtcPk s) (Height b) 0) \<and>
    fw_db s' = fw_db s \<and> fw_ins s' = fw_ins s"
  using catch_up_blocks_Ok [OF assms] by (auto simp: caught_up_def word_gt_0)

theorem fast_sync_votes_for_the_right_blocks_witness:
  "power_query demo_app [9] 5 0 \<and> (\<exists>p > 0. power_query demo_app [9] 4 p)"
proof -
  note run = demo_catch_up [where b = False and c = True and d = demo_db4 and i = demo_em4 and log = "[demo_msg4]" and m = demo_fm4]
  have "\<not> hasProcessed (demo_bi 5) (demo_started_world True demo_fm4)" "GetBtcPk (demo_started_world True demo_fm4) = [9]"
    "demo_bi 5 \<noteq> demo_bi 4"
    by (simp_all add: hasProcessed_def fp_getters demo_started_world_def demo_bi_def)
  with fast_sync_votes_for_the_right_blocks [OF run] show ?thesis by (simp add: demo_started_world_def demo_ins_def)
qed

text \<open>C25. What a fast sync leaves: the provider is no longer in sync mode, the processed height of the
  instance is the height of the last block it voted for, which is also the voted height. When there
  was no block to vote for, the processed height of the instance falls to zero, whatever it was.\<close>

theorem fast_sync_result:
  assumes "FastSync E n a e s = (Ok r, s')"
  shows "\<not> ins_inSync (fw_ins s) \<and> a \<le> e \<and> \<not> ins_inSync (fw_ins s') \<and>
    GetLastProcessedHeight s' = SyncedHeight r \<and> fsr_LastProcessedHeight r = SyncedHeight r \<and>
    (Responses r \<noteq> [] \<longrightarrow> GetLastVotedHeight s' = SyncedHeight r) \<and>
    (Responses r = [] \<longrightarrow> GetLastProcessedHeight s' = 0 \<and> GetLastVotedHeight s' = GetLastVotedHeight s)"
  using FastSync_Ok [OF assms] by auto

theorem fast_sync_result_witness:
  "GetLastProcessedHeight (demo_world6 False demo_fm4) = 4 \<and> GetLastVotedHeight (demo_world6 False demo_fm4) = 4"
  using fast_sync_result [OF demo_sync [of False demo_fm4]] by (simp add: demo_result_def)

section \<open>The life of an instance\<close>

lemma ins_Start_Ok:
  assumes "ins_Start E n k s = (Ok (), s')"
  shows "ins_laggingTargetChan (fw_ins s') = Some []"
proof -
  let ?s = "set_ins (\<lambda>i. i\<lparr>ins_isStarted := True\<rparr>) s"
  have "\<not> ins_isStarted (fw_ins s)" "\<not> ins_IsJailed ?s"
    using assms by (auto simp: ins_Start_def get_go_def upd_go_def fail_def split: if_splits)
  with assms show ?thesis
    by (auto simp: ins_Start_def get_go_def upd_go_def ret_def elim!: try_go_OkE)
qed

text \<open>C33. The lagging check never blocks on its channel: in every run of a started instance, when the check
  waits it is for the answer of the chain, because the channel with room for one target is empty
  whenever the flag that guards the send is down.\<close>

theorem lagging_never_blocks:
  assumes start: "ins_Start E n k s = (Ok (), s1)" and run: "ins_run E s1 t"
    and answers: "fst (getLatestBlockWithRetry E t) \<noteq> Running"
  shows "fst (lagging_tick E t) \<noteq> Running \<and>
    (\<exists>chan. ins_laggingTargetChan (fw_ins t) = Some chan \<and> length chan \<le> 1)"
proof -
  have "lag_inv s1" using ins_Start_Ok [OF start] by (simp add: lag_inv_def)
  with run have "lag_inv t" by (rule ins_run_lag)
  with lagging_tick_cases(2) [OF this, of E] answers show ?thesis by (auto simp: lag_inv_def)
qed

lemma demo_bootstrap:
  fixes m defines "m' \<equiv> RecordBabylonTipHeight 100 m"
  shows "bootstrap demo_app (Suc (Suc 0)) (demo_started_world True m) = (Ok 4, demo_world6 True m')"
proof -
  have "tryFastSync demo_app (Suc (Suc 0)) (demo_bi 100) (demo_started_world True m') = (Ok (Some demo_result), demo_world6 True m')"
    using demo_sync [of True m']
    by (simp add: tryFastSync_def demo_run_defs demo_started_world_def del: FastSync_loop.simps)
  moreover have "getLatestBlockWithRetry demo_app (demo_started_world True m) = (Ok (demo_bi 100), demo_started_world True m')"
    by (simp add: getLatestBlockWithRetry_def demo_run_defs demo_started_world_def m'_def)
  moreover have "checkLagging demo_app (demo_bi 100) (demo_started_world True m')"
    by (simp add: checkLagging_def fp_getters demo_started_world_def)
  moreover have "getPollerStartingHeight demo_app (demo_world6 True m') = (Ok 4, demo_world6 True m')"
    by (simp add: getPollerStartingHeight_def DefaultChainPollerConfig_def latestFinalizedBlocksWithRetry_def demo_run_defs
        demo_world6_def voted_def)
  ultimately show ?thesis by (simp add: bootstrap_def handle_go_def get_go_def ret_def Let_def)
qed

lemma demo_ins_Start: "\<exists>s'. ins_Start demo_app (Suc (Suc 0)) 1 (demo_started_world False m) = (Ok (), s')"
proof -
  have "set_ins (\<lambda>i. i\<lparr>ins_isStarted := True\<rparr>) (demo_started_world False m) = demo_started_world True m"
    by (simp add: set_ins_def demo_started_world_def)
  moreover obtain s' where "run_poller NewChainPoller (cp_Start (poller_env_of demo_app) 1 5)
      (demo_world6 True (RecordBabylonTipHeight 100 m)) =
      (Ok ((), NewChainPoller\<lparr>cp_isStarted := True, cp_nextHeight := 5, cp_pc := Activating\<rparr>), s')"
    by (simp add: run_poller_def cp_Start_def validateStartHeight_def latestBlockWithRetry_def poller_env_of_def on_chain_def
        NewChainPoller_def set_cp_def demo_run_defs demo_world6_def pl_meter_def)
  moreover have "\<not> ins_IsJailed (demo_started_world True m)" by (simp add: ins_IsJailed_def fp_getters demo_started_world_def)
  ultimately show ?thesis
    using demo_bootstrap
    by (simp add: ins_Start_def get_go_def upd_go_def handle_go_def ret_def) (simp add: demo_started_world_def)
qed

lemma demo_latest_returns: "returns (getLatestBlockWithRetry demo_app)"
  unfolding getLatestBlockWithRetry_def demo_app_parts(1) lift_cc_def Babylon_ClientController_def
  by (intro returns_intros) (simp add: returns_def bbn_QueryBestBlock_def queryLatestBlocks_def go_defs demo_page_def on_net_def)

theorem lagging_never_blocks_witness:
  "\<exists>t. ins_Start demo_app (Suc (Suc 0)) 1 (demo_started_world False demo_fm4) = (Ok (), t) \<and> fst (lagging_tick demo_app t) \<noteq> Running"
proof -
  obtain t where start: "ins_Start demo_app (Suc (Suc 0)) 1 (demo_started_world False demo_fm4) = (Ok (), t)"
    using demo_ins_Start by blast
  have "fst (getLatestBlockWithRetry demo_app t) \<noteq> Running"
    by (rule demo_latest_returns [unfolded returns_def, THEN spec])
  from lagging_never_blocks [OF start ins_run.start this] start show ?thesis by blast
qed

text \<open>C39. A start that fails cannot be repaired: the instance stays marked as started without a poller, so
  that every later start is refused and a stop dereferences the missing poller.\<close>

theorem failed_start_is_stuck:
  assumes "\<not> ins_isStarted (fw_ins s)" and "ins_poller (fw_ins s) = None" and "ins_Start E n k s = (Err e, s1)"
  shows "(\<forall>n' k'. \<exists>m. fst (ins_Start E n' k' s1) = Err (NewErr m)) \<and>
    fst (ins_Stop E s1) = Crash ''nil pointer dereference''"
proof -
  have "ins_isStarted (fw_ins s1)" "ins_poller (fw_ins s1) = None" using ins_Start_failed [OF assms] by simp_all
  then show ?thesis using ins_Start_refused [of s1 E] ins_Stop_no_poller [of s1 E] by blast
qed

text \<open>A chain that cannot be reached.\<close>

definition demo_down :: "(mem_db, demo_ext, unit) app_env" where
  "demo_down = demo_app\<lparr>env_cc := (env_cc demo_app)\<lparr>cc_QueryBestBlock := fail (NewErr ''down'')\<rparr>\<rparr>"

lemma retry_fail: "retry_Do f n (fail e) = fail e"
  by (induction n rule: induct_nat_012) simp_all

lemma demo_down_latest: "getLatestBlockWithRetry demo_down s = (Err (NewErr ''down''), s)"
  by (simp add: getLatestBlockWithRetry_def demo_down_def on_ext_def zoom_go_def retry_fail handle_go_def) (simp add: fail_def)

theorem failed_start_is_stuck_witness:
  "\<exists>e s1. ins_Start demo_down 1 1 demo_world4 = (Err e, s1) \<and> fst (ins_Stop demo_down s1) = Crash ''nil pointer dereference''"
proof -
  have fresh: "\<not> ins_isStarted (fw_ins demo_world4)" "ins_poller (fw_ins demo_world4) = None"
    by (simp_all add: demo_world4_def)
  have "bootstrap demo_down 1 s = (Err (NewErr ''down''), s)" for s :: "(mem_db, demo_ext) fp_world"
    by (simp add: bootstrap_def handle_go_def demo_down_latest fail_def)
  then obtain e s1 where run: "ins_Start demo_down 1 1 demo_world4 = (Err e, s1)"
    by (simp add: ins_Start_def demo_world4_def ins_IsJailed_def set_ins_def demo_run_defs fail_def)
  from failed_start_is_stuck [OF fresh run] run show ?thesis by blast
qed

end
