(* ===== verification/DaemonProperties.thy ===== *)
theory DaemonProperties
  imports DemoRuns
begin

text \<open>
  The properties of the daemon: the manager of the instance with its monitors
  (\<^verbatim>\<open>fp_manager.go\<close>) and the application with its handlers and loops (\<^verbatim>\<open>app.go\<close>,
  \<^verbatim>\<open>rpcserver.go\<close>).
\<close>

section \<open>Every run of the daemon\<close>

lemma progress_heights:
  assumes ok: "store_ok E d" and le: "fp_progress E d d'"
  shows "store_ok E d' \<and> (\<forall>k v p. stored_heights E d k = Some (v, p) \<longrightarrow>
      (\<exists>v' p'. stored_heights E d' k = Some (v', p') \<and> v \<le> v' \<and> p \<le> p' \<and> v' \<le> p'))"
proof -
  have "store_laws E" "fp_wf E d" using ok by (simp_all add: store_ok_def)
  with le have wf: "fp_wf E d'" and mono: "\<And>k p. fp_at E d k = Some p \<Longrightarrow> \<exists>q. fp_at E d' k = Some q \<and> fp_le p q"
    by (auto simp: fp_progress_def)
  have "\<exists>v' p'. stored_heights E d' k = Some (v', p') \<and> v \<le> v' \<and> p \<le> p' \<and> v' \<le> p'"
    if "stored_heights E d k = Some (v, p)" for k v p
  proof -
    from that obtain a where "fp_at E d k = Some a" "pfp_LastVotedHeight a = v" "pfp_LastProcessedHeight a = p"
      by (auto simp: stored_heights_def)
    moreover from mono [OF this(1)] obtain q where "fp_at E d' k = Some q" "fp_le a q" by blast
    ultimately show ?thesis using wf by (auto simp: stored_heights_def fp_le_def fp_wf_def fp_ok_def)
  qed
  with wf \<open>store_laws E\<close> show ?thesis by (simp add: store_ok_def)
qed

text \<open>C1. In every run of the daemon, whatever requests, ticks, errors and interleavings of its goroutines it
  has, the store keeps its invariant (each provider under its own key, voted height at most
  processed height), no provider is lost, and no stored height ever falls.\<close>

theorem daemon_run_keeps_store:
  assumes ok: "store_ok E (mw_db s)" and run: "app_run E s s'"
  shows "store_ok E (mw_db s') \<and>
    (\<forall>k v p. stored_heights E (mw_db s) k = Some (v, p) \<longrightarrow>
      (\<exists>v' p'. stored_heights E (mw_db s') k = Some (v', p') \<and> v \<le> v' \<and> p \<le> p' \<and> v' \<le> p'))"
proof (rule progress_heights [OF ok])
  have "store_laws E" using ok by (simp add: store_ok_def)
  then show "fp_progress E (mw_db s) (mw_db s')" using app_run_progress [OF _ run] by (simp add: mgr_progress_def)
qed

definition demo_aw :: "mem_db \<Rightarrow> (mem_db, demo_ext, unit) app_world" where
  "demo_aw d = \<lparr>mw_db = d, mw_ext = demo_out demo_idle [], mw_fpIns = Some demo_ins, mw_criticalErrChan = [],
     mw_startOnce = True, mw_stopOnce = False, mw_quit = False, mw_metrics = demo_fm, aw_kr = (), aw_input = '''', aw_startOnce = True,
     aw_stopOnce = False, aw_quit = False\<rparr>"

lemma demo_aw_ok: "store_ok demo_app (mw_db (demo_aw demo_db))"
  using demo_store_laws demo_wf by (simp add: demo_aw_def store_ok_def)

lemma demo_aw_heights: "stored_heights demo_app (mw_db (demo_aw demo_db)) [9] = Some (3, 3)"
  by (simp add: demo_aw_def stored_heights_def fp_at_def demo_db_def mem_Get_def demo_Unmarshal_def demo_fp_def)

theorem daemon_run_keeps_store_witness:
  "\<exists>v p. stored_heights demo_app (mw_db (snd (on_ins (commit_tick demo_app []) (demo_aw demo_db)))) [9] = Some (v, p) \<and>
     3 \<le> v \<and> 3 \<le> p \<and> v \<le> p"
proof -
  have "app_run demo_app (demo_aw demo_db) (snd (on_ins (commit_tick demo_app []) (demo_aw demo_db)))"
    by (rule app_run.step [OF app_run.init app_step.commit]) (rule prod.collapse [symmetric])
  from daemon_run_keeps_store [OF demo_aw_ok this] demo_aw_heights show ?thesis by blast
qed

text \<open>C11. The instance that the daemon runs is always that of a stored provider: in every run that starts without an instance or
  with one of a stored provider, the key of the instance is that of its provider record, and
  the store has an entry under it.\<close>

theorem instance_of_a_stored_provider:
  assumes ok: "store_ok E (mw_db s)" and keys: "pubkeys_canonical E" and run: "app_run E s s'"
    and start: "\<And>i. mw_fpIns s = Some i \<Longrightarrow>
      ins_btcPk i = sfp_BtcPk (ins_fp i) \<and> stored_heights E (mw_db s) (ins_btcPk i) \<noteq> None"
    and ins: "mw_fpIns s' = Some i"
  shows "ins_btcPk i = sfp_BtcPk (ins_fp i) \<and> (\<exists>v p. stored_heights E (mw_db s') (ins_btcPk i) = Some (v, p) \<and> v \<le> p)"
proof -
  have "store_laws E" and wf: "fp_wf E (mw_db s)" using ok by (simp_all add: store_ok_def)
  have "ins_stored E s" using start by (auto simp: ins_stored_def stored_heights_def)
  with app_run_progress [OF \<open>store_laws E\<close> run] keys wf have "ins_stored E s'" "fp_wf E (mw_db s')"
    by (simp_all add: mgr_progress_def fp_progress_def)
  with ins show ?thesis by (auto simp: ins_stored_def stored_heights_def fp_wf_def fp_ok_def)
qed

theorem instance_of_a_stored_provider_witness:
  "\<exists>i v p. mw_fpIns (snd (on_ins (commit_tick demo_app []) (demo_aw demo_db))) = Some i \<and>
     stored_heights demo_app (mw_db (snd (on_ins (commit_tick demo_app []) (demo_aw demo_db)))) (ins_btcPk i) = Some (v, p) \<and> v \<le> p"
proof -
  let ?t = "snd (on_ins (commit_tick demo_app []) (demo_aw demo_db))"
  have run: "app_run demo_app (demo_aw demo_db) ?t"
    by (rule app_run.step [OF app_run.init app_step.commit]) (rule prod.collapse [symmetric])
  have keys: "pubkeys_canonical demo_app" by (simp add: pubkeys_canonical_def)
  have start: "ins_btcPk i = sfp_BtcPk (ins_fp i) \<and> stored_heights demo_app (mw_db (demo_aw demo_db)) (ins_btcPk i) \<noteq> None"
    if "mw_fpIns (demo_aw demo_db) = Some i" for i
  proof -
    have "i = demo_ins" using that by (simp add: demo_aw_def)
    then have "ins_btcPk i = [9]" "sfp_BtcPk (ins_fp i) = [9]" by (simp_all add: demo_ins_def)
    then show ?thesis using demo_aw_heights by simp
  qed
  have "\<exists>i. mw_fpIns ?t = Some i"
    by (cases "commit_tick demo_app [] \<lparr>fw_db = demo_db, fw_ext = demo_out demo_idle [], fw_ins = demo_ins, fw_metrics = demo_fm\<rparr>")
      (simp add: on_ins_def demo_aw_def)
  then obtain i where i: "mw_fpIns ?t = Some i" by blast
  from instance_of_a_stored_provider [OF demo_aw_ok keys run start i] i show ?thesis by blast
qed

section \<open>The monitors\<close>

text \<open>C7. A tick of the status monitor moves a provider along the documented transitions: any voting power
  makes it ACTIVE; without voting power a slashed or jailed provider is marked as such and its
  instance is removed, an ACTIVE one becomes INACTIVE, any other keeps its status. The store and the
  running instance agree on the new status, and no other provider is touched.\<close>

theorem status_tick_refines:
  assumes "store_ok E (mw_db s)" and "ins_at s pk st" and "stored_status E (mw_db s) pk = Some st"
    and "mgr_getLatestBlockWithRetry E s = (Ok b, s1)"
    and "on_ins (GetVotingPowerWithRetry E (Height b)) s1 = (Ok vp, s2)"
    and "on_ins (GetFinalityProviderSlashedOrJailedWithRetry E) s2 = (Ok (slashed, jailed), s3)"
    and "status_update_tick E s = (Ok (), s')"
  shows "stored_status E (mw_db s') = (stored_status E (mw_db s))(pk \<mapsto> next_status st vp slashed jailed) \<and>
    (if vp = 0 \<and> (slashed \<or> jailed) then mw_fpIns s' = None
     else ins_at s' pk (next_status st vp slashed jailed))"
  using status_update_tick_Ok [OF assms] .

lemma demo_status_tick:
  "mgr_getLatestBlockWithRetry demo_app (demo_aw demo_db) = (Ok (demo_bi 100), demo_aw demo_db)"
  "on_ins (GetVotingPowerWithRetry demo_app 100) (demo_aw demo_db) = (Ok 10, demo_aw demo_db)"
  "on_ins (GetFinalityProviderSlashedOrJailedWithRetry demo_app) (demo_aw demo_db) = (Ok (False, False), demo_aw demo_db)"
  by (simp_all add: mgr_getLatestBlockWithRetry_def mgr_ext_def on_ins_def GetVotingPowerWithRetry_def
      GetFinalityProviderSlashedOrJailedWithRetry_def demo_run_defs demo_aw_def demo_ins_def)

theorem status_tick_refines_witness:
  "\<exists>s'. status_update_tick demo_app (demo_aw demo_db) = (Ok (), s') \<and> stored_status demo_app (mw_db s') [9] = Some ACTIVE \<and>
     ins_at s' [9] ACTIVE"
proof -
  have at: "ins_at (demo_aw demo_db) [9] ACTIVE" by (simp add: ins_at_def demo_aw_def)
  have st: "stored_status demo_app (mw_db (demo_aw demo_db)) [9] = Some ACTIVE"
    by (simp add: demo_aw_def stored_status_def fp_at_def demo_db_def mem_Get_def demo_Unmarshal_def demo_fp_def byte_status_def)
  have run: "status_update_tick demo_app (demo_aw demo_db) = (Ok (), demo_aw demo_db)"
    using demo_status_tick by (simp add: status_update_tick_def get_go_def handle_go_def ret_def demo_aw_def)
  have q: "on_ins (GetVotingPowerWithRetry demo_app (Height (demo_bi 100))) (demo_aw demo_db) = (Ok 10, demo_aw demo_db)"
    using demo_status_tick(2) by simp
  from status_tick_refines [OF demo_aw_ok at st demo_status_tick(1) q demo_status_tick(3) run] run show ?thesis
    using st by (intro exI [of _ "demo_aw demo_db"] conjI) (simp_all add: next_status_def)
qed



section \<open>Registration\<close>

lemma GetFinalityProvider_Ok:
  assumes "GetFinalityProvider L pk d = (Ok fp, d')"
  shows "d' = d \<and> (\<exists>p. fp_at L d pk = Some p \<and> protoFpToStoredFinalityProvider L p = Ok fp)"
  using assms
  by (auto simp: GetFinalityProvider_def kv_View_def fp_at_def get_go_def of_res_def fail_def handle_go_def
      split: if_splits option.splits res.splits)

lemma stored_fields:
  assumes "protoFpToStoredFinalityProvider L p = Ok fp"
  shows "sfp_Status fp = pfp_Status p \<and> schnorr_ParsePubKey L (pfp_BtcPk p) = Ok (sfp_BtcPk fp)"
  using assms by (auto simp: protoFpToStoredFinalityProvider_def go_defs split: res.splits option.splits)

lemma MustToBTCPK_Ok: "MustToBTCPK L pk s = (Ok pk', s') \<Longrightarrow> schnorr_ParsePubKey L pk = Ok pk' \<and> s' = s"
  by (auto simp: MustToBTCPK_def go_defs split: res.splits)

lemma mgr_db_Ok: "mgr_db m s = (Ok a, s') \<Longrightarrow> m (mw_db s) = (Ok a, mw_db s') \<and> s' = s\<lparr>mw_db := mw_db s'\<rparr>"
  by (auto simp: mgr_db_def zoom_go_def split: prod.splits)

lemma mgr_ext_Ok: "mgr_ext m s = (Ok a, s') \<Longrightarrow> m (mw_ext s) = (Ok a, mw_ext s') \<and> s' = s\<lparr>mw_ext := mw_ext s'\<rparr>"
  by (auto simp: mgr_ext_def zoom_go_def split: prod.splits)

lemma handle_registered_event_Ok:
  assumes "handle_registered_event E addr pk tx s = (Ok res, s')"
  shows "\<exists>btcPk. schnorr_ParsePubKey E pk = Ok btcPk \<and> SetFpStatus E btcPk REGISTERED (mw_db s) = (Ok (), mw_db s') \<and>
    s' = s\<lparr>mw_db := mw_db s', mw_metrics := RecordFpStatus (hex_encode pk) REGISTERED (mw_metrics s)\<rparr> \<and>
    rfs_btcPubKey res = pk \<and> rfs_TxHash res = tx"
proof -
  from assms obtain btcPk s1 where "MustToBTCPK E pk s = (Ok btcPk, s1)"
    and rest: "handle_go (mgr_db (SetFpStatus E btcPk REGISTERED))
       (\<lambda>_. crash ''failed to set finality-provider status to REGISTERED'') (\<lambda>_.
     mgr_meter (RecordFpStatus (hex_encode pk) REGISTERED) (
     ret \<lparr>rfs_bbnAddress = addr, rfs_btcPubKey = pk, rfs_TxHash = tx\<rparr>)) s1 = (Ok res, s')"
    unfolding handle_registered_event_def by (elim try_go_OkE)
  from MustToBTCPK_Ok [OF this(1)] have "schnorr_ParsePubKey E pk = Ok btcPk" "s1 = s" by simp_all
  with rest obtain s2 where db: "mgr_db (SetFpStatus E btcPk REGISTERED) s = (Ok (), s2)"
    and "s' = s2\<lparr>mw_metrics := RecordFpStatus (hex_encode pk) REGISTERED (mw_metrics s2)\<rparr>"
    "rfs_btcPubKey res = pk \<and> rfs_TxHash res = tx"
    by (auto dest!: handle_go_Ok simp: crash_def mgr_meter_def upd_go_def ret_def)
  with mgr_db_Ok [OF db] \<open>schnorr_ParsePubKey E pk = Ok btcPk\<close> show ?thesis by (cases s, cases s2) auto
qed

lemma app_RegisterFinalityProvider_Ok:
  assumes "app_RegisterFinalityProvider E hx s = (Ok res, s')"
  obtains fpPk btcPk p fp pop des tx where "NewBIP340PubKeyFromHex E hx = Ok fpPk" "schnorr_ParsePubKey E fpPk = Ok btcPk"
    "fp_at E (mw_db s) btcPk = Some p" "protoFpToStoredFinalityProvider E p = Ok fp" "sfp_Status fp = CREATED"
    "\<exists>pk. schnorr_ParsePubKey E (sfp_BtcPk fp) = Ok pk \<and>
      cc_RegisterFinalityProvider (env_cc E) pk pop (sfp_Commission fp) des (mw_ext s) = (Ok tx, mw_ext s') \<and>
      SetFpStatus E pk REGISTERED (mw_db s) = (Ok (), mw_db s')"
    "rfs_btcPubKey res = sfp_BtcPk fp" "rfs_TxHash res = TxHash tx"
    "mw_metrics s' = RecordFpStatus (hex_encode (sfp_BtcPk fp)) REGISTERED (mw_metrics s)"
proof -
  from assms obtain fpPk btcPk fp s1 s2 s3 where "of_res (NewBIP340PubKeyFromHex E hx) s = (Ok fpPk, s1)"
    and 2: "MustToBTCPK E fpPk s1 = (Ok btcPk, s2)" and 3: "mgr_db (GetFinalityProvider E btcPk) s2 = (Ok fp, s3)"
    and 4: "(if sfp_Status fp \<noteq> CREATED then fail (NewErr ''finality-provider is already registered'')
     else try_go (of_res (NewBIP340Signature E (BtcSig (sfp_Pop fp)))) (\<lambda>btcSig.
       try_go (of_res (AccAddressFromBech32 E (sfp_FPAddr fp))) (\<lambda>fpAddr.
       get_go app_serving (\<lambda>serving.
       if \<not> serving then running
       else handle_register_request E
         \<lparr>rfr_fpAddr = fpAddr, rfr_btcPubKey = sfp_BtcPk fp, rfr_pop = btcSig,
          rfr_description = sfp_Description fp, rfr_commission = sfp_Commission fp\<rparr>)))) s3 = (Ok res, s')"
    unfolding app_RegisterFinalityProvider_def by (elim try_go_OkE)
  then have 1: "NewBIP340PubKeyFromHex E hx = Ok fpPk" "s1 = s" by (simp_all add: of_res_def)
  note 2 = MustToBTCPK_Ok [OF 2, unfolded 1(2)]
  from mgr_db_Ok [OF 3] GetFinalityProvider_Ok have "s3 = s2"
    by (metis mgr_world.surjective mgr_world.update_convs(1))
  have get: "\<exists>p. fp_at E (mw_db s) btcPk = Some p \<and> protoFpToStoredFinalityProvider E p = Ok fp" and "s3 = s"
    using mgr_db_Ok [OF 3] GetFinalityProvider_Ok [of E btcPk "mw_db s2" fp] 2 \<open>s3 = s2\<close> by auto
  from 4 have st: "sfp_Status fp = CREATED" by (auto simp: fail_def split: if_splits)
  from 4 st \<open>s3 = s\<close> obtain req where req: "handle_register_request E req s = (Ok res, s')"
    and "rfr_btcPubKey req = sfp_BtcPk fp" "rfr_commission req = sfp_Commission fp"
    by (auto simp: get_go_def of_res_def running_def split: if_splits elim!: try_go_OkE)
  from req obtain pop des pk tx s5 s6 where "MustToBTCPK E (rfr_btcPubKey req) s = (Ok pk, s5)"
    and ext: "mgr_ext (cc_RegisterFinalityProvider (env_cc E) pk pop (rfr_commission req) des) s5 = (Ok tx, s6)"
    and ev: "handle_registered_event E (rfr_fpAddr req) (rfr_btcPubKey req) (TxHash tx) s6 = (Ok res, s')"
    unfolding handle_register_request_def by (elim try_go_OkE) (auto simp: of_res_def)
  from MustToBTCPK_Ok [OF this(1)] have pk: "schnorr_ParsePubKey E (sfp_BtcPk fp) = Ok pk" "s5 = s"
    using \<open>rfr_btcPubKey req = sfp_BtcPk fp\<close> by simp_all
  from mgr_ext_Ok [OF ext] pk(2) have e: "cc_RegisterFinalityProvider (env_cc E) pk pop (rfr_commission req) des (mw_ext s) = (Ok tx, mw_ext s6)"
    "mw_db s6 = mw_db s" "mw_metrics s6 = mw_metrics s" by (simp, (cases s, cases s6, auto)+)
  from handle_registered_event_Ok [OF ev] pk(1) \<open>rfr_btcPubKey req = sfp_BtcPk fp\<close>
  have f: "SetFpStatus E pk REGISTERED (mw_db s) = (Ok (), mw_db s')" "mw_ext s' = mw_ext s6"
    "rfs_btcPubKey res = sfp_BtcPk fp" "rfs_TxHash res = TxHash tx"
    "mw_metrics s' = RecordFpStatus (hex_encode (sfp_BtcPk fp)) REGISTERED (mw_metrics s)"
    using e(2,3) by (cases s', cases s6, auto)+
  from get obtain p where "fp_at E (mw_db s) btcPk = Some p" "protoFpToStoredFinalityProvider E p = Ok fp" by blast
  then show ?thesis
    using that [of fpPk btcPk p fp pop des tx] 1 2 st pk e f \<open>rfr_commission req = sfp_Commission fp\<close> by auto
qed


text \<open>A provider that was only created.\<close>

definition demo_db0 :: mem_db where
  "demo_db0 = [(finalityProviderBucketName, [([9], [9, 0, 0, 0])]), (pubRandProofBucketName, [])]"

lemma demo_cc_register: "cc_RegisterFinalityProvider (env_cc demo_app) pk pop c des (demo_out i log) =
    (Ok demo_tx, demo_out i (log @ [MsgCreateFinalityProvider ''bbn1'' pk pop c demo_desc]))"
proof -
  have "Pop_Unmarshal demo_bbn pop = Ok pop" "sdk_Description_Unmarshal demo_bbn des = Ok demo_desc"
    by (simp_all add: demo_bbn_def)
  then show ?thesis by (simp add: demo_cc_defs bbn_RegisterFinalityProvider_def reliablySendMsg_def)
qed


section \<open>More than one provider\<close>

text \<open>The manager keeps one instance: while the instance of one provider is started, the synchronisation of
  the statuses ends with an error at the first other provider that should be started; it never
  reaches the providers after it.\<close>

lemma second_provider_not_started:
  assumes ins: "mw_fpIns s = Some i" "ins_isStarted i"
    and other: "hex_encode (sfp_BtcPk (ins_fp i)) \<noteq> hex_encode (sfp_BtcPk fp)"
    and power: "cc_QueryFinalityProviderVotingPower (env_cc E) (sfp_BtcPk fp) h (mw_ext s) = (Ok vp, w)"
    and status: "UpdateFpStatusFromVotingPower E vp fp (mw_db s) = (Ok st, d)"
    and should: "st \<noteq> CREATED" "st \<noteq> SLASHED" "st \<noteq> JAILED"
  shows "\<exists>m. fst (sync_status_loop E n k h (fp # fps) already s) = Err (NewErr m)"
proof -
  let ?s = "s\<lparr>mw_ext := w, mw_db := d\<rparr>"
  have "\<not> IsFinalityProviderRunning (sfp_BtcPk fp) (s\<lparr>mw_ext := w\<rparr>)"
    using ins other by (simp add: IsFinalityProviderRunning_def)
  moreover have "mw_fpIns ?s = Some i" using ins by simp
  then obtain m t where "StartFinalityProvider E n k (sfp_BtcPk fp) '''' ?s = (Err (NewErr m), t)"
    using start_again_refused [of ?s i E n k "sfp_BtcPk fp" "''''"] ins(2) by (metis prod.collapse)
  ultimately show ?thesis
    using power status should
    by (simp add: mgr_ext_def mgr_db_def handle_go_def zoom_go_def get_go_def ret_def fail_def Let_def ShouldStart_def)
qed

text \<open>A second provider \<open>[8]\<close>, beside the started instance of \<open>[9]\<close>.\<close>

definition demo_db_two :: mem_db where
  "demo_db_two = [(finalityProviderBucketName, [([9], [9, 3, 3, 2]), ([8], [8, 0, 0, 1])]), (pubRandProofBucketName, [])]"

lemma second_provider_not_started_witness:
  "\<exists>m. fst (sync_status_loop demo_app 1 1 100 [(ins_fp demo_ins)\<lparr>sfp_BtcPk := [8], sfp_Status := REGISTERED\<rparr>] True
     ((demo_aw demo_db_two)\<lparr>mw_fpIns := Some (demo_ins\<lparr>ins_isStarted := True\<rparr>)\<rparr>)) = Err (NewErr m)"
proof -
  let ?fp = "(ins_fp demo_ins)\<lparr>sfp_BtcPk := [8], sfp_Status := REGISTERED\<rparr>"
  let ?s = "(demo_aw demo_db_two)\<lparr>mw_fpIns := Some (demo_ins\<lparr>ins_isStarted := True\<rparr>)\<rparr>"
  have 1: "hex_encode (sfp_BtcPk (ins_fp (demo_ins\<lparr>ins_isStarted := True\<rparr>))) \<noteq> hex_encode (sfp_BtcPk ?fp)"
    by code_simp
  have 2: "cc_QueryFinalityProviderVotingPower (env_cc demo_app) (sfp_BtcPk ?fp) 100 (mw_ext ?s) = (Ok 10, mw_ext ?s)"
    by (simp add: demo_aw_def)
  obtain d where 3: "UpdateFpStatusFromVotingPower demo_app 10 ?fp (mw_db ?s) = (Ok ACTIVE, d)"
    by (simp add: UpdateFpStatusFromVotingPower_def SetFpStatus_def setFinalityProviderState_def saveFinalityProvider_def
        kv_Batch_def go_defs demo_aw_def demo_db_two_def mem_HasBucket_def mem_Get_def mem_Put_def demo_Unmarshal_def
        demo_Marshal_def demo_fp_def byte_status_def)
  show ?thesis by (rule second_provider_not_started [OF _ _ 1 2 3]) simp_all
qed

end
