(* ===== verification/Encodings.thy ===== *)
theory Encodings
  imports Prelude
begin

text \<open>
  The decoders of the standard library that the commands use, \<^verbatim>\<open>strconv.ParseUint\<close> and
  \<^verbatim>\<open>hex.DecodeString\<close>, as inverses of the printing functions of the prelude.
\<close>

section \<open>Decimal numbers\<close>

text \<open>
  \<^verbatim>\<open>strconv.ParseUint(s, 10, 64)\<close>: the first character that is no digit or does not fit decides the error.
\<close>

definition digit_val :: "char \<Rightarrow> nat option" where
  "digit_val c = (let n = of_char c :: nat in if 48 \<le> n \<and> n \<le> 57 then Some (n - 48) else None)"

definition parse_err :: "string \<Rightarrow> string \<Rightarrow> go_error" where
  "parse_err s what = NewErr (''strconv.ParseUint: parsing '' @ [CHR 0x22] @ s @ [CHR 0x22] @ '': '' @ what)"

fun parse_loop :: "string \<Rightarrow> nat \<Rightarrow> string \<Rightarrow> u64 res" where
  "parse_loop s n [] = Ok (of_nat n)"
| "parse_loop s n (c # cs) = (case digit_val c of
      None \<Rightarrow> Err (parse_err s ''invalid syntax'')
    | Some d \<Rightarrow> if 10 * n + d \<ge> 2 ^ 64 then Err (parse_err s ''value out of range'')
               else parse_loop s (10 * n + d) cs)"

definition ParseUint :: "string \<Rightarrow> u64 res" where
  "ParseUint s = (if s = '''' then Err (parse_err s ''invalid syntax'') else parse_loop s 0 s)"

section \<open>Hexadecimal text\<close>

text \<open>\<^verbatim>\<open>hex.DecodeString\<close>, which also accepts upper case digits.\<close>

definition hex_val :: "char \<Rightarrow> nat option" where
  "hex_val c = (let n = of_char c :: nat in
     if 48 \<le> n \<and> n \<le> 57 then Some (n - 48)
     else if 97 \<le> n \<and> n \<le> 102 then Some (n - 87)
     else if 65 \<le> n \<and> n \<le> 70 then Some (n - 55) else None)"

definition invalid_byte :: "char \<Rightarrow> go_error" where
  "invalid_byte c = NewErr (''encoding/hex: invalid byte: '' @ [c])"

fun hex_DecodeString :: "string \<Rightarrow> bytes res" where
  "hex_DecodeString [] = Ok []"
| "hex_DecodeString [p] = (case hex_val p of
      None \<Rightarrow> Err (invalid_byte p)
    | Some _ \<Rightarrow> Err (NewErr ''encoding/hex: odd length hex string''))"
| "hex_DecodeString (p # q # r) = (case hex_val p of
      None \<Rightarrow> Err (invalid_byte p)
    | Some a \<Rightarrow> (case hex_val q of
        None \<Rightarrow> Err (invalid_byte q)
      | Some b \<Rightarrow> (case hex_DecodeString r of
          Ok bs \<Rightarrow> Ok (of_nat (16 * a + b) # bs)
        | Err e \<Rightarrow> Err e | Crash c \<Rightarrow> Crash c | Running \<Rightarrow> Running)))"

section \<open>Round trips\<close>

lemma hex_val_digit: "n < 16 \<Longrightarrow> hex_val (hex_digit n) = Some n"
  by (auto simp: hex_val_def hex_digit_def Let_def)

lemma hex_round_trip [simp]: "hex_DecodeString (hex_encode b) = Ok b"
proof (induction b)
  case Nil
  show ?case by (simp add: hex_encode_def)
next
  case (Cons w b)
  have "unat w < 2 ^ LENGTH(8)" by (rule unsigned_less)
  then have w: "unat w < 256" by simp
  have "hex_encode (w # b) = hex_digit (unat w div 16) # hex_digit (unat w mod 16) # hex_encode b"
    by (simp add: hex_encode_def)
  with Cons show ?case using w by (simp add: hex_val_digit)
qed

lemma hex_encode_inject [simp]: "hex_encode a = hex_encode b \<longleftrightarrow> a = b"
  by (metis hex_round_trip res.inject(1))

lemma digit_val_char: "n < 10 \<Longrightarrow> digit_val (char_of (48 + n)) = Some n"
  by (simp add: digit_val_def Let_def)

lemma fmt_nat_parse:
  "n < 2 ^ 64 \<Longrightarrow> parse_loop s 0 (fmt_nat n @ cs) = parse_loop s n cs \<and> fmt_nat n \<noteq> ''''"
proof (induction n arbitrary: cs rule: fmt_nat.induct)
  case (1 n)
  show ?case
  proof (cases "n < 10")
    case True
    then show ?thesis by (simp add: fmt_nat.simps [of n] digit_val_char)
  next
    case False
    then have "fmt_nat n = fmt_nat (n div 10) @ [char_of (48 + n mod 10)]" by (simp add: fmt_nat.simps [of n])
    moreover have "parse_loop s 0 (fmt_nat (n div 10) @ char_of (48 + n mod 10) # cs) =
        parse_loop s (n div 10) (char_of (48 + n mod 10) # cs)"
      using 1 False by simp
    ultimately show ?thesis using 1(2) by (simp add: digit_val_char)
  qed
qed

lemma ParseUint_fmt [simp]: "ParseUint (fmt_u64 w) = Ok w"
proof -
  have "unat w < 2 ^ LENGTH(64)" by (rule unsigned_less)
  then have "unat w < 2 ^ 64" by simp
  from fmt_nat_parse [OF this, of "fmt_nat (unat w)" "[]"] show ?thesis
    by (simp add: ParseUint_def fmt_u64_def)
qed

end
