(* ===== verification/FpdCommands.thy ===== *)
theory FpdCommands
  imports Wiring Encodings
begin

text \<open>
  The command line of \<^verbatim>\<open>fpd\<close> (\<^verbatim>\<open>finality-provider/cmd/fpd/daemon\<close>) and the gRPC client
  it uses (\<^verbatim>\<open>finality-provider/service/client/rpcclient.go\<close>). A command runs in its own
  process: its world is the daemon with the network to it, the file system, and what it
  has printed. Flags are read through the flag library, a parameter.
\<close>

section \<open>Commands and their world\<close>

type_synonym FlagSet = "string \<rightharpoonup> string"

datatype cobra_Args = NoArgs | ExactArgs nat

fun args_ok :: "cobra_Args \<Rightarrow> string list \<Rightarrow> bool" where
  "args_ok NoArgs args \<longleftrightarrow> args = []"
| "args_ok (ExactArgs n) args \<longleftrightarrow> length args = n"

text \<open>A declared flag is its name with its default.\<close>

record 's cobra_Command =
  cmd_Use :: string
  cmd_Aliases :: "string list"
  cmd_Args :: cobra_Args
  cmd_Flags :: "(string \<times> string) list"
  cmd_RunE :: "FlagSet \<Rightarrow> string list \<Rightarrow> ('s, unit) go"

text \<open>\<^verbatim>\<open>btcstktypes.FinalityProvider\<close> as it is exported, without a proof of possession.\<close>

record exported_FP =
  xfp_Addr :: string
  xfp_Description :: Description
  xfp_Commission :: LegacyDec
  xfp_BtcPk :: bytes

datatype cli_output =
    OutInfo string
  | OutFP FinalityProviderInfo
  | OutFPs "FinalityProviderInfo list"
  | OutTx string
  | OutSig AddFinalitySignatureResponse
  | OutExported exported_FP
  | OutSigned exported_FP string
  | OutText string

record ('r, 'fs) cli_world =
  cw_remote :: 'r
  cw_fs :: 'fs
  cw_out :: "cli_output list"

record sdk_Tx =
  tx_Msgs :: "sdk_Msg list"
  tx_MsgsV2 :: "bytes list res"

record 'fs cmd_lib = "'fs fpd_files" +
  pf_GetString :: "FlagSet \<Rightarrow> string \<Rightarrow> string res"
  pf_GetBool :: "FlagSet \<Rightarrow> string \<Rightarrow> bool res"
  GetClientQueryContext_HomeDir :: "FlagSet \<Rightarrow> string res"
  Description_EnsureLength :: "Description \<Rightarrow> Description res"
  FinalityProvider_Marshal :: "exported_FP \<Rightarrow> bytes res"
  GetClientTxContext :: "unit res"
  ReadTxFromFile :: "string \<Rightarrow> 'fs \<Rightarrow> sdk_Tx res"
  Msg_ValidateBasic :: "sdk_Msg \<Rightarrow> unit res"
  GetMsgV2Signers :: "bytes \<Rightarrow> bytes list res"
  AddressCodec_BytesToString :: "bytes \<Rightarrow> string res"
  Pop_VerifyBIP340 :: "bytes \<Rightarrow> bytes \<Rightarrow> bytes \<Rightarrow> unit res"

definition on_remote :: "('r, 'a) go \<Rightarrow> (('r, 'fs, 'y) cli_world_scheme, 'a) go" where
  "on_remote m = zoom_go cw_remote (\<lambda>r s. s\<lparr>cw_remote := r\<rparr>) m"

definition on_fs :: "('fs, 'a) go \<Rightarrow> (('r, 'fs, 'y) cli_world_scheme, 'a) go" where
  "on_fs m = zoom_go cw_fs (\<lambda>f s. s\<lparr>cw_fs := f\<rparr>) m"

definition printResp :: "cli_output \<Rightarrow> (('r, 'fs, 'y) cli_world_scheme, unit) go" where
  "printResp x = upd_go (\<lambda>s. s\<lparr>cw_out := cw_out s @ [x]\<rparr>) (ret ())"

text \<open>\<^verbatim>\<open>flags.GetString\<close> with the wrapping that every command has.\<close>

definition get_flag :: "('fs, 'z) cmd_lib_scheme \<Rightarrow> FlagSet \<Rightarrow> string \<Rightarrow> (string \<Rightarrow> ('s, 'b) go) \<Rightarrow> ('s, 'b) go" where
  "get_flag C flags name k = wrap_go (''failed to read flag '' @ name @ '': '') (of_res (pf_GetString C flags name)) k"

definition RunEWithClientCtx ::
  "('fs, 'z) cmd_lib_scheme \<Rightarrow> (string \<Rightarrow> FlagSet \<Rightarrow> string list \<Rightarrow> ('s, unit) go) \<Rightarrow>
   FlagSet \<Rightarrow> string list \<Rightarrow> ('s, unit) go" where
  "RunEWithClientCtx C fRunWithCtx flags args =
     try_go (of_res (GetClientQueryContext_HomeDir C flags)) (\<lambda>home. fRunWithCtx home flags args)"

section \<open>The client context\<close>

text \<open>
  The fields of \<^verbatim>\<open>client.Context\<close> that come from flags or from the configuration (\<^verbatim>\<open>finality-provider/cmd/cmd.go\<close>).
  A keyring is an opaque handle; the context with the codecs of the app is the argument.
\<close>

record client_Context =
  ctx_HomeDir :: string
  ctx_From :: string
  ctx_ChainID :: string
  ctx_Keyring :: string
  ctx_KeyringDir :: string
  ctx_OutputFormat :: string
  ctx_SignModeStr :: string

record 'fs ctx_lib = "'fs cmd_lib" +
  pf_Changed :: "FlagSet \<Rightarrow> string \<Rightarrow> bool"
  NewKeyringFromBackend :: "client_Context \<Rightarrow> string \<Rightarrow> string res"
  SetCmdClientContextHandler :: "client_Context \<Rightarrow> FlagSet \<Rightarrow> client_Context res"
  SetCmdClientContext :: "FlagSet \<Rightarrow> client_Context \<Rightarrow> unit res"

definition FillContextFromBabylonConfig ::
  "('fs, 'z) ctx_lib_scheme \<Rightarrow> client_Context \<Rightarrow> FlagSet \<Rightarrow> BBNConfig \<Rightarrow> ('s, client_Context) go" where
  "FillContextFromBabylonConfig C ctx flagSet bbnConf =
     (let ctx = (if pf_Changed C flagSet ''from'' then ctx else ctx\<lparr>ctx_From := bbn_Key bbnConf\<rparr>);
          ctx = (if pf_Changed C flagSet ''chain-id'' then ctx else ctx\<lparr>ctx_ChainID := bbn_ChainID bbnConf\<rparr>)
      in try_go (if pf_Changed C flagSet ''keyring-backend'' then ret ctx
           else try_go (of_res (NewKeyringFromBackend C ctx (bbn_KeyringBackend bbnConf))) (\<lambda>kr. ret (ctx\<lparr>ctx_Keyring := kr\<rparr>)))
         (\<lambda>ctx.
         let ctx = (if pf_Changed C flagSet ''keyring-dir'' then ctx else ctx\<lparr>ctx_KeyringDir := bbn_KeyDirectory bbnConf\<rparr>);
             ctx = (if pf_Changed C flagSet ''output'' then ctx else ctx\<lparr>ctx_OutputFormat := bbn_OutputFormat bbnConf\<rparr>);
             ctx = (if pf_Changed C flagSet ''sign-mode'' then ctx else ctx\<lparr>ctx_SignModeStr := bbn_SignModeStr bbnConf\<rparr>)
         in ret ctx))"

text \<open>The result is the context of the command afterwards.\<close>

definition PersistClientCtx ::
  "('fs, 'z) ctx_lib_scheme \<Rightarrow> client_Context \<Rightarrow> FlagSet \<Rightarrow> (('r, 'fs, 'y) cli_world_scheme, client_Context) go" where
  "PersistClientCtx C ctx flags =
     try_go (of_res (SetCmdClientContextHandler C ctx flags)) (\<lambda>ctx.
     get_go cw_fs (\<lambda>fs.
     handle_go (of_res (fpd_LoadConfig C (ctx_HomeDir ctx) fs)) (\<lambda>_. ret ctx) (\<lambda>cfg.
     try_go (FillContextFromBabylonConfig C ctx flags (cfg_BabylonConfig cfg)) (\<lambda>ctx'.
     try_go (of_res (SetCmdClientContext C flags ctx')) (\<lambda>_. ret ctx')))))"

text \<open>
  Flags win over the configuration; the keyring is the exception: it is opened in the
  directory that the context had before that of the configuration is set.
\<close>

lemma FillContext_Ok:
  assumes "FillContextFromBabylonConfig C ctx flags bbn s = (Ok ctx', s')"
  shows "s' = s \<and> ctx_HomeDir ctx' = ctx_HomeDir ctx \<and>
    ctx_From ctx' = (if pf_Changed C flags ''from'' then ctx_From ctx else bbn_Key bbn) \<and>
    ctx_ChainID ctx' = (if pf_Changed C flags ''chain-id'' then ctx_ChainID ctx else bbn_ChainID bbn) \<and>
    ctx_KeyringDir ctx' = (if pf_Changed C flags ''keyring-dir'' then ctx_KeyringDir ctx else bbn_KeyDirectory bbn) \<and>
    ctx_OutputFormat ctx' = (if pf_Changed C flags ''output'' then ctx_OutputFormat ctx else bbn_OutputFormat bbn) \<and>
    ctx_SignModeStr ctx' = (if pf_Changed C flags ''sign-mode'' then ctx_SignModeStr ctx else bbn_SignModeStr bbn) \<and>
    (if pf_Changed C flags ''keyring-backend'' then ctx_Keyring ctx' = ctx_Keyring ctx
     else \<exists>c. ctx_KeyringDir c = ctx_KeyringDir ctx \<and> NewKeyringFromBackend C c (bbn_KeyringBackend bbn) = Ok (ctx_Keyring ctx'))"
proof -
  let ?c = "\<lambda>ctx. if pf_Changed C flags ''chain-id'' then ctx else ctx\<lparr>ctx_ChainID := bbn_ChainID bbn\<rparr>"
  let ?f = "\<lambda>ctx. if pf_Changed C flags ''from'' then ctx else ctx\<lparr>ctx_From := bbn_Key bbn\<rparr>"
  let ?d = "\<lambda>ctx. if pf_Changed C flags ''keyring-dir'' then ctx else ctx\<lparr>ctx_KeyringDir := bbn_KeyDirectory bbn\<rparr>"
  let ?o = "\<lambda>ctx. if pf_Changed C flags ''output'' then ctx else ctx\<lparr>ctx_OutputFormat := bbn_OutputFormat bbn\<rparr>"
  let ?m = "\<lambda>ctx. if pf_Changed C flags ''sign-mode'' then ctx else ctx\<lparr>ctx_SignModeStr := bbn_SignModeStr bbn\<rparr>"
  define c1 where "c1 = ?c (?f ctx)"
  from assms obtain c2 s1 where 1: "(if pf_Changed C flags ''keyring-backend'' then ret c1
      else try_go (of_res (NewKeyringFromBackend C c1 (bbn_KeyringBackend bbn))) (\<lambda>kr. ret (c1\<lparr>ctx_Keyring := kr\<rparr>))) s = (Ok c2, s1)"
    and 2: "ret (?m (?o (?d c2))) s1 = (Ok ctx', s')"
    unfolding FillContextFromBabylonConfig_def Let_def c1_def by (elim try_go_OkE)
  have c2: "s1 = s \<and> (\<exists>kr. c2 = c1\<lparr>ctx_Keyring := kr\<rparr> \<and> (if pf_Changed C flags ''keyring-backend'' then kr = ctx_Keyring c1
      else NewKeyringFromBackend C c1 (bbn_KeyringBackend bbn) = Ok kr))"
    using 1 by (cases "pf_Changed C flags ''keyring-backend''") (auto simp: ret_def of_res_def elim!: try_go_OkE)
  have c1: "ctx_HomeDir c1 = ctx_HomeDir ctx \<and> ctx_KeyringDir c1 = ctx_KeyringDir ctx \<and> ctx_Keyring c1 = ctx_Keyring ctx \<and>
      ctx_From c1 = ctx_From (?f ctx) \<and> ctx_ChainID c1 = ctx_ChainID (?c ctx) \<and> ctx_OutputFormat c1 = ctx_OutputFormat ctx \<and>
      ctx_SignModeStr c1 = ctx_SignModeStr ctx"
    by (simp add: c1_def)
  have ctx': "ctx_HomeDir ctx' = ctx_HomeDir c2 \<and> ctx_From ctx' = ctx_From c2 \<and> ctx_ChainID ctx' = ctx_ChainID c2 \<and>
      ctx_Keyring ctx' = ctx_Keyring c2 \<and> ctx_KeyringDir ctx' = ctx_KeyringDir (?d c2) \<and>
      ctx_OutputFormat ctx' = ctx_OutputFormat (?o c2) \<and> ctx_SignModeStr ctx' = ctx_SignModeStr (?m c2) \<and> s' = s1"
    using 2 by (simp add: ret_def) (clarsimp)
  from c2 obtain kr where "s1 = s" "c2 = c1\<lparr>ctx_Keyring := kr\<rparr>" and kr: "if pf_Changed C flags ''keyring-backend'' then kr = ctx_Keyring c1
      else NewKeyringFromBackend C c1 (bbn_KeyringBackend bbn) = Ok kr" by blast
  with c1 ctx' show ?thesis by (simp, metis)
qed

section \<open>The gRPC client\<close>

text \<open>
  \<^verbatim>\<open>client, cleanUp, err := NewFinalityProviderServiceGRpcClient(addr)\<close> with the deferred
  \<^verbatim>\<open>cleanUp\<close>, which runs after a return and after a panic, and prints its error.
\<close>

definition NewFinalityProviderServiceGRpcClient :: "('n, 'z) rpc_net_scheme \<Rightarrow> string \<Rightarrow> ('w \<times> 'n, unit) go" where
  "NewFinalityProviderServiceGRpcClient N remoteAddr =
     wrap_go (''failed to build gRPC connection to '' @ remoteAddr @ '': '') (on_net (grpc_Dial N remoteAddr)) ret"

definition cleanUp :: "('n, 'z) rpc_net_scheme \<Rightarrow> (('w \<times> 'n, 'fs, 'y) cli_world_scheme, unit) go" where
  "cleanUp N = handle_go (on_remote (on_net (conn_Close N)))
     (\<lambda>e. printResp (OutText (''Failed to clean up grpc client: '' @ err_msg e))) ret"

definition with_client ::
  "('n, 'z) rpc_net_scheme \<Rightarrow> string \<Rightarrow> (go_error \<Rightarrow> go_error) \<Rightarrow> (('w \<times> 'n, 'fs, 'y) cli_world_scheme, unit) go \<Rightarrow>
   (('w \<times> 'n, 'fs, 'y) cli_world_scheme, unit) go" where
  "with_client N addr wrap body =
     handle_go (on_remote (NewFinalityProviderServiceGRpcClient N addr)) (\<lambda>e. fail (wrap e)) (\<lambda>_ s.
       case body s of
         (Running, s') \<Rightarrow> (Running, s')
       | (r, s') \<Rightarrow> (r, snd (cleanUp N s')))"

type_synonym ('db, 'w, 'kr, 'n, 'a) fpd_call = "(('db, 'w, 'kr) app_world \<times> 'n, 'a) go"

definition fc_GetInfo ::
  "('n, 'v) rpc_net_scheme \<Rightarrow> ('db, 'w, 'kr, 'z) app_env_scheme \<Rightarrow> ('db, 'w, 'kr, 'n, string) fpd_call" where
  "fc_GetInfo N E = try_go (rpc_call N (rpc_GetInfo E)) ret"

definition fc_RegisterFinalityProvider ::
  "('n, 'v) rpc_net_scheme \<Rightarrow> ('db, 'w, 'kr, 'z) app_env_scheme \<Rightarrow> nat \<Rightarrow> nat \<Rightarrow> bytes \<Rightarrow> string \<Rightarrow>
   ('db, 'w, 'kr, 'n, string) fpd_call" where
  "fc_RegisterFinalityProvider N E n k fpPk passphrase =
     try_go (rpc_call N (rpc_RegisterFinalityProvider E n k (hex_encode fpPk) passphrase)) ret"

definition fc_CreateFinalityProvider ::
  "('n, 'v) rpc_net_scheme \<Rightarrow> ('db, 'w, 'kr, 'z) app_env_scheme \<Rightarrow> string \<Rightarrow> string \<Rightarrow> string \<Rightarrow> string \<Rightarrow> string \<Rightarrow>
   Description \<Rightarrow> LegacyDec \<Rightarrow> ('db, 'w, 'kr, 'n, FinalityProviderInfo) fpd_call" where
  "fc_CreateFinalityProvider N E keyName chainID eotsPkHex passphrase hdPath description commission =
     try_go (of_res (Description_Marshal E description)) (\<lambda>descBytes.
     try_go (rpc_call N (rpc_CreateFinalityProvider E
       \<lparr>cfq_KeyName = keyName, cfq_Passphrase = passphrase, cfq_HdPath = hdPath, cfq_Description = descBytes,
        cfq_ChainId = chainID, cfq_Commission = LegacyDec_String E commission, cfq_EotsPkHex = eotsPkHex\<rparr>)) ret)"

definition fc_AddFinalitySignature ::
  "('n, 'v) rpc_net_scheme \<Rightarrow> ('db, 'w, 'kr, 'z) app_env_scheme \<Rightarrow> string \<Rightarrow> u64 \<Rightarrow> bytes \<Rightarrow>
   ('db, 'w, 'kr, 'n, AddFinalitySignatureResponse) fpd_call" where
  "fc_AddFinalitySignature N E fpPk height appHash =
     try_go (rpc_call N (rpc_AddFinalitySignature E fpPk height appHash)) ret"

definition fc_UnjailFinalityProvider ::
  "('n, 'v) rpc_net_scheme \<Rightarrow> ('db, 'w, 'kr, 'z) app_env_scheme \<Rightarrow> nat \<Rightarrow> nat \<Rightarrow> string \<Rightarrow>
   ('db, 'w, 'kr, 'n, string) fpd_call" where
  "fc_UnjailFinalityProvider N E n k fpPk = try_go (rpc_call N (rpc_UnjailFinalityProvider E n k fpPk)) ret"

definition fc_QueryFinalityProviderList ::
  "('n, 'v) rpc_net_scheme \<Rightarrow> ('db, 'w, 'kr, 'z) app_env_scheme \<Rightarrow>
   ('db, 'w, 'kr, 'n, FinalityProviderInfo list) fpd_call" where
  "fc_QueryFinalityProviderList N E = try_go (rpc_call N (rpc_QueryFinalityProviderList E)) ret"

definition fc_QueryFinalityProviderInfo ::
  "('n, 'v) rpc_net_scheme \<Rightarrow> ('db, 'w, 'kr, 'z) app_env_scheme \<Rightarrow> bytes \<Rightarrow>
   ('db, 'w, 'kr, 'n, FinalityProviderInfo) fpd_call" where
  "fc_QueryFinalityProviderInfo N E fpPk = try_go (rpc_call N (rpc_QueryFinalityProvider E (hex_encode fpPk))) ret"

definition fc_EditFinalityProvider ::
  "('n, 'v) rpc_net_scheme \<Rightarrow> ('db, 'w, 'kr, 'z) app_env_scheme \<Rightarrow> bytes \<Rightarrow> Description \<Rightarrow> string \<Rightarrow>
   ('db, 'w, 'kr, 'n, unit) fpd_call" where
  "fc_EditFinalityProvider N E fpPk desc rate =
     try_go (rpc_call N (rpc_EditFinalityProvider E (hex_encode fpPk) rate desc)) (\<lambda>_. ret ())"

definition fc_SignMessageFromChainKey ::
  "('n, 'v) rpc_net_scheme \<Rightarrow> ('db, 'w, 'kr, 'z) app_env_scheme \<Rightarrow> string \<Rightarrow> string \<Rightarrow> string \<Rightarrow> bytes \<Rightarrow>
   ('db, 'w, 'kr, 'n, bytes) fpd_call" where
  "fc_SignMessageFromChainKey N E keyName passphrase hdPath rawMsgToSign =
     rpc_call N (rpc_SignMessageFromChainKey E keyName passphrase hdPath rawMsgToSign)"

section \<open>The commands that call the daemon\<close>

type_synonym ('db, 'w, 'kr, 'n, 'fs) cmd_world = "(('db, 'w, 'kr) app_world \<times> 'n, 'fs) cli_world"

definition defaultFpdDaemonAddress :: string where
  "defaultFpdDaemonAddress = ''127.0.0.1:12581''"

definition defaultAppHashStr :: string where
  "defaultAppHashStr = ''fd903d9baeb3ab1c734ee003de75f676c5a9a8d0574647e5385834d57d3e79ec''"

definition runCommandGetDaemonInfo ::
  "('fs, 'x) cmd_lib_scheme \<Rightarrow> ('n, 'v) rpc_net_scheme \<Rightarrow> ('db, 'w, 'kr, 'z) app_env_scheme \<Rightarrow>
   FlagSet \<Rightarrow> string list \<Rightarrow> (('db, 'w, 'kr, 'n, 'fs) cmd_world, unit) go" where
  "runCommandGetDaemonInfo C N E flags args =
     get_flag C flags ''daemon-address'' (\<lambda>daemonAddress.
     with_client N daemonAddress id (
     try_go (on_remote (fc_GetInfo N E)) (\<lambda>info.
     printResp (OutInfo info))))"

definition CommandGetDaemonInfo ::
  "('fs, 'x) cmd_lib_scheme \<Rightarrow> ('n, 'v) rpc_net_scheme \<Rightarrow> ('db, 'w, 'kr, 'z) app_env_scheme \<Rightarrow>
   ('db, 'w, 'kr, 'n, 'fs) cmd_world cobra_Command" where
  "CommandGetDaemonInfo C N E =
     \<lparr>cmd_Use = ''get-info'', cmd_Aliases = [''gi''], cmd_Args = NoArgs,
      cmd_Flags = [(''daemon-address'', defaultFpdDaemonAddress)], cmd_RunE = runCommandGetDaemonInfo C N E\<rparr>"

definition getDescriptionFromFlags :: "('fs, 'x) cmd_lib_scheme \<Rightarrow> FlagSet \<Rightarrow> ('s, Description) go" where
  "getDescriptionFromFlags C f =
     get_flag C f ''moniker'' (\<lambda>monikerStr.
     get_flag C f ''identity'' (\<lambda>identityStr.
     get_flag C f ''website'' (\<lambda>websiteStr.
     get_flag C f ''security-contact'' (\<lambda>securityContactStr.
     get_flag C f ''details'' (\<lambda>detailsStr.
     of_res (Description_EnsureLength C \<lparr>Moniker = monikerStr, Identity = identityStr, Website = websiteStr,
       SecurityContact = securityContactStr, Details = detailsStr\<rparr>))))))"

definition loadKeyName ::
  "('fs, 'x) cmd_lib_scheme \<Rightarrow> string \<Rightarrow> FlagSet \<Rightarrow> (('r, 'fs, 'y) cli_world_scheme, string) go" where
  "loadKeyName C homeDir flags =
     get_flag C flags ''key-name'' (\<lambda>keyName.
     if keyName \<noteq> '''' then ret keyName
     else get_go cw_fs (\<lambda>fs.
       wrap_go (''failed to load config from '' @ fpd_ConfigFile homeDir @ '': '')
         (of_res (fpd_LoadConfig C homeDir fs)) (\<lambda>cfg.
       if bbn_Key (cfg_BabylonConfig cfg) = '''' then fail (NewErr ''the key in config is empty'')
       else ret (bbn_Key (cfg_BabylonConfig cfg)))))"

definition runCommandCreateFP ::
  "('fs, 'x) cmd_lib_scheme \<Rightarrow> ('n, 'v) rpc_net_scheme \<Rightarrow> ('db, 'w, 'kr, 'z) app_env_scheme \<Rightarrow>
   string \<Rightarrow> FlagSet \<Rightarrow> string list \<Rightarrow> (('db, 'w, 'kr, 'n, 'fs) cmd_world, unit) go" where
  "runCommandCreateFP C N E homeDir flags args =
     get_flag C flags ''daemon-address'' (\<lambda>daemonAddress.
     get_flag C flags ''commission-rate'' (\<lambda>commissionRateStr.
     wrap_go ''invalid commission rate: '' (of_res (LegacyNewDecFromStr E commissionRateStr)) (\<lambda>commissionRate.
     wrap_go ''invalid description: '' (getDescriptionFromFlags C flags) (\<lambda>description.
     wrap_go ''not able to load key name: '' (loadKeyName C homeDir flags) (\<lambda>keyName.
     with_client N daemonAddress id (
     get_flag C flags ''chain-id'' (\<lambda>chainId.
     get_flag C flags ''passphrase'' (\<lambda>passphrase.
     get_flag C flags ''hd-path'' (\<lambda>hdPath.
     get_flag C flags ''eots-pk'' (\<lambda>eotsPkHex.
     wrap_go (''invalid eots public key '' @ eotsPkHex @ '': '')
       (if length eotsPkHex > 0 then try_go (of_res (NewBIP340PubKeyFromHex E eotsPkHex)) (\<lambda>_. ret ()) else ret ()) (\<lambda>_.
     try_go (on_remote (fc_CreateFinalityProvider N E keyName chainId eotsPkHex passphrase hdPath description
       commissionRate)) (\<lambda>info.
     printResp (OutFP info)))))))))))))"

definition CommandCreateFP ::
  "('fs, 'x) cmd_lib_scheme \<Rightarrow> ('n, 'v) rpc_net_scheme \<Rightarrow> ('db, 'w, 'kr, 'z) app_env_scheme \<Rightarrow>
   ('db, 'w, 'kr, 'n, 'fs) cmd_world cobra_Command" where
  "CommandCreateFP C N E =
     \<lparr>cmd_Use = ''create-finality-provider'', cmd_Aliases = [''cfp''], cmd_Args = NoArgs,
      cmd_Flags = [(''daemon-address'', defaultFpdDaemonAddress), (''key-name'', ''''),
        (''home'', btcutil_AppDataDir C ''fpd''), (''chain-id'', ''''), (''passphrase'', ''''), (''hd-path'', ''''),
        (''commission-rate'', ''0.05''), (''moniker'', ''''), (''identity'', ''''), (''website'', ''''),
        (''security-contact'', ''''), (''details'', ''''), (''eots-pk'', '''')],
      cmd_RunE = RunEWithClientCtx C (runCommandCreateFP C N E)\<rparr>"

definition runCommandUnjailFP ::
  "('fs, 'x) cmd_lib_scheme \<Rightarrow> ('n, 'v) rpc_net_scheme \<Rightarrow> ('db, 'w, 'kr, 'z) app_env_scheme \<Rightarrow> nat \<Rightarrow> nat \<Rightarrow>
   string \<Rightarrow> FlagSet \<Rightarrow> string list \<Rightarrow> (('db, 'w, 'kr, 'n, 'fs) cmd_world, unit) go" where
  "runCommandUnjailFP C N E n k homeDir flags args =
     get_flag C flags ''daemon-address'' (\<lambda>daemonAddress.
     with_client N daemonAddress id (
     index_go args 0 (\<lambda>arg.
     try_go (on_remote (fc_UnjailFinalityProvider N E n k arg)) (\<lambda>_. ret ()))))"

definition CommandUnjailFP ::
  "('fs, 'x) cmd_lib_scheme \<Rightarrow> ('n, 'v) rpc_net_scheme \<Rightarrow> ('db, 'w, 'kr, 'z) app_env_scheme \<Rightarrow> nat \<Rightarrow> nat \<Rightarrow>
   ('db, 'w, 'kr, 'n, 'fs) cmd_world cobra_Command" where
  "CommandUnjailFP C N E n k =
     \<lparr>cmd_Use = ''unjail-finality-provider'', cmd_Aliases = [''ufp''], cmd_Args = ExactArgs 1,
      cmd_Flags = [(''daemon-address'', defaultFpdDaemonAddress)],
      cmd_RunE = RunEWithClientCtx C (runCommandUnjailFP C N E n k)\<rparr>"

definition runCommandLsFP ::
  "('fs, 'x) cmd_lib_scheme \<Rightarrow> ('n, 'v) rpc_net_scheme \<Rightarrow> ('db, 'w, 'kr, 'z) app_env_scheme \<Rightarrow>
   FlagSet \<Rightarrow> string list \<Rightarrow> (('db, 'w, 'kr, 'n, 'fs) cmd_world, unit) go" where
  "runCommandLsFP C N E flags args =
     get_flag C flags ''daemon-address'' (\<lambda>daemonAddress.
     with_client N daemonAddress id (
     try_go (on_remote (fc_QueryFinalityProviderList N E)) (\<lambda>resp.
     printResp (OutFPs resp))))"

definition CommandLsFP ::
  "('fs, 'x) cmd_lib_scheme \<Rightarrow> ('n, 'v) rpc_net_scheme \<Rightarrow> ('db, 'w, 'kr, 'z) app_env_scheme \<Rightarrow>
   ('db, 'w, 'kr, 'n, 'fs) cmd_world cobra_Command" where
  "CommandLsFP C N E =
     \<lparr>cmd_Use = ''list-finality-providers'', cmd_Aliases = [''ls''], cmd_Args = NoArgs,
      cmd_Flags = [(''daemon-address'', defaultFpdDaemonAddress)], cmd_RunE = runCommandLsFP C N E\<rparr>"

definition runCommandInfoFP ::
  "('fs, 'x) cmd_lib_scheme \<Rightarrow> ('n, 'v) rpc_net_scheme \<Rightarrow> ('db, 'w, 'kr, 'z) app_env_scheme \<Rightarrow>
   FlagSet \<Rightarrow> string list \<Rightarrow> (('db, 'w, 'kr, 'n, 'fs) cmd_world, unit) go" where
  "runCommandInfoFP C N E flags args =
     index_go args 0 (\<lambda>arg.
     try_go (of_res (NewBIP340PubKeyFromHex E arg)) (\<lambda>fpPk.
     get_flag C flags ''daemon-address'' (\<lambda>daemonAddress.
     with_client N daemonAddress id (
     try_go (on_remote (fc_QueryFinalityProviderInfo N E fpPk)) (\<lambda>resp.
     printResp (OutFP resp))))))"

definition CommandInfoFP ::
  "('fs, 'x) cmd_lib_scheme \<Rightarrow> ('n, 'v) rpc_net_scheme \<Rightarrow> ('db, 'w, 'kr, 'z) app_env_scheme \<Rightarrow>
   ('db, 'w, 'kr, 'n, 'fs) cmd_world cobra_Command" where
  "CommandInfoFP C N E =
     \<lparr>cmd_Use = ''finality-provider-info [fp-eots-pk-hex]'', cmd_Aliases = [''fpi''], cmd_Args = ExactArgs 1,
      cmd_Flags = [(''daemon-address'', defaultFpdDaemonAddress)], cmd_RunE = runCommandInfoFP C N E\<rparr>"

definition runCommandRegisterFP ::
  "('fs, 'x) cmd_lib_scheme \<Rightarrow> ('n, 'v) rpc_net_scheme \<Rightarrow> ('db, 'w, 'kr, 'z) app_env_scheme \<Rightarrow> nat \<Rightarrow> nat \<Rightarrow>
   FlagSet \<Rightarrow> string list \<Rightarrow> (('db, 'w, 'kr, 'n, 'fs) cmd_world, unit) go" where
  "runCommandRegisterFP C N E n k flags args =
     index_go args 0 (\<lambda>arg.
     try_go (of_res (NewBIP340PubKeyFromHex E arg)) (\<lambda>fpPk.
     get_flag C flags ''daemon-address'' (\<lambda>daemonAddress.
     with_client N daemonAddress id (
     get_flag C flags ''passphrase'' (\<lambda>passphrase.
     try_go (on_remote (fc_RegisterFinalityProvider N E n k fpPk passphrase)) (\<lambda>res.
     printResp (OutTx res)))))))"

definition CommandRegisterFP ::
  "('fs, 'x) cmd_lib_scheme \<Rightarrow> ('n, 'v) rpc_net_scheme \<Rightarrow> ('db, 'w, 'kr, 'z) app_env_scheme \<Rightarrow> nat \<Rightarrow> nat \<Rightarrow>
   ('db, 'w, 'kr, 'n, 'fs) cmd_world cobra_Command" where
  "CommandRegisterFP C N E n k =
     \<lparr>cmd_Use = ''register-finality-provider [fp-eots-pk-hex]'', cmd_Aliases = [''rfp''], cmd_Args = ExactArgs 1,
      cmd_Flags = [(''daemon-address'', defaultFpdDaemonAddress), (''passphrase'', '''')],
      cmd_RunE = runCommandRegisterFP C N E n k\<rparr>"

definition runCommandAddFinalitySig ::
  "('fs, 'x) cmd_lib_scheme \<Rightarrow> ('n, 'v) rpc_net_scheme \<Rightarrow> ('db, 'w, 'kr, 'z) app_env_scheme \<Rightarrow>
   FlagSet \<Rightarrow> string list \<Rightarrow> (('db, 'w, 'kr, 'n, 'fs) cmd_world, unit) go" where
  "runCommandAddFinalitySig C N E flags args =
     index_go args 0 (\<lambda>arg.
     try_go (of_res (NewBIP340PubKeyFromHex E arg)) (\<lambda>fpPk.
     index_go args 1 (\<lambda>arg1.
     try_go (of_res (ParseUint arg1)) (\<lambda>blkHeight.
     get_flag C flags ''daemon-address'' (\<lambda>daemonAddress.
     get_flag C flags ''app-hash'' (\<lambda>appHashHex.
     with_client N daemonAddress id (
     try_go (of_res (hex_DecodeString appHashHex)) (\<lambda>appHash.
     try_go (on_remote (fc_AddFinalitySignature N E (hex_encode fpPk) blkHeight appHash)) (\<lambda>res.
     printResp (OutSig res))))))))))"

definition CommandAddFinalitySig ::
  "('fs, 'x) cmd_lib_scheme \<Rightarrow> ('n, 'v) rpc_net_scheme \<Rightarrow> ('db, 'w, 'kr, 'z) app_env_scheme \<Rightarrow>
   ('db, 'w, 'kr, 'n, 'fs) cmd_world cobra_Command" where
  "CommandAddFinalitySig C N E =
     \<lparr>cmd_Use = ''add-finality-sig [fp-eots-pk-hex] [block-height]'', cmd_Aliases = [''afs''], cmd_Args = ExactArgs 2,
      cmd_Flags = [(''daemon-address'', defaultFpdDaemonAddress), (''app-hash'', defaultAppHashStr)],
      cmd_RunE = runCommandAddFinalitySig C N E\<rparr>"

text \<open>The errors of reading the optional flags are ignored, and leave the empty string.\<close>

definition opt_flag :: "('fs, 'x) cmd_lib_scheme \<Rightarrow> FlagSet \<Rightarrow> string \<Rightarrow> string" where
  "opt_flag C flags name = (case pf_GetString C flags name of Ok v \<Rightarrow> v | _ \<Rightarrow> '''')"

definition runCommandEditFinalityDescription ::
  "('fs, 'x) cmd_lib_scheme \<Rightarrow> ('n, 'v) rpc_net_scheme \<Rightarrow> ('db, 'w, 'kr, 'z) app_env_scheme \<Rightarrow>
   FlagSet \<Rightarrow> string list \<Rightarrow> (('db, 'w, 'kr, 'n, 'fs) cmd_world, unit) go" where
  "runCommandEditFinalityDescription C N E flags args =
     index_go args 0 (\<lambda>arg.
     try_go (of_res (NewBIP340PubKeyFromHex E arg)) (\<lambda>fpPk.
     get_flag C flags ''daemon-address'' (\<lambda>daemonAddress.
     with_client N daemonAddress id (
     let desc = \<lparr>Moniker = opt_flag C flags ''moniker'', Identity = opt_flag C flags ''identity'',
           Website = opt_flag C flags ''website'', SecurityContact = opt_flag C flags ''security-contact'',
           Details = opt_flag C flags ''details''\<rparr>
     in text_go (''failed to edit finality provider '' @ hex_encode fpPk @ '' err '')
          (on_remote (fc_EditFinalityProvider N E fpPk desc (opt_flag C flags ''commission-rate''))) ret))))"

definition CommandEditFinalityDescription ::
  "('fs, 'x) cmd_lib_scheme \<Rightarrow> ('n, 'v) rpc_net_scheme \<Rightarrow> ('db, 'w, 'kr, 'z) app_env_scheme \<Rightarrow>
   ('db, 'w, 'kr, 'n, 'fs) cmd_world cobra_Command" where
  "CommandEditFinalityDescription C N E =
     \<lparr>cmd_Use = ''edit-finality-provider [btc_pk]'', cmd_Aliases = [''efp''], cmd_Args = ExactArgs 1,
      cmd_Flags = [(''daemon-address'', defaultFpdDaemonAddress), (''moniker'', ''''), (''website'', ''''),
        (''security-contact'', ''''), (''details'', ''''), (''identity'', ''''), (''commission-rate'', '''')],
      cmd_RunE = runCommandEditFinalityDescription C N E\<rparr>"

definition runCommandExportFP ::
  "('fs, 'x) cmd_lib_scheme \<Rightarrow> ('n, 'v) rpc_net_scheme \<Rightarrow> ('db, 'w, 'kr, 'z) app_env_scheme \<Rightarrow>
   string \<Rightarrow> FlagSet \<Rightarrow> string list \<Rightarrow> (('db, 'w, 'kr, 'n, 'fs) cmd_world, unit) go" where
  "runCommandExportFP C N E homeDir flags args =
     get_flag C flags ''daemon-address'' (\<lambda>daemonAddress.
     with_client N daemonAddress (WrapErr (''failled to connect to daemon addr '' @ daemonAddress @ '': '')) (
     index_go args 0 (\<lambda>fpBtcPkHex.
     wrap_go (''invalid fp btc pk hex '' @ fpBtcPkHex @ '': '') (of_res (NewBIP340PubKeyFromHex E fpBtcPkHex)) (\<lambda>fpPk.
     wrap_go (''failed to query fp info from '' @ fpBtcPkHex @ '': '')
       (on_remote (fc_QueryFinalityProviderInfo N E fpPk)) (\<lambda>fpInfo.
     wrap_go (''failed to parse fp commission '' @ fpi_Commission fpInfo @ '': '')
       (of_res (LegacyNewDecFromStr E (fpi_Commission fpInfo))) (\<lambda>comm.
     let fp = \<lparr>xfp_Addr = fpi_FpAddr fpInfo, xfp_Description = fpi_Description fpInfo, xfp_Commission = comm,
           xfp_BtcPk = fpPk\<rparr>
     in wrap_go ''failed to read flag signed: '' (of_res (pf_GetBool C flags ''signed'')) (\<lambda>signed.
        if \<not> signed then printResp (OutExported fp)
        else wrap_go ''not able to load key name: '' (loadKeyName C homeDir flags) (\<lambda>keyName.
          wrap_go ''failed to marshal finality provider: '' (of_res (FinalityProvider_Marshal C fp)) (\<lambda>fpbz.
          get_flag C flags ''passphrase'' (\<lambda>passphrase.
          get_flag C flags ''hd-path'' (\<lambda>hdPath.
          wrap_go ''failed to sign finality provider: ''
            (on_remote (fc_SignMessageFromChainKey N E keyName passphrase hdPath fpbz)) (\<lambda>resp.
          printResp (OutSigned fp (hex_encode resp))))))))))))))"

definition CommandExportFP ::
  "('fs, 'x) cmd_lib_scheme \<Rightarrow> ('n, 'v) rpc_net_scheme \<Rightarrow> ('db, 'w, 'kr, 'z) app_env_scheme \<Rightarrow>
   ('db, 'w, 'kr, 'n, 'fs) cmd_world cobra_Command" where
  "CommandExportFP C N E =
     \<lparr>cmd_Use = ''export-finality-provider [fp-eots-pk-hex]'', cmd_Aliases = [''exfp''], cmd_Args = NoArgs,
      cmd_Flags = [(''daemon-address'', defaultFpdDaemonAddress), (''signed'', ''false''), (''key-name'', ''''),
        (''home'', btcutil_AppDataDir C ''fpd''), (''passphrase'', ''''), (''hd-path'', '''')],
      cmd_RunE = RunEWithClientCtx C (runCommandExportFP C N E)\<rparr>"

section \<open>The commands on files\<close>

definition runInitCmd ::
  "('fs, 'x) cmd_lib_scheme \<Rightarrow> string \<Rightarrow> FlagSet \<Rightarrow> string list \<Rightarrow> (('r, 'fs, 'y) cli_world_scheme, unit) go" where
  "runInitCmd C homeDir flags args =
     try_go (of_res (filepath_Abs C homeDir)) (\<lambda>abs.
     let homePath = CleanAndExpandPath C abs
     in wrap_go ''failed to read flag force: '' (of_res (pf_GetBool C flags ''force'')) (\<lambda>force.
        get_go cw_fs (\<lambda>fs.
        if FileExists C homePath fs \<and> \<not> force
        then fail (NewErr (''home path '' @ homePath @ '' already exists''))
        else try_go (on_fs (MakeDirectory C homePath)) (\<lambda>_.
          try_go (on_fs (MakeDirectory C (fpd_LogDir homePath))) (\<lambda>_.
          try_go (of_res (fpd_DefaultConfigWithHome C homePath)) (\<lambda>defaultConfig.
          on_fs (ini_WriteFile C (fpd_ConfigFile homePath) defaultConfig)))))))"

definition CommandInit :: "('fs, 'x) cmd_lib_scheme \<Rightarrow> ('r, 'fs, 'y) cli_world_scheme cobra_Command" where
  "CommandInit C =
     \<lparr>cmd_Use = ''init'', cmd_Aliases = [], cmd_Args = NoArgs, cmd_Flags = [(''force'', ''false'')],
      cmd_RunE = RunEWithClientCtx C (runInitCmd C)\<rparr>"

text \<open>The action after \<^verbatim>\<open>keys add\<close>: the configuration follows the new key, if there is one.\<close>

definition keysAdd_PostRunE ::
  "('fs, 'x) cmd_lib_scheme \<Rightarrow> string \<Rightarrow> FlagSet \<Rightarrow> string list \<Rightarrow> (('r, 'fs, 'y) cli_world_scheme, unit) go" where
  "keysAdd_PostRunE C homeDir flags args = get_go cw_fs (\<lambda>fs.
     handle_go (of_res (fpd_LoadConfig C homeDir fs)) (\<lambda>_. ret ()) (\<lambda>cfg.
     try_go (of_res (pf_GetString C flags ''keyring-backend'')) (\<lambda>keyringBackend.
     index_go args 0 (\<lambda>arg.
     on_fs (ini_WriteFile C (fpd_ConfigFile homeDir) (cfg\<lparr>cfg_BabylonConfig :=
       (cfg_BabylonConfig cfg)\<lparr>bbn_Key := arg, bbn_KeyringBackend := keyringBackend\<rparr>\<rparr>))))))"

text \<open>
  \<^verbatim>\<open>tx validate-signed-finality-provider\<close>, and its loop over the messages of the transaction. The texts of
  its errors leave out the messages printed with \<^verbatim>\<open>%+v\<close>.
\<close>

fun validate_msgs ::
  "('fs, 'x) cmd_lib_scheme \<Rightarrow> ('db, 'w, 'kr, 'z) app_env_scheme \<Rightarrow> bytes list \<Rightarrow> nat \<Rightarrow> sdk_Msg list \<Rightarrow>
   ('s, unit) go" where
  "validate_msgs C E msgsV2 i [] = ret ()"
| "validate_msgs C E msgsV2 i (sdkMsg # msgs) =
     index_go msgsV2 i (\<lambda>msgV2.
     case sdkMsg of
       MsgCreateFinalityProvider addr btcPk pop commission description \<Rightarrow>
         wrap_go ''error validating basic msg: '' (of_res (Msg_ValidateBasic C sdkMsg)) (\<lambda>_.
         wrap_go ''failed to get signers from msg: '' (of_res (GetMsgV2Signers C msgV2)) (\<lambda>signers.
         if length signers = 0 then fail (NewErr ''no signer at msg'')
         else try_go (of_res (AddressCodec_BytesToString C (signers ! 0))) (\<lambda>signerAddrStr.
           wrap_go (''invalid signer address '' @ signerAddrStr @ '', please sign with a valid bbn address, err: '')
             (of_res (AccAddressFromBech32 E signerAddrStr)) (\<lambda>signerBbnAddr.
           if \<not> strings_EqualFold addr signerAddrStr
           then fail (NewErr (''signer address: '' @ signerAddrStr @ '' is different from finality provider address: '' @ addr))
           else wrap_go (''invalid Proof of Possession with signer '' @ AccAddress_String E signerBbnAddr @ '': '')
             (of_res (Pop_VerifyBIP340 C pop signerBbnAddr btcPk)) (\<lambda>_.
             validate_msgs C E msgsV2 (Suc i) msgs)))))
     | _ \<Rightarrow> fail (NewErr ''unable to parse to MsgCreateFinalityProvider''))"

definition validateSignedFinalityProvider ::
  "('fs, 'x) cmd_lib_scheme \<Rightarrow> ('db, 'w, 'kr, 'z) app_env_scheme \<Rightarrow> FlagSet \<Rightarrow> string list \<Rightarrow>
   (('r, 'fs, 'y) cli_world_scheme, unit) go" where
  "validateSignedFinalityProvider C E flags args =
     try_go (of_res (GetClientTxContext C)) (\<lambda>_.
     index_go args 0 (\<lambda>path.
     get_go cw_fs (\<lambda>fs.
     try_go (of_res (ReadTxFromFile C path fs)) (\<lambda>stdTx.
     try_go (of_res (tx_MsgsV2 stdTx)) (\<lambda>msgsV2.
     if length (tx_Msgs stdTx) = 0 then fail (NewErr (''invalid msg, there is no msg inside '' @ path @ '' file''))
     else try_go (validate_msgs C E msgsV2 0 (tx_Msgs stdTx)) (\<lambda>_.
       printResp (OutText ''The signed MsgCreateFinalityProvider is valid'')))))))"

section \<open>Starting the daemon\<close>

definition loadApp ::
  "('db, ('edb, 'ekr, 'n, 'c) fpd_ext, 'kr, 'z) app_env_scheme \<Rightarrow> ('edb, 'ekr, 'x) eots_lib_scheme \<Rightarrow>
   ('n, 'v) rpc_net_scheme \<Rightarrow> ('c, 'u) BabylonController_scheme \<Rightarrow> FpdConfig \<Rightarrow>
   (('db, ('edb, 'ekr, 'n, 'c) fpd_ext, 'kr, 'y) app_world_scheme,
    ('db, ('edb, 'ekr, 'n, 'c) fpd_ext, 'kr, 'z) app_env_scheme) go" where
  "loadApp E L N B cfg = text_go ''failed to create finality-provider app: ''
     (NewFinalityProviderAppFromConfig E L N B cfg) ret"

definition startApp ::
  "('db, 'w, 'kr, 'z) app_env_scheme \<Rightarrow> nat \<Rightarrow> nat \<Rightarrow> string \<Rightarrow> string \<Rightarrow>
   (('db, 'w, 'kr, 'y) app_world_scheme, unit) go" where
  "startApp E n k fpPkStr passphrase =
     wrap_go ''failed to start the finality provider app: '' app_Start (\<lambda>_.
     if fpPkStr = '''' then ret ()
     else wrap_go (''invalid finality provider public key '' @ fpPkStr @ '': '')
       (of_res (NewBIP340PubKeyFromHex E fpPkStr)) (\<lambda>fpPk.
       handle_go (StartHandlingFinalityProvider E n k fpPk passphrase)
         (\<lambda>err. if errors_Is err (ServiceErr ErrFinalityProviderJailed) then ret ()
               else fail (WrapErr (''failed to start the finality-provider instance '' @ fpPkStr @ '': '') err))
         ret))"

end
