(* ===== verification/EotsdCommands.thy ===== *)
theory EotsdCommands
  imports EotsManager Settings Encodings
begin

text \<open>
  The command line of \<^verbatim>\<open>eotsd\<close> (\<^verbatim>\<open>eotsmanager/cmd/eotsd/daemon\<close>): creating keys, signing
  files, verifying such signatures, and exporting proofs of possession. A command opens the
  database, makes a local manager on it and closes the database at its end.
\<close>

section \<open>The world of a command\<close>

text \<open>\<^verbatim>\<open>cli.Context\<close>: the values of the flags and the arguments.\<close>

record cli_Context =
  ctx_String :: "string \<Rightarrow> string"
  ctx_Bool :: "string \<Rightarrow> bool"
  ctx_Args :: "string list"

definition Args_First :: "cli_Context \<Rightarrow> string" where
  "Args_First ctx = (case ctx_Args ctx of [] \<Rightarrow> '''' | a # _ \<Rightarrow> a)"

record ProofOfPossessionBTC =
  pop_BtcSig :: bytes

record DataSigned =
  ds_KeyName :: string
  ds_PubKeyHex :: string
  ds_SignedDataHashHex :: string
  ds_SchnorrSignatureHex :: string

record PoPExport =
  pe_PubKeyHex :: string
  pe_PoPHex :: string
  pe_BabylonAddress :: string

record KeyOutput =
  ko_Name :: string
  ko_PubKeyHex :: string
  ko_Mnemonic :: string

datatype eotsd_output =
    OutSignedData DataSigned
  | OutPoP PoPExport
  | OutKey KeyOutput
  | OutMessage string

text \<open>
  The database is opened from and closed to the file system; opening a file and reading it
  can both fail.
\<close>

record ('db, 'kr, 'fs) eotsd_lib = "'fs eotsd_files" +
  GetBoltBackend :: "BoltBackendConfig \<Rightarrow> ('fs, 'db) go"
  backend_Close :: "'db \<Rightarrow> ('fs, unit) go"
  os_Open :: "string \<Rightarrow> 'fs \<Rightarrow> unit res"
  io_Copy :: "string \<Rightarrow> 'fs \<Rightarrow> bytes res"
  sha256_Sum :: "bytes \<Rightarrow> bytes"
  tmhash_Sum :: "bytes \<Rightarrow> bytes"
  input_GetString :: "('fs, string) go"
  bip39_IsMnemonicValid :: "string \<Rightarrow> bool"
  bbn_NewBIP340PubKeyFromHex :: "string \<Rightarrow> bytes res"
  ParsePubKey :: "bytes \<Rightarrow> PublicKey res"
  ParseSignature :: "bytes \<Rightarrow> bytes res"
  Signature_Verify :: "bytes \<Rightarrow> bytes \<Rightarrow> PublicKey \<Rightarrow> bool"
  sdk_AccAddressFromBech32 :: "string \<Rightarrow> bytes res"
  sdk_AccAddress_String :: "bytes \<Rightarrow> string"
  BIP340Signature_Marshal :: "bytes \<Rightarrow> bytes res"
  Pop_ToHexStr :: "ProofOfPossessionBTC \<Rightarrow> string res"

record ('db, 'kr, 'fs) eotsd_world =
  ew_lm :: "('db, 'kr) LocalEOTSManager"
  ew_fs :: 'fs
  ew_out :: "eotsd_output list"

definition on_lm ::
  "(('db, 'kr) LocalEOTSManager, 'a) go \<Rightarrow> (('db, 'kr, 'fs, 'y) eotsd_world_scheme, 'a) go" where
  "on_lm m = zoom_go ew_lm (\<lambda>l s. s\<lparr>ew_lm := l\<rparr>) m"

definition on_files :: "('fs, 'a) go \<Rightarrow> (('db, 'kr, 'fs, 'y) eotsd_world_scheme, 'a) go" where
  "on_files m = zoom_go ew_fs (\<lambda>f s. s\<lparr>ew_fs := f\<rparr>) m"

definition print_out :: "eotsd_output \<Rightarrow> (('db, 'kr, 'fs, 'y) eotsd_world_scheme, unit) go" where
  "print_out x = upd_go (\<lambda>s. s\<lparr>ew_out := ew_out s @ [x]\<rparr>) (ret ())"

definition getHomeFlag :: "('fs, 'z) os_lib_scheme \<Rightarrow> cli_Context \<Rightarrow> string res" where
  "getHomeFlag F ctx = (case filepath_Abs F (ctx_String ctx ''home'') of
      Ok p \<Rightarrow> Ok (CleanAndExpandPath F p)
    | Err e \<Rightarrow> Err e | Crash c \<Rightarrow> Crash c | Running \<Rightarrow> Running)"

text \<open>
  What \<^verbatim>\<open>SignSchnorr\<close>, \<^verbatim>\<open>ExportPoP\<close> and \<^verbatim>\<open>addKey\<close> have in common: load the configuration and
  the logger, open the database, make the manager on the keyring of the flag, run the body,
  and close the database, which is deferred once it is open.
\<close>

definition close_after ::
  "('db, 'kr, 'fs, 'z) eotsd_lib_scheme \<Rightarrow> (('db, 'kr, 'fs) eotsd_world, unit) go \<Rightarrow>
   (('db, 'kr, 'fs) eotsd_world, unit) go" where
  "close_after F m = (\<lambda>s. case m s of
      (Running, s') \<Rightarrow> (Running, s')
    | (r, s') \<Rightarrow> (r, snd (on_files (backend_Close F (lm_es (ew_lm s'))) s')))"

definition with_manager ::
  "('db, 'kr, 'fs, 'z) eotsd_lib_scheme \<Rightarrow> ('db, 'kr, 'x) eots_lib_scheme \<Rightarrow> cli_Context \<Rightarrow>
   (('db, 'kr, 'fs) eotsd_world, unit) go \<Rightarrow> (('db, 'kr, 'fs) eotsd_world, unit) go" where
  "with_manager F L ctx body =
     wrap_go ''failed to load home flag: '' (of_res (getHomeFlag F ctx)) (\<lambda>homePath.
     get_go ew_fs (\<lambda>fs.
     wrap_go (''failed to load config at '' @ homePath @ '': '') (of_res (eotsd_LoadConfig F homePath fs)) (\<lambda>cfg.
     handle_go (on_files (NewRootLoggerWithFile F (eotsd_LogFile homePath) (ec_LogLevel cfg)))
       (\<lambda>_. fail (NewErr ''failed to load the logger'')) (\<lambda>_.
     wrap_go ''failed to create db backend: ''
       (on_files (GetBoltBackend F (DBConfigToBoltBackendConfig (ec_DatabaseConfig cfg)))) (\<lambda>db.
     upd_go (\<lambda>s. s\<lparr>ew_lm := (ew_lm s)\<lparr>lm_es := db\<rparr>\<rparr>) (close_after F (
     wrap_go ''failed to create EOTS manager: ''
       (on_lm (NewLocalEOTSManager L homePath (ctx_String ctx ''keyring-backend''))) (\<lambda>_. body))))))))"

section \<open>Signing and verifying\<close>

definition hashFromFile :: "('db, 'kr, 'fs, 'z) eotsd_lib_scheme \<Rightarrow> string \<Rightarrow> 'fs \<Rightarrow> bytes res" where
  "hashFromFile F inputFilePath fs = fst (
     wrap_go (''failed to open the file '' @ inputFilePath @ '': '') (of_res (os_Open F inputFilePath fs)) (\<lambda>_.
     try_go (of_res (io_Copy F inputFilePath fs)) (\<lambda>contents.
     ret (sha256_Sum F contents))) ())"

definition singMsg ::
  "('db, 'kr, 'fs, 'z) eotsd_lib_scheme \<Rightarrow> ('db, 'kr, 'x) eots_lib_scheme \<Rightarrow> string \<Rightarrow> string \<Rightarrow> string \<Rightarrow> bytes \<Rightarrow>
   (('db, 'kr) LocalEOTSManager, bytes \<times> PublicKey) go" where
  "singMsg F L keyName fpPkStr passphrase hashOfMsgToSign =
     (if length fpPkStr > 0
      then wrap_go (''invalid finality-provider public key '' @ fpPkStr @ '': '')
          (of_res (bbn_NewBIP340PubKeyFromHex F fpPkStr)) (\<lambda>fpPk.
        wrap_go (''unable to sign msg with pk '' @ fpPkStr @ '': '')
          (lm_SignSchnorrSig L fpPk hashOfMsgToSign passphrase) (\<lambda>signature.
        ret (signature, fpPk)))
      else SignSchnorrSigFromKeyname L keyName passphrase hashOfMsgToSign)"

definition SignSchnorr ::
  "('db, 'kr, 'fs, 'z) eotsd_lib_scheme \<Rightarrow> ('db, 'kr, 'x) eots_lib_scheme \<Rightarrow> cli_Context \<Rightarrow>
   (('db, 'kr, 'fs) eotsd_world, unit) go" where
  "SignSchnorr F L ctx =
     (let keyName = ctx_String ctx ''key-name''; fpPkStr = ctx_String ctx ''eots-pk'';
          passphrase = ctx_String ctx ''passphrase''; inputFilePath = Args_First ctx
      in if length inputFilePath = 0
         then fail (NewErr ''invalid argument, please provide a valid file path as input argument'')
         else if length fpPkStr = 0 \<and> length keyName = 0
         then fail (NewErr ''at least one of the flags: key-name, eots-pk needs to be informed'')
         else with_manager F L ctx (
           get_go ew_fs (\<lambda>fs.
           wrap_go (''failed to generate hash from file '' @ inputFilePath @ '': '')
             (of_res (hashFromFile F inputFilePath fs)) (\<lambda>hashOfMsgToSign.
           wrap_go ''failed to sign msg: ''
             (on_lm (singMsg F L keyName fpPkStr passphrase hashOfMsgToSign)) (\<lambda>(signature, pubKey).
           print_out (OutSignedData \<lparr>ds_KeyName = keyName, ds_PubKeyHex = hex_encode pubKey,
             ds_SignedDataHashHex = hex_encode hashOfMsgToSign,
             ds_SchnorrSignatureHex = hex_encode signature\<rparr>))))))"

definition SignSchnorrVerify ::
  "('db, 'kr, 'fs, 'z) eotsd_lib_scheme \<Rightarrow> cli_Context \<Rightarrow> (('db, 'kr, 'fs) eotsd_world, unit) go" where
  "SignSchnorrVerify F ctx =
     (let fpPkStr = ctx_String ctx ''eots-pk''; signatureHex = ctx_String ctx ''signature'';
          inputFilePath = Args_First ctx
      in if length inputFilePath = 0
         then fail (NewErr ''invalid argument, please provide a valid file path as input argument'')
         else get_go ew_fs (\<lambda>fs.
           wrap_go (''failed to generate hash from file '' @ inputFilePath @ '': '')
             (of_res (hashFromFile F inputFilePath fs)) (\<lambda>hashOfMsgToSign.
           wrap_go (''invalid finality-provider public key '' @ fpPkStr @ '': '')
             (of_res (bbn_NewBIP340PubKeyFromHex F fpPkStr)) (\<lambda>fpPk.
           wrap_go (''unable to parse public key '' @ fpPkStr @ '': '') (of_res (ParsePubKey F fpPk)) (\<lambda>pubKey.
           wrap_go (''unable to decode signature '' @ signatureHex @ '': '')
             (of_res (hex_DecodeString signatureHex)) (\<lambda>signatureBz.
           wrap_go (''unable to parse schnorr signature '' @ string_of_bytes signatureBz @ '': '')
             (of_res (ParseSignature F signatureBz)) (\<lambda>signature.
           if \<not> Signature_Verify F signature hashOfMsgToSign pubKey then fail (NewErr ''invalid signature'')
           else print_out (OutMessage ''Verification is successful!''))))))))"

section \<open>Proofs of possession and keys\<close>

definition ExportPoP ::
  "('db, 'kr, 'fs, 'z) eotsd_lib_scheme \<Rightarrow> ('db, 'kr, 'x) eots_lib_scheme \<Rightarrow> cli_Context \<Rightarrow>
   (('db, 'kr, 'fs) eotsd_world, unit) go" where
  "ExportPoP F L ctx =
     (let keyName = ctx_String ctx ''key-name''; fpPkStr = ctx_String ctx ''eots-pk'';
          passphrase = ctx_String ctx ''passphrase''; bbnAddressStr = Args_First ctx
      in wrap_go (''invalid argument '' @ bbnAddressStr @ '', please provide a valid bbn address as argument, err: '')
           (of_res (sdk_AccAddressFromBech32 F bbnAddressStr)) (\<lambda>bbnAddr.
         if length fpPkStr = 0 \<and> length keyName = 0
         then fail (NewErr ''at least one of the flags: key-name, eots-pk needs to be informed'')
         else with_manager F L ctx (
           let hashOfMsgToSign = tmhash_Sum F bbnAddr
           in wrap_go (''failed to sign address '' @ sdk_AccAddress_String F bbnAddr @ '': '')
                (on_lm (singMsg F L keyName fpPkStr passphrase hashOfMsgToSign)) (\<lambda>(btcSig, pubKey).
              wrap_go ''failed to marshal BTC Sig: '' (of_res (BIP340Signature_Marshal F btcSig)) (\<lambda>btcSigBz.
              wrap_go ''failed to marshal pop to hex: ''
                (of_res (Pop_ToHexStr F \<lparr>pop_BtcSig = btcSigBz\<rparr>)) (\<lambda>popHex.
              print_out (OutPoP \<lparr>pe_PubKeyHex = hex_encode pubKey, pe_PoPHex = popHex,
                pe_BabylonAddress = sdk_AccAddress_String F bbnAddr\<rparr>)))))))"

definition getMnemonic ::
  "('db, 'kr, 'fs, 'z) eotsd_lib_scheme \<Rightarrow> ('db, 'kr, 'x) eots_lib_scheme \<Rightarrow> cli_Context \<Rightarrow>
   (('db, 'kr, 'fs) eotsd_world, string) go" where
  "getMnemonic F L ctx =
     (if ctx_Bool ctx ''recover''
      then wrap_go ''failed to read mnemonic from stdin: '' (on_files (input_GetString F)) (\<lambda>mnemonic.
        if \<not> bip39_IsMnemonicValid F mnemonic then fail (NewErr ''invalid mnemonic'') else ret mnemonic)
      else on_lm (NewMnemonic L))"

definition createKey ::
  "('db, 'kr, 'fs, 'z) eotsd_lib_scheme \<Rightarrow> ('db, 'kr, 'x) eots_lib_scheme \<Rightarrow> cli_Context \<Rightarrow> string \<Rightarrow>
   (('db, 'kr, 'fs) eotsd_world, PublicKey \<times> string) go" where
  "createKey F L ctx keyName =
     try_go (getMnemonic F L ctx) (\<lambda>mnemonic.
     try_go (on_lm (CreateKeyWithMnemonic L keyName (ctx_String ctx ''passphrase'') (ctx_String ctx ''hd-path'')
       mnemonic)) (\<lambda>eotsPk.
     ret (eotsPk, mnemonic)))"

definition addKey ::
  "('db, 'kr, 'fs, 'z) eotsd_lib_scheme \<Rightarrow> ('db, 'kr, 'x) eots_lib_scheme \<Rightarrow> cli_Context \<Rightarrow>
   (('db, 'kr, 'fs) eotsd_world, unit) go" where
  "addKey F L ctx =
     (let keyName = ctx_String ctx ''key-name''
      in with_manager F L ctx (
           wrap_go ''failed to create key: '' (createKey F L ctx keyName) (\<lambda>(eotsPk, mnemonic).
           print_out (OutKey \<lparr>ko_Name = keyName, ko_PubKeyHex = hex_encode eotsPk, ko_Mnemonic = mnemonic\<rparr>))))"

section \<open>The home directory\<close>

definition initHome ::
  "('db, 'kr, 'fs, 'z) eotsd_lib_scheme \<Rightarrow> cli_Context \<Rightarrow> (('db, 'kr, 'fs) eotsd_world, unit) go" where
  "initHome F c =
     try_go (of_res (filepath_Abs F (ctx_String c ''home''))) (\<lambda>abs.
     let homePath = CleanAndExpandPath F abs
     in get_go ew_fs (\<lambda>fs.
        if FileExists F homePath fs \<and> \<not> ctx_Bool c ''force''
        then fail (NewErr (''home path '' @ homePath @ '' already exists''))
        else try_go (on_files (MakeDirectory F homePath)) (\<lambda>_.
          try_go (on_files (MakeDirectory F (eotsd_LogDir homePath))) (\<lambda>_.
          let dataDir = eotsd_DataDir homePath
          in try_go (on_files (MakeDirectory F dataDir)) (\<lambda>_.
             try_go (of_res (eotsd_DefaultConfig F)) (\<lambda>defaultConfig.
             on_files (eini_WriteFile F (eotsd_ConfigFile homePath) (defaultConfig\<lparr>ec_DatabaseConfig :=
               (ec_DatabaseConfig defaultConfig)\<lparr>DBPath := dataDir\<rparr>\<rparr>))))))))"

end
