(* ===== verification/CommandProperties.thy ===== *)
theory CommandProperties
  imports DemoRuns FpdCommands EotsdCommands
begin

text \<open>
  The properties of the command lines and of the configuration: the commands of \<^verbatim>\<open>fpd\<close> are
  the handlers of the daemon, a signature made by \<^verbatim>\<open>eotsd\<close> verifies, an exported proof of
  possession is accepted by \<^verbatim>\<open>fpd\<close>, and configurations survive the file.
\<close>

section \<open>The commands of the daemon\<close>

text \<open>A network that loses nothing, and whose connections open and close.\<close>

definition good_net :: "('n, 'z) rpc_net_scheme \<Rightarrow> bool" where
  "good_net N \<longleftrightarrow> lossless N \<and> (\<forall>addr. grpc_Dial N addr = ret ()) \<and> conn_Close N = ret ()"

text \<open>A call of a handler of the daemon as the user of a command sees it.\<close>

definition called ::
  "('n, 'z) rpc_net_scheme \<Rightarrow> ('w, 'a) go \<Rightarrow> ('a \<Rightarrow> cli_output list) \<Rightarrow> (go_error \<Rightarrow> go_error) \<Rightarrow>
   ('w \<times> 'n, 'fs) cli_world \<Rightarrow> unit res \<times> ('w \<times> 'n, 'fs) cli_world" where
  "called N handler out wrap s = (case handler (fst (cw_remote s)) of (r, w) \<Rightarrow>
     (let s' = s\<lparr>cw_remote := (w, snd (cw_remote s))\<rparr> in case r of
        Ok a \<Rightarrow> (Ok (), s'\<lparr>cw_out := cw_out s @ out a\<rparr>)
      | Err e \<Rightarrow> (Err (wrap (rpc_status N e)), s')
      | Crash c \<Rightarrow> (Crash c, s')
      | Running \<Rightarrow> (Running, s')))"

lemma of_res_Ok [simp]: "of_res (Ok a) = ret a"
  by (simp add: of_res_def ret_def)

lemma with_client_good:
  assumes "good_net N"
  shows "with_client N addr wrap body = body"
  using assms
  by (auto simp: with_client_def NewFinalityProviderServiceGRpcClient_def cleanUp_def good_net_def on_remote_def on_net_def
      go_defs fun_eq_iff split: prod.splits res.splits)

lemma on_remote_call:
  assumes "good_net N"
  shows "handle_go (on_remote (rpc_call N h)) (\<lambda>e. fail (wrap e)) (\<lambda>a. printResp (out a)) s =
      called N h (\<lambda>a. [out a]) wrap s"
    and "handle_go (on_remote (rpc_call N h)) (\<lambda>e. fail (wrap e)) (\<lambda>_. ret ()) s =
      called N h (\<lambda>_. []) wrap s"
    and "handle_go (on_remote (rpc_call N h')) (\<lambda>e. fail (wrap e)) ret s = called N h' (\<lambda>_. []) wrap s"
  using assms
  by (auto simp: good_net_def rpc_call_lossless on_remote_def called_def printResp_def res_map_def zoom_go_def handle_go_def
      ret_def fail_def upd_go_def Let_def split: prod.splits res.splits)

lemma get_flag_Ok: "pf_GetString C flags name = Ok v \<Longrightarrow> get_flag C flags name k = k v"
  by (simp add: get_flag_def)

lemmas fc_defs = fc_RegisterFinalityProvider_def fc_UnjailFinalityProvider_def fc_QueryFinalityProviderInfo_def
  fc_QueryFinalityProviderList_def fc_AddFinalitySignature_def fc_EditFinalityProvider_def

text \<open>C13. The commands of \<^verbatim>\<open>fpd\<close> that change or show the state of the daemon are its handlers: over a network
  that loses nothing each command has the effect of the handler on the daemon, prints its response
  and returns its error as a gRPC status. The height and the hash of \<^verbatim>\<open>add-finality-sig\<close> arrive as they were typed.\<close>

theorem commands_are_the_handlers:
  assumes net: "good_net N" and key: "NewBIP340PubKeyFromHex E arg = Ok pk"
    and flags: "pf_GetString C flags ''daemon-address'' = Ok addr" "pf_GetString C flags ''passphrase'' = Ok pass"
      "pf_GetString C flags ''app-hash'' = Ok (hex_encode hash)"
  shows "runCommandRegisterFP C N E n k flags [arg] s =
      called N (rpc_RegisterFinalityProvider E n k (hex_encode pk) pass) (\<lambda>tx. [OutTx tx]) id s \<and>
    runCommandUnjailFP C N E n k home flags [arg] s = called N (rpc_UnjailFinalityProvider E n k arg) (\<lambda>_. []) id s \<and>
    runCommandInfoFP C N E flags [arg] s =
      called N (rpc_QueryFinalityProvider E (hex_encode pk)) (\<lambda>fp. [OutFP fp]) id s \<and>
    runCommandLsFP C N E flags [] s = called N (rpc_QueryFinalityProviderList E) (\<lambda>fps. [OutFPs fps]) id s \<and>
    runCommandAddFinalitySig C N E flags [arg, fmt_u64 h] s =
      called N (rpc_AddFinalitySignature E (hex_encode pk) h hash) (\<lambda>x. [OutSig x]) id s \<and>
    runCommandEditFinalityDescription C N E flags [arg] s =
      called N (rpc_EditFinalityProvider E (hex_encode pk) (opt_flag C flags ''commission-rate'')
          \<lparr>Moniker = opt_flag C flags ''moniker'', Identity = opt_flag C flags ''identity'',
           Website = opt_flag C flags ''website'', SecurityContact = opt_flag C flags ''security-contact'',
           Details = opt_flag C flags ''details''\<rparr>)
        (\<lambda>_. []) (textErr (''failed to edit finality provider '' @ hex_encode pk @ '' err '')) s"
  unfolding runCommandRegisterFP_def runCommandUnjailFP_def runCommandInfoFP_def runCommandLsFP_def
    runCommandAddFinalitySig_def runCommandEditFinalityDescription_def Let_def
  by (simp add: get_flag_Ok flags key with_client_good [OF net] fc_defs on_remote_call [OF net, where wrap = "\<lambda>e. e", simplified]
      on_remote_call(3) [OF net] index_go_def id_def)

section \<open>A concrete command line\<close>

type_synonym demo_fs = "(string \<times> FpdConfig) list"

definition demo_C :: "demo_fs cmd_lib" where
  "demo_C =
     \<lparr>os_Stat = (\<lambda>p fs. if map_of fs p = None then StatNotExist else StatOk), os_MkdirAll = (\<lambda>d fs. (MkdirOk, fs)),
      os_Readlink = (\<lambda>p fs. Err (NewErr ''no link'')), user_Current_HomeDir = Ok ''/home'', os_Getenv = (\<lambda>v. ''''),
      os_ExpandEnv = (\<lambda>p. p), os_OpenFile = (\<lambda>p. ret ()), filepath_Abs = Ok, btcutil_AppDataDir = (\<lambda>n. CHR ''/'' # n),
      net_ResolveTCPAddr = (\<lambda>a. Ok ()), net_ParseIP = (\<lambda>h. Some [127, 0, 0, 1]), DefaultBoltAutoCompactMinAge = 1,
      DefaultDBTimeout = 1, BackendTest = ''test'',
      ini_ParseFile = (\<lambda>p fs. case map_of fs p of Some c \<Rightarrow> Ok c | None \<Rightarrow> Err (NewErr ''no file'')),
      ini_WriteFile = (\<lambda>p c fs. (Ok (), (p, c) # fs)), DefaultBabylonConfig = BBNConfigToBabylonConfig demo_bbncfg,
      pf_GetString = (\<lambda>f n. case f n of Some v \<Rightarrow> Ok v | None \<Rightarrow> Err (NewErr ''flag not defined'')),
      pf_GetBool = (\<lambda>f n. Ok (f n = Some ''true'')), GetClientQueryContext_HomeDir = (\<lambda>f. Ok ''/h''),
      Description_EnsureLength = Ok, FinalityProvider_Marshal = (\<lambda>x. Ok []), GetClientTxContext = Ok (),
      ReadTxFromFile = (\<lambda>p fs. Ok \<lparr>tx_Msgs = [MsgCreateFinalityProvider ''addr'' [9] (bytes_of_string ''k'' @ [7]) 0 demo_desc],
        tx_MsgsV2 = Ok [[1]]\<rparr>),
      Msg_ValidateBasic = (\<lambda>m. Ok ()), GetMsgV2Signers = (\<lambda>v. Ok [[7]]), AddressCodec_BytesToString = (\<lambda>b. Ok ''addr''),
      Pop_VerifyBIP340 = (\<lambda>pop addr pk. if pk = [9] \<and> suffix addr pop then Ok () else Err (NewErr ''invalid''))\<rparr>"

definition demo_flags :: FlagSet where
  "demo_flags = map_of [(''daemon-address'', defaultFpdDaemonAddress), (''passphrase'', ''''), (''app-hash'', hex_encode [4])]"

lemma demo_flags_simps [simp]:
  "pf_GetString demo_C demo_flags ''daemon-address'' = Ok defaultFpdDaemonAddress"
  "pf_GetString demo_C demo_flags ''passphrase'' = Ok ''''" "pf_GetString demo_C demo_flags ''app-hash'' = Ok (hex_encode [4])"
  by (simp_all add: demo_C_def demo_flags_def)

lemma demo_good_net: "good_net demo_net"
  by (simp add: good_net_def demo_eots_laws) (simp add: demo_net_def)

theorem commands_are_the_handlers_witness:
  "runCommandUnjailFP demo_C demo_net demo_app 1 1 ''/h'' demo_flags [''09'']
       \<lparr>cw_remote = (\<lparr>mw_db = demo_db, mw_ext = demo_out demo_idle [], mw_fpIns = None, mw_criticalErrChan = [],
          mw_startOnce = True, mw_stopOnce = False, mw_quit = False, mw_metrics = demo_fm, aw_kr = (), aw_input = '''', aw_startOnce = True,
          aw_stopOnce = False, aw_quit = False\<rparr>, ()), cw_fs = [], cw_out = []\<rparr> =
     called demo_net (rpc_UnjailFinalityProvider demo_app 1 1 ''09'') (\<lambda>_. []) id
       \<lparr>cw_remote = (\<lparr>mw_db = demo_db, mw_ext = demo_out demo_idle [], mw_fpIns = None, mw_criticalErrChan = [],
          mw_startOnce = True, mw_stopOnce = False, mw_quit = False, mw_metrics = demo_fm, aw_kr = (), aw_input = '''', aw_startOnce = True,
          aw_stopOnce = False, aw_quit = False\<rparr>, ()), cw_fs = [], cw_out = []\<rparr>"
proof -
  have "NewBIP340PubKeyFromHex demo_app ''09'' = Ok [9]" by simp
  from commands_are_the_handlers [OF demo_good_net this demo_flags_simps] show ?thesis by blast
qed

section \<open>Commands that cannot succeed\<close>

text \<open>\<^verbatim>\<open>export-finality-provider\<close> never succeeds: it is declared without arguments, and the call it accepts
  indexes the missing argument.\<close>

lemma export_never_succeeds:
  assumes "args_ok (cmd_Args (CommandExportFP C N E)) args"
  shows "fst (cmd_RunE (CommandExportFP C N E) flags args s) \<noteq> Ok ()"
proof -
  have args: "args = []" using assms by (simp add: CommandExportFP_def)
  have body: "fst (with_client N addr wrap (index_go [] 0 f) s) \<noteq> Ok ()" for addr wrap f and s :: "('a, 'b, 'c, 'd, 'e) cmd_world"
    by (auto simp: with_client_def index_go_def crash_def handle_go_def fail_def split: prod.splits res.splits)
  show ?thesis
    using body
    by (auto simp: args CommandExportFP_def RunEWithClientCtx_def runCommandExportFP_def get_flag_def handle_go_def of_res_def
        fail_def split: res.splits)
qed

text \<open>Starting \<^verbatim>\<open>fpd\<close> with the key of a provider that is stored as jailed fails with an error that is not the
  sentinel for jailed providers, so the branch that keeps the service running in this case is not taken.\<close>

lemma jailed_provider_stops_the_start:
  assumes "fpPkStr \<noteq> ''''" and "NewBIP340PubKeyFromHex E fpPkStr = Ok pk" and "schnorr_ParsePubKey E pk = Ok pk"
    and "mw_fpIns s = None" and "GetFinalityProvider E pk (mw_db s) = (Ok fp, mw_db s)" and "sfp_Status fp = JAILED"
  shows "\<exists>e s'. startApp E n k fpPkStr pass s = (Err e, s') \<and> \<not> errors_Is e (ServiceErr ErrFinalityProviderJailed) \<and>
    mw_fpIns s' = None"
  using assms
  by (simp add: startApp_def app_Start_def StartHandlingFinalityProvider_def StartFinalityProvider_def
      startFinalityProviderInstance_def NewFinalityProviderInstance_def mgr_db_def go_defs ShouldStart_def)

definition demo_jailed :: "(mem_db, demo_ext, unit) app_world" where
  "demo_jailed = \<lparr>mw_db = [(finalityProviderBucketName, [([9], [9, 3, 3, 5])])], mw_ext = demo_out demo_idle [], mw_fpIns = None,
     mw_criticalErrChan = [], mw_startOnce = False, mw_stopOnce = False, mw_quit = False, mw_metrics = demo_fm, aw_kr = (), aw_input = '''',
     aw_startOnce = False, aw_stopOnce = False, aw_quit = False\<rparr>"

lemma jailed_provider_stops_the_start_witness:
  "\<exists>e s'. startApp demo_app 1 1 ''09'' '''' demo_jailed = (Err e, s') \<and> \<not> errors_Is e (ServiceErr ErrFinalityProviderJailed)"
proof -
  obtain fp where get: "GetFinalityProvider demo_app [9] (mw_db demo_jailed) = (Ok fp, mw_db demo_jailed)" and st: "sfp_Status fp = JAILED"
    by (simp add: demo_jailed_def GetFinalityProvider_def kv_View_def go_defs mem_HasBucket_def mem_Get_def demo_Unmarshal_def
        demo_fp_def byte_status_def protoFpToStoredFinalityProvider_def)
  have "mw_fpIns demo_jailed = None" by (simp add: demo_jailed_def)
  from jailed_provider_stops_the_start [OF _ _ _ this get st, where fpPkStr = "''09''" and n = 1 and k = 1 and pass = "''''"]
  show ?thesis by auto
qed

section \<open>Signing and verifying\<close>

text \<open>
  What the signing commands rely on of the libraries: a record of the keyring holds the two halves
  of one key, a signature made with the private half verifies with the public half, and
  public keys and signatures are parsed back from their printed form.
\<close>

definition record_signs :: "('db, 'kr, 'fs, 'z) eotsd_lib_scheme \<Rightarrow> ('db, 'kr, 'x) eots_lib_scheme \<Rightarrow> keyring_Record \<Rightarrow> bool" where
  "record_signs F L r \<longleftrightarrow> (\<forall>key pk sk m sig. rec_PubKey r = Ok (Secp256k1PubKey key) \<and> btcec_ParsePubKey L key = Ok pk \<and>
     rec_LocalPrivKey r = Some (Secp256k1PrivKey sk) \<and> schnorr_Sign L (btcec_PrivKeyFromBytes L sk) m = Ok sig \<longrightarrow>
     Signature_Verify F sig m pk)"

definition signing_laws :: "('db, 'kr, 'fs, 'z) eotsd_lib_scheme \<Rightarrow> ('db, 'kr, 'x) eots_lib_scheme \<Rightarrow> bool" where
  "signing_laws F L \<longleftrightarrow> (\<forall>name st r st'. keyring_Key L name st = (Ok r, st') \<longrightarrow> record_signs F L r) \<and>
     (\<forall>key pk. btcec_ParsePubKey L key = Ok pk \<longrightarrow>
        bbn_NewBIP340PubKeyFromHex F (hex_encode pk) = Ok pk \<and> ParsePubKey F pk = Ok pk) \<and>
     (\<forall>sk m sig. schnorr_Sign L sk m = Ok sig \<longrightarrow> ParseSignature F sig = Ok sig)"

text \<open>The names stored for the public keys are names of their records.\<close>

definition names_match :: "('db, 'kr, 'x) eots_lib_scheme \<Rightarrow> 'db \<Rightarrow> bool" where
  "names_match L d \<longleftrightarrow> (\<forall>pk name st r st'. key_name_at L d pk = Some name \<and> keyring_Key L name st = (Ok r, st') \<longrightarrow>
     (\<exists>key. rec_PubKey r = Ok (Secp256k1PubKey key) \<and> btcec_ParsePubKey L key = Ok pk))"

lemma lm_keyring_Ok:
  "lm_keyring m s = (Ok a, s') \<Longrightarrow> \<exists>st st'. m st = (Ok a, st') \<and> lm_es s' = lm_es s"
  by (auto simp: lm_keyring_def zoom_go_def split: prod.splits)

lemma eotsPrivKey_Ok:
  "eotsPrivKeyFromRecord L r s = (Ok sk, s') \<Longrightarrow>
     s' = s \<and> (\<exists>key. rec_LocalPrivKey r = Some (Secp256k1PrivKey key) \<and> sk = btcec_PrivKeyFromBytes L key)"
  by (auto simp: eotsPrivKeyFromRecord_def go_defs split: option.splits any_PrivKey.splits)

lemma loadPubKey_Ok:
  "loadBIP340PubKeyFromKeyringRecord L r s = (Ok pk, s') \<Longrightarrow>
     s' = s \<and> (\<exists>key. rec_PubKey r = Ok (Secp256k1PubKey key) \<and> btcec_ParsePubKey L key = Ok pk)"
  by (auto simp: loadBIP340PubKeyFromKeyringRecord_def go_defs split: res.splits any_PubKey.splits)

text \<open>A signature of either path belongs to a record of the keyring that holds the returned key.\<close>

definition signed_by :: "('db, 'kr, 'x) eots_lib_scheme \<Rightarrow> bytes \<Rightarrow> bytes \<Rightarrow> PublicKey \<Rightarrow> bool" where
  "signed_by L sig m pk \<longleftrightarrow> (\<exists>name st r st' key sk. keyring_Key L name st = (Ok r, st') \<and>
     rec_PubKey r = Ok (Secp256k1PubKey key) \<and> btcec_ParsePubKey L key = Ok pk \<and>
     rec_LocalPrivKey r = Some (Secp256k1PrivKey sk) \<and> schnorr_Sign L (btcec_PrivKeyFromBytes L sk) m = Ok sig)"

lemma signed_by_verifies:
  assumes "signing_laws F L" and "signed_by L sig m pk"
  shows "Signature_Verify F sig m pk \<and> bbn_NewBIP340PubKeyFromHex F (hex_encode pk) = Ok pk \<and> ParsePubKey F pk = Ok pk \<and>
    ParseSignature F sig = Ok sig"
  using assms unfolding signing_laws_def signed_by_def record_signs_def by blast

lemma getEOTSPrivKey_Ok:
  assumes "getEOTSPrivKey L pk pass s = (Ok sk, s')"
  obtains name st r st' key where "key_name_at L (lm_es s) pk = Some name" "keyring_Key L name st = (Ok r, st')"
    "rec_LocalPrivKey r = Some (Secp256k1PrivKey key)" "sk = btcec_PrivKeyFromBytes L key" "lm_es s' = lm_es s"
proof -
  from assms obtain name s1 s2 r where 1: "lm_store (GetEOTSKeyName L pk) s = (Ok name, s1)"
    and 2: "lm_keyring (keyring_Key L name) (s1\<lparr>lm_input := pass\<rparr>) = (Ok r, s2)"
    and 3: "eotsPrivKeyFromRecord L r s2 = (Ok sk, s')"
    unfolding getEOTSPrivKey_def input_Reset_def upd_go_def by (elim try_go_OkE)
  from 1 have "key_name_at L (lm_es s) pk = Some name \<and> lm_es s1 = lm_es s"
    by (auto simp: lm_store_def zoom_go_def dest!: GetEOTSKeyName_Ok split: prod.splits)
  with lm_keyring_Ok [OF 2] eotsPrivKey_Ok [OF 3] that show ?thesis by auto
qed

lemma singMsg_Ok:
  assumes run: "singMsg F L kn pkStr pass m s = (Ok (sig, pk), s')"
  shows "lm_es s' = lm_es s \<and> (names_match L (lm_es s) \<longrightarrow> signed_by L sig m pk)"
proof (cases "length pkStr > 0")
  case True
  from run True obtain s1 where "bbn_NewBIP340PubKeyFromHex F pkStr = Ok pk" and "lm_SignSchnorrSig L pk m pass s = (Ok sig, s')"
    by (auto simp: singMsg_def ret_def of_res_def elim!: try_go_OkE)
  then obtain sk s1 where "getEOTSPrivKey L pk pass s = (Ok sk, s1)" and sig: "schnorr_Sign L sk m = Ok sig" and s': "lm_es s' = lm_es s1"
    by (auto simp: lm_SignSchnorrSig_def signSchnorrSigFromPrivKey_def lm_meter_apply of_res_def elim!: try_go_OkE)
  from this(1) obtain name st r st' key where k: "key_name_at L (lm_es s) pk = Some name" "keyring_Key L name st = (Ok r, st')"
    "rec_LocalPrivKey r = Some (Secp256k1PrivKey key)" "sk = btcec_PrivKeyFromBytes L key" "lm_es s1 = lm_es s"
    by (rule getEOTSPrivKey_Ok)
  have "lm_es s' = lm_es s" using k(5) s' by simp
  with sig k show ?thesis unfolding names_match_def signed_by_def by blast
next
  case False
  with run obtain r s1 s2 s3 sk where 1: "lm_keyring (keyring_Key L kn) (s\<lparr>lm_input := pass\<rparr>) = (Ok r, s1)"
    and 2: "loadBIP340PubKeyFromKeyringRecord L r s1 = (Ok pk, s2)" and 3: "eotsPrivKeyFromRecord L r s2 = (Ok sk, s3)"
    and 4: "schnorr_Sign L sk m = Ok sig" "lm_es s' = lm_es s3"
    by (auto simp: singMsg_def SignSchnorrSigFromKeyname_def input_Reset_def upd_go_def signSchnorrSigFromPrivKey_def ret_def
        of_res_def lm_meter_apply elim!: try_go_OkE)
  from lm_keyring_Ok [OF 1] obtain st st' where "keyring_Key L kn st = (Ok r, st')" "lm_es s1 = lm_es s" by auto
  with loadPubKey_Ok [OF 2] eotsPrivKey_Ok [OF 3] 4 have "lm_es s' = lm_es s" "signed_by L sig m pk"
    unfolding signed_by_def by (simp, blast)
  then show ?thesis by simp
qed

lemma on_files_same: "on_files m s = (r, s') \<Longrightarrow> ew_out s' = ew_out s \<and> ew_lm s' = ew_lm s"
  by (auto simp: on_files_def zoom_go_def split: prod.splits)

lemma on_lm_Ok: "on_lm m s = (r, s') \<Longrightarrow> m (ew_lm s) = (r, ew_lm s') \<and> ew_out s' = ew_out s \<and> ew_fs s' = ew_fs s"
  by (auto simp: on_lm_def zoom_go_def split: prod.splits)

lemma with_manager_Ok:
  assumes "with_manager F L ctx body s = (Ok (), s')"
  obtains s1 s2 where "body s1 = (Ok (), s2)" "ew_out s1 = ew_out s" "ew_out s' = ew_out s2" "ew_lm s' = ew_lm s2"
proof -
  let ?mk = "\<lambda>h. on_lm (NewLocalEOTSManager L h (ctx_String ctx ''keyring-backend''))"
  from assms obtain h cfg u db t1 t2 s1 s2 where a: "of_res (getHomeFlag F ctx) s = (Ok h, t1)"
    and b: "of_res (eotsd_LoadConfig F h (ew_fs t1)) t1 = (Ok cfg, t2)"
    and 1: "on_files (NewRootLoggerWithFile F (eotsd_LogFile h) (ec_LogLevel cfg)) t2 = (Ok u, s1)"
    and 2: "on_files (GetBoltBackend F (DBConfigToBoltBackendConfig (ec_DatabaseConfig cfg))) s1 = (Ok db, s2)"
    and 3: "close_after F (wrap_go ''failed to create EOTS manager: '' (?mk h) (\<lambda>_. body)) (s2\<lparr>ew_lm := (ew_lm s2)\<lparr>lm_es := db\<rparr>\<rparr>) = (Ok (), s')"
    unfolding with_manager_def get_go_def upd_go_def by (elim try_go_OkE)
  from 3 obtain s3 where 4: "wrap_go ''failed to create EOTS manager: '' (?mk h) (\<lambda>_. body) (s2\<lparr>ew_lm := (ew_lm s2)\<lparr>lm_es := db\<rparr>\<rparr>) = (Ok (), s3)"
    and 5: "s' = snd (on_files (backend_Close F (lm_es (ew_lm s3))) s3)"
    by (auto simp: close_after_def split: prod.splits res.splits)
  from 4 obtain s4 where 6: "?mk h (s2\<lparr>ew_lm := (ew_lm s2)\<lparr>lm_es := db\<rparr>\<rparr>) = (Ok (), s4)" and 7: "body s4 = (Ok (), s3)"
    by (elim try_go_OkE) simp
  have "ew_out s4 = ew_out s"
    using on_lm_Ok [OF 6] on_files_same [OF 1] on_files_same [OF 2] a b by (simp add: of_res_def)
  moreover from 5 obtain r where "on_files (backend_Close F (lm_es (ew_lm s3))) s3 = (r, s')" by (metis prod.collapse)
  from on_files_same [OF this] have "ew_out s' = ew_out s3" "ew_lm s' = ew_lm s3" by simp_all
  ultimately show ?thesis using that 7 by blast
qed


section \<open>A concrete EOTS command line\<close>

definition demo_keys :: mem_db where
  "demo_keys = [(eotsBucketName, [([9], bytes_of_string ''k'')])]"

definition demo_F :: "(mem_db, unit, unit) eotsd_lib" where
  "demo_F =
     \<lparr>os_Stat = (\<lambda>p fs. StatOk), os_MkdirAll = (\<lambda>d fs. (MkdirOk, fs)), os_Readlink = (\<lambda>p fs. Err (NewErr ''no link'')),
      user_Current_HomeDir = Ok ''/home'', os_Getenv = (\<lambda>v. ''''), os_ExpandEnv = (\<lambda>p. p), os_OpenFile = (\<lambda>p. ret ()), filepath_Abs = Ok,
      btcutil_AppDataDir = (\<lambda>n. n), net_ResolveTCPAddr = (\<lambda>a. Ok ()), net_ParseIP = (\<lambda>h. Some [127, 0, 0, 1]),
      DefaultBoltAutoCompactMinAge = 1, DefaultDBTimeout = 1, BackendTest = ''test'',
      eini_ParseFile = (\<lambda>p fs. Ok \<lparr>ec_LogLevel = ''debug'', ec_KeyringBackend = ''test'', ec_RpcListener = '''',
        ec_Metrics = Some DefaultEotsConfig, ec_DatabaseConfig = \<lparr>DBPath = '''', DBFileName = '''', NoFreelistSync = True,
        AutoCompact = False, AutoCompactMinAge = 1, DBTimeout = 1\<rparr>\<rparr>),
      eini_WriteFile = (\<lambda>p c. ret ()), GetBoltBackend = (\<lambda>c. ret demo_keys),
      backend_Close = (\<lambda>d. ret ()), os_Open = (\<lambda>p fs. Ok ()), io_Copy = (\<lambda>p fs. Ok [1, 2]), sha256_Sum = (\<lambda>b. b),
      tmhash_Sum = (\<lambda>b. b), input_GetString = ret '''', bip39_IsMnemonicValid = (\<lambda>m. True),
      bbn_NewBIP340PubKeyFromHex = hex_DecodeString, ParsePubKey = Ok, ParseSignature = Ok,
      Signature_Verify = (\<lambda>sig m pk. pk = [9] \<and> suffix m sig), sdk_AccAddressFromBech32 = (\<lambda>a. Ok [7]),
      sdk_AccAddress_String = (\<lambda>a. ''addr''), BIP340Signature_Marshal = Ok,
      Pop_ToHexStr = (\<lambda>p. Ok (hex_encode (pop_BtcSig p)))\<rparr>"

definition demo_ctx :: "string \<Rightarrow> cli_Context" where
  "demo_ctx a = \<lparr>ctx_String = (\<lambda>n. if n = ''key-name'' then ''k'' else ''''), ctx_Bool = (\<lambda>n. False), ctx_Args = [a]\<rparr>"

text \<open>The manager of a fresh process, before and after the registration of its collectors.\<close>

definition demo_lm :: "mem_db \<Rightarrow> EotsMetrics \<Rightarrow> (mem_db, unit) LocalEOTSManager" where
  "demo_lm d m = \<lparr>lm_kr = (), lm_es = d, lm_input = '''', lm_metrics = m\<rparr>"

definition demo_unregistered :: EotsMetrics where
  "demo_unregistered = \<lparr>prom_calls = [], eotsMetricsRegisterOnce = False\<rparr>"

definition demo_ew :: "(mem_db, unit, unit) eotsd_world" where
  "demo_ew = \<lparr>ew_lm = demo_lm [] demo_unregistered, ew_fs = (), ew_out = []\<rparr>"

lemma demo_lm_es [simp]: "lm_es (demo_lm d m) = d"
  by (simp add: demo_lm_def)

lemma demo_ctx_simps [simp]: "ctx_String (demo_ctx a) ''key-name'' = ''k''" "ctx_String (demo_ctx a) ''eots-pk'' = ''''"
  "ctx_String (demo_ctx a) ''passphrase'' = ''''" "Args_First (demo_ctx a) = a"
  by (simp_all add: demo_ctx_def Args_First_def)

lemma demo_parse_key [simp]: "btcec_ParsePubKey demo_eots = Ok"
  by (simp add: demo_eots_def)

lemma demo_signing_laws: "signing_laws demo_F demo_eots"
  by (auto simp: signing_laws_def record_signs_def ret_def suffix_def demo_F_def)

lemma demo_names_match: "names_match demo_eots demo_keys"
  by (auto simp: names_match_def key_name_at_def demo_keys_def mem_Get_def ret_def split: if_splits)

lemma demo_with_manager:
  "with_manager demo_F demo_eots (demo_ctx a) body demo_ew =
     body \<lparr>ew_lm = demo_lm demo_keys (NewEotsMetrics demo_unregistered), ew_fs = (), ew_out = []\<rparr>"
proof -
  have home: "getHomeFlag demo_F (demo_ctx a) = Ok ''''"
    by (simp add: getHomeFlag_def demo_F_def demo_ctx_def CleanAndExpandPath_def)
  have "\<exists>cfg. eotsd_LoadConfig demo_F '''' () = Ok cfg \<and> ec_LogLevel cfg = ''debug''"
    by (simp add: eotsd_LoadConfig_def FileExists_def demo_F_def eotsd_Validate_def metrics_Validate_def DefaultEotsConfig_def go_defs)
  then obtain cfg where cfg: "eotsd_LoadConfig demo_F '''' () = Ok cfg" "ec_LogLevel cfg = ''debug''" by blast
  have mk: "NewLocalEOTSManager demo_eots '''' '''' ((demo_lm [] demo_unregistered)\<lparr>lm_es := demo_keys\<rparr>) =
      (Ok (), demo_lm demo_keys (NewEotsMetrics demo_unregistered))"
    by (simp add: NewLocalEOTSManager_def input_Reset_def lm_store_def lm_keyring_def NewEOTSStore_def eots_initBuckets_def
        kv_Batch_def go_defs mem_Create_def demo_keys_def demo_eots_def demo_lm_def lm_meter_apply)
  have "NewRootLogger ''console'' ''debug'' = Ok (ConsoleEncoder, DebugLevel)" by code_simp
  then have lib: "NewRootLoggerWithFile demo_F p ''debug'' = ret (ConsoleEncoder, DebugLevel)" "GetBoltBackend demo_F c = ret demo_keys"
    "backend_Close demo_F d = ret ()" for p c d
    by (auto simp: demo_F_def NewRootLoggerWithFile_def MakeDirectory_def go_defs)
  have kb: "ctx_String (demo_ctx a) ''keyring-backend'' = ''''" by (simp add: demo_ctx_def)
  have close: "snd (on_files (backend_Close demo_F d) x) = x" for d and x :: "(mem_db, unit, unit) eotsd_world"
    by (simp add: on_files_def zoom_go_def lib ret_def)
  show ?thesis
    by (simp add: with_manager_def home get_go_def demo_ew_def cfg on_files_def zoom_go_def lib(1,2) handle_go_def ret_def upd_go_def
        close_after_def on_lm_def kb mk) (auto simp: close [unfolded on_files_def zoom_go_def] close split: prod.splits res.splits)
qed

lemma demo_sing: "singMsg demo_F demo_eots ''k'' '''' '''' m (demo_lm demo_keys em) =
    (Ok (bytes_of_string ''k'' @ m, [9]), demo_lm demo_keys (IncrementEotsFpTotalSchnorrSignCounter (hex_encode [9]) em))"
  by (simp add: singMsg_def SignSchnorrSigFromKeyname_def input_Reset_def lm_keyring_def loadBIP340PubKeyFromKeyringRecord_def
      eotsPrivKeyFromRecord_def signSchnorrSigFromPrivKey_def go_defs demo_lm_def lm_meter_apply)


section \<open>Proofs of possession\<close>

text \<open>
  What the two command lines share: the verification of a proof of possession is the
  verification of its signature over the hash of the address, and addresses are printed so that
  they parse.
\<close>

definition pop_laws ::
  "('fs2, 'y) cmd_lib_scheme \<Rightarrow> ('db2, 'w, 'kr2, 'v) app_env_scheme \<Rightarrow> ('db, 'kr, 'fs, 'z) eotsd_lib_scheme \<Rightarrow> bool" where
  "pop_laws C E F \<longleftrightarrow>
     (\<forall>sig bz hx pop addr pk. BIP340Signature_Marshal F sig = Ok bz \<and> Pop_ToHexStr F \<lparr>pop_BtcSig = bz\<rparr> = Ok hx \<and>
        hex_DecodeString hx = Ok pop \<and> Signature_Verify F sig (tmhash_Sum F addr) pk \<longrightarrow>
        Pop_VerifyBIP340 C pop addr pk = Ok ()) \<and>
     (\<forall>str a. sdk_AccAddressFromBech32 F str = Ok a \<longrightarrow> AccAddressFromBech32 E (sdk_AccAddress_String F a) = Ok a)"


lemma demo_pop_laws: "pop_laws demo_C demo_app demo_F"
  by (auto simp: pop_laws_def demo_C_def demo_F_def demo_app_def)


section \<open>Configurations\<close>

text \<open>What the ini library promises: a written configuration is read back, but for the network parameters, which have no option.\<close>

definition ini_laws :: "('fs, 'z) fpd_files_scheme \<Rightarrow> bool" where
  "ini_laws C \<longleftrightarrow> (\<forall>p cfg fs fs'. ini_WriteFile C p cfg fs = (Ok (), fs') \<longrightarrow> os_Stat C p fs' = StatOk \<and>
     (\<exists>net. ini_ParseFile C p fs' = Ok (cfg\<lparr>cfg_BTCNetParams := net\<rparr>)))"

lemma load_written:
  assumes "ini_laws C" and "ini_WriteFile C (fpd_ConfigFile h) cfg fs = (Ok (), fs')" and "valid_fpd C cfg"
  shows "fpd_LoadConfig C h fs' = Ok cfg"
proof -
  from assms(1,2) obtain net where "os_Stat C (fpd_ConfigFile h) fs' = StatOk"
    "ini_ParseFile C (fpd_ConfigFile h) fs' = Ok (cfg\<lparr>cfg_BTCNetParams := net\<rparr>)"
    unfolding ini_laws_def by blast
  moreover have "fpd_Validate C (cfg\<lparr>cfg_BTCNetParams := net\<rparr>) = Ok cfg"
    using assms(3) by (simp add: fpd_Validate_Ok) (simp add: valid_fpd_def)
  ultimately show ?thesis by (simp add: fpd_LoadConfig_def FileExists_def)
qed

lemma default_valid: "fpd_DefaultConfigWithHome C h = Ok cfg \<Longrightarrow> valid_fpd C cfg"
  by (auto simp: fpd_DefaultConfigWithHome_def Let_def fpd_Validate_Ok split: res.splits)

lemma on_fs_Ok: "on_fs m s = (r, s') \<Longrightarrow> m (cw_fs s) = (r, cw_fs s')"
  by (auto simp: on_fs_def zoom_go_def split: prod.splits)

text \<open>C16. Configurations survive the file: after a successful \<^verbatim>\<open>fpd init\<close> the loaded configuration is the default
  one for the home directory; after \<^verbatim>\<open>fpd keys add\<close> the loaded configuration is the previous one
  with the new key and its keyring; and every configuration that loads is valid, with the
  network parameters of its network.\<close>

theorem config_round_trip:
  fixes s :: "('r, 'fs) cli_world"
  assumes laws: "ini_laws C"
  shows "(runInitCmd C home flags args s = (Ok (), s') \<longrightarrow> (\<exists>abs cfg. filepath_Abs C home = Ok abs \<and>
      fpd_DefaultConfigWithHome C (CleanAndExpandPath C abs) = Ok cfg \<and>
      fpd_LoadConfig C (CleanAndExpandPath C abs) (cw_fs s') = Ok cfg)) \<and>
    (fpd_LoadConfig C home (cw_fs s) = Ok cfg \<and> keysAdd_PostRunE C home flags (arg # args) s = (Ok (), s') \<longrightarrow>
      (\<exists>b. pf_GetString C flags ''keyring-backend'' = Ok b \<and> fpd_LoadConfig C home (cw_fs s') =
        Ok (cfg\<lparr>cfg_BabylonConfig := (cfg_BabylonConfig cfg)\<lparr>bbn_Key := arg, bbn_KeyringBackend := b\<rparr>\<rparr>))) \<and>
    (fpd_LoadConfig C home (cw_fs s) = Ok cfg \<longrightarrow> cfg_EOTSManagerAddress cfg \<noteq> '''' \<and>
      NetParamsBTC (cfg_BitcoinNetwork cfg) = Ok (cfg_BTCNetParams cfg) \<and>
      net_ResolveTCPAddr C (cfg_RpcListener cfg) = Ok () \<and> valid_metrics C (cfg_Metrics cfg))"
proof -
  have init: "\<exists>abs cfg. filepath_Abs C home = Ok abs \<and> fpd_DefaultConfigWithHome C (CleanAndExpandPath C abs) = Ok cfg \<and>
      fpd_LoadConfig C (CleanAndExpandPath C abs) (cw_fs s') = Ok cfg"
    if "runInitCmd C home flags args s = (Ok (), s')"
  proof -
    from that obtain abs cfg' s1 where "filepath_Abs C home = Ok abs"
      and "fpd_DefaultConfigWithHome C (CleanAndExpandPath C abs) = Ok cfg'"
      and "on_fs (ini_WriteFile C (fpd_ConfigFile (CleanAndExpandPath C abs)) cfg') s1 = (Ok (), s')"
      unfolding runInitCmd_def Let_def get_go_def
      by (elim try_go_OkE) (auto simp: of_res_def fail_def split: if_splits elim!: try_go_OkE)
    then show ?thesis using load_written [OF laws] default_valid on_fs_Ok by blast
  qed
  have add: "\<exists>b. pf_GetString C flags ''keyring-backend'' = Ok b \<and> fpd_LoadConfig C home (cw_fs s') =
        Ok (cfg\<lparr>cfg_BabylonConfig := (cfg_BabylonConfig cfg)\<lparr>bbn_Key := arg, bbn_KeyringBackend := b\<rparr>\<rparr>)"
    if load: "fpd_LoadConfig C home (cw_fs s) = Ok cfg" and run: "keysAdd_PostRunE C home flags (arg # args) s = (Ok (), s')"
  proof -
    let ?cfg = "\<lambda>b. cfg\<lparr>cfg_BabylonConfig := (cfg_BabylonConfig cfg)\<lparr>bbn_Key := arg, bbn_KeyringBackend := b\<rparr>\<rparr>"
    from run load obtain b where "pf_GetString C flags ''keyring-backend'' = Ok b"
      and "on_fs (ini_WriteFile C (fpd_ConfigFile home) (?cfg b)) s = (Ok (), s')"
      by (auto simp: keysAdd_PostRunE_def get_go_def index_go_def elim!: try_go_OkE) (simp add: of_res_def)
    moreover have "valid_fpd C (?cfg b)" using fpd_LoadConfig_Ok [OF load] by (simp add: valid_fpd_def)
    ultimately show ?thesis using load_written [OF laws] on_fs_Ok by blast
  qed
  show ?thesis using init add fpd_LoadConfig_Ok [of C home "cw_fs s" cfg] by (auto simp: valid_fpd_def)
qed

lemma demo_ini_laws: "ini_laws demo_C"
proof -
  have "\<exists>net. c = c\<lparr>cfg_BTCNetParams := net\<rparr>" for c :: FpdConfig
    by (intro exI [of _ "cfg_BTCNetParams c"]) simp
  then show ?thesis by (auto simp: ini_laws_def demo_C_def)
qed

lemma demo_default: "\<exists>cfg. fpd_DefaultConfigWithHome demo_C h = Ok cfg"
  by (simp add: fpd_DefaultConfigWithHome_def Let_def fpd_Validate_def NetParamsBTC_def metrics_Validate_def DefaultFpConfig_def
      demo_C_def go_defs)

theorem config_round_trip_witness:
  "\<exists>s' cfg. runInitCmd demo_C ''/h'' demo_flags [] (\<lparr>cw_remote = (), cw_fs = [], cw_out = []\<rparr> :: (unit, demo_fs) cli_world) = (Ok (), s') \<and>
     fpd_DefaultConfigWithHome demo_C ''/h'' = Ok cfg \<and> fpd_LoadConfig demo_C ''/h'' (cw_fs s') = Ok cfg"
proof -
  have abs: "filepath_Abs demo_C ''/h'' = Ok ''/h''" by (simp add: demo_C_def)
  have clean: "CleanAndExpandPath demo_C ''/h'' = ''/h''" by code_simp
  obtain cfg where cfg: "fpd_DefaultConfigWithHome demo_C ''/h'' = Ok cfg" using demo_default by blast
  have lib: "pf_GetBool demo_C demo_flags ''force'' = Ok False" "\<not> FileExists demo_C p []" "MakeDirectory demo_C d = ret ()"
    "ini_WriteFile demo_C p c fs = (Ok (), (p, c) # fs)" for p d c fs
    by (auto simp: demo_C_def demo_flags_def FileExists_def MakeDirectory_def ret_def)
  obtain s' where run: "runInitCmd demo_C ''/h'' demo_flags [] (\<lparr>cw_remote = (), cw_fs = [], cw_out = []\<rparr> :: (unit, demo_fs) cli_world) =
      (Ok (), s')"
    by (simp add: runInitCmd_def abs clean cfg Let_def handle_go_def of_res_def get_go_def on_fs_def zoom_go_def lib ret_def)
  from config_round_trip [OF demo_ini_laws, THEN conjunct1, rule_format, OF run] abs clean run show ?thesis by auto
qed

end
