(* ===== verification/Servers.thy ===== *)
theory Servers
  imports FpdCommands EotsdCommands
begin

text \<open>
  The processes of both daemons: their servers (\<^verbatim>\<open>service/server.go\<close> of \<^verbatim>\<open>eotsmanager\<close> and
  \<^verbatim>\<open>finality-provider\<close>, \<^verbatim>\<open>metrics/server.go\<close>) and the commands that start them
  (\<^verbatim>\<open>start.go\<close> of both). A process is the world of the daemon with what it holds open: the
  database, the metrics server, the listener and the listeners that the gRPC server serves.
\<close>

section \<open>Processes\<close>

record 'p process =
  pr_world :: 'p
  srv_started :: "32 word"
  srv_db :: bool
  srv_metrics :: "string option"
  srv_lis :: "string option"
  srv_grpc :: "string list"

text \<open>
  Everything that the goroutines of a daemon do while the main goroutine waits at the
  shutdown channel is one parameter: the signal arrives, the daemon still serves, or a
  goroutine ends the process (\<^verbatim>\<open>logger.Fatal\<close>), in which case no deferred call runs.
\<close>

datatype shutdown = ShutdownSignal | StillServing | ProcessEnded string

record 'p srv_lib =
  net_Listen :: "string \<Rightarrow> ('p, unit) go"
  lis_Close :: "('p, unit) go"
  http_Shutdown :: "('p, unit) go"
  db_Close :: "('p, unit) go"
  signal_Intercept :: "('p, unit) go"
  until_shutdown :: "'p \<Rightarrow> shutdown \<times> 'p"

definition on_world :: "('p, 'a) go \<Rightarrow> ('p process, 'a) go" where
  "on_world m = zoom_go pr_world (\<lambda>w s. s\<lparr>pr_world := w\<rparr>) m"

text \<open>\<^verbatim>\<open>defer\<close>: the call runs after every return of the body.\<close>

definition defer_go :: "('s, unit) go \<Rightarrow> ('s, 'a) go \<Rightarrow> ('s, 'a) go" where
  "defer_go d m = (\<lambda>s. case m s of
      (Ok x, s') \<Rightarrow> (Ok x, snd (d s'))
    | (Err e, s') \<Rightarrow> (Err e, snd (d s'))
    | (Crash c, s') \<Rightarrow> (Crash c, s')
    | (Running, s') \<Rightarrow> (Running, s'))"

section \<open>The metrics server\<close>

definition metrics_Start :: "string \<Rightarrow> ('p process, unit) go" where
  "metrics_Start addr = upd_go (\<lambda>s. s\<lparr>srv_metrics := Some addr\<rparr>) (ret ())"

definition metrics_Stop :: "('p, 'z) srv_lib_scheme \<Rightarrow> ('p process, unit) go" where
  "metrics_Stop V = handle_go (on_world (http_Shutdown V)) (\<lambda>_. ret ())
     (\<lambda>_. upd_go (\<lambda>s. s\<lparr>srv_metrics := None\<rparr>) (ret ()))"

section \<open>The server\<close>

text \<open>Registering the handlers with the gRPC server never fails; each listener gets its goroutine.\<close>

definition RegisterWithGrpcServer :: "('s, unit) go" where
  "RegisterWithGrpcServer = ret ()"

fun startGrpcListen :: "string list \<Rightarrow> ('p process, unit) go" where
  "startGrpcListen [] = ret ()"
| "startGrpcListen (lis # listeners) = upd_go (\<lambda>s. s\<lparr>srv_grpc := srv_grpc s @ [lis]\<rparr>) (startGrpcListen listeners)"

definition await_shutdown :: "('p, 'z) srv_lib_scheme \<Rightarrow> ('p process, unit) go" where
  "await_shutdown V = on_world (\<lambda>w. case until_shutdown V w of
      (ShutdownSignal, w') \<Rightarrow> (Ok (), w')
    | (StillServing, w') \<Rightarrow> (Running, w')
    | (ProcessEnded c, w') \<Rightarrow> (Crash c, w'))"

text \<open>
  The handlers of \<^verbatim>\<open>fpd\<close> keep counters of their starts and stops, of 32 bits. Closing a
  closed channel panics; nothing is added to the wait group, so that waiting for it returns.
\<close>

record rpcServer =
  rs_started :: "32 word"
  rs_shutdown :: "32 word"
  rs_quit :: bool

definition newRPCServer :: rpcServer where
  "newRPCServer = \<lparr>rs_started = 0, rs_shutdown = 0, rs_quit = False\<rparr>"

definition rs_Start :: "(rpcServer, unit) go" where
  "rs_Start = upd_go (\<lambda>r. r\<lparr>rs_started := rs_started r + 1\<rparr>) (
     get_go rs_started (\<lambda>started. if started \<noteq> 1 then ret () else ret ()))"

definition rs_Stop :: "(rpcServer, unit) go" where
  "rs_Stop = upd_go (\<lambda>r. r\<lparr>rs_shutdown := rs_shutdown r + 1\<rparr>) (
     get_go rs_shutdown (\<lambda>shutdown.
     if shutdown \<noteq> 1 then ret ()
     else get_go rs_quit (\<lambda>closed.
       if closed then crash ''close of closed channel''
       else upd_go (\<lambda>r. r\<lparr>rs_quit := True\<rparr>) (ret ()))))"

text \<open>The deferred calls; errors of a close are only logged.\<close>

definition close_database :: "('p, 'z) srv_lib_scheme \<Rightarrow> ('p process, unit) go" where
  "close_database V = try_go (handle_go (on_world (db_Close V)) (\<lambda>_. ret ())
       (\<lambda>_. upd_go (\<lambda>s. s\<lparr>srv_db := False\<rparr>) (ret ()))) (\<lambda>_. metrics_Stop V)"

definition close_listener :: "('p, 'z) srv_lib_scheme \<Rightarrow> ('p process, unit) go" where
  "close_listener V = handle_go (on_world (lis_Close V)) (\<lambda>_. ret ())
     (\<lambda>_. upd_go (\<lambda>s. s\<lparr>srv_lis := None\<rparr>) (ret ()))"

definition grpc_Stop :: "('p process, unit) go" where
  "grpc_Stop = upd_go (\<lambda>s. s\<lparr>srv_grpc := []\<rparr>) (ret ())"

text \<open>The code of both servers is the same; they differ in the type of their configuration.\<close>

definition run_server ::
  "('fs, 'y) os_lib_scheme \<Rightarrow> ('p, 'z) srv_lib_scheme \<Rightarrow> metrics_Config option \<Rightarrow> string \<Rightarrow> ('p process, unit) go" where
  "run_server F V metrics listenAddr =
     upd_go (\<lambda>s. s\<lparr>srv_started := srv_started s + 1\<rparr>) (
     get_go srv_started (\<lambda>started.
     if started \<noteq> 1 then ret ()
     else case metrics of
       None \<Rightarrow> crash ''nil pointer dereference''
     | Some m \<Rightarrow>
     wrap_go ''failed to get prometheus address: '' (of_res (metrics_Address F m)) (\<lambda>promAddr.
     try_go (metrics_Start promAddr) (\<lambda>_.
     defer_go (close_database V) (
     wrap_go (''failed to listen on '' @ listenAddr @ '': '') (on_world (net_Listen V listenAddr)) (\<lambda>_.
     upd_go (\<lambda>s. s\<lparr>srv_lis := Some listenAddr\<rparr>) (
     defer_go (close_listener V) (
     defer_go grpc_Stop (
     wrap_go ''failed to register gRPC server: '' RegisterWithGrpcServer (\<lambda>_.
     text_go ''failed to start gRPC listener: '' (startGrpcListen [listenAddr]) (\<lambda>_.
     await_shutdown V)))))))))))"

definition fp_RunUntilShutdown ::
  "('fs, 'y) os_lib_scheme \<Rightarrow> ('p, 'z) srv_lib_scheme \<Rightarrow> FpdConfig \<Rightarrow> ('p process, unit) go" where
  "fp_RunUntilShutdown F V cfg = run_server F V (cfg_Metrics cfg) (cfg_RpcListener cfg)"

definition eots_RunUntilShutdown ::
  "('fs, 'y) os_lib_scheme \<Rightarrow> ('p, 'z) srv_lib_scheme \<Rightarrow> EotsdConfig \<Rightarrow> ('p process, unit) go" where
  "eots_RunUntilShutdown F V cfg = run_server F V (ec_Metrics cfg) (ec_RpcListener cfg)"

section \<open>Starting fpd\<close>

record ('db, 'w, 'kr, 'fs) fpd_proc =
  fp_app :: "('db, 'w, 'kr) app_world"
  fp_fs :: 'fs

record ('db, 'fs) start_lib = "'fs cmd_lib" +
  fpd_GetBoltBackend :: "BoltBackendConfig \<Rightarrow> ('fs, 'db) go"

definition on_app :: "(('db, 'w, 'kr) app_world, 'a) go \<Rightarrow> (('db, 'w, 'kr, 'fs) fpd_proc process, 'a) go" where
  "on_app m = on_world (zoom_go fp_app (\<lambda>a s. s\<lparr>fp_app := a\<rparr>) m)"

definition on_fp_fs :: "('fs, 'a) go \<Rightarrow> (('db, 'w, 'kr, 'fs) fpd_proc process, 'a) go" where
  "on_fp_fs m = on_world (zoom_go fp_fs (\<lambda>f s. s\<lparr>fp_fs := f\<rparr>) m)"

definition runStartCmd ::
  "('db, 'fs, 'y) start_lib_scheme \<Rightarrow> (('db, ('edb, 'ekr, 'n, 'c) fpd_ext, 'kr, 'fs) fpd_proc, 'v) srv_lib_scheme \<Rightarrow>
   ('db, ('edb, 'ekr, 'n, 'c) fpd_ext, 'kr, 'z) app_env_scheme \<Rightarrow> ('edb, 'ekr, 'x) eots_lib_scheme \<Rightarrow>
   ('n, 't) rpc_net_scheme \<Rightarrow> ('c, 'u) BabylonController_scheme \<Rightarrow> nat \<Rightarrow> nat \<Rightarrow>
   string \<Rightarrow> FlagSet \<Rightarrow> string list \<Rightarrow> (('db, ('edb, 'ekr, 'n, 'c) fpd_ext, 'kr, 'fs) fpd_proc process, unit) go" where
  "runStartCmd C V E L N B n k homeDir flags args =
     try_go (of_res (filepath_Abs C homeDir)) (\<lambda>abs.
     let homePath = CleanAndExpandPath C abs in
     get_flag C flags ''eots-pk'' (\<lambda>fpStr.
     get_flag C flags ''rpc-listener'' (\<lambda>rpcListener.
     get_flag C flags ''passphrase'' (\<lambda>passphrase.
     get_go (\<lambda>s. fp_fs (pr_world s)) (\<lambda>fs.
     wrap_go ''failed to load configuration: '' (of_res (fpd_LoadConfig C homePath fs)) (\<lambda>cfg.
     wrap_go (''invalid RPC listener address '' @ rpcListener @ '', '')
       (if rpcListener \<noteq> '''' then of_res (net_ResolveTCPAddr C rpcListener) else ret ()) (\<lambda>_.
     let cfg' = (if rpcListener \<noteq> '''' then cfg\<lparr>cfg_RpcListener := rpcListener\<rparr> else cfg) in
     wrap_go ''failed to initialize the logger: ''
       (on_fp_fs (NewRootLoggerWithFile C (fpd_LogFile homePath) (cfg_LogLevel cfg'))) (\<lambda>_.
     wrap_go ''failed to create db backend: ''
       (on_fp_fs (fpd_GetBoltBackend C (DBConfigToBoltBackendConfig (cfg_DatabaseConfig cfg')))) (\<lambda>db.
     upd_go (\<lambda>s. s\<lparr>srv_db := True, pr_world := (pr_world s)\<lparr>fp_app := (fp_app (pr_world s))\<lparr>mw_db := db\<rparr>\<rparr>\<rparr>) (
     wrap_go ''failed to load app: '' (on_app (loadApp E L N B cfg')) (\<lambda>E'.
     wrap_go ''failed to start app: '' (on_app (startApp E' n k fpStr passphrase)) (\<lambda>_.
     try_go (on_world (signal_Intercept V)) (\<lambda>_.
     fp_RunUntilShutdown C V cfg')))))))))))))"

definition CommandStart ::
  "('db, 'fs, 'y) start_lib_scheme \<Rightarrow> (('db, ('edb, 'ekr, 'n, 'c) fpd_ext, 'kr, 'fs) fpd_proc, 'v) srv_lib_scheme \<Rightarrow>
   ('db, ('edb, 'ekr, 'n, 'c) fpd_ext, 'kr, 'z) app_env_scheme \<Rightarrow> ('edb, 'ekr, 'x) eots_lib_scheme \<Rightarrow>
   ('n, 't) rpc_net_scheme \<Rightarrow> ('c, 'u) BabylonController_scheme \<Rightarrow> nat \<Rightarrow> nat \<Rightarrow>
   ('db, ('edb, 'ekr, 'n, 'c) fpd_ext, 'kr, 'fs) fpd_proc process cobra_Command" where
  "CommandStart C V E L N B n k =
     \<lparr>cmd_Use = ''start'', cmd_Aliases = [], cmd_Args = NoArgs,
      cmd_Flags = [(''eots-pk'', ''''), (''passphrase'', ''''), (''rpc-listener'', '''')],
      cmd_RunE = RunEWithClientCtx C (runStartCmd C V E L N B n k)\<rparr>"

section \<open>Starting eotsd\<close>

definition startFn ::
  "('db, 'kr, 'fs, 'z) eotsd_lib_scheme \<Rightarrow> (('db, 'kr, 'fs) eotsd_world, 'v) srv_lib_scheme \<Rightarrow>
   ('db, 'kr, 'x) eots_lib_scheme \<Rightarrow> cli_Context \<Rightarrow> (('db, 'kr, 'fs) eotsd_world process, unit) go" where
  "startFn F V L ctx =
     wrap_go ''failed to load home flag: '' (of_res (getHomeFlag F ctx)) (\<lambda>homePath.
     get_go (\<lambda>s. ew_fs (pr_world s)) (\<lambda>fs.
     wrap_go (''failed to load config at '' @ homePath @ '': '') (of_res (eotsd_LoadConfig F homePath fs)) (\<lambda>cfg.
     let rpcListener = ctx_String ctx ''rpc-listener'' in
     wrap_go (''invalid RPC listener address '' @ rpcListener @ '', '')
       (if rpcListener \<noteq> '''' then of_res (net_ResolveTCPAddr F rpcListener) else ret ()) (\<lambda>_.
     let cfg' = (if rpcListener \<noteq> '''' then cfg\<lparr>ec_RpcListener := rpcListener\<rparr> else cfg) in
     handle_go (on_world (on_files (NewRootLoggerWithFile F (eotsd_LogFile homePath) (ec_LogLevel cfg'))))
       (\<lambda>_. fail (NewErr ''failed to load the logger'')) (\<lambda>_.
     wrap_go ''failed to create db backend: ''
       (on_world (on_files (GetBoltBackend F (DBConfigToBoltBackendConfig (ec_DatabaseConfig cfg'))))) (\<lambda>db.
     upd_go (\<lambda>s. s\<lparr>srv_db := True, pr_world := (pr_world s)\<lparr>ew_lm := (ew_lm (pr_world s))\<lparr>lm_es := db\<rparr>\<rparr>\<rparr>) (
     wrap_go ''failed to create EOTS manager: ''
       (on_world (on_lm (NewLocalEOTSManager L homePath (ec_KeyringBackend cfg')))) (\<lambda>_.
     try_go (on_world (signal_Intercept V)) (\<lambda>_.
     eots_RunUntilShutdown F V cfg')))))))))"

section \<open>Stopping the handlers\<close>

fun rs_stops :: "nat \<Rightarrow> (rpcServer, unit) go" where
  "rs_stops 0 = ret ()"
| "rs_stops (Suc n) = try_go (rs_stops n) (\<lambda>_. rs_Stop)"

text \<open>
  The first stop closes the channel and the following ones do nothing, until the counter has
  gone round: the stop after that closes the channel again and panics.
\<close>

lemma rs_stops_close_once:
  assumes "n \<le> 2 ^ 32"
  shows "rs_stops n newRPCServer =
    (Ok (), \<lparr>rs_started = 0, rs_shutdown = of_nat n, rs_quit = (n > 0)\<rparr>)"
  using assms
proof (induction n)
  case 0
  then show ?case by (simp add: newRPCServer_def go_defs)
next
  case (Suc n)
  have "of_nat (Suc n) = (1 :: 32 word) \<longleftrightarrow> n = 0"
  proof -
    have "of_nat (Suc n) = (1 :: 32 word) \<longleftrightarrow> of_nat n = (0 :: 32 word)" by simp
    also have "\<dots> \<longleftrightarrow> (2 ^ 32 :: nat) dvd n" by (simp add: word_of_nat_eq_0_iff)
    also have "\<dots> \<longleftrightarrow> n = 0" using Suc.prems by (auto dest: dvd_imp_le)
    finally show ?thesis .
  qed
  with Suc show ?case by (simp add: rs_Stop_def go_defs)
qed

lemma rs_stop_after_wrap: "\<exists>s. rs_stops (2 ^ 32 + 1) newRPCServer = (Crash ''close of closed channel'', s)"
proof -
  have round: "(4294967296 :: 32 word) = 0" by transfer simp
  have "rs_stops (Suc (2 ^ 32)) newRPCServer = try_go (rs_stops (2 ^ 32)) (\<lambda>_. rs_Stop) newRPCServer"
    by (rule arg_cong [where f = "\<lambda>m. m newRPCServer"], rule rs_stops.simps)
  also have "\<dots> = rs_Stop \<lparr>rs_started = 0, rs_shutdown = 0, rs_quit = True\<rparr>"
    using rs_stops_close_once [of "2 ^ 32"] by (simp add: round go_defs)
  finally show ?thesis by (simp add: rs_Stop_def go_defs)
qed

end
