(* ===== verification/ServerProperties.thy ===== *)
theory ServerProperties
  imports CommandProperties DaemonProperties Servers
begin

text \<open>
  The daemons as processes: what they hold open while they serve and after they return, from
  their start command to the shutdown signal.
\<close>

section \<open>The server\<close>

text \<open>
  What the operating system and the libraries promise: a close succeeds, and opening a
  listener returns.
\<close>

definition srv_laws :: "('p, 'z) srv_lib_scheme \<Rightarrow> bool" where
  "srv_laws V \<longleftrightarrow> (\<forall>w. fst (lis_Close V w) = Ok () \<and> fst (http_Shutdown V w) = Ok () \<and> fst (db_Close V w) = Ok ()) \<and>
     (\<forall>a w. case fst (net_Listen V a w) of Ok _ \<Rightarrow> True | Err _ \<Rightarrow> True | _ \<Rightarrow> False)"

definition serves_at :: "string \<Rightarrow> string \<Rightarrow> 'p process \<Rightarrow> bool" where
  "serves_at prom addr s \<longleftrightarrow> srv_db s \<and> srv_metrics s = Some prom \<and> srv_lis s = Some addr \<and> srv_grpc s = [addr]"

definition all_released :: "'p process \<Rightarrow> bool" where
  "all_released s \<longleftrightarrow> \<not> srv_db s \<and> srv_metrics s = None \<and> srv_lis s = None \<and> srv_grpc s = []"

text \<open>A process that has not served: nothing but the database may be open.\<close>

definition not_serving :: "'p process \<Rightarrow> bool" where
  "not_serving s \<longleftrightarrow> srv_started s = 0 \<and> srv_metrics s = None \<and> srv_lis s = None \<and> srv_grpc s = []"

lemma closes:
  assumes "srv_laws V"
  shows "\<exists>w. snd (close_database V s) = s\<lparr>pr_world := w, srv_db := False, srv_metrics := None\<rparr>"
    "\<exists>w. snd (close_listener V s) = s\<lparr>pr_world := w, srv_lis := None\<rparr>"
proof -
  obtain w1 where 1: "db_Close V (pr_world s) = (Ok (), w1)" using assms unfolding srv_laws_def by (metis prod.collapse)
  obtain w2 where 2: "http_Shutdown V w1 = (Ok (), w2)" using assms unfolding srv_laws_def by (metis prod.collapse)
  obtain w3 where 3: "lis_Close V (pr_world s) = (Ok (), w3)" using assms unfolding srv_laws_def by (metis prod.collapse)
  show "\<exists>w. snd (close_database V s) = s\<lparr>pr_world := w, srv_db := False, srv_metrics := None\<rparr>"
    by (simp add: close_database_def metrics_Stop_def on_world_def go_defs 1 2) (rule exI [of _ w2], simp)
  show "\<exists>w. snd (close_listener V s) = s\<lparr>pr_world := w, srv_lis := None\<rparr>"
    by (simp add: close_listener_def on_world_def go_defs 3) (rule exI [of _ w3], simp)
qed

lemma run_server_eq:
  assumes fresh: "not_serving s" and addr: "metrics_Address F m = Ok prom"
  shows "run_server F V (Some m) listen s =
    (let s1 = s\<lparr>srv_started := 1, srv_metrics := Some prom\<rparr> in
     case net_Listen V listen (pr_world s) of
       (Ok _, w) \<Rightarrow> (case until_shutdown V w of
           (ShutdownSignal, w') \<Rightarrow>
             (Ok (), snd (close_database V (snd (close_listener V (s1\<lparr>srv_lis := Some listen, pr_world := w', srv_grpc := []\<rparr>)))))
         | (StillServing, w') \<Rightarrow> (Running, s1\<lparr>pr_world := w', srv_lis := Some listen, srv_grpc := [listen]\<rparr>)
         | (ProcessEnded c, w') \<Rightarrow> (Crash c, s1\<lparr>pr_world := w', srv_lis := Some listen, srv_grpc := [listen]\<rparr>))
     | (Err e, w) \<Rightarrow> (Err (WrapErr (''failed to listen on '' @ listen @ '': '') e), snd (close_database V (s1\<lparr>pr_world := w\<rparr>)))
     | (Crash c, w) \<Rightarrow> (Crash c, s1\<lparr>pr_world := w\<rparr>)
     | (Running, w) \<Rightarrow> (Running, s1\<lparr>pr_world := w\<rparr>))"
proof -
  have grpc: "srv_grpc s = []" "srv_started s = 0" using fresh by (simp_all add: not_serving_def)
  show ?thesis
    by (simp add: run_server_def upd_go_def get_go_def grpc handle_go_def of_res_def addr metrics_Start_def ret_def defer_go_def
        on_world_def zoom_go_def RegisterWithGrpcServer_def await_shutdown_def grpc_Stop_def fail_def Let_def
        split: prod.splits res.splits shutdown.splits)
qed

lemma run_server_outcome:
  assumes laws: "srv_laws V" and fresh: "not_serving s" and addr: "metrics_Address F m = Ok prom"
    and run: "run_server F V (Some m) listen s = (r, s')"
  obtains (unheard) e w where "net_Listen V listen (pr_world s) = (Err e, w)"
      "r = Err (WrapErr (''failed to listen on '' @ listen @ '': '') e)" "all_released s'"
  | (signal) w w' where "net_Listen V listen (pr_world s) = (Ok (), w)" "until_shutdown V w = (ShutdownSignal, w')"
      "r = Ok ()" "all_released s'"
  | (serving) w w' where "net_Listen V listen (pr_world s) = (Ok (), w)" "until_shutdown V w = (StillServing, w')"
      "r = Running" "srv_db s \<Longrightarrow> serves_at prom listen s'"
  | (ended) w w' c where "net_Listen V listen (pr_world s) = (Ok (), w)" "until_shutdown V w = (ProcessEnded c, w')"
      "r = Crash c"
proof -
  have after: "all_released (snd (close_database V t))" if "srv_lis t = None" "srv_grpc t = []" for t
    using closes(1) [OF laws, of t] that by (auto simp: all_released_def)
  have lis: "srv_lis (snd (close_listener V t)) = None" "srv_grpc (snd (close_listener V t)) = srv_grpc t" for t
    using closes(2) [OF laws, of t] by auto
  obtain q w where listen: "net_Listen V listen (pr_world s) = (q, w)" by fastforce
  note eq = run [unfolded run_server_eq [OF fresh addr] Let_def listen prod.case]
  have "\<forall>a w. case fst (net_Listen V a w) of Ok _ \<Rightarrow> True | Err _ \<Rightarrow> True | _ \<Rightarrow> False"
    using laws unfolding srv_laws_def by (rule conjunct2)
  from this [rule_format, of listen "pr_world s"] have q: "case q of Ok _ \<Rightarrow> True | Err _ \<Rightarrow> True | _ \<Rightarrow> False"
    by (simp only: listen fst_conv)
  show thesis
  proof (cases q)
    case (Ok x)
    obtain sd w' where wait: "until_shutdown V w = (sd, w')" by fastforce
    show thesis
    proof (cases sd)
      case ShutdownSignal
      with eq Ok wait have r: "r = Ok ()" and s': "s' = snd (close_database V (snd (close_listener V
          (s\<lparr>srv_started := 1, srv_metrics := Some prom, srv_lis := Some listen, pr_world := w', srv_grpc := []\<rparr>))))"
        by simp_all
      have "all_released s'" unfolding s' by (rule after) (simp_all add: lis)
      with listen Ok wait ShutdownSignal r that(2) show thesis by simp
    next
      case StillServing
      with eq Ok wait have "r = Running" "srv_db s \<Longrightarrow> serves_at prom listen s'" by (auto simp: serves_at_def)
      with listen Ok wait StillServing that(3) show thesis by simp
    next
      case (ProcessEnded c)
      with eq Ok wait have "r = Crash c" by simp
      with listen Ok wait ProcessEnded that(4) show thesis by simp
    qed
  next
    case (Err e)
    with eq have r: "r = Err (WrapErr (''failed to listen on '' @ listen @ '': '') e)"
      and s': "s' = snd (close_database V (s\<lparr>srv_started := 1, srv_metrics := Some prom, pr_world := w\<rparr>))" by simp_all
    have "all_released s'" unfolding s' by (rule after) (use fresh in \<open>simp_all add: not_serving_def\<close>)
    with listen Err r that(1) show thesis by simp
  qed (use q in simp_all)
qed

section \<open>The start commands\<close>

text \<open>
  Every call before the server leaves what the server holds. \<open>server_post D Q m\<close>: \<open>Q\<close> holds for the runs
  of \<open>m\<close> from states in which the server has not run, with the database open if \<open>D\<close>.
\<close>

definition srv_part :: "'p process \<Rightarrow> 32 word \<times> string option \<times> string option \<times> string list" where
  "srv_part s = (srv_started s, srv_metrics s, srv_lis s, srv_grpc s)"

lemma not_serving_part: "not_serving s \<longleftrightarrow> srv_part s = (0, None, None, [])"
  by (simp add: not_serving_def srv_part_def)

definition server_post :: "bool \<Rightarrow> ('a res \<times> 'p process \<Rightarrow> bool) \<Rightarrow> ('p process, 'a) go \<Rightarrow> bool" where
  "server_post D Q m \<longleftrightarrow> (\<forall>s. not_serving s \<and> (D \<longrightarrow> srv_db s) \<longrightarrow> Q (m s))"

lemma server_postD: "server_post D Q m \<Longrightarrow> not_serving s \<Longrightarrow> (D \<Longrightarrow> srv_db s) \<Longrightarrow> Q (m s)"
  by (simp add: server_post_def)

definition early_post :: "(unit res \<times> 'p process \<Rightarrow> bool) \<Rightarrow> bool" where
  "early_post Q \<longleftrightarrow> (\<forall>r s. not_serving s \<and> r \<noteq> Ok () \<longrightarrow> Q (r, s))"

definition leaves_server :: "('p process, 'a) go \<Rightarrow> bool" where
  "leaves_server m \<longleftrightarrow> (\<forall>s r s'. m s = (r, s') \<longrightarrow> srv_part s' = srv_part s \<and> srv_db s' = srv_db s)"

lemma leaves_server_world: "leaves_server (on_world m)"
  by (auto simp: leaves_server_def on_world_def zoom_go_def srv_part_def split: prod.splits)

lemma leaves_server_app: "leaves_server (on_app f)"
  unfolding on_app_def by (rule leaves_server_world)

lemma leaves_server_fs: "leaves_server (on_fp_fs f)"
  unfolding on_fp_fs_def by (rule leaves_server_world)

lemma leaves_server_pure: "leaves_server (of_res x)" "leaves_server (ret y)"
  by (simp_all add: leaves_server_def of_res_def ret_def)

lemma leaves_server_if: "leaves_server a \<Longrightarrow> leaves_server b \<Longrightarrow> leaves_server (if c then a else b)"
  by simp

lemmas leaves_server_intros = leaves_server_world leaves_server_app leaves_server_fs leaves_server_pure leaves_server_if

lemma server_post_handle_Ok:
  assumes "early_post Q" and "leaves_server m" and "\<And>e. \<exists>e'. h e = fail e'"
    and "\<And>a s s'. m s = (Ok a, s') \<Longrightarrow> server_post D Q (k a)"
  shows "server_post D Q (handle_go m h k)"
  unfolding server_post_def
proof (intro allI impI, elim conjE)
  fix s :: "'a process" assume s: "not_serving s" "D \<longrightarrow> srv_db s"
  obtain r s1 where m: "m s = (r, s1)" by fastforce
  with assms(2) s have s1: "not_serving s1" "D \<longrightarrow> srv_db s1" unfolding leaves_server_def not_serving_part by metis+
  show "Q (handle_go m h k s)"
  proof (cases r)
    case (Ok a)
    with m assms(4) have "server_post D Q (k a)" by blast
    with Ok m s1 show ?thesis by (simp add: handle_go_def server_post_def)
  next
    case (Err e)
    from assms(3) obtain e' where "h e = fail e'" by blast
    with Err m s1 assms(1) show ?thesis by (simp add: handle_go_def fail_def early_post_def)
  qed (use m s1 assms(1) in \<open>simp_all add: handle_go_def early_post_def\<close>)
qed

lemmas server_post_handle = server_post_handle_Ok [OF _ _ _ thin_rl]

lemma of_res_post:
  assumes "early_post Q" and "not_serving s" and "\<And>e. \<exists>e'. h e = fail e'" and "\<And>a. x = Ok a \<Longrightarrow> Q (k a s)"
  shows "Q (handle_go (of_res x) h k s)"
proof (cases x)
  case (Err e)
  from assms(3) obtain e' where "h e = fail e'" by blast
  with Err assms(1,2) show ?thesis by (simp add: handle_go_def of_res_def fail_def early_post_def)
qed (use assms(1,2,4) in \<open>simp_all add: handle_go_def of_res_def early_post_def\<close>)

lemma server_post_opens:
  assumes "\<And>s. srv_part (f s) = srv_part s" and "\<And>s. srv_db (f s)" and "server_post True Q m"
  shows "server_post D Q (upd_go f m)"
  using assms by (simp add: server_post_def upd_go_def not_serving_part)

text \<open>
  What a start command may end with: an error before the server, or what the server leaves
  for the metrics and the listener of the configuration.
\<close>

definition start_outcome ::
  "('p, 'z) srv_lib_scheme \<Rightarrow> metrics_Config option \<Rightarrow> string \<Rightarrow> unit res \<times> 'p process \<Rightarrow> bool" where
  "start_outcome V metrics listen = (\<lambda>(r, s').
     if srv_started s' = 0 then r \<noteq> Ok () \<and> not_serving s'
     else (\<exists>m. metrics = Some m \<and>
       (r = Ok () \<longrightarrow> all_released s' \<and> (\<exists>w w'. until_shutdown V w = (ShutdownSignal, w'))) \<and>
       (\<forall>e. r = Err e \<longrightarrow> all_released s') \<and>
       (r = Running \<longrightarrow> serves_at (mc_Host m @ '':'' @ fmt_int (mc_Port m)) listen s')))"

lemma start_outcome_early: "early_post (start_outcome V metrics listen)"
  by (simp add: early_post_def start_outcome_def not_serving_def)

lemma run_server_started:
  assumes "not_serving s" and "metrics_Address F m = Ok prom" and "srv_laws V" and "run_server F V (Some m) listen s = (r, s')"
  shows "srv_started s' = 1"
proof -
  have "srv_started (snd (close_database V t)) = srv_started t" "srv_started (snd (close_listener V t)) = srv_started t" for t
    using closes [OF assms(3), of t] by auto
  with assms(4) show ?thesis
    by (auto simp: run_server_eq [OF assms(1,2)] Let_def split: prod.splits res.splits shutdown.splits)
qed

lemma start_outcome_server:
  assumes laws: "srv_laws V" and valid: "valid_metrics F metrics"
  shows "server_post True (start_outcome V metrics listen) (run_server F V metrics listen)"
  unfolding server_post_def
proof (intro allI impI, elim conjE)
  fix s :: "'a process" assume ns: "not_serving s" and "True \<longrightarrow> srv_db s"
  then have db: "srv_db s" by simp
  obtain m where m: "metrics = Some m" "metrics_Address F m = Ok (mc_Host m @ '':'' @ fmt_int (mc_Port m))"
    using valid by (auto simp: valid_metrics_def metrics_Address_def metrics_Validate_def split: option.splits if_splits res.splits)
  obtain r s' where run: "run_server F V (Some m) listen s = (r, s')" by fastforce
  have started: "srv_started s' = 1" by (rule run_server_started [OF ns m(2) laws run])
  from laws ns m(2) run show "start_outcome V metrics listen (run_server F V metrics listen s)"
    by (cases rule: run_server_outcome) (use m(1) db run started in \<open>auto simp: start_outcome_def\<close>)
qed


text \<open>The witness: both daemons on a concrete file system, with a shutdown signal that arrives.\<close>

definition demo_srv :: "'p srv_lib" where
  "demo_srv = \<lparr>net_Listen = (\<lambda>a. ret ()), lis_Close = ret (), http_Shutdown = ret (), db_Close = ret (),
     signal_Intercept = ret (), until_shutdown = (\<lambda>w. (ShutdownSignal, w))\<rparr>"

definition demo_start :: "(mem_db, demo_fs) start_lib" where
  "demo_start = cmd_lib.extend demo_C \<lparr>fpd_GetBoltBackend = (\<lambda>c. ret demo_db)\<rparr>"

definition demo_process :: "'p \<Rightarrow> 'p process" where
  "demo_process w = \<lparr>pr_world = w, srv_started = 0, srv_db = False, srv_metrics = None, srv_lis = None, srv_grpc = []\<rparr>"

definition demo_cfg :: "string \<Rightarrow> FpdConfig" where
  "demo_cfg level = (case fpd_DefaultConfigWithHome demo_start ''/h'' of Ok c \<Rightarrow> c\<lparr>cfg_LogLevel := level\<rparr>)"

lemma demo_srv_laws: "srv_laws demo_srv"
  by (simp add: srv_laws_def demo_srv_def ret_def)

lemma demo_not_serving: "not_serving (demo_process w)"
  by (simp add: not_serving_def demo_process_def)

lemma demo_cfg_loads: "fpd_LoadConfig demo_start ''/h'' [(fpd_ConfigFile ''/h'', demo_cfg level)] = Ok (demo_cfg level)"
  by (simp add: fpd_LoadConfig_def FileExists_def demo_start_def cmd_lib.defs demo_C_def demo_cfg_def fpd_DefaultConfigWithHome_def
      Let_def fpd_Validate_def NetParamsBTC_def metrics_Validate_def DefaultFpConfig_def go_defs)

definition demo_start_flags :: FlagSet where
  "demo_start_flags = map_of [(''eots-pk'', ''''), (''rpc-listener'', ''''), (''passphrase'', '''')]"

definition demo_fpd_process :: "string \<Rightarrow> (mem_db, demo_ext, unit, demo_fs) fpd_proc process" where
  "demo_fpd_process level =
     demo_process \<lparr>fp_app = demo_jailed, fp_fs = [(fpd_ConfigFile ''/h'', demo_cfg level)]\<rparr>"

lemma demo_start_simps:
  "filepath_Abs demo_start ''/h'' = Ok ''/h''" "pf_GetString demo_start demo_start_flags ''rpc-listener'' = Ok ''''"
  "fpd_LoadConfig demo_start (CleanAndExpandPath demo_start ''/h'') (fp_fs (pr_world (demo_fpd_process level))) = Ok (demo_cfg level)"
  "not_serving (demo_fpd_process level)"
proof -
  have "filepath_Clean ''/h'' = ''/h''" by code_simp
  then have "CleanAndExpandPath demo_start ''/h'' = ''/h''"
    by (simp add: CleanAndExpandPath_def demo_start_def cmd_lib.defs demo_C_def)
  then show "fpd_LoadConfig demo_start (CleanAndExpandPath demo_start ''/h'') (fp_fs (pr_world (demo_fpd_process level))) = Ok (demo_cfg level)"
    by (simp add: demo_fpd_process_def demo_process_def demo_cfg_loads)
  show "not_serving (demo_fpd_process level)" by (simp add: demo_fpd_process_def demo_not_serving)
qed (simp_all add: demo_start_def cmd_lib.defs demo_C_def demo_start_flags_def)

lemma demo_eotsd_loads:
  "\<exists>cfg'. getHomeFlag demo_F (demo_ctx a) = Ok '''' \<and> eotsd_LoadConfig demo_F '''' (ew_fs (pr_world (demo_process demo_ew))) = Ok cfg'"
  by (simp add: getHomeFlag_def demo_F_def demo_ctx_def CleanAndExpandPath_def eotsd_LoadConfig_def FileExists_def eotsd_Validate_def
      metrics_Validate_def DefaultEotsConfig_def go_defs)


lemma trace_unsupported: "NewRootLoggerWithFile F file ''trace'' fs \<noteq> (Ok lg, fs')"
proof -
  have "NewRootLogger ''console'' ''trace'' = Err (NewErr (''unsupported log level: '' @ ''trace''))" by code_simp
  then show ?thesis by (auto simp: NewRootLoggerWithFile_def handle_go_def of_res_def fail_def split: prod.splits res.splits)
qed

lemma trace_unsupported_world:
  "on_fp_fs (NewRootLoggerWithFile F file ''trace'') s \<noteq> (Ok lg, s')"
  "on_world (on_files (NewRootLoggerWithFile F file ''trace'')) t \<noteq> (Ok lg, t')"
  by (auto simp: on_fp_fs_def on_world_def on_files_def zoom_go_def split: prod.splits elim: trace_unsupported [THEN notE])

text \<open>The log level \<^verbatim>\<open>trace\<close> is one of the choices of the configuration, but no logger has it: with this level neither
  daemon ever starts to serve, whatever its flags and its file system.\<close>

lemma trace_level_never_serves:
  fixes s :: "('db, ('edb, 'ekr, 'n, 'c) fpd_ext, 'kr, 'fs) fpd_proc process" and t :: "('db2, 'kr2, 'fs2) eotsd_world process"
  assumes "not_serving s" and path: "filepath_Abs C home = Ok p"
    and load: "fpd_LoadConfig C (CleanAndExpandPath C p) (fp_fs (pr_world s)) = Ok cfg" "cfg_LogLevel cfg = ''trace''"
    and "not_serving t" and home': "getHomeFlag F ctx = Ok home'"
    and load': "eotsd_LoadConfig F home' (ew_fs (pr_world t)) = Ok cfg'" "ec_LogLevel cfg' = ''trace''"
  shows "(case runStartCmd C V E L N B n k home flags args s of (r, s') \<Rightarrow> r \<noteq> Ok () \<and> not_serving s') \<and>
    (case startFn F W K ctx t of (r, t') \<Rightarrow> r \<noteq> Ok () \<and> not_serving t')"
proof
  let ?Q = "\<lambda>x. case x of (r, s') \<Rightarrow> r \<noteq> Ok () \<and> not_serving s'"
  have early: "early_post ?Q" by (simp add: early_post_def)
  note step = server_post_handle_Ok [OF early]
  show "?Q (runStartCmd C V E L N B n k home flags args s)"
    unfolding runStartCmd_def get_flag_def get_go_def Let_def
    apply ((rule of_res_post [OF early \<open>not_serving s\<close>], blast)+)
    apply (rule server_postD [OF _ \<open>not_serving s\<close>, where D = False])
     apply (rule step, intro leaves_server_intros, blast)+
     apply (auto simp: path load trace_unsupported_world)
    done
  show "?Q (startFn F W K ctx t)"
    unfolding startFn_def get_go_def Let_def
    apply ((rule of_res_post [OF early \<open>not_serving t\<close>], blast)+)
    apply (rule server_postD [OF _ \<open>not_serving t\<close>, where D = False])
     apply (rule step, intro leaves_server_intros, blast)+
     apply (auto simp: home' load' trace_unsupported_world)
    done
qed

definition demo_F_trace :: "(mem_db, unit, unit) eotsd_lib" where
  "demo_F_trace = demo_F\<lparr>eini_ParseFile := (\<lambda>p fs. case eini_ParseFile demo_F p fs of Ok c \<Rightarrow> Ok (c\<lparr>ec_LogLevel := ''trace''\<rparr>))\<rparr>"

lemma trace_level_never_serves_witness:
  "(case runStartCmd demo_start demo_srv demo_app demo_eots demo_net demo_bbn 1 1 ''/h'' demo_start_flags []
      (demo_fpd_process ''trace'') of (r, s') \<Rightarrow> r \<noteq> Ok () \<and> not_serving s') \<and>
   (case startFn demo_F_trace demo_srv demo_eots (demo_ctx '''') (demo_process demo_ew) of (r, t') \<Rightarrow> r \<noteq> Ok () \<and> not_serving t')"
proof -
  have level: "cfg_LogLevel (demo_cfg ''trace'') = ''trace''" using demo_default [of "''/h''"]
    by (auto simp: demo_cfg_def fpd_DefaultConfigWithHome_def demo_start_def cmd_lib.defs demo_C_def Let_def fpd_Validate_def
        NetParamsBTC_def metrics_Validate_def DefaultFpConfig_def go_defs)
  have "\<exists>cfg'. getHomeFlag demo_F_trace (demo_ctx '''') = Ok '''' \<and>
      eotsd_LoadConfig demo_F_trace '''' (ew_fs (pr_world (demo_process demo_ew))) = Ok cfg' \<and> ec_LogLevel cfg' = ''trace''"
    by (simp add: demo_F_trace_def getHomeFlag_def demo_F_def demo_ctx_def CleanAndExpandPath_def eotsd_LoadConfig_def FileExists_def
        eotsd_Validate_def metrics_Validate_def DefaultEotsConfig_def go_defs)
  then obtain cfg' where "getHomeFlag demo_F_trace (demo_ctx '''') = Ok ''''"
    "eotsd_LoadConfig demo_F_trace '''' (ew_fs (pr_world (demo_process demo_ew))) = Ok cfg'" "ec_LogLevel cfg' = ''trace''" by blast
  then show ?thesis by (rule trace_level_never_serves [OF demo_start_simps(4,1,3) level demo_not_serving])
qed

section \<open>The life of fpd\<close>

context go_preorder
begin

lemma rel_defer: "go_rel R d \<Longrightarrow> go_rel R m \<Longrightarrow> go_rel R (defer_go d m)"
  unfolding go_rel_def defer_go_def by (auto split: prod.splits res.splits) (metis R_trans snd_conv)+

lemma rel_handle_Ok:
  assumes "go_rel R m" and "\<And>e. go_rel R (h e)" and "\<And>a s s'. m s = (Ok a, s') \<Longrightarrow> go_rel R (k a)"
  shows "go_rel R (handle_go m h k)"
proof (rule go_relI)
  fix s
  obtain r s' where m: "m s = (r, s')" by fastforce
  have "R s s'" using assms(1) m by (rule go_relD)
  with m assms(2) assms(3) [of s] show "R s (snd (handle_go m h k s))"
    by (cases r) (auto simp: handle_go_def go_rel_def R_refl intro: R_trans)
qed

end

text \<open>
  In the process the store of the application only makes progress; with the database as it is
  opened this relates every later state to the database on disk.
\<close>

definition life_progress ::
  "('db, 'w, 'kr, 'z) app_env_scheme \<Rightarrow> ('db, 'w, 'kr, 'fs) fpd_proc process \<Rightarrow> ('db, 'w, 'kr, 'fs) fpd_proc process \<Rightarrow> bool" where
  "life_progress E s s' \<longleftrightarrow> mgr_progress E (fp_app (pr_world s)) (fp_app (pr_world s'))"

interpretation life: go_preorder "life_progress E" for E :: "('db, 'w, 'kr, 'z) app_env_scheme"
  by unfold_locales (auto simp: life_progress_def intro: mgr.R_refl mgr.R_trans)

definition since_opened ::
  "('db, 'w, 'kr, 'z) app_env_scheme \<Rightarrow> 'db \<Rightarrow> ('db, 'w, 'kr, 'fs) fpd_proc process \<Rightarrow>
   ('db, 'w, 'kr, 'fs) fpd_proc process \<Rightarrow> bool" where
  "since_opened E d s s' \<longleftrightarrow> mw_db (fp_app (pr_world s')) = mw_db (fp_app (pr_world s)) \<or>
     fp_progress E d (mw_db (fp_app (pr_world s')))"

interpretation opened: go_preorder "since_opened E d" for E :: "('db, 'w, 'kr, 'z) app_env_scheme" and d
  by unfold_locales (auto simp: since_opened_def)

text \<open>The server leaves the application alone, but for the steps of the daemon while it serves.\<close>

definition serves_app ::
  "(('db, 'w, 'kr) app_world \<Rightarrow> ('db, 'w, 'kr) app_world \<Rightarrow> bool) \<Rightarrow>
   (('db, 'w, 'kr, 'fs) fpd_proc, 'v) srv_lib_scheme \<Rightarrow> bool" where
  "serves_app run V \<longleftrightarrow> (\<forall>w. run (fp_app w) (fp_app (snd (until_shutdown V w))) \<and>
     (\<forall>m \<in> {lis_Close V, http_Shutdown V, db_Close V, signal_Intercept V} \<union> range (net_Listen V). fp_app (snd (m w)) = fp_app w))"

lemma life_app: "go_rel (mgr_progress E) m \<Longrightarrow> go_rel (life_progress E) (on_app m)"
  by (auto simp: go_rel_def on_app_def on_world_def zoom_go_def life_progress_def split: prod.splits) (metis snd_conv)

lemma life_world: "(\<And>w. fp_app (snd (m w)) = fp_app w) \<Longrightarrow> go_rel (life_progress E) (on_world m)"
  by (auto simp: go_rel_def on_world_def zoom_go_def life_progress_def mgr.R_refl split: prod.splits) (metis mgr.R_refl snd_conv)

lemma life_upd: "(\<And>s. fp_app (pr_world (f s)) = fp_app (pr_world s)) \<Longrightarrow> go_rel (life_progress E) m \<Longrightarrow>
    go_rel (life_progress E) (upd_go f m)"
  by (rule life.rel_upd) (simp_all add: life_progress_def mgr.R_refl)

lemma run_server_life:
  assumes "serves_app (mgr_progress E) V"
  shows "go_rel (life_progress E) (run_server F V metrics listen)"
proof -
  have keep: "fp_app (snd (m w)) = fp_app w"
    if "m \<in> {lis_Close V, http_Shutdown V, db_Close V, signal_Intercept V} \<union> range (net_Listen V)" for m w
    using assms that unfolding serves_app_def by blast
  have await: "go_rel (life_progress E) (await_shutdown V)"
    using assms unfolding serves_app_def
    by (auto simp: go_rel_def await_shutdown_def on_world_def zoom_go_def life_progress_def split: prod.splits shutdown.splits)
      (metis snd_conv)+
  show ?thesis
    unfolding run_server_def close_database_def close_listener_def metrics_Start_def metrics_Stop_def grpc_Stop_def
      RegisterWithGrpcServer_def startGrpcListen.simps
    by (intro go_rel_intros life.rel_defer life_upd life_world await keep) simp_all
qed

text \<open>The stores and the laws are those of the environment, however it is configured.\<close>

lemma mgr_progress_wired:
  "mgr_progress ((configured cfg E)\<lparr>env_em := em, env_cc := cc\<rparr>) = mgr_progress E"
  "store_laws ((configured cfg E)\<lparr>env_em := em, env_cc := cc\<rparr>) = store_laws E"
proof -
  let ?E = "(configured cfg E)\<lparr>env_em := em, env_cc := cc\<rparr>"
  have "fp_at ?E = fp_at E" by (simp add: fun_eq_iff fp_at_def configured_def Let_def cong: option.case_cong)
  moreover from this have "height_shown ?E = height_shown E" by (simp add: fun_eq_iff height_shown_def stored_heights_def)
  then have "shown ?E = shown E" by (intro ext) (simp only: shown_def)
  then have "metrics_le ?E = metrics_le E" by (simp add: fun_eq_iff metrics_le_def)
  ultimately show "mgr_progress ?E = mgr_progress E"
    by (simp add: fun_eq_iff mgr_progress_def fp_progress_def ins_stored_def fp_wf_def)
      (simp add: pubkeys_canonical_def configured_def Let_def)
  show "store_laws ?E = store_laws E"
    by (simp add: configured_def Let_def store_laws_def kv_laws_def kv_commit_ok_def kv_put_ok_def kv_create_ok_def kv_entries_ok_def)
qed

lemma initBuckets_progress:
  assumes "kv_laws L"
  shows "go_rel (fp_progress L) (kv_Batch L (step_go (kv_CreateTopLevelBucket L b)))"
proof (rule go_relI)
  fix d
  have "fp_at L (snd (kv_Batch L (step_go (kv_CreateTopLevelBucket L b)) d)) = fp_at L d"
    using kv_Create_laws(2) [OF assms] kv_commit_laws(2) [OF assms]
    by (auto simp: fun_eq_iff fp_at_def kv_Batch_def go_defs split: res.splits prod.splits)
  then show "fp_progress L d (snd (kv_Batch L (step_go (kv_CreateTopLevelBucket L b)) d))"
    by (simp add: fp_progress_def fp_wf_def fp_le_def)
qed

lemma NewApp_progress:
  assumes "store_laws E"
  shows "go_rel (mgr_progress E) (NewFinalityProviderApp E)"
proof -
  have "kv_laws E" using assms by (simp add: store_laws_def)
  note init = initBuckets_progress [OF this]
  show ?thesis
    unfolding NewFinalityProviderApp_def NewFinalityProviderStore_def fp_initBuckets_def NewPubRandProofStore_def pr_initBuckets_def
    by (intro go_rel_intros init) simp_all
qed

lemma loadApp_progress:
  assumes "store_laws E"
  shows "go_rel (mgr_progress E) (loadApp E L N B cfg)"
proof -
  have "go_rel (mgr_progress E) (NewFinalityProviderApp ((configured cfg E)\<lparr>env_em := em, env_cc := cc\<rparr>))" for em cc
    using NewApp_progress [of "(configured cfg E)\<lparr>env_em := em, env_cc := cc\<rparr>"] assms by (simp add: mgr_progress_wired)
  then show ?thesis unfolding loadApp_def NewFinalityProviderAppFromConfig_def Let_def by (intro go_rel_intros)
qed

lemma loadApp_env:
  assumes "loadApp E L N B cfg s = (Ok E', s')"
  obtains em cc where "E' = (configured cfg E)\<lparr>env_em := em, env_cc := cc\<rparr>"
  using assms unfolding loadApp_def NewFinalityProviderAppFromConfig_def Let_def
  by (elim try_go_OkE) (auto simp: ret_def elim!: try_go_OkE)

lemma startApp_progress:
  assumes "store_laws E"
  shows "go_rel (mgr_progress E) (startApp E n k pk pass)"
  unfolding startApp_def app_Start_def StartHandlingFinalityProvider_def
  by (intro go_rel_intros assms) simp_all

lemma started_life:
  fixes E :: "('db, ('edb, 'ekr, 'n, 'c) fpd_ext, 'kr, 'z) app_env_scheme"
  assumes laws: "store_laws E" and serves: "serves_app (mgr_progress E) V"
  shows "go_rel (life_progress E) (wrap_go p (on_app (loadApp E L N B cfg)) (\<lambda>E'.
     wrap_go q (on_app (startApp E' n k pk pass)) (\<lambda>_.
     try_go (on_world (signal_Intercept V)) (\<lambda>_. fp_RunUntilShutdown F V cfg))))"
proof (rule life.rel_handle_Ok)
  fix E' s s' assume "on_app (loadApp E L N B cfg) s = (Ok E', s')"
  then obtain t t' :: "('db, ('edb, 'ekr, 'n, 'c) fpd_ext, 'kr) app_world" where "loadApp E L N B cfg t = (Ok E', t')"
    by (auto simp: on_app_def on_world_def zoom_go_def split: prod.splits)
  then obtain em cc where "E' = (configured cfg E)\<lparr>env_em := em, env_cc := cc\<rparr>" by (rule loadApp_env)
  with startApp_progress [of E' n k pk pass] laws have "go_rel (mgr_progress E) (startApp E' n k pk pass)"
    by (simp add: mgr_progress_wired)
  moreover have "fp_app (snd (signal_Intercept V w)) = fp_app w" for w using serves by (simp add: serves_app_def)
  ultimately show "go_rel (life_progress E) (wrap_go q (on_app (startApp E' n k pk pass)) (\<lambda>_.
     try_go (on_world (signal_Intercept V)) (\<lambda>_. fp_RunUntilShutdown F V cfg)))"
    unfolding fp_RunUntilShutdown_def by (intro go_rel_intros life_app life_world run_server_life serves)
qed (intro go_rel_intros life_app loadApp_progress laws)+

lemma opened_leaves: "go_rel (since_opened E d) (on_fp_fs m)"
  by (auto simp: go_rel_def since_opened_def on_fp_fs_def on_world_def zoom_go_def split: prod.splits)

lemma opened_life:
  assumes "go_rel (life_progress E) m" and "\<And>s. mw_db (fp_app (pr_world (f s))) = d"
  shows "go_rel (since_opened E d) (upd_go f m)"
proof (rule go_relI)
  fix s
  have "life_progress E (f s) (snd (m (f s)))" using assms(1) by (simp add: go_rel_def)
  with assms(2) [of s] show "since_opened E d s (snd (upd_go f m s))"
    by (simp add: since_opened_def life_progress_def mgr_progress_def upd_go_def)
qed

text \<open>C17. The whole life of \<^verbatim>\<open>fpd\<close>: whatever the start command, the requests and steps of the daemon until the shutdown
  signal, and the shutdown do, the database that the process opens keeps the invariant of the
  store, has every provider that was on disk, and no height below the one on disk.\<close>

theorem process_keeps_store:
  fixes s :: "('db, ('edb, 'ekr, 'n, 'c) fpd_ext, 'kr, 'fs) fpd_proc process"
  assumes disk: "mw_db (fp_app (pr_world s)) = d" and opens: "\<And>c fs db fs'. fpd_GetBoltBackend C c fs = (Ok db, fs') \<Longrightarrow> db = d"
    and ok: "store_ok E d"
    and serves: "serves_app (\<lambda>a a'. \<exists>cfg em cc. app_run ((configured cfg E)\<lparr>env_em := em, env_cc := cc\<rparr>) a a') V"
    and run: "runStartCmd C V E L N B n k home flags args s = (r, s')"
  shows "store_ok E (mw_db (fp_app (pr_world s'))) \<and>
    (\<forall>k v p. stored_heights E d k = Some (v, p) \<longrightarrow>
      (\<exists>v' p'. stored_heights E (mw_db (fp_app (pr_world s'))) k = Some (v', p') \<and> v \<le> v' \<and> p \<le> p' \<and> v' \<le> p'))"
proof -
  have laws: "store_laws E" "fp_wf E d" using ok by (simp_all add: store_ok_def)
  have "mgr_progress E a a'" if "app_run ((configured cfg E)\<lparr>env_em := em, env_cc := cc\<rparr>) a a'" for cfg em cc a a'
    using app_run_progress [OF _ that] laws(1) by (simp add: mgr_progress_wired)
  with serves have "serves_app (mgr_progress E) V" unfolding serves_app_def by blast
  note life = started_life [OF laws(1) this]
  have db: "db = d" if "on_fp_fs (fpd_GetBoltBackend C c) t = (Ok db, t')"
    for c db and t t' :: "('db, ('edb, 'ekr, 'n, 'c) fpd_ext, 'kr, 'fs) fpd_proc process"
    using that opens by (auto simp: on_fp_fs_def on_world_def zoom_go_def split: prod.splits)
  have "go_rel (since_opened E d) (runStartCmd C V E L N B n k home flags args)"
    unfolding runStartCmd_def get_flag_def Let_def
    by (intro go_rel_intros opened_leaves opened.rel_handle_Ok [OF opened_leaves] opened_life life) (use db in simp_all)
  from go_relD [OF this run] disk have "fp_progress E d (mw_db (fp_app (pr_world s')))"
    by (auto simp: since_opened_def progress.R_refl)
  then show ?thesis by (rule progress_heights [OF ok])
qed

definition demo_disk :: "string \<Rightarrow> (mem_db, demo_ext, unit, demo_fs) fpd_proc process" where
  "demo_disk level = demo_process \<lparr>fp_app = demo_aw demo_db, fp_fs = [(fpd_ConfigFile ''/h'', demo_cfg level)]\<rparr>"

theorem process_keeps_store_witness:
  "case runStartCmd demo_start demo_srv demo_app demo_eots demo_net demo_bbn 1 1 ''/h'' demo_start_flags [] (demo_disk ''info'') of
    (r, s') \<Rightarrow> store_ok demo_app (mw_db (fp_app (pr_world s'))) \<and>
      (\<exists>v p. stored_heights demo_app (mw_db (fp_app (pr_world s'))) [9] = Some (v, p) \<and> 3 \<le> v \<and> 3 \<le> p \<and> v \<le> p)"
proof -
  obtain r s' where run: "runStartCmd demo_start demo_srv demo_app demo_eots demo_net demo_bbn 1 1 ''/h'' demo_start_flags []
    (demo_disk ''info'') = (r, s')" by fastforce
  have disk: "mw_db (fp_app (pr_world (demo_disk ''info''))) = demo_db"
    by (simp add: demo_disk_def demo_process_def demo_aw_def)
  have opens: "\<And>c fs db fs'. fpd_GetBoltBackend demo_start c fs = (Ok db, fs') \<Longrightarrow> db = demo_db"
    by (simp add: demo_start_def cmd_lib.defs ret_def)
  have ok: "store_ok demo_app demo_db" and heights: "stored_heights demo_app demo_db [9] = Some (3, 3)"
    using demo_aw_ok demo_aw_heights by (simp_all add: demo_aw_def)
  have serves: "serves_app (\<lambda>a a'. \<exists>cfg em cc. app_run ((configured cfg demo_app)\<lparr>env_em := em, env_cc := cc\<rparr>) a a') demo_srv"
    unfolding serves_app_def demo_srv_def by (auto simp: ret_def intro: app_run.init)
  from process_keeps_store [OF disk opens ok serves run] heights run show ?thesis by simp
qed

end
