(* ===== verification/MetricsProperties.thy ===== *)
theory MetricsProperties
  imports SyncProperties EotsProperties StoreProperties ServerProperties
begin

text \<open>
  The properties of the metrics (\<^verbatim>\<open>metrics/fp_collectors.go\<close>, \<^verbatim>\<open>metrics/eots_collectors.go\<close>) as the
  daemons use them: what a scrape shows of the stores, of the votes, of the committed randomness
  and of the calls of the EOTS manager.
\<close>

section \<open>Reading the calls\<close>

text \<open>The value that a gauge was last set to.\<close>

definition last_set :: "collector \<Rightarrow> string list \<Rightarrow> prom_call list \<Rightarrow> float64 option" where
  "last_set g ls cs = fold (\<lambda>c v. case c of
      PromSet g' ls' x \<Rightarrow> if g' = g \<and> ls' = ls then Some x else v
    | _ \<Rightarrow> v) cs None"

definition scrape :: "collector \<Rightarrow> string list \<Rightarrow> 'a prom_scheme \<Rightarrow> float64 option" where
  "scrape g ls m = last_set g ls (prom_calls m)"

lemma scrape_call [simp]:
  "scrape g ls (call_prom (PromSet g' ls' x) m) = (if g' = g \<and> ls' = ls then Some x else scrape g ls m)"
  "scrape g ls (call_prom (PromInc g' ls') m) = scrape g ls m"
  "scrape g ls (call_prom (PromAdd g' ls' x) m) = scrape g ls m"
  by (simp_all add: scrape_def last_set_def call_prom_def)

lemma scrape_times [simp]:
  "scrape g ls (m\<lparr>fm_readings := n\<rparr>) = scrape g ls m" "scrape g ls (m\<lparr>previousVoteByFp := v\<rparr>) = scrape g ls m"
  "scrape g ls (m\<lparr>previousRandomnessByFp := v\<rparr>) = scrape g ls m"
  by (simp_all add: scrape_def)

lemmas record_defs =
  RecordFpStatus_def RecordBabylonTipHeight_def RecordLastPolledHeight_def RecordPollerStartingHeight_def
  RecordFpSecondsSinceLastVote_def RecordFpSecondsSinceLastRandomness_def RecordFpLastVotedHeight_def
  RecordFpLastProcessedHeight_def RecordFpLastCommittedRandomnessHeight_def
  IncrementFpTotalBlocksWithoutVotingPower_def IncrementFpTotalVotedBlocks_def AddToFpTotalVotedBlocks_def
  AddToFpTotalCommittedRandomness_def IncrementFpTotalFailedVotes_def IncrementFpTotalFailedRandomness_def

lemma call_prom_times [simp]:
  "previousVoteByFp (call_prom c m) = previousVoteByFp m" "previousRandomnessByFp (call_prom c m) = previousRandomnessByFp m"
  "fm_clock (call_prom c m) = fm_clock m" "fm_readings (call_prom c m) = fm_readings m"
  by (simp_all add: call_prom_def)

section \<open>What the daemon shows of its store\<close>

text \<open>C18. No height that the daemon shows is ahead of its store: in every run of the daemon, whatever was set on the
  gauges of the last voted and the last processed height is for the key of a stored provider, and
  at most the height that the store has for it at the end of the run. The calls of the metrics
  are never taken back.\<close>

theorem shown_heights_are_stored:
  assumes ok: "store_ok E (mw_db s)" and run: "app_run E s s'"
  shows "\<exists>cs. prom_calls (mw_metrics s') = prom_calls (mw_metrics s) @ cs \<and>
    (\<forall>ls x. PromSet fpLastVotedHeight ls x \<in> set cs \<longrightarrow>
      (\<exists>k h v p. ls = [hex_encode k] \<and> x = OfUint64 h \<and> stored_heights E (mw_db s') k = Some (v, p) \<and> h \<le> v)) \<and>
    (\<forall>ls x. PromSet fpLastProcessedHeight ls x \<in> set cs \<longrightarrow>
      (\<exists>k h v p. ls = [hex_encode k] \<and> x = OfUint64 h \<and> stored_heights E (mw_db s') k = Some (v, p) \<and> h \<le> p))"
proof -
  have laws: "store_laws E" and wf: "fp_wf E (mw_db s)" using ok by (simp_all add: store_ok_def)
  from app_run_progress [OF laws run] wf obtain cs
    where cs: "prom_calls (mw_metrics s') = prom_calls (mw_metrics s) @ cs" "\<forall>c \<in> set cs. shown E (mw_db s') c"
    by (auto simp: mgr_progress_def metrics_le_def)
  have "height_shown E (mw_db s') fst ls x" if "PromSet fpLastVotedHeight ls x \<in> set cs" for ls x
    using cs(2) that by (fastforce simp: shown_def)
  moreover have "height_shown E (mw_db s') snd ls x" if "PromSet fpLastProcessedHeight ls x \<in> set cs" for ls x
    using cs(2) that by (fastforce simp: shown_def)
  ultimately show ?thesis using cs(1) by (force simp: height_shown_def)
qed

text \<open>The daemon with randomness committed and block 4 polled, and its turn.\<close>

definition demo_polled :: "ChainPoller" where
  "demo_polled = NewChainPoller\<lparr>cp_isStarted := True, cp_nextHeight := 5, cp_blockInfoChan := [demo_bi 4]\<rparr>"

definition demo_voter :: "(mem_db, demo_ext, unit) app_world" where
  "demo_voter = (demo_aw demo_db4)\<lparr>mw_ext := demo_out demo_em4 [demo_msg4],
     mw_fpIns := Some (demo_ins\<lparr>ins_poller := Some demo_polled\<rparr>)\<rparr>"

lemma demo_submit_polled:
  "SubmitFinalitySignature demo_app (demo_bi 4)
     \<lparr>fw_db = demo_db4, fw_ext = demo_out demo_em4 log, fw_ins = demo_ins\<lparr>ins_poller := p\<rparr>, fw_metrics = m\<rparr> = (Ok demo_tx,
     \<lparr>fw_db = demo_db5, fw_ext = demo_out (demo_listed 4 (demo_signed 4 demo_em4)) (log @ [demo_vote4]),
      fw_ins = (voted 4 demo_ins)\<lparr>ins_poller := p\<rparr>, fw_metrics = IncrementFpTotalVotedBlocks (hex_encode [9])
        (RecordFpVoteTime (hex_encode [9]) (demo_moved 4 m))\<rparr>)"
  by (simp add: SubmitFinalitySignature_def demo_run_defs prs_GetPubRandProof_def demo_proof4
      MustUpdateStateAfterFinalitySigSubmission_def updateStateAfterFinalitySigSubmission_def set_fp_def set_ins_def
      demo_set_voted voted_def demo_moved_def demo_vote4_def demo_bi_def)

lemma demo_turn: "\<exists>t. on_ins (sig_loop_block demo_app []) demo_voter = (Ok (), t) \<and>
    prom_calls (mw_metrics t) = [PromSet fpLastVotedHeight [hex_encode [9]] (OfUint64 4),
      PromSet fpLastProcessedHeight [hex_encode [9]] (OfUint64 4), PromInc fpTotalVotedBlocks [hex_encode [9]]] \<and> mw_db t = demo_db5"
proof -
  let ?w = "\<lambda>p. \<lparr>fw_db = demo_db4, fw_ext = demo_out demo_em4 [demo_msg4], fw_ins = demo_ins\<lparr>ins_poller := p\<rparr>, fw_metrics = demo_fm\<rparr>"
  have "hasVotingPower demo_app (demo_bi 4) (?w p) = (Ok True, ?w p)" "\<not> hasProcessed (demo_bi 4) (?w p)" for p
    by (simp_all add: hasVotingPower_def GetVotingPowerWithRetry_def hasProcessed_def demo_run_defs)
  moreover have "retrySubmitFinalitySignatureUntilBlockFinalized demo_app (demo_bi 4) [] (?w p) =
      (Ok (Some demo_tx), snd (SubmitFinalitySignature demo_app (demo_bi 4) (?w p)))" for p
    by (simp add: retrySubmitFinalitySignatureUntilBlockFinalized_def retrySubmit_loop.simps [of demo_app "demo_bi 4" 0]
        handle_go_def demo_submit_polled ret_def)
  ultimately show ?thesis
    by (simp add: on_ins_def demo_voter_def demo_aw_def sig_loop_block_def demo_polled_def get_go_def upd_go_def set_ins_def
        process_block_def handle_go_def ret_def demo_submit_polled)
      (simp add: record_defs call_prom_def RecordFpVoteTime_def time_Now_def demo_moved_def demo_fm_def)
qed

theorem shown_heights_are_stored_witness:
  "\<exists>t v p. on_ins (sig_loop_block demo_app []) demo_voter = (Ok (), t) \<and>
     stored_heights demo_app (mw_db t) [9] = Some (v, p) \<and> 4 \<le> v \<and> 4 \<le> p"
proof -
  have "store_ok demo_app (mw_db demo_voter)"
    by (auto simp: store_ok_def demo_store_laws demo_voter_def demo_aw_def fp_wf_def fp_at_def demo_db4_def demo_db_def mem_Get_def
        fp_ok_def demo_Unmarshal_def demo_fp_def split: option.splits if_splits)
  moreover obtain t where t: "on_ins (sig_loop_block demo_app []) demo_voter = (Ok (), t)"
    "prom_calls (mw_metrics t) = [PromSet fpLastVotedHeight [hex_encode [9]] (OfUint64 4),
      PromSet fpLastProcessedHeight [hex_encode [9]] (OfUint64 4), PromInc fpTotalVotedBlocks [hex_encode [9]]]"
    using demo_turn by blast
  moreover have "app_run demo_app demo_voter t" by (rule app_run.step [OF app_run.init app_step.block [OF t(1)]])
  ultimately obtain cs where cs: "prom_calls (mw_metrics t) = prom_calls (mw_metrics demo_voter) @ cs"
    and v: "\<forall>ls x. PromSet fpLastVotedHeight ls x \<in> set cs \<longrightarrow>
      (\<exists>k h v p. ls = [hex_encode k] \<and> x = OfUint64 h \<and> stored_heights demo_app (mw_db t) k = Some (v, p) \<and> h \<le> v)"
    and p: "\<forall>ls x. PromSet fpLastProcessedHeight ls x \<in> set cs \<longrightarrow>
      (\<exists>k h v p. ls = [hex_encode k] \<and> x = OfUint64 h \<and> stored_heights demo_app (mw_db t) k = Some (v, p) \<and> h \<le> p)"
    using shown_heights_are_stored by blast
  have "cs = prom_calls (mw_metrics t)" using cs by (simp add: demo_voter_def demo_aw_def demo_fm_def)
  then have "PromSet fpLastVotedHeight [hex_encode [9]] (OfUint64 4) \<in> set cs" "PromSet fpLastProcessedHeight [hex_encode [9]] (OfUint64 4) \<in> set cs"
    by (simp_all add: t(2))
  from v [rule_format, OF this(1)] p [rule_format, OF this(2)] t(1) show ?thesis by auto
qed

section \<open>Registration\<close>

primrec collector_name :: "collector \<Rightarrow> string" where
  "collector_name (NewGauge n) = n"
| "collector_name (NewCounter n) = n"
| "collector_name (NewGaugeVec n ls) = n"
| "collector_name (NewCounterVec n ls) = n"

primrec collector_of :: "prom_call \<Rightarrow> collector" where
  "collector_of (PromRegister g) = g"
| "collector_of (PromSet g ls x) = g"
| "collector_of (PromInc g ls) = g"
| "collector_of (PromDec g ls) = g"
| "collector_of (PromAdd g ls x) = g"

lemma shown_in_use: "shown L d c \<Longrightarrow> (\<And>g. c \<noteq> PromRegister g) \<Longrightarrow> in_use (collector_of c)"
  by (cases c) (auto simp: shown_def)

lemma NewApp_metrics:
  assumes "NewFinalityProviderApp E s = (Ok u, s')"
  shows "mw_metrics s' = NewFpMetrics (mw_metrics s)"
proof -
  have db: "mw_metrics t' = mw_metrics t" if "mgr_db m t = (Ok a, t')" for m t t' a
    using that by (auto simp: mgr_db_def zoom_go_def split: prod.splits)
  have kr: "mw_metrics t' = mw_metrics t" if "app_kr m t = (Ok a, t')" for m t t' a
    using that by (auto simp: app_kr_def zoom_go_def split: prod.splits)
  from assms show ?thesis
    unfolding NewFinalityProviderApp_def upd_go_def mgr_meter_def
    by (elim try_go_OkE) (auto simp: ret_def dest!: db kr)
qed

text \<open>C31. The collectors of the daemon are registered once each, under different names, before anything is recorded:
  in every run of a daemon created in a fresh process all calls after the registrations go to
  registered collectors, and nothing is registered again, which would end the process. None of
  them is to the gauge of the running providers, which therefore shows 0 forever.\<close>

theorem collectors_registered_once:
  assumes ok: "store_ok E (mw_db s)" and fresh: "\<not> fpMetricsRegisterOnce (mw_metrics s)" "prom_calls (mw_metrics s) = []"
    and new: "NewFinalityProviderApp E s = (Ok (), s1)" and run: "app_run E s1 s'"
  shows "distinct (map collector_name fp_collectors) \<and>
    (\<exists>cs. prom_calls (mw_metrics s') = map PromRegister fp_collectors @ cs \<and>
      (\<forall>c \<in> set cs. (\<forall>g. c \<noteq> PromRegister g) \<and> collector_of c \<in> set fp_collectors - {runningFpGauge}))"
proof -
  have laws: "store_laws E" and wf: "fp_wf E (mw_db s)" using ok by (simp_all add: store_ok_def)
  have "mgr_progress E s s1" by (rule go_relD [OF NewApp_progress [OF laws] new])
  with wf have wf1: "fp_wf E (mw_db s1)" by (simp add: mgr_progress_def fp_progress_def)
  have m1: "prom_calls (mw_metrics s1) = map PromRegister fp_collectors" "fpMetricsRegisterOnce (mw_metrics s1)"
    using NewApp_metrics [OF new] fresh by (simp_all add: NewFpMetrics_def register_all_calls)
  from app_run_progress [OF laws run] wf1 m1(2) obtain cs
    where cs: "prom_calls (mw_metrics s') = prom_calls (mw_metrics s1) @ cs" "\<forall>c \<in> set cs. shown E (mw_db s') c"
      "\<forall>g. PromRegister g \<notin> set cs"
    by (auto simp: mgr_progress_def metrics_le_def)
  have "in_use (collector_of c)" if "c \<in> set cs" for c
    using shown_in_use cs(2,3) that by metis
  moreover have "distinct (map collector_name fp_collectors)"
    by (simp add: fp_collectors_def fp_collector_defs)
  ultimately show ?thesis using cs m1(1) by (auto simp: in_use_def)
qed

text \<open>A fresh process, and the update of its metrics after the creation of the daemon.\<close>

definition demo_fresh :: "(mem_db, demo_ext, unit) app_world" where
  "demo_fresh = (demo_aw demo_db)\<lparr>mw_metrics := demo_fm\<lparr>fpMetricsRegisterOnce := False\<rparr>\<rparr>"

lemma demo_NewApp: "\<exists>s1. NewFinalityProviderApp demo_app demo_fresh = (Ok (), s1) \<and> mw_db s1 = demo_db"
  by (simp add: NewFinalityProviderApp_def NewFinalityProviderStore_def fp_initBuckets_def NewPubRandProofStore_def pr_initBuckets_def
      mgr_db_def app_kr_def CreateKeyring_def CreateClientCtx_def kv_Batch_def mem_Create_def go_defs demo_fresh_def demo_aw_def demo_db_def
      mgr_meter_def demo_kr_def demo_app_def Let_def finalityProviderBucketName_def pubRandProofBucketName_def)

theorem collectors_registered_once_witness:
  "\<exists>s1 s' cs. NewFinalityProviderApp demo_app demo_fresh = (Ok (), s1) \<and> metrics_update_tick demo_app s1 = (Ok (), s') \<and>
     prom_calls (mw_metrics s') = map PromRegister fp_collectors @ cs"
proof -
  obtain s1 where new: "NewFinalityProviderApp demo_app demo_fresh = (Ok (), s1)" and db: "mw_db s1 = demo_db"
    using demo_NewApp by blast
  obtain fps where "GetAllStoredFinalityProviders demo_app demo_db = (Ok fps, demo_db)"
    using all_providers_listed_witness by blast
  then obtain s' where tick: "metrics_update_tick demo_app s1 = (Ok (), s')"
    using db by (simp add: metrics_update_tick_def mgr_db_def zoom_go_def handle_go_def mgr_meter_def upd_go_def ret_def)
  have "app_run demo_app s1 s'" by (rule app_run.step [OF app_run.init app_step.metrics [OF tick]])
  moreover have "store_ok demo_app (mw_db demo_fresh)" using demo_aw_ok by (simp add: demo_fresh_def demo_aw_def)
  moreover have "\<not> fpMetricsRegisterOnce (mw_metrics demo_fresh)" "prom_calls (mw_metrics demo_fresh) = []"
    by (simp_all add: demo_fresh_def demo_fm_def)
  ultimately show ?thesis using collectors_registered_once [OF _ _ _ new] new tick by blast
qed

section \<open>The periodic update\<close>

text \<open>One provider of the update: its own gauges, and the clock.\<close>

lemma update_one_frame:
  "previousVoteByFp (update_one fp m) = previousVoteByFp m" "previousRandomnessByFp (update_one fp m) = previousRandomnessByFp m"
  "fm_clock (update_one fp m) = fm_clock m" "fm_readings m \<le> fm_readings (update_one fp m)"
  by (simp_all add: update_one_def Let_def time_Now_def record_defs split: option.split)

lemma update_one_scrape:
  "scrape fpStatus [hex_encode k] (update_one fp m) =
     (if sfp_BtcPk fp = k then Some (OfStatus (sfp_Status fp)) else scrape fpStatus [hex_encode k] m)"
  "sfp_BtcPk fp \<noteq> k \<Longrightarrow> scrape fpSecondsSinceLastVote [hex_encode k] (update_one fp m) = scrape fpSecondsSinceLastVote [hex_encode k] m"
  "sfp_BtcPk fp \<noteq> k \<Longrightarrow>
     scrape fpSecondsSinceLastRandomness [hex_encode k] (update_one fp m) = scrape fpSecondsSinceLastRandomness [hex_encode k] m"
  by (simp_all add: update_one_def Let_def time_Now_def record_defs fp_collector_defs split: option.split)

definition since_shown :: "collector \<Rightarrow> bytes \<Rightarrow> int \<Rightarrow> FpMetrics \<Rightarrow> FpMetrics \<Rightarrow> bool" where
  "since_shown g k t m m' \<longleftrightarrow> (\<exists>n. fm_readings m \<le> n \<and> n < fm_readings m' \<and>
     scrape g [hex_encode k] m' = Some (Seconds (fm_clock m n - t)))"

lemma update_one_since:
  "get_time (previousVoteByFp m) (hex_encode (sfp_BtcPk fp)) = Some t \<Longrightarrow>
     since_shown fpSecondsSinceLastVote (sfp_BtcPk fp) t m (update_one fp m)"
  "get_time (previousRandomnessByFp m) (hex_encode (sfp_BtcPk fp)) = Some t \<Longrightarrow>
     since_shown fpSecondsSinceLastRandomness (sfp_BtcPk fp) t m (update_one fp m)"
proof -
  let ?k = "hex_encode (sfp_BtcPk fp)"
  show "since_shown fpSecondsSinceLastVote (sfp_BtcPk fp) t m (update_one fp m)" if "get_time (previousVoteByFp m) ?k = Some t"
    unfolding since_shown_def using that
    by (intro exI [of _ "fm_readings m"])
      (simp add: update_one_def Let_def time_Now_def record_defs fp_collector_defs split: option.split)
  show "since_shown fpSecondsSinceLastRandomness (sfp_BtcPk fp) t m (update_one fp m)"
    if "get_time (previousRandomnessByFp m) ?k = Some t"
    unfolding since_shown_def using that
    by (intro exI [of _ "fm_readings m + (if get_time (previousVoteByFp m) ?k = None then 0 else 1)"])
      (simp add: update_one_def Let_def time_Now_def record_defs fp_collector_defs split: option.split)
qed

lemma update_others:
  assumes "k \<notin> sfp_BtcPk ` set fps"
  shows "scrape fpStatus [hex_encode k] (fold update_one fps m) = scrape fpStatus [hex_encode k] m"
    "since_shown fpSecondsSinceLastVote k t m0 m \<Longrightarrow> since_shown fpSecondsSinceLastVote k t m0 (fold update_one fps m)"
    "since_shown fpSecondsSinceLastRandomness k t m0 m \<Longrightarrow> since_shown fpSecondsSinceLastRandomness k t m0 (fold update_one fps m)"
  using assms
proof (induction fps arbitrary: m)
  case (Cons fp fps)
  { case 1
    with Cons.IH(1) [of "update_one fp m"] show ?case by (auto simp: update_one_scrape)
  next
    case 2
    then show ?case
      using Cons.IH(2) [of "update_one fp m"] update_one_frame(4) [of m fp]
      by (force simp: since_shown_def update_one_scrape)
  next
    case 3
    then show ?case
      using Cons.IH(3) [of "update_one fp m"] update_one_frame(4) [of m fp]
      by (force simp: since_shown_def update_one_scrape) }
qed simp_all

lemma since_shown_later:
  "since_shown g k t (update_one fp m) m' \<Longrightarrow> since_shown g k t m m'"
  unfolding since_shown_def update_one_frame(3) using update_one_frame(4) order_trans by blast

lemma update_each:
  assumes "distinct (map sfp_BtcPk fps)" and "fp \<in> set fps"
  shows "scrape fpStatus [hex_encode (sfp_BtcPk fp)] (UpdateFpMetrics fps m) = Some (OfStatus (sfp_Status fp)) \<and>
    (\<forall>t. get_time (previousVoteByFp m) (hex_encode (sfp_BtcPk fp)) = Some t \<longrightarrow>
      since_shown fpSecondsSinceLastVote (sfp_BtcPk fp) t m (UpdateFpMetrics fps m)) \<and>
    (\<forall>t. get_time (previousRandomnessByFp m) (hex_encode (sfp_BtcPk fp)) = Some t \<longrightarrow>
      since_shown fpSecondsSinceLastRandomness (sfp_BtcPk fp) t m (UpdateFpMetrics fps m))"
  using assms unfolding UpdateFpMetrics_def
proof (induction fps arbitrary: m)
  case (Cons x fps)
  show ?case
  proof (cases "x = fp")
    case True
    with Cons.prems have "sfp_BtcPk fp \<notin> sfp_BtcPk ` set fps" by auto
    with True update_others [OF this] update_one_since [where fp = fp] show ?thesis
      by (simp add: update_one_scrape)
  next
    case False
    with Cons.prems Cons.IH [of "update_one x m"] since_shown_later [where fp = x and m = m] show ?thesis
      by (auto simp: update_one_frame)
  qed
qed simp

text \<open>C30. The periodic update shows the store: after a tick that reads the stored providers, the status gauge of every
  stored provider shows the status in the store, and the gauges of the seconds since the last
  vote and the last commitment show the time that passed since they were recorded, by a reading
  of the clock within the tick.\<close>

theorem metrics_tick_shows_the_store:
  assumes ok: "store_ok E (mw_db s)" and keys: "pubkeys_canonical E"
    and read: "GetAllStoredFinalityProviders E (mw_db s) = (Ok fps, d)" and tick: "metrics_update_tick E s = (Ok (), s')"
    and stored: "stored_status E (mw_db s) k = Some st"
  shows "mw_db s' = mw_db s \<and> scrape fpStatus [hex_encode k] (mw_metrics s') = Some (OfStatus st) \<and>
    (\<forall>t. get_time (previousVoteByFp (mw_metrics s)) (hex_encode k) = Some t \<longrightarrow>
      (\<exists>n. fm_readings (mw_metrics s) \<le> n \<and> n < fm_readings (mw_metrics s') \<and>
        scrape fpSecondsSinceLastVote [hex_encode k] (mw_metrics s') = Some (Seconds (fm_clock (mw_metrics s) n - t)))) \<and>
    (\<forall>t. get_time (previousRandomnessByFp (mw_metrics s)) (hex_encode k) = Some t \<longrightarrow>
      (\<exists>n. fm_readings (mw_metrics s) \<le> n \<and> n < fm_readings (mw_metrics s') \<and>
        scrape fpSecondsSinceLastRandomness [hex_encode k] (mw_metrics s') = Some (Seconds (fm_clock (mw_metrics s) n - t))))"
proof -
  have laws: "store_laws E" "fp_wf E (mw_db s)" using ok by (simp_all add: store_ok_def)
  have parse: "\<forall>pk pk'. schnorr_ParsePubKey E pk = Ok pk' \<longrightarrow> pk' = pk" using keys by (simp add: pubkeys_canonical_def)
  note all = all_providers_listed [OF laws parse read]
  from stored obtain p where p: "fp_at E (mw_db s) k = Some p" "pfp_Status p = st" by (auto simp: stored_status_def)
  with all obtain fp where conv: "protoFpToStoredFinalityProvider E p = Ok fp" by blast
  with all p(1) have fp: "fp \<in> set fps" "sfp_BtcPk fp = k" by blast+
  have st: "sfp_Status fp = st" using stored_fields [OF conv] p(2) by simp
  have "s' = s\<lparr>mw_metrics := UpdateFpMetrics fps (mw_metrics s)\<rparr>"
    using tick read all by (cases s) (simp add: metrics_update_tick_def mgr_db_def zoom_go_def handle_go_def mgr_meter_def upd_go_def ret_def)
  moreover from all have "distinct (map sfp_BtcPk fps)" by blast
  ultimately show ?thesis
    using update_each [OF _ fp(1)] unfolding fp(2) st since_shown_def by simp
qed

theorem metrics_tick_shows_the_store_witness:
  "\<exists>s'. metrics_update_tick demo_app (demo_aw demo_db) = (Ok (), s') \<and>
     scrape fpStatus [hex_encode [9]] (mw_metrics s') = Some (OfStatus ACTIVE)"
proof -
  obtain fps where "GetAllStoredFinalityProviders demo_app demo_db = (Ok fps, demo_db)"
    using all_providers_listed_witness by blast
  then have read: "GetAllStoredFinalityProviders demo_app (mw_db (demo_aw demo_db)) = (Ok fps, demo_db)" by (simp add: demo_aw_def)
  then obtain s' where tick: "metrics_update_tick demo_app (demo_aw demo_db) = (Ok (), s')"
    by (simp add: metrics_update_tick_def mgr_db_def zoom_go_def handle_go_def mgr_meter_def upd_go_def ret_def)
  have keys: "pubkeys_canonical demo_app" by (simp add: pubkeys_canonical_def)
  have "stored_status demo_app (mw_db (demo_aw demo_db)) [9] = Some ACTIVE"
    by (simp add: demo_aw_def stored_status_def fp_at_def demo_db_def mem_Get_def demo_Unmarshal_def demo_fp_def byte_status_def)
  from metrics_tick_shows_the_store [OF demo_aw_ok keys read tick this] tick show ?thesis by blast
qed

section \<open>Committed randomness\<close>

text \<open>C38. A successful commitment of public randomness adds the number of committed values to their counter and records
  the time, but the gauge of the last height with committed randomness is set to the height that
  was the last one before the commitment: 0 after the first commitment of a provider, and below
  every height of the new one unless the heights wrap around.\<close>

theorem commit_gauge_is_behind:
  assumes "CommitPubRand E tip s = (Ok (Some tx), s')"
  shows "\<exists>last start n s1 c sg w. GetLastCommittedHeight E s = (Ok last, s1) \<and> commit_start_height (env_cfg E) last tip = Some start \<and>
    cc_CommitPubRandList (env_cc E) (GetBtcPk s) start (of_nat n) c sg w = (Ok tx, fw_ext s') \<and>
    fw_metrics s' = AddToFpTotalCommittedRandomness (GetBtcPkHex s) (OfLen n) (RecordFpLastCommittedRandomnessHeight (GetBtcPkHex s) last
      (RecordFpRandomnessTime (GetBtcPkHex s) (fw_metrics s))) \<and>
    scrape fpLastCommittedRandomnessHeight [GetBtcPkHex s] (fw_metrics s') = Some (OfUint64 last) \<and>
    get_time (previousRandomnessByFp (fw_metrics s')) (GetBtcPkHex s) = Some (fm_clock (fw_metrics s) (fm_readings (fw_metrics s))) \<and>
    (start = 0 \<or> last < start)"
proof -
  from assms obtain last start prs s1 sg w' where c: "commit_start_height (env_cfg E) last tip = Some start"
    "GetLastCommittedHeight E s = (Ok last, s1)"
    "cc_CommitPubRandList (env_cc E) (GetBtcPk s) start (of_nat (length prs)) (fst (GetPubRandCommitAndProofs E prs)) sg w'
       = (Ok tx, fw_ext s')"
    and m: "fw_metrics s' = AddToFpTotalCommittedRandomness (GetBtcPkHex s) (OfLen (length prs))
       (RecordFpLastCommittedRandomnessHeight (GetBtcPkHex s) last (RecordFpRandomnessTime (GetBtcPkHex s) (fw_metrics s)))"
    by (rule CommitPubRand_Ok) blast
  have "last + 1 = 0 \<or> last < last + 1"
    by (cases "1 + last = 0") (simp_all add: word_less_nat_alt unatSuc add.commute [of last])
  then have "start = 0 \<or> last < start"
    using c(1) by (auto simp: commit_start_height_def word_gt_0 split: if_splits)
  moreover have "scrape fpLastCommittedRandomnessHeight [GetBtcPkHex s] (fw_metrics s') = Some (OfUint64 last)"
    "get_time (previousRandomnessByFp (fw_metrics s')) (GetBtcPkHex s) = Some (fm_clock (fw_metrics s) (fm_readings (fw_metrics s)))"
    unfolding m by (simp_all add: record_defs RecordFpRandomnessTime_def time_Now_def put_time_def get_time_def split: option.splits)
  ultimately show ?thesis using c m by blast
qed

theorem commit_gauge_is_behind_witness:
  "scrape fpLastCommittedRandomnessHeight [hex_encode [9]] (fw_metrics demo_world4) = Some (OfUint64 0) \<and>
     CommitPubRand demo_app 3 demo_world = (Ok (Some demo_tx), demo_world4)"
proof -
  have last: "GetLastCommittedHeight demo_app demo_world = (Ok 0, demo_world)"
    by (simp add: GetLastCommittedHeight_def lastCommittedPublicRandWithRetry_def demo_run_defs demo_world_def)
  have "GetBtcPkHex demo_world = hex_encode [9]" by (simp add: fp_getters demo_world_def)
  with commit_gauge_is_behind [OF demo_commit] last demo_commit show ?thesis by auto
qed

section \<open>The time of the last vote\<close>

definition same_vote_time :: "('db, 'w, 'y) fp_world_scheme \<Rightarrow> ('db, 'w, 'y) fp_world_scheme \<Rightarrow> bool" where
  "same_vote_time s s' \<longleftrightarrow> previousVoteByFp (fw_metrics s') = previousVoteByFp (fw_metrics s)"

interpretation vote_time: go_preorder same_vote_time
  by unfold_locales (auto simp: same_vote_time_def)

lemma vote_time_leaves [go_rel_intros]:
  "go_rel same_vote_time (on_ext m)" "go_rel same_vote_time (on_db m')"
  by (auto simp: go_rel_def same_vote_time_def on_ext_def on_db_def zoom_go_def split: prod.splits)

lemma vote_time_upd [go_rel_intros]:
  "go_rel same_vote_time k \<Longrightarrow> go_rel same_vote_time (upd_go (set_ins f) k)"
  "go_rel same_vote_time k \<Longrightarrow> go_rel same_vote_time (upd_go (set_fp g) k)"
  "(\<And>hx m. previousVoteByFp (h hx m) = previousVoteByFp m) \<Longrightarrow> go_rel same_vote_time k \<Longrightarrow> go_rel same_vote_time (meter h k)"
  unfolding meter_def by (rule vote_time.rel_upd; simp add: same_vote_time_def set_fp_def set_ins_def)+

lemma sign_blocks_vote_time [go_rel_intros]: "go_rel same_vote_time (sign_blocks E bs sigs)"
  by (induction bs arbitrary: sigs) (auto simp: fp_query_defs intro!: go_rel_intros)

lemma batch_vote_time [go_rel_intros]: "go_rel same_vote_time (SubmitBatchFinalitySignatures E bs)"
  unfolding SubmitBatchFinalitySignatures_def fp_query_defs MustUpdateStateAfterFinalitySigSubmission_def
    updateStateAfterFinalitySigSubmission_def
  by (intro go_rel_intros) (simp_all add: record_defs)

lemma catch_up_vote_time [go_rel_intros]: "go_rel same_vote_time (catch_up_blocks E bs acc)"
  by (induction bs arbitrary: acc) (auto simp: fp_query_defs record_defs intro!: go_rel_intros)

lemma sync_loop_vote_time [go_rel_intros]: "go_rel same_vote_time (FastSync_loop E n a e synced rs)"
  by (induction n arbitrary: a synced rs) (auto simp: Let_def record_defs intro!: go_rel_intros)

lemma sync_vote_time: "go_rel same_vote_time (FastSync E n a e)"
  unfolding FastSync_def defer_inSync_def MustSetLastProcessedHeight_def SetLastProcessedHeight_def
  by (intro go_rel_intros) (simp add: record_defs)

text \<open>C37. The time of the last vote, from which the gauge of the seconds since the last vote is computed, is recorded by a
  successful single vote and by nothing in a fast sync: whatever a fast sync votes for, the gauge
  goes on counting from the vote before it.\<close>

theorem vote_time_of_single_votes:
  "(SubmitFinalitySignature E b s = (Ok tx, s') \<longrightarrow> get_time (previousVoteByFp (fw_metrics s')) (GetBtcPkHex s) =
      Some (fm_clock (fw_metrics s) (fm_readings (fw_metrics s)))) \<and>
   (FastSync E n a e t = (r, t') \<longrightarrow> previousVoteByFp (fw_metrics t') = previousVoteByFp (fw_metrics t))"
proof (intro conjI impI)
  show "previousVoteByFp (fw_metrics t') = previousVoteByFp (fw_metrics t)" if "FastSync E n a e t = (r, t')"
    using go_relD [OF sync_vote_time that] by (simp add: same_vote_time_def)
  show "get_time (previousVoteByFp (fw_metrics s')) (GetBtcPkHex s) = Some (fm_clock (fw_metrics s) (fm_readings (fw_metrics s)))"
    if "SubmitFinalitySignature E b s = (Ok tx, s')"
    using that by (rule SubmitFinalitySignature_Ok)
      (simp add: record_defs RecordFpVoteTime_def time_Now_def put_time_def get_time_def split: option.split)
qed

theorem vote_time_of_single_votes_witness:
  "(case FastSync demo_app (Suc (Suc 0)) 4 100 (demo_started_world False demo_fm4) of (r, s) \<Rightarrow>
     r = Ok demo_result \<and> previousVoteByFp (fw_metrics s) = None) \<and>
   get_time (previousVoteByFp (fw_metrics demo_world5)) (hex_encode [9]) = Some 1"
proof -
  have "previousVoteByFp demo_fm4 = None" "fm_clock demo_fm4 (fm_readings demo_fm4) = 1"
    by (simp_all add: demo_fm4_def demo_fm_def record_defs RecordFpRandomnessTime_def time_Now_def)
  moreover have "GetBtcPkHex demo_world4 = hex_encode [9]" by (simp add: fp_getters demo_world4_def)
  moreover have "fw_metrics (demo_started_world c m) = m" for c m by (simp add: demo_started_world_def)
  moreover have "fw_metrics demo_world4 = demo_fm4" by (simp add: demo_world4_def)
  ultimately show ?thesis
    using vote_time_of_single_votes [of demo_app "demo_bi 4" demo_world4 demo_tx demo_world5 "Suc (Suc 0)" 4 100
        "demo_started_world False demo_fm4" "Ok demo_result" "demo_world6 False demo_fm4"] demo_submit
    by (simp add: demo_sync)
qed

section \<open>The calls of the EOTS manager\<close>

definition lm_same_metrics :: "('db, 'kr) LocalEOTSManager \<Rightarrow> ('db, 'kr) LocalEOTSManager \<Rightarrow> bool" where
  "lm_same_metrics s s' \<longleftrightarrow> lm_metrics s' = lm_metrics s"

interpretation lm_same_metrics: go_preorder lm_same_metrics
  by unfold_locales (auto simp: lm_same_metrics_def)

lemma lm_metrics_leaves [go_rel_intros]:
  "go_rel lm_same_metrics (lm_store m)" "go_rel lm_same_metrics (lm_keyring m')"
  "go_rel lm_same_metrics (zoom_go lm_kr (\<lambda>k s. s\<lparr>lm_kr := k\<rparr>) m'')"
  by (auto simp: go_rel_def lm_same_metrics_def lm_store_def lm_keyring_def zoom_go_def split: prod.splits)

lemma lm_metrics_reset [go_rel_intros]: "go_rel lm_same_metrics k \<Longrightarrow> go_rel lm_same_metrics (input_Reset p k)"
  unfolding input_Reset_def by (rule lm_same_metrics.rel_upd) (simp_all add: lm_same_metrics_def)

lemma lm_metrics_records [go_rel_intros]:
  "go_rel lm_same_metrics (eotsPrivKeyFromRecord L k)" "go_rel lm_same_metrics (loadBIP340PubKeyFromKeyringRecord L k)"
  by (auto simp: go_rel_def lm_same_metrics_def eotsPrivKeyFromRecord_def loadBIP340PubKeyFromKeyringRecord_def go_defs
      split: option.splits any_PrivKey.splits any_PubKey.splits res.splits)

lemma lm_metrics_keys [go_rel_intros]:
  "go_rel lm_same_metrics (getEOTSPrivKey L pk pass)" "go_rel lm_same_metrics (getRandomnessPair L pk cid h pass)"
  "go_rel lm_same_metrics (NewMnemonic L)" "go_rel lm_same_metrics (keyExists L name)"
  unfolding getEOTSPrivKey_def getRandomnessPair_def lm_KeyRecord_def NewMnemonic_def keyExists_def by (intro go_rel_intros)+

lemma lm_metrics_loop [go_rel_intros]: "go_rel lm_same_metrics (randomness_loop L pk cid h pass i n acc)"
  by (induction n arbitrary: i acc) (auto intro!: go_rel_intros)

lemma lm_metrics_Ok: "go_rel lm_same_metrics m \<Longrightarrow> m s = (r, s') \<Longrightarrow> lm_metrics s' = lm_metrics s"
  using go_relD by (fastforce simp: lm_same_metrics_def)

text \<open>C32. What the metrics of the EOTS manager count: each created key, each signature and each \<^emph>\<open>list\<close> of public randomness is
  counted once, whatever the length of the list, and the gauge of the last height with generated
  randomness is set to the first height of the list. A list that fails is not counted; a signature
  is counted and its height is shown before it is made.\<close>

theorem eots_calls_are_counted:
  "(lm_CreateRandomnessPairList L pk cid h n pass s = (r, s') \<longrightarrow> lm_metrics s' = (if \<exists>prs. r = Ok prs
      then SetEotsFpLastGeneratedRandomnessHeight (hex_encode pk) (OfUint64 h)
        (IncrementEotsFpTotalGeneratedRandomnessCounter (hex_encode pk) (lm_metrics s)) else lm_metrics s)) \<and>
   (lm_SignEOTS L pk cid msg h pass s = (Ok sg, s') \<longrightarrow> lm_metrics s' =
      SetEotsFpLastEotsSignHeight (hex_encode pk) (OfUint64 h) (IncrementEotsFpTotalEotsSignCounter (hex_encode pk) (lm_metrics s))) \<and>
   (lm_SignSchnorrSig L pk msg pass s = (Ok sg', s') \<longrightarrow>
      lm_metrics s' = IncrementEotsFpTotalSchnorrSignCounter (hex_encode pk) (lm_metrics s)) \<and>
   (CreateKey L name pass hdp s = (Ok pk', s') \<longrightarrow> lm_metrics s' = IncrementEotsCreatedKeysCounter (lm_metrics s))"
proof (intro conjI impI)
  { assume run: "lm_CreateRandomnessPairList L pk cid h n pass s = (r, s')"
    obtain r0 t where loop: "randomness_loop L pk cid h pass 0 (unat n) [] s = (r0, t)" by fastforce
    with run lm_metrics_Ok [OF lm_metrics_loop loop] show "lm_metrics s' = (if \<exists>prs. r = Ok prs
      then SetEotsFpLastGeneratedRandomnessHeight (hex_encode pk) (OfUint64 h)
        (IncrementEotsFpTotalGeneratedRandomnessCounter (hex_encode pk) (lm_metrics s)) else lm_metrics s)"
      by (cases r0) (auto simp: lm_CreateRandomnessPairList_def handle_go_def lm_meter_apply ret_def fail_def) }
  { assume "lm_SignEOTS L pk cid msg h pass s = (Ok sg, s')"
    then show "lm_metrics s' =
      SetEotsFpLastEotsSignHeight (hex_encode pk) (OfUint64 h) (IncrementEotsFpTotalEotsSignCounter (hex_encode pk) (lm_metrics s))"
      unfolding lm_SignEOTS_def
      by (elim try_go_OkE) (auto simp: lm_meter_apply of_res_def dest!: lm_metrics_Ok [OF lm_metrics_keys(1)]
          lm_metrics_Ok [OF lm_metrics_keys(2)] elim!: try_go_OkE) }
  { assume "lm_SignSchnorrSig L pk msg pass s = (Ok sg', s')"
    then show "lm_metrics s' = IncrementEotsFpTotalSchnorrSignCounter (hex_encode pk) (lm_metrics s)"
      unfolding lm_SignSchnorrSig_def signSchnorrSigFromPrivKey_def
      by (elim try_go_OkE) (auto simp: lm_meter_apply of_res_def dest!: lm_metrics_Ok [OF lm_metrics_keys(1)]) }
  { assume "CreateKey L name pass hdp s = (Ok pk', s')"
    then obtain mn t where "NewMnemonic L s = (Ok mn, t)" and mk: "CreateKeyWithMnemonic L name pass hdp mn t = (Ok pk', s')"
      unfolding CreateKey_def by (elim try_go_OkE) (simp add: ret_def)
    from lm_metrics_Ok [OF lm_metrics_keys(3) this(1)] have t: "lm_metrics t = lm_metrics s" .
    from mk show "lm_metrics s' = IncrementEotsCreatedKeysCounter (lm_metrics s)"
      unfolding CreateKeyWithMnemonic_def t [symmetric]
      by (auto simp: get_go_def fail_def input_Reset_def upd_go_def lm_meter_apply ret_def split: if_splits elim!: try_go_OkE
          dest!: lm_metrics_Ok [OF lm_metrics_keys(4)] lm_metrics_Ok [OF lm_metrics_leaves(1)]
            lm_metrics_Ok [OF lm_metrics_leaves(2)] lm_metrics_Ok [OF lm_metrics_records(2)]) (auto simp: of_res_def) }
qed

theorem eots_calls_are_counted_witness:
  "case lm_CreateRandomnessPairList demo_eots [9] [] 4 2 '''' (demo_em demo_idle) of (r, s) \<Rightarrow>
     r = Ok [demo_rand [] 4, demo_rand [] 5] \<and> scrape EotsFpLastGeneratedRandomnessHeight [hex_encode [9]] (lm_metrics s) = Some (OfUint64 4)"
proof -
  have "fst (lm_CreateRandomnessPairList demo_eots [9] [] 4 2 '''' (demo_em demo_idle)) = Ok [demo_rand [] 4, demo_rand [] 5]"
    by (simp add: lm_CreateRandomnessPairList_def demo_loop handle_go_def lm_meter_apply ret_def upt_rec)
  then obtain s where run: "lm_CreateRandomnessPairList demo_eots [9] [] 4 2 '''' (demo_em demo_idle) = (Ok [demo_rand [] 4, demo_rand [] 5], s)"
    by (metis prod.collapse)
  from eots_calls_are_counted [THEN conjunct1, rule_format, OF run] run show ?thesis
    by (simp add: SetEotsFpLastGeneratedRandomnessHeight_def)
qed

end
