(* ===== verification/EotsdApp.thy ===== *)
theory EotsdApp
  imports Servers
begin

text \<open>
  The tables of commands: those of \<^verbatim>\<open>eotsd\<close> (\<^verbatim>\<open>StartCommand\<close>, \<^verbatim>\<open>InitCommand\<close>, \<^verbatim>\<open>SignSchnorrSig\<close>,
  \<^verbatim>\<open>VerifySchnorrSig\<close>, \<^verbatim>\<open>ExportPoPCommand\<close>, \<^verbatim>\<open>KeysCommands\<close> and \<^verbatim>\<open>main.go\<close>) with the flags that
  each declares, and the patched \<^verbatim>\<open>keys\<close> commands of \<^verbatim>\<open>fpd\<close>. The libraries that parse the
  command line and dispatch on these tables are parameters. The lemmas show that the tables
  are well formed and that no action reads a flag that its command does not declare.
\<close>

section \<open>The commands of eotsd\<close>

text \<open>A flag with its default and whether it is required, and a command; usage texts are left out.\<close>

datatype cli_Flag =
    StringFlag (flag_Name: string) (flag_Value: string) (flag_Required: bool)
  | BoolFlag (flag_Name: string) (flag_Required: bool)

datatype 's cli_Command =
  Command (cli_Name: string) (cli_Flags: "cli_Flag list")
    (cli_Action: "(cli_Context \<Rightarrow> ('s, unit) go) option") (cli_Subcommands: "'s cli_Command list")

type_synonym ('db, 'kr, 'fs) eotsd_proc = "('db, 'kr, 'fs) eotsd_world process"

definition DefaultEOTSDir :: "('fs, 'z) os_lib_scheme \<Rightarrow> string" where
  "DefaultEOTSDir F = btcutil_AppDataDir F ''eotsd''"

definition defaultKeyringBackend :: string where
  "defaultKeyringBackend = ''test''"

definition defaultHdPath :: string where
  "defaultHdPath = ''''"

definition defaultPassphrase :: string where
  "defaultPassphrase = ''''"

definition StartCommand ::
  "('db, 'kr, 'fs, 'z) eotsd_lib_scheme \<Rightarrow> (('db, 'kr, 'fs) eotsd_world, 'v) srv_lib_scheme \<Rightarrow>
   ('db, 'kr, 'x) eots_lib_scheme \<Rightarrow> ('db, 'kr, 'fs) eotsd_proc cli_Command" where
  "StartCommand F V L = Command ''start''
     [StringFlag ''home'' (DefaultEOTSDir F) False, StringFlag ''rpc-listener'' '''' False]
     (Some (startFn F V L)) []"

definition InitCommand ::
  "('db, 'kr, 'fs, 'z) eotsd_lib_scheme \<Rightarrow> ('db, 'kr, 'fs) eotsd_proc cli_Command" where
  "InitCommand F = Command ''init''
     [StringFlag ''home'' (DefaultEOTSDir F) False, BoolFlag ''force'' False]
     (Some (\<lambda>ctx. on_world (initHome F ctx))) []"

definition SignSchnorrSig ::
  "('db, 'kr, 'fs, 'z) eotsd_lib_scheme \<Rightarrow> ('db, 'kr, 'x) eots_lib_scheme \<Rightarrow>
   ('db, 'kr, 'fs) eotsd_proc cli_Command" where
  "SignSchnorrSig F L = Command ''sign-schnorr''
     [StringFlag ''home'' (DefaultEOTSDir F) False, StringFlag ''key-name'' '''' False,
      StringFlag ''eots-pk'' '''' False, StringFlag ''passphrase'' defaultPassphrase False,
      StringFlag ''keyring-backend'' defaultKeyringBackend False]
     (Some (\<lambda>ctx. on_world (SignSchnorr F L ctx))) []"

definition VerifySchnorrSig ::
  "('db, 'kr, 'fs, 'z) eotsd_lib_scheme \<Rightarrow> ('db, 'kr, 'fs) eotsd_proc cli_Command" where
  "VerifySchnorrSig F = Command ''verify-schnorr-sig''
     [StringFlag ''eots-pk'' '''' True, StringFlag ''signature'' '''' True]
     (Some (\<lambda>ctx. on_world (SignSchnorrVerify F ctx))) []"

definition ExportPoPCommand ::
  "('db, 'kr, 'fs, 'z) eotsd_lib_scheme \<Rightarrow> ('db, 'kr, 'x) eots_lib_scheme \<Rightarrow>
   ('db, 'kr, 'fs) eotsd_proc cli_Command" where
  "ExportPoPCommand F L = Command ''pop-export''
     [StringFlag ''home'' (DefaultEOTSDir F) False, StringFlag ''key-name'' '''' False,
      StringFlag ''eots-pk'' '''' False, StringFlag ''passphrase'' defaultPassphrase False,
      StringFlag ''keyring-backend'' defaultKeyringBackend False]
     (Some (\<lambda>ctx. on_world (ExportPoP F L ctx))) []"

definition AddKeyCmd ::
  "('db, 'kr, 'fs, 'z) eotsd_lib_scheme \<Rightarrow> ('db, 'kr, 'x) eots_lib_scheme \<Rightarrow>
   ('db, 'kr, 'fs) eotsd_proc cli_Command" where
  "AddKeyCmd F L = Command ''add''
     [StringFlag ''home'' (DefaultEOTSDir F) False, StringFlag ''key-name'' '''' True,
      StringFlag ''passphrase'' defaultPassphrase False, StringFlag ''hd-path'' defaultHdPath False,
      StringFlag ''keyring-backend'' defaultKeyringBackend False, BoolFlag ''recover'' False]
     (Some (\<lambda>ctx. on_world (addKey F L ctx))) []"

definition KeysCommands ::
  "('db, 'kr, 'fs, 'z) eotsd_lib_scheme \<Rightarrow> ('db, 'kr, 'x) eots_lib_scheme \<Rightarrow>
   ('db, 'kr, 'fs) eotsd_proc cli_Command list" where
  "KeysCommands F L = [Command ''keys'' [] None [AddKeyCmd F L]]"

text \<open>
  \<^verbatim>\<open>main\<close>: the library runs the command that the arguments name; an error is printed and the
  process exits with status 1.
\<close>

definition app_Commands ::
  "('db, 'kr, 'fs, 'z) eotsd_lib_scheme \<Rightarrow> (('db, 'kr, 'fs) eotsd_world, 'v) srv_lib_scheme \<Rightarrow>
   ('db, 'kr, 'x) eots_lib_scheme \<Rightarrow> ('db, 'kr, 'fs) eotsd_proc cli_Command list" where
  "app_Commands F V L =
     [StartCommand F V L, InitCommand F, SignSchnorrSig F L, VerifySchnorrSig F, ExportPoPCommand F L] @
     KeysCommands F L"

definition eotsd_fatal :: "go_error \<Rightarrow> ('s, unit) go" where
  "eotsd_fatal err = crash (''[eotsd] '' @ err_msg err)"

definition eotsd_main ::
  "('db, 'kr, 'fs, 'z) eotsd_lib_scheme \<Rightarrow> (('db, 'kr, 'fs) eotsd_world, 'v) srv_lib_scheme \<Rightarrow>
   ('db, 'kr, 'x) eots_lib_scheme \<Rightarrow>
   (('db, 'kr, 'fs) eotsd_proc cli_Command list \<Rightarrow> string list \<Rightarrow> (('db, 'kr, 'fs) eotsd_proc, unit) go) \<Rightarrow>
   string list \<Rightarrow> (('db, 'kr, 'fs) eotsd_proc, unit) go" where
  "eotsd_main F V L app_Run args = handle_go (app_Run (app_Commands F V L) args) eotsd_fatal ret"

section \<open>The tables are well formed\<close>

fun leaf_commands :: "'s cli_Command \<Rightarrow> 's cli_Command list" where
  "leaf_commands (Command n fs act subs) =
     (if act = None then [] else [Command n fs act subs]) @ concat (map leaf_commands subs)"

lemmas command_defs = StartCommand_def InitCommand_def SignSchnorrSig_def VerifySchnorrSig_def
  ExportPoPCommand_def AddKeyCmd_def KeysCommands_def app_Commands_def

lemma command_names_distinct: "distinct (map cli_Name (app_Commands F V L))"
  by (simp add: command_defs)

lemma command_flags_distinct:
  assumes "cmd \<in> set (concat (map leaf_commands (app_Commands F V L)))"
  shows "distinct (map flag_Name (cli_Flags cmd))"
  using assms by (auto simp: command_defs)

text \<open>Two contexts that agree on the arguments and on the declared flags.\<close>

definition same_flags :: "cli_Flag list \<Rightarrow> cli_Context \<Rightarrow> cli_Context \<Rightarrow> bool" where
  "same_flags fs c c' \<longleftrightarrow> ctx_Args c = ctx_Args c' \<and> (\<forall>f\<in>set fs. case f of
      StringFlag n _ _ \<Rightarrow> ctx_String c n = ctx_String c' n
    | BoolFlag n _ \<Rightarrow> ctx_Bool c n = ctx_Bool c' n)"

definition reads_declared_flags :: "'s cli_Command \<Rightarrow> bool" where
  "reads_declared_flags cmd \<longleftrightarrow> (\<forall>act c c'. cli_Action cmd = Some act \<longrightarrow>
     same_flags (cli_Flags cmd) c c' \<longrightarrow> act c = act c')"

lemmas flags_defs = reads_declared_flags_def same_flags_def getHomeFlag_def Args_First_def with_manager_def Let_def

lemma StartCommand_flags: "reads_declared_flags (StartCommand F V L)"
  by (simp add: flags_defs StartCommand_def startFn_def)

lemma InitCommand_flags: "reads_declared_flags (InitCommand F)"
  by (simp add: flags_defs InitCommand_def initHome_def)

lemma SignSchnorrSig_flags: "reads_declared_flags (SignSchnorrSig F L)"
  by (simp add: flags_defs SignSchnorrSig_def SignSchnorr_def cong: if_cong)

lemma VerifySchnorrSig_flags: "reads_declared_flags (VerifySchnorrSig F)"
  by (simp add: flags_defs VerifySchnorrSig_def SignSchnorrVerify_def)

lemma ExportPoPCommand_flags: "reads_declared_flags (ExportPoPCommand F L)"
  by (simp add: flags_defs ExportPoPCommand_def ExportPoP_def cong: if_cong)

lemma AddKeyCmd_flags: "reads_declared_flags (AddKeyCmd F L)"
  by (simp add: flags_defs AddKeyCmd_def addKey_def createKey_def getMnemonic_def cong: if_cong)

lemma eotsd_leaf_commands:
  "concat (map leaf_commands (app_Commands F V L)) =
    [StartCommand F V L, InitCommand F, SignSchnorrSig F L, VerifySchnorrSig F, ExportPoPCommand F L, AddKeyCmd F L]"
  by (simp add: command_defs)

lemma actions_read_declared_flags:
  "list_all reads_declared_flags (concat (map leaf_commands (app_Commands F V L)))"
  unfolding eotsd_leaf_commands
  by (simp add: StartCommand_flags InitCommand_flags SignSchnorrSig_flags VerifySchnorrSig_flags
      ExportPoPCommand_flags AddKeyCmd_flags)

section \<open>The keys commands of fpd\<close>

text \<open>
  The group of commands is that of the Cosmos SDK, with the name of a command as the library
  reads it from its usage line. The pointer to a subcommand is its position in the group.
\<close>

record 's keys_Command = "'s cobra_Command" +
  cmd_PostRunE :: "(FlagSet \<Rightarrow> string list \<Rightarrow> ('s, unit) go) option"

fun GetSubCommand :: "(string \<Rightarrow> string) \<Rightarrow> ('s, 'z) cobra_Command_scheme list \<Rightarrow> string \<Rightarrow> nat option" where
  "GetSubCommand cmd_Name [] commandName = None"
| "GetSubCommand cmd_Name (c # cs) commandName =
     (if \<not> strings_EqualFold (cmd_Name (cmd_Use c)) commandName
      then map_option Suc (GetSubCommand cmd_Name cs commandName)
      else Some 0)"

definition CommandKeys ::
  "('fs, 'x) cmd_lib_scheme \<Rightarrow> (string \<Rightarrow> string) \<Rightarrow> ('r, 'fs, 'y) cli_world_scheme keys_Command list \<Rightarrow>
   ('r, 'fs, 'y) cli_world_scheme keys_Command list res" where
  "CommandKeys C cmd_Name keysCmd = (case GetSubCommand cmd_Name keysCmd ''add'' of
      None \<Rightarrow> Crash ''failed to find keys add command''
    | Some i \<Rightarrow> Ok (keysCmd[i := (keysCmd ! i)\<lparr>cmd_PostRunE := Some (RunEWithClientCtx C (keysAdd_PostRunE C))\<rparr>]))"

lemma GetSubCommand_Some:
  assumes "GetSubCommand nm cs name = Some i"
  shows "i < length cs \<and> strings_EqualFold (nm (cmd_Use (cs ! i))) name \<and>
    (\<forall>j<i. \<not> strings_EqualFold (nm (cmd_Use (cs ! j))) name)"
  using assms
proof (induction cs arbitrary: i)
  case Nil
  then show ?case by simp
next
  case (Cons c cs)
  show ?case
  proof (cases i)
    case 0
    with Cons.prems show ?thesis by (auto split: if_splits)
  next
    case (Suc k)
    with Cons.prems have "\<not> strings_EqualFold (nm (cmd_Use c)) name" and "GetSubCommand nm cs name = Some k"
      by (auto split: if_splits)
    with Cons.IH Suc show ?thesis by (auto simp: nth_Cons' less_Suc_eq_0_disj)
  qed
qed

lemma GetSubCommand_None:
  "GetSubCommand nm cs name = None \<longleftrightarrow> (\<forall>c\<in>set cs. \<not> strings_EqualFold (nm (cmd_Use c)) name)"
  by (induction cs) auto

text \<open>
  The program does not start when the group has no \<^verbatim>\<open>add\<close> command; otherwise the first one gets
  the action that updates the configuration, and nothing else of the group changes.
\<close>

lemma CommandKeys_patches_add:
  assumes "CommandKeys C nm cs = Ok cs'"
  obtains i where "i < length cs" and "strings_EqualFold (nm (cmd_Use (cs ! i))) ''add''"
    and "cs' ! i = (cs ! i)\<lparr>cmd_PostRunE := Some (RunEWithClientCtx C (keysAdd_PostRunE C))\<rparr>"
    and "length cs' = length cs" and "\<forall>j<length cs. j \<noteq> i \<longrightarrow> cs' ! j = cs ! j"
proof -
  from assms obtain i where "GetSubCommand nm cs ''add'' = Some i"
    and "cs' = cs[i := (cs ! i)\<lparr>cmd_PostRunE := Some (RunEWithClientCtx C (keysAdd_PostRunE C))\<rparr>]"
    by (auto simp: CommandKeys_def split: option.splits)
  with GetSubCommand_Some [of nm cs "''add''" i] show thesis by (auto intro!: that [of i])
qed

end
