(* ===== verification/Spec2Isabelle.thy ===== *)
theory Spec2Isabelle
  imports StoreProperties EotsProperties ChainProperties InstanceProperties RetryProperties SyncProperties DaemonProperties
    ServerProperties MetricsProperties EotsdApp
begin

text \<open>
  A verification development for the finality provider SDK (the Go program under \<^verbatim>\<open>src/\<close>):
  the daemon \<^verbatim>\<open>fpd\<close>, which votes for the blocks of a chain with extractable one-time
  signatures (EOTS), and the daemon \<^verbatim>\<open>eotsd\<close>, which keeps the keys and makes the signatures.

  \<^bold>\<open>The parts and how they interact.\<close> \<^verbatim>\<open>fpd\<close> serves gRPC requests (\<^verbatim>\<open>service/rpcserver.go\<close>) in
  an application (\<^verbatim>\<open>service/app.go\<close>), which keeps the providers in a key-value store
  (\<^verbatim>\<open>finality-provider/store\<close>) and one running instance behind a manager
  (\<^verbatim>\<open>service/fp_manager.go\<close>). The instance (\<^verbatim>\<open>service/fp_instance.go\<close>,
  \<^verbatim>\<open>service/fastsync.go\<close>) receives blocks from a chain poller (\<^verbatim>\<open>service/chain_poller.go\<close>),
  commits public randomness ahead of the chain, asks \<^verbatim>\<open>eotsd\<close> for randomness and signatures over
  gRPC (\<^verbatim>\<open>eotsmanager/client\<close>, \<^verbatim>\<open>eotsmanager/service\<close>, \<^verbatim>\<open>eotsmanager/localmanager.go\<close>) and
  sends the votes by the client controller (\<^verbatim>\<open>clientcontroller/babylon.go\<close>). Errors of the
  instance reach the manager by a channel; the manager removes the instance of a slashed or
  jailed provider and ends the process for every other error. What the daemons do is recorded
  by their metrics (\<^verbatim>\<open>metrics/fp_collectors.go\<close>, \<^verbatim>\<open>metrics/eots_collectors.go\<close>). Both daemons are started by
  their command lines (\<^verbatim>\<open>finality-provider/cmd\<close>, \<^verbatim>\<open>eotsmanager/cmd\<close>) from a configuration file
  (\<^verbatim>\<open>config\<close>) and serve until a shutdown signal (\<^verbatim>\<open>service/server.go\<close>); the other commands of
  \<^verbatim>\<open>fpd\<close> call the daemon by its gRPC client (\<^verbatim>\<open>service/client\<close>), those of \<^verbatim>\<open>eotsd\<close> open the
  keyring and the database themselves.

  \<^bold>\<open>The style of the model.\<close> A Go function is a function of type \<open>('s, 'a) go\<close> from a
  state to an outcome and a state. The outcome is a value, an error, the end of the process
  (\<^verbatim>\<open>Fatal\<close> or a panic) or \<open>Running\<close>: a loop that used up its rounds, or a
  send or receive that waits. Errors are values with their chain of wrapped errors, so that
  \<^verbatim>\<open>errors.Is\<close> is a function. Goroutines are step functions on the shared state, and an inductive
  relation runs them in any order. Heights are 64-bit words, counters 32-bit words, and their
  arithmetic wraps as in Go. Third-party code (the database, protobuf, the keyring, the curve,
  the Babylon client, the network) is a record of functions that is an argument of the model; what the theorems
  rely on of it is a named law (\<open>kv_laws\<close>, \<open>store_laws\<close>, \<open>codec_laws\<close>, \<open>block_law\<close>,
  \<open>list_blocks_law\<close>, \<open>keyring_readonly\<close>, \<open>lossless\<close>, \<open>em_canonical\<close>, \<open>env_returns\<close>,
  \<open>pubkeys_canonical\<close>, \<open>signing_laws\<close>, \<open>pop_laws\<close>, \<open>ini_laws\<close>, \<open>srv_laws\<close>).

  \<^bold>\<open>The theories.\<close>
  \<^item> \<open>Prelude\<close>: words and bytes, errors, the functions with effects, the relation
    \<open>go_rel\<close> that every operation keeps (locale \<open>go_preorder\<close>), and \<open>returns\<close>.
  \<^item> \<open>Types\<close>: \<^verbatim>\<open>src/types\<close> and the interfaces \<^verbatim>\<open>ClientController\<close> and \<^verbatim>\<open>EOTSManager\<close> as records of their
    operations.
  \<^item> \<open>Settings\<close>: paths (\<^verbatim>\<open>util/path.go\<close>), logger (\<^verbatim>\<open>log/log.go\<close>), and the configuration of both
    daemons with defaults, validation and loading; \<open>BuildVersion\<close>: \<^verbatim>\<open>version/version.go\<close>.
  \<^item> \<open>Kvdb\<close>: the transactions of the key-value database over its parameters.
  \<^item> \<open>FpStore\<close>, \<open>PubRandStore\<close>: \<^verbatim>\<open>fpstore.go\<close>, \<^verbatim>\<open>storedfp.go\<close>, \<^verbatim>\<open>proto/finality_providers.go\<close>, \<^verbatim>\<open>pub_rand.go\<close>; the abstract
    registry of heights is the locale \<open>height_registry\<close>, which the store implements.
  \<^item> \<open>Metrics\<close>: \<^verbatim>\<open>fp_collectors.go\<close> and \<^verbatim>\<open>eots_collectors.go\<close>. A collector is a handle of the
    Prometheus library; the state is the sequence of the calls to it, from which a scrape is
    computed, and the recorded times. The operations of the other theories make the calls where the
    code makes them (\<open>meter\<close>, \<open>mgr_meter\<close>, \<open>pl_meter\<close>, \<open>lm_meter\<close>).
  \<^item> \<open>EotsManager\<close>, \<open>EotsRpc\<close>: \<^verbatim>\<open>eotsstore.go\<close>, \<^verbatim>\<open>randgenerator.go\<close>, \<^verbatim>\<open>localmanager.go\<close>, and the
    handlers and the client of gRPC over a network that may lose messages. The contract the
    instance relies on is the locale \<open>eots_contract\<close>: the local manager meets it, and the sublocale
    \<open>remote_eots\<close> carries it over the network.
  \<^item> \<open>Keyring\<close>: \<^verbatim>\<open>src/keyring\<close>.
  \<^item> \<open>ClientController\<close>: \<^verbatim>\<open>retry_utils.go\<close> and \<^verbatim>\<open>babylon.go\<close>, with the locales \<open>block_source\<close> and
    \<open>range_source\<close> for what the poller and fast sync rely on.
  \<^item> \<open>ChainPoller\<close>: \<^verbatim>\<open>chain_poller.go\<close> as a transition system of the goroutine with its program
    counter, the bounded channel, and the calls of the other goroutines.
  \<^item> \<open>FpInstance\<close>, \<open>FastSync\<close>, \<open>FpRun\<close>: the instance: randomness, votes and retries; fast
    sync; the start, the stop and the three loops as steps (\<open>ins_step\<close>, \<open>ins_run\<close>).
  \<^item> \<open>FpManager\<close>, \<open>FpApp\<close>: the manager and its two monitors, the application, its event loops,
    and the gRPC handlers (\<open>app_step\<close>, \<open>app_run\<close>).
  \<^item> \<open>Wiring\<close>: the environment of \<^verbatim>\<open>fpd\<close>, the gRPC client in front of the local manager and
    the Babylon controller put together (\<open>fpd_env\<close>), where the locales of the interfaces are
    interpreted, and the creation of the application from a configuration.
  \<^item> \<open>Encodings\<close>, \<open>FpdCommands\<close>, \<open>EotsdCommands\<close>: the decoders of the standard library, the gRPC client and the
    commands of \<^verbatim>\<open>fpd\<close>, the commands of \<^verbatim>\<open>eotsd\<close>. A command is a function on a world of its
    own: the daemon behind the network, the file system, the output.
  \<^item> \<open>Servers\<close>: both daemons as processes with what they hold open, from the start command
    to the shutdown signal, with the deferred calls of the code. \<open>EotsdApp\<close>: the tables of the
    commands of \<^verbatim>\<open>eotsd\<close> with their flags, its \<^verbatim>\<open>main\<close>, and the patched \<^verbatim>\<open>keys\<close> commands of \<^verbatim>\<open>fpd\<close>;
    no action reads a flag that its command does not declare.
  \<^item> \<open>Demo\<close>, \<open>DemoRuns\<close>, \<open>DemoReturns\<close>: concrete third-party components that satisfy the laws,
    and runs of the daemon on them, for the witnesses.
  \<^item> \<open>StoreProperties\<close>, \<open>EotsProperties\<close>, \<open>ChainProperties\<close>, \<open>InstanceProperties\<close>,
    \<open>RetryProperties\<close>, \<open>SyncProperties\<close>, \<open>DaemonProperties\<close>, \<open>CommandProperties\<close>,
    \<open>ServerProperties\<close>, \<open>MetricsProperties\<close>: the properties, C1 to C40.

  \<^bold>\<open>What the theorems show.\<close>
  \<^item> Safety of the votes: the randomness, the proof and the signature of a vote belong to its
    height (single votes and batches of consecutive heights), every committed randomness has a stored proof, and no
    block is voted for again after a restart.
  \<^item> The state: every run of the daemon keeps the invariant of the store, and no stored height
    falls, and so does the whole life of the process from the start command to the shutdown; the setters refine the abstract registry; what was created is read back; writes that
    fail change nothing; the status transitions of the monitors are the specified ones; the running
    instance is always that of a stored provider.
  \<^item> The poller: consecutive heights for every interleaving, a bounded channel, skips, starts.
  \<^item> The EOTS side: the list of randomness is the one used to sign, the client over gRPC is
    the manager behind it, and a call runs its handler at most once.
  \<^item> The programs: a command is the call of its handler; a signed file verifies, an exported
    proof of possession is accepted, a written configuration is read back; a daemon serves at
    the configured addresses and releases what it opened.
  \<^item> The metrics: in every run no gauge shows a height above the stored one, each collector is
    registered once before it is used, the periodic update shows the stored statuses, and the
    calls of the EOTS manager are counted.
  \<^item> Termination: fast sync, the retries and the lagging check return.
  \<^item> Errors: critical errors, failed submissions, refused votes, registration.
  \<^item> Behaviours that are not what the code means to do, stated as theorems and lemmas about the
    model: batches with gaps, a fast sync without votes, a start that failed, a second provider, a
    skip request to a blocked poller, proofs that are not replaced, a command that cannot succeed, a
    jailed provider that stops the start, a documented log level with which no daemon starts,
    and gauges that show something else than what they document: the height before the last
    commitment, the first height of a list as its last, the time since the last vote outside of
    fast sync, and no running providers ever.

  \<^bold>\<open>Bounds.\<close> The fuel of a loop is an argument of the operation, and a theorem says how
  much is enough: fast sync needs a round for each height of its range at most (C6), a retry loop at
  most \<^verbatim>\<open>MaxSubmissionRetries\<close> wake-ups plus one (C22). The wake-ups themselves (ticks of a timer or
  the quit channel) are given as a list. \<^verbatim>\<open>retry.Do\<close> has the constant number of attempts of the code.

  \<^bold>\<open>Not modelled.\<close> Log messages, which no operation reads; the rounding of the \<^verbatim>\<open>float64\<close> values
  of the metrics, which are kept as the conversions that make them; the root command of \<^verbatim>\<open>fpd\<close>, the commands inherited from the Cosmos SDK, usage texts and the
  printing of JSON; the libraries that parse command lines, which are parameters; sockets and
  signals, which are parameters of the servers; generated protobuf code and the registration
  of its interfaces (\<^verbatim>\<open>codec\<close>); tests and test utilities. Mutexes
  are modelled by the atomicity of the steps, and the wait groups of the stop operations are left out, as
  is the memory model of Go. Everything the goroutines of a process do until its shutdown signal is
  one parameter of \<open>Servers\<close>; \<open>app_run\<close> is what it stands for in \<^verbatim>\<open>fpd\<close>
  (\<open>serves_app\<close>).
\<close>

end
